(* ===== verification/Prelude.thy ===== *)
theory Prelude
  imports Main "HOL-Library.Multiset" "HOL-Library.Char_ord" "HOL-Library.List_Lexorder"
    "HOL-Library.Product_Lexorder"
begin

text \<open>
  What the components share: rows kept in tables under a primary key, ranked
  selection (\<open>sorted(xs, key=...)[0]\<close>), the few operations of Python's strings
  that the program uses, decimal numerals, and two interfaces: a keyed table and
  a machine whose steps keep an invariant.
  Strings are lists of characters read as code points below 256; case folding is
  the ASCII one.
\<close>

named_theorems op_simps \<open>unfolding an operation down to its guards and its write\<close>

section \<open>Lists as Python uses them\<close>

text \<open>\<open>list(dict.fromkeys(xs))\<close>: the first occurrence of every element, in order.\<close>

fun dict_fromkeys :: "'a list \<Rightarrow> 'a list" where
  "dict_fromkeys [] = []"
| "dict_fromkeys (x # xs) = x # filter (\<lambda>y. y \<noteq> x) (dict_fromkeys xs)"

lemma set_dict_fromkeys [simp]: "set (dict_fromkeys xs) = set xs"
  by (induction xs) auto

lemma distinct_dict_fromkeys [simp]: "distinct (dict_fromkeys xs)"
  by (induction xs) auto

lemma dict_fromkeys_Nil_iff [simp]: "dict_fromkeys xs = [] \<longleftrightarrow> xs = []"
  by (cases xs) auto

text \<open>\<open>for x in ys: if x not in xs: xs.append(x)\<close>.\<close>

fun append_new :: "'a list \<Rightarrow> 'a list \<Rightarrow> 'a list" where
  "append_new xs [] = xs"
| "append_new xs (y # ys) = append_new (if y \<in> set xs then xs else xs @ [y]) ys"

lemma set_append_new [simp]: "set (append_new xs ys) = set xs \<union> set ys"
  by (induction xs ys rule: append_new.induct) auto

lemma distinct_append_new: "distinct xs \<Longrightarrow> distinct (append_new xs ys)"
  by (induction xs ys rule: append_new.induct) auto

lemma append_new_known: "set ys \<subseteq> set xs \<Longrightarrow> append_new xs ys = xs"
  by (induction ys) auto

lemma append_new_extends: "\<exists>zs. append_new xs ys = xs @ zs"
proof (induction xs ys rule: append_new.induct)
  case (2 xs y ys)
  then show ?case by (auto split: if_splits)
qed simp

text \<open>\<open>sorted(set(xs))\<close>.\<close>

definition sorted_set :: "'a::linorder list \<Rightarrow> 'a list" where
  "sorted_set xs = sort (remdups xs)"

lemma set_sorted_set [simp]: "set (sorted_set xs) = set xs"
  by (simp add: sorted_set_def)

lemma distinct_sorted_set [simp]: "distinct (sorted_set xs)"
  by (simp add: sorted_set_def)

lemma sorted_sorted_set [simp]: "sorted (sorted_set xs)"
  by (simp add: sorted_set_def)

section \<open>Ranked selection\<close>

text \<open>\<open>sorted(xs, key=key)[0]\<close>, with the empty list as its own case. Python's sort
  is stable, as \<^const>\<open>sort_key\<close> is.\<close>

definition pick :: "('a \<Rightarrow> 'k::linorder) \<Rightarrow> 'a list \<Rightarrow> 'a option" where
  "pick key xs = (case sort_key key xs of [] \<Rightarrow> None | x # _ \<Rightarrow> Some x)"

lemma sort_key_Nil_iff [simp]: "sort_key key xs = [] \<longleftrightarrow> xs = []"
  by (metis length_0_conv length_sort)

lemma pick_None_iff [simp]: "pick key xs = None \<longleftrightarrow> xs = []"
  by (simp add: pick_def split: list.splits) (metis list.distinct(1) sort_key_Nil_iff)

lemma pick_Nil [simp]: "pick key [] = None"
  by simp

lemma sort_key_hd_least:
  assumes "sort_key key xs = y # ys" and "x \<in> set xs"
  shows "key y \<le> key x"
proof -
  have "sorted (map key (y # ys))" and "x \<in> set (y # ys)"
    using assms by (metis sorted_sort_key) (metis assms set_sort)
  then show ?thesis by auto
qed

lemma pick_Some_mem: "pick key xs = Some x \<Longrightarrow> x \<in> set xs"
  by (auto simp: pick_def split: list.splits) (metis list.set_intros(1) set_sort)

lemma pick_Some_least: "pick key xs = Some x \<Longrightarrow> y \<in> set xs \<Longrightarrow> key x \<le> key y"
  by (auto simp: pick_def split: list.splits intro: sort_key_hd_least)

lemma sort_key_perm:
  assumes "inj_on key (set xs)" and "mset xs = mset ys"
  shows "sort_key key xs = sort_key key ys"
  by (rule sort_key_inj_key_eq) (use assms in auto)

lemma pick_perm:
  assumes "inj_on key (set xs)" and "mset xs = mset ys"
  shows "pick key xs = pick key ys"
  using sort_key_perm [OF assms] by (simp add: pick_def)

section \<open>Python's strings\<close>

definition is_space :: "char \<Rightarrow> bool" where
  "is_space c = (let n = (of_char c :: nat) in
     9 \<le> n \<and> n \<le> 13 \<or> 28 \<le> n \<and> n \<le> 32 \<or> n = 133 \<or> n = 160)"

definition py_strip :: "string \<Rightarrow> string" where
  "py_strip s = rev (dropWhile is_space (rev (dropWhile is_space s)))"

definition upper_char :: "char \<Rightarrow> char" where
  "upper_char c = (let n = (of_char c :: nat) in
     if 97 \<le> n \<and> n \<le> 122 then char_of (n - 32) else c)"

definition lower_char :: "char \<Rightarrow> char" where
  "lower_char c = (let n = (of_char c :: nat) in
     if 65 \<le> n \<and> n \<le> 90 then char_of (n + 32) else c)"

definition py_upper :: "string \<Rightarrow> string" where
  "py_upper = map upper_char"

definition py_lower :: "string \<Rightarrow> string" where
  "py_lower = map lower_char"

text \<open>\<open>sub in s\<close>.\<close>

fun starts_with :: "string \<Rightarrow> string \<Rightarrow> bool" where
  "starts_with [] s = True"
| "starts_with (p # ps) [] = False"
| "starts_with (p # ps) (c # cs) = (p = c \<and> starts_with ps cs)"

fun contains :: "string \<Rightarrow> string \<Rightarrow> bool" where
  "contains sub [] = (sub = [])"
| "contains sub (c # cs) = (starts_with sub (c # cs) \<or> contains sub cs)"

lemma starts_with_append [simp]: "starts_with p (p @ s)"
  by (induction p) auto

text \<open>\<open>x or d\<close> for an optional string: an absent or an empty one is falsy.\<close>

definition or_else :: "string option \<Rightarrow> string \<Rightarrow> string" where
  "or_else x d = (case x of None \<Rightarrow> d | Some s \<Rightarrow> if s = [] then d else s)"

definition truthy :: "string option \<Rightarrow> bool" where
  "truthy x = (case x of None \<Rightarrow> False | Some s \<Rightarrow> s \<noteq> [])"

section \<open>Decimal numerals\<close>

definition digit_char :: "nat \<Rightarrow> char" where
  "digit_char d = char_of (48 + d)"

definition is_digit :: "char \<Rightarrow> bool" where
  "is_digit c = (let n = (of_char c :: nat) in 48 \<le> n \<and> n \<le> 57)"

definition digit_val :: "char \<Rightarrow> nat" where
  "digit_val c = of_char c - 48"

fun dec :: "nat \<Rightarrow> string" where
  "dec n = (if n < 10 then [digit_char n] else dec (n div 10) @ [digit_char (n mod 10)])"

declare dec.simps [simp del]

text \<open>\<open>int(s)\<close> of a string of digits.\<close>

definition undec :: "string \<Rightarrow> nat" where
  "undec s = foldl (\<lambda>a c. a * 10 + digit_val c) 0 s"

text \<open>The format \<open>{n:0wd}\<close>.\<close>

definition zfill :: "nat \<Rightarrow> string \<Rightarrow> string" where
  "zfill w s = replicate (w - length s) (CHR ''0'') @ s"

lemma digit_char_inverse: "d < 10 \<Longrightarrow> digit_val (digit_char d) = d \<and> is_digit (digit_char d)"
  by (simp add: digit_val_def digit_char_def is_digit_def Let_def)

lemma undec_snoc: "undec (s @ [c]) = undec s * 10 + digit_val c"
  by (simp add: undec_def)

lemma undec_dec [simp]: "undec (dec n) = n"
proof (induction n rule: dec.induct)
  case (1 n)
  show ?case
  proof (cases "n < 10")
    case True
    then show ?thesis
      by (subst dec.simps) (simp add: undec_def digit_char_inverse)
  next
    case False
    with 1 show ?thesis
      by (subst dec.simps) (simp add: undec_snoc digit_char_inverse)
  qed
qed

lemma dec_digits: "list_all is_digit (dec n) \<and> dec n \<noteq> []"
proof (induction n rule: dec.induct)
  case (1 n)
  then show ?case
    by (cases "n < 10") (simp_all add: dec.simps [of n] digit_char_inverse)
qed

lemma undec_zeros: "undec (replicate k (CHR ''0'') @ s) = undec s"
  by (induction k) (simp_all add: undec_def digit_val_def)

lemma undec_zfill [simp]: "undec (zfill w s) = undec s"
  by (simp add: zfill_def undec_zeros)

lemma zfill_dec_digits: "list_all is_digit (zfill w (dec n)) \<and> zfill w (dec n) \<noteq> []"
  using dec_digits [of n] by (auto simp: zfill_def list_all_iff is_digit_def)

definition int_text :: "int \<Rightarrow> string" where
  "int_text n = (if n < 0 then CHR ''-'' # dec (nat (- n)) else dec (nat n))"

definition option_text :: "string option \<Rightarrow> string" where
  "option_text x = (case x of None \<Rightarrow> ''None'' | Some t \<Rightarrow> t)"

text \<open>\<open>sep.join(xs)\<close>.\<close>

fun join_with :: "string \<Rightarrow> string list \<Rightarrow> string" where
  "join_with sep [] = []"
| "join_with sep [x] = x"
| "join_with sep (x # y # xs) = x @ sep @ join_with sep (y # xs)"

section \<open>Tables: rows under a primary key\<close>

definition tget :: "('r \<Rightarrow> string) \<Rightarrow> string \<Rightarrow> 'r list \<Rightarrow> 'r option" where
  "tget key i rows = find (\<lambda>r. key r = i) rows"

text \<open>A row whose key is in the table replaces the row stored there, a new one is
  appended.\<close>

fun tput :: "('r \<Rightarrow> string) \<Rightarrow> 'r \<Rightarrow> 'r list \<Rightarrow> 'r list" where
  "tput key r [] = [r]"
| "tput key r (x # xs) = (if key x = key r then r # xs else x # tput key r xs)"

lemma tget_simps [simp]:
  "tget key i [] = None"
  "tget key i (x # xs) = (if key x = i then Some x else tget key i xs)"
  by (simp_all add: tget_def)

lemma tget_tput [simp]: "tget key i (tput key r t) = (if key r = i then Some r else tget key i t)"
  by (induction t) auto

lemma keys_tput: "map key (tput key r t) = (if key r \<in> key ` set t then map key t else map key t @ [key r])"
  by (induction t) auto

lemma set_tput: "set (tput key r t) \<subseteq> insert r (set t)"
  by (induction t) auto

lemma tput_mem [simp]: "r \<in> set (tput key r t)"
  by (induction t) auto

lemma tget_Some_mem: "tget key i t = Some r \<Longrightarrow> r \<in> set t \<and> key r = i"
  by (induction t) (auto split: if_splits)

lemma tget_None_iff: "tget key i t = None \<longleftrightarrow> i \<notin> key ` set t"
  by (induction t) auto

lemma tget_distinct:
  assumes "distinct (map key t)" and "r \<in> set t"
  shows "tget key (key r) t = Some r"
  using assms by (induction t) (auto simp: image_iff)

lemma distinct_tput: "distinct (map key t) \<Longrightarrow> distinct (map key (tput key r t))"
  by (auto simp: keys_tput)

lemma tput_fresh: "key r \<notin> key ` set t \<Longrightarrow> tput key r t = t @ [r]"
  by (induction t) auto

lemma tput_other_mem:
  assumes "x \<in> set t" and "key x \<noteq> key r"
  shows "x \<in> set (tput key r t)"
  using assms by (induction t) auto

text \<open>The rows after a write: the written row, and the old rows of other keys.\<close>

lemma set_tput_distinct:
  assumes "distinct (map key t)"
  shows "set (tput key r t) = insert r {x \<in> set t. key x \<noteq> key r}"
  using assms
proof (induction t)
  case (Cons a t)
  then show ?case by (cases "key a = key r") (auto simp: image_iff)
qed simp

section \<open>Interfaces\<close>

text \<open>A table of the store seen from a service: read by key, write by key.\<close>

locale keyed_table =
  fixes get :: "string \<Rightarrow> 's \<Rightarrow> 'r option"
    and put :: "'r \<Rightarrow> 's \<Rightarrow> 's"
    and key :: "'r \<Rightarrow> string"
  assumes get_put: "get i (put r s) = (if key r = i then Some r else get i s)"
    and get_key: "get i s = Some r \<Longrightarrow> key r = i"
begin

lemma get_put_same [simp]: "get (key r) (put r s) = Some r"
  by (simp add: get_put)

lemma get_put_other: "key r \<noteq> i \<Longrightarrow> get i (put r s) = get i s"
  by (simp add: get_put)

lemma get_put_updated:
  assumes "get i s = Some r" and "key r' = key r"
  shows "get i (put r' s) = Some r'"
  using assms get_key by (auto simp: get_put)

text \<open>A write that changes no row's value of \<open>f\<close> is invisible through \<open>f\<close>.\<close>

lemma view_put:
  assumes "get (key r) s = Some r0" and "f r = f r0"
  shows "map_option f (get i (put r s)) = map_option f (get i s)"
  using assms get_key by (auto simp: get_put)

end

text \<open>A choice of the least element of a pool under a key: what a scheduler promises.\<close>

locale ranked_choice =
  fixes key :: "'a \<Rightarrow> 'k::linorder" and chosen :: "'a list \<Rightarrow> 'a option"
  assumes chosen_mem: "chosen xs = Some x \<Longrightarrow> x \<in> set xs"
    and chosen_least: "chosen xs = Some x \<Longrightarrow> y \<in> set xs \<Longrightarrow> key x \<le> key y"
    and chosen_None: "chosen xs = None \<longleftrightarrow> xs = []"
begin

text \<open>With a key that tells the candidates apart the choice depends on their set only, so
  neither their order nor repetitions matter.\<close>

lemma chosen_set:
  assumes "inj_on key (set xs)" and "set xs = set ys"
  shows "chosen xs = chosen ys"
proof (cases "chosen xs")
  case None
  with assms(2) show ?thesis by (simp add: chosen_None)
next
  case (Some x)
  then obtain y where y: "chosen ys = Some y"
    using assms(2) by (metis chosen_None chosen_mem list.set_cases list.distinct(1) not_Some_eq)
  have mem: "x \<in> set xs" "y \<in> set xs"
    using chosen_mem [OF Some] chosen_mem [OF y] assms(2) by auto
  have "key x = key y"
    using chosen_least [OF Some mem(2)] chosen_least [OF y, of x] mem(1) assms(2) by simp
  with mem assms(1) have "x = y" by (auto dest: inj_onD)
  with Some y show ?thesis by simp
qed

text \<open>Dropping candidates that were not chosen does not change the choice.\<close>

lemma chosen_subset:
  assumes "inj_on key (set xs)" and "chosen xs = Some x" and "x \<in> set ys" and "set ys \<subseteq> set xs"
  shows "chosen ys = Some x"
proof -
  obtain y where y: "chosen ys = Some y"
    using assms(3) by (metis chosen_None empty_iff list.set(1) not_Some_eq)
  have mem: "x \<in> set xs" "y \<in> set xs"
    using chosen_mem [OF y] assms(3,4) by auto
  have "key x = key y"
    using chosen_least [OF assms(2) mem(2)] chosen_least [OF y assms(3)] by simp
  with mem assms(1) y show ?thesis by (auto dest: inj_onD)
qed

end

lemma ranked_choice_pick: "ranked_choice key (pick key)"
  by unfold_locales (auto dest: pick_Some_mem pick_Some_least)

text \<open>A machine given by its step relation, and what its steps keep in every run.\<close>

locale invariant_machine =
  fixes step :: "'s \<Rightarrow> 's \<Rightarrow> bool" and inv :: "'s \<Rightarrow> bool"
  assumes step_inv: "step s t \<Longrightarrow> inv s \<Longrightarrow> inv t"
begin

lemma run_inv: "step\<^sup>*\<^sup>* s t \<Longrightarrow> inv s \<Longrightarrow> inv t"
  by (induction rule: rtranclp_induct) (auto intro: step_inv)

end

text \<open>A machine whose entities have a status that moves along the edges of a relation:
  a status without an outgoing edge stays, and no entity disappears.\<close>

locale lifecycle_machine =
  fixes step :: "'s \<Rightarrow> 's \<Rightarrow> bool"
    and status :: "string \<Rightarrow> 's \<Rightarrow> 'st option"
    and edge :: "'st \<Rightarrow> 'st \<Rightarrow> bool"
  assumes step_edge: "step s t \<Longrightarrow> status i s = Some a \<Longrightarrow>
    \<exists>b. status i t = Some b \<and> (a = b \<or> edge a b)"
begin

lemma run_edges:
  "step\<^sup>*\<^sup>* s t \<Longrightarrow> status i s = Some a \<Longrightarrow> \<exists>b. status i t = Some b \<and> edge\<^sup>*\<^sup>* a b"
proof (induction rule: rtranclp_induct)
  case base
  then show ?case by auto
next
  case (step t u)
  then obtain b where b: "status i t = Some b" "edge\<^sup>*\<^sup>* a b" by blast
  obtain c where "status i u = Some c" "b = c \<or> edge b c"
    using step_edge [OF step.hyps(2) b(1)] by blast
  with b(2) show ?case by (auto intro: rtranclp.rtrancl_into_rtrancl)
qed

lemma run_terminal:
  assumes "step\<^sup>*\<^sup>* s t" and "status i s = Some a" and "\<And>b. \<not> edge a b"
  shows "status i t = Some a"
proof -
  obtain b where b: "status i t = Some b" "edge\<^sup>*\<^sup>* a b"
    using run_edges [OF assms(1,2)] by blast
  from b(2) have "b = a"
    using assms(3) by (auto elim: converse_rtranclpE)
  with b(1) show ?thesis by simp
qed

end

end
