(* ===== verification/Domain.thy ===== *)
theory Domain
  imports Prelude Complex_Main
begin

text \<open>
  The vocabulary of the program: the enumerations of \<^verbatim>\<open>lucius/domain/enums.py\<close>
  (every member under its own name, so \<open>TaskStatus.READY\<close> is
  \<open>task_status.READY\<close>), the exceptions as values, JSON values, and the public ids of
  \<^verbatim>\<open>lucius/domain/ids.py\<close> with their round trip.
\<close>

section \<open>Enumerations\<close>

datatype project_status = ACTIVE | PAUSED | ARCHIVED

datatype project_type = DFG_INTERNAL | CLIENT | R_AND_D

datatype repository_adapter_type = LOCAL_GIT

datatype repository_access_mode = READ_ONLY | CANONICAL_INTEGRATION

datatype authority_level = L0 | L1 | L2 | L3

datatype task_complexity = T0 | T1 | T2 | T3 | T4

datatype task_priority = LOW | NORMAL | HIGH | CRITICAL

datatype task_status = DRAFT | READY | RUNNING | BLOCKED | IMPLEMENTATION_COMPLETE
  | DOCUMENTATION_PENDING | COMPLETE | FAILED | CANCELLED

datatype criterion_status = PENDING | PASS | FAIL | NOT_EVALUATED

datatype allowed_action = READ_REPOSITORY | READ_DOCUMENTATION | RUN_TESTS | CREATE_TEMP_FILES
  | WRITE_SOURCE | WRITE_TESTS | WRITE_DOCUMENTATION | CREATE_MIGRATION | CREATE_COMMIT

datatype blocker_code = MISSING_REPOSITORY | INVALID_CONTRACT | DEPENDENCY_BLOCKED
  | AUTHORITY_INSUFFICIENT | WORKSPACE_INVALID | REPOSITORY_STATE_UNSAFE | DECISION_REQUIRED
  | DOCUMENTATION_REQUIRED | PROJECT_INACTIVE

datatype task_run_status = RUNNING | SUCCEEDED | FAILED | BLOCKED | CANCELLED

datatype actor = HUMAN | CHATGPT | CODEX | LUCIUS | EXTERNAL_ENGINEERING_AGENT | SYSTEM

datatype source_type = CODE | DOCUMENTATION | TEST | CONFIG | GIT | MEMORY | EXTERNAL

datatype evidence_status = CURRENT | STALE | MISSING

datatype memory_type = SEMANTIC | EPISODIC | PROCEDURAL | EVALUATIVE | PROJECT

datatype memory_source_type = EVIDENCE_REFERENCE | TASK_RUN | PROJECT_DOCUMENTATION | AUDIT_EVENT
  | HUMAN_CORRECTION | FAILURE_EXPERIENCE

datatype learning_candidate_type = PATTERN | FAILURE_PATTERN | PROCEDURE | KNOWLEDGE_CORRECTION
  | OPTIMIZATION

datatype learning_candidate_status = PENDING | NEEDS_MORE_EVIDENCE | VALIDATED | REJECTED

datatype firewall_classification = PRIVATE | ABSTRACTABLE | GLOBAL_SAFE

datatype sanitization_status = NOT_REQUIRED | REQUIRED | SANITIZED | REJECTED

datatype environment = SANDBOX | DEVELOPMENT | STAGING | PRODUCTION

datatype knowledge_scope = GLOBAL | DFG | DOMAIN | PROJECT | CLIENT | SESSION

datatype validation_status = OBSERVED | CANDIDATE | VALIDATED | CONTRADICTED | SUPERSEDED
  | DEPRECATED

datatype snapshot_mode = FAST | STANDARD | DEEP

datatype provider_type = LOCAL | OPENAI | ANTHROPIC | GOOGLE | CUSTOM

datatype provider_status = ACTIVE | PAUSED | DISABLED

datatype model_profile_status = ACTIVE | PAUSED | DISABLED

datatype model_capability = TEXT_GENERATION | STRUCTURED_OUTPUT | CODE_REASONING
  | CODE_GENERATION | PLANNING | SUMMARIZATION | CLASSIFICATION | LONG_CONTEXT | TOOL_USE
  | HIGH_REASONING | PRIVATE_INFERENCE

datatype privacy_class = PUBLIC | INTERNAL | CONFIDENTIAL | RESTRICTED

datatype cost_class = FREE | LOW | MEDIUM | HIGH | PREMIUM

datatype latency_class = LOW | MEDIUM | HIGH

datatype model_response_status = SUCCEEDED | FAILED

datatype model_cost_source = REPORTED | ESTIMATED | UNKNOWN

datatype workflow_state = OBJECTIVE_ACCEPTED | PLANNING | PLAN_READY | IMPLEMENTING | VERIFYING
  | CHECKPOINT_REVIEW_REQUIRED | PAUSED | RESUME_VALIDATION | BLOCKED | APPROVED_TO_CONTINUE
  | COMPLETED_PENDING_INTEGRATION | CLOSED

datatype resume_result = SAFE_TO_RESUME | CHECKPOINT_REVIEW_REQUIRED | BLOCKED

datatype queue_state = READY | RUNNING | WAITING_HUMAN | WAITING_EXTERNAL | WAITING_RESOURCE
  | WAITING_RESOURCE_SHORT | WAITING_RESOURCE_LONG | WAITING_DEPENDENCY | WAITING_SCHEDULE
  | BLOCKED_DEPENDENCY | BLOCKED_AUTHORITY | BLOCKED_DECISION | RETRY_LATER | READY_TO_RESUME
  | COMPLETED | FAILED

datatype mission_status = ACTIVE | WAITING | SLEEPING | PAUSED | INTERRUPTED | COMPLETED | FAILED
  | CANCELLED

datatype wait_class = RESOURCE | RESOURCE_SHORT | RESOURCE_LONG | DEPENDENCY | SCHEDULE | HUMAN
  | AUTHORITY | DECISION

datatype model_error_code = MODEL_NOT_FOUND | MODEL_DISABLED | PROVIDER_UNAVAILABLE
  | CAPABILITY_UNAVAILABLE | PRIVACY_POLICY_BLOCK | AUTHORITY_BLOCK | UNSAFE_REQUEST
  | COST_POLICY_BLOCK | BUDGET_EXCEEDED | CONTEXT_LIMIT_EXCEEDED | TIMEOUT | RATE_LIMIT
  | TRANSIENT_ERROR | INVALID_RESPONSE | STRUCTURED_OUTPUT_INVALID | PROVIDER_ERROR
  | NO_ELIGIBLE_MODEL

datatype retrieval_warning = NO_RELEVANT_EVIDENCE | CONTEXT_BUDGET_REACHED | SOURCE_SKIPPED_BINARY
  | SOURCE_SKIPPED_LARGE | SOURCE_SKIPPED_SENSITIVE | SNAPSHOT_STALE | SOURCE_MISSING
  | REPOSITORY_DIRTY

datatype repository_error_code = REPOSITORY_NOT_FOUND | NOT_A_GIT_REPOSITORY
  | REPOSITORY_OUTSIDE_WORKSPACE | PERMISSION_DENIED | UNSAFE_PATH | FILE_TOO_LARGE | BINARY_FILE
  | GIT_COMMAND_FAILED | UNSUPPORTED_REPOSITORY_STATE

section \<open>The wire values of the enumerations that rows keep as text\<close>

primrec queue_state_value :: "queue_state \<Rightarrow> string" where
  "queue_state_value queue_state.READY = ''READY''"
| "queue_state_value queue_state.RUNNING = ''RUNNING''"
| "queue_state_value WAITING_HUMAN = ''WAITING_HUMAN''"
| "queue_state_value WAITING_EXTERNAL = ''WAITING_EXTERNAL''"
| "queue_state_value WAITING_RESOURCE = ''WAITING_RESOURCE''"
| "queue_state_value WAITING_RESOURCE_SHORT = ''WAITING_RESOURCE_SHORT''"
| "queue_state_value WAITING_RESOURCE_LONG = ''WAITING_RESOURCE_LONG''"
| "queue_state_value WAITING_DEPENDENCY = ''WAITING_DEPENDENCY''"
| "queue_state_value WAITING_SCHEDULE = ''WAITING_SCHEDULE''"
| "queue_state_value BLOCKED_DEPENDENCY = ''BLOCKED_DEPENDENCY''"
| "queue_state_value BLOCKED_AUTHORITY = ''BLOCKED_AUTHORITY''"
| "queue_state_value BLOCKED_DECISION = ''BLOCKED_DECISION''"
| "queue_state_value RETRY_LATER = ''RETRY_LATER''"
| "queue_state_value READY_TO_RESUME = ''READY_TO_RESUME''"
| "queue_state_value queue_state.COMPLETED = ''COMPLETED''"
| "queue_state_value queue_state.FAILED = ''FAILED''"

definition all_queue_states :: "queue_state list" where
  "all_queue_states = [queue_state.READY, queue_state.RUNNING, WAITING_HUMAN, WAITING_EXTERNAL,
     WAITING_RESOURCE, WAITING_RESOURCE_SHORT, WAITING_RESOURCE_LONG, WAITING_DEPENDENCY,
     WAITING_SCHEDULE, BLOCKED_DEPENDENCY, BLOCKED_AUTHORITY, BLOCKED_DECISION, RETRY_LATER,
     READY_TO_RESUME, queue_state.COMPLETED, queue_state.FAILED]"

text \<open>\<open>QueueWorkItemState(s)\<close>, whose ValueError is \<open>None\<close>.\<close>

definition queue_state_of :: "string \<Rightarrow> queue_state option" where
  "queue_state_of s = find (\<lambda>q. queue_state_value q = s) all_queue_states"

lemma queue_state_of_value [simp]: "queue_state_of (queue_state_value q) = Some q"
  by (cases q) (simp_all add: queue_state_of_def all_queue_states_def)

lemma queue_state_of_Some: "queue_state_of s = Some q \<Longrightarrow> s = queue_state_value q"
  by (auto simp: queue_state_of_def find_Some_iff)

lemma queue_state_value_inj [simp]: "queue_state_value p = queue_state_value q \<longleftrightarrow> p = q"
  by (metis option.inject queue_state_of_value)

primrec workflow_state_value :: "workflow_state \<Rightarrow> string" where
  "workflow_state_value OBJECTIVE_ACCEPTED = ''OBJECTIVE_ACCEPTED''"
| "workflow_state_value workflow_state.PLANNING = ''PLANNING''"
| "workflow_state_value PLAN_READY = ''PLAN_READY''"
| "workflow_state_value IMPLEMENTING = ''IMPLEMENTING''"
| "workflow_state_value VERIFYING = ''VERIFYING''"
| "workflow_state_value workflow_state.CHECKPOINT_REVIEW_REQUIRED = ''CHECKPOINT_REVIEW_REQUIRED''"
| "workflow_state_value workflow_state.PAUSED = ''PAUSED''"
| "workflow_state_value RESUME_VALIDATION = ''RESUME_VALIDATION''"
| "workflow_state_value workflow_state.BLOCKED = ''BLOCKED''"
| "workflow_state_value APPROVED_TO_CONTINUE = ''APPROVED_TO_CONTINUE''"
| "workflow_state_value COMPLETED_PENDING_INTEGRATION = ''COMPLETED_PENDING_INTEGRATION''"
| "workflow_state_value CLOSED = ''CLOSED''"

primrec task_status_value :: "task_status \<Rightarrow> string" where
  "task_status_value task_status.DRAFT = ''DRAFT''"
| "task_status_value task_status.READY = ''READY''"
| "task_status_value task_status.RUNNING = ''RUNNING''"
| "task_status_value task_status.BLOCKED = ''BLOCKED''"
| "task_status_value IMPLEMENTATION_COMPLETE = ''IMPLEMENTATION_COMPLETE''"
| "task_status_value DOCUMENTATION_PENDING = ''DOCUMENTATION_PENDING''"
| "task_status_value COMPLETE = ''COMPLETE''"
| "task_status_value task_status.FAILED = ''FAILED''"
| "task_status_value task_status.CANCELLED = ''CANCELLED''"

primrec actor_value :: "actor \<Rightarrow> string" where
  "actor_value actor.HUMAN = ''HUMAN''"
| "actor_value CHATGPT = ''CHATGPT''"
| "actor_value CODEX = ''CODEX''"
| "actor_value LUCIUS = ''LUCIUS''"
| "actor_value EXTERNAL_ENGINEERING_AGENT = ''EXTERNAL_ENGINEERING_AGENT''"
| "actor_value SYSTEM = ''SYSTEM''"

primrec blocker_code_value :: "blocker_code \<Rightarrow> string" where
  "blocker_code_value MISSING_REPOSITORY = ''MISSING_REPOSITORY''"
| "blocker_code_value INVALID_CONTRACT = ''INVALID_CONTRACT''"
| "blocker_code_value DEPENDENCY_BLOCKED = ''DEPENDENCY_BLOCKED''"
| "blocker_code_value AUTHORITY_INSUFFICIENT = ''AUTHORITY_INSUFFICIENT''"
| "blocker_code_value WORKSPACE_INVALID = ''WORKSPACE_INVALID''"
| "blocker_code_value REPOSITORY_STATE_UNSAFE = ''REPOSITORY_STATE_UNSAFE''"
| "blocker_code_value DECISION_REQUIRED = ''DECISION_REQUIRED''"
| "blocker_code_value DOCUMENTATION_REQUIRED = ''DOCUMENTATION_REQUIRED''"
| "blocker_code_value PROJECT_INACTIVE = ''PROJECT_INACTIVE''"

primrec wait_class_value :: "wait_class \<Rightarrow> string" where
  "wait_class_value RESOURCE = ''RESOURCE''"
| "wait_class_value RESOURCE_SHORT = ''RESOURCE_SHORT''"
| "wait_class_value RESOURCE_LONG = ''RESOURCE_LONG''"
| "wait_class_value DEPENDENCY = ''DEPENDENCY''"
| "wait_class_value SCHEDULE = ''SCHEDULE''"
| "wait_class_value wait_class.HUMAN = ''HUMAN''"
| "wait_class_value AUTHORITY = ''AUTHORITY''"
| "wait_class_value DECISION = ''DECISION''"

primrec source_type_value :: "source_type \<Rightarrow> string" where
  "source_type_value source_type.CODE = ''CODE''"
| "source_type_value source_type.DOCUMENTATION = ''DOCUMENTATION''"
| "source_type_value source_type.TEST = ''TEST''"
| "source_type_value source_type.CONFIG = ''CONFIG''"
| "source_type_value source_type.GIT = ''GIT''"
| "source_type_value source_type.MEMORY = ''MEMORY''"
| "source_type_value source_type.EXTERNAL = ''EXTERNAL''"

primrec evidence_status_value :: "evidence_status \<Rightarrow> string" where
  "evidence_status_value evidence_status.CURRENT = ''CURRENT''"
| "evidence_status_value evidence_status.STALE = ''STALE''"
| "evidence_status_value evidence_status.MISSING = ''MISSING''"

primrec memory_type_value :: "memory_type \<Rightarrow> string" where
  "memory_type_value memory_type.SEMANTIC = ''SEMANTIC''"
| "memory_type_value memory_type.EPISODIC = ''EPISODIC''"
| "memory_type_value memory_type.PROCEDURAL = ''PROCEDURAL''"
| "memory_type_value memory_type.EVALUATIVE = ''EVALUATIVE''"
| "memory_type_value memory_type.PROJECT = ''PROJECT''"

primrec scope_value :: "knowledge_scope \<Rightarrow> string" where
  "scope_value knowledge_scope.GLOBAL = ''GLOBAL''"
| "scope_value knowledge_scope.DFG = ''DFG''"
| "scope_value knowledge_scope.DOMAIN = ''DOMAIN''"
| "scope_value knowledge_scope.PROJECT = ''PROJECT''"
| "scope_value knowledge_scope.CLIENT = ''CLIENT''"
| "scope_value knowledge_scope.SESSION = ''SESSION''"

primrec validation_value :: "validation_status \<Rightarrow> string" where
  "validation_value validation_status.OBSERVED = ''OBSERVED''"
| "validation_value validation_status.CANDIDATE = ''CANDIDATE''"
| "validation_value validation_status.VALIDATED = ''VALIDATED''"
| "validation_value validation_status.CONTRADICTED = ''CONTRADICTED''"
| "validation_value validation_status.SUPERSEDED = ''SUPERSEDED''"
| "validation_value validation_status.DEPRECATED = ''DEPRECATED''"

primrec candidate_type_value :: "learning_candidate_type \<Rightarrow> string" where
  "candidate_type_value learning_candidate_type.PATTERN = ''PATTERN''"
| "candidate_type_value learning_candidate_type.FAILURE_PATTERN = ''FAILURE_PATTERN''"
| "candidate_type_value learning_candidate_type.PROCEDURE = ''PROCEDURE''"
| "candidate_type_value learning_candidate_type.KNOWLEDGE_CORRECTION = ''KNOWLEDGE_CORRECTION''"
| "candidate_type_value learning_candidate_type.OPTIMIZATION = ''OPTIMIZATION''"

primrec retrieval_warning_value :: "retrieval_warning \<Rightarrow> string" where
  "retrieval_warning_value retrieval_warning.NO_RELEVANT_EVIDENCE = ''NO_RELEVANT_EVIDENCE''"
| "retrieval_warning_value retrieval_warning.CONTEXT_BUDGET_REACHED = ''CONTEXT_BUDGET_REACHED''"
| "retrieval_warning_value retrieval_warning.SOURCE_SKIPPED_BINARY = ''SOURCE_SKIPPED_BINARY''"
| "retrieval_warning_value retrieval_warning.SOURCE_SKIPPED_LARGE = ''SOURCE_SKIPPED_LARGE''"
| "retrieval_warning_value retrieval_warning.SOURCE_SKIPPED_SENSITIVE = ''SOURCE_SKIPPED_SENSITIVE''"
| "retrieval_warning_value retrieval_warning.SNAPSHOT_STALE = ''SNAPSHOT_STALE''"
| "retrieval_warning_value retrieval_warning.SOURCE_MISSING = ''SOURCE_MISSING''"
| "retrieval_warning_value retrieval_warning.REPOSITORY_DIRTY = ''REPOSITORY_DIRTY''"

primrec snapshot_mode_value :: "snapshot_mode \<Rightarrow> string" where
  "snapshot_mode_value snapshot_mode.FAST = ''FAST''"
| "snapshot_mode_value snapshot_mode.STANDARD = ''STANDARD''"
| "snapshot_mode_value snapshot_mode.DEEP = ''DEEP''"

primrec project_type_value :: "project_type \<Rightarrow> string" where
  "project_type_value project_type.DFG_INTERNAL = ''DFG_INTERNAL''"
| "project_type_value project_type.CLIENT = ''CLIENT''"
| "project_type_value project_type.R_AND_D = ''R_AND_D''"

primrec access_mode_value :: "repository_access_mode \<Rightarrow> string" where
  "access_mode_value repository_access_mode.READ_ONLY = ''READ_ONLY''"
| "access_mode_value repository_access_mode.CANONICAL_INTEGRATION = ''CANONICAL_INTEGRATION''"

primrec adapter_type_value :: "repository_adapter_type \<Rightarrow> string" where
  "adapter_type_value repository_adapter_type.LOCAL_GIT = ''LOCAL_GIT''"

section \<open>Exceptions and JSON values\<close>

datatype exc = ValueError string | QueueStateError string | ModelGatewayError model_error_code string
  | IntegrityError string | IndexError string | KeyError string | TypeError string | AttributeError string
  | RepositoryError repository_error_code string | ExecutionRuntimeLoopError string

type_synonym 'a res = "exc + 'a"

datatype json = JNull | JBool bool | JInt int | JFloat rat | JStr string | JList "json list"
  | JObj "(string \<times> json) list"

type_synonym timestamp = int
type_synonym json_object = "(string \<times> json) list"

text \<open>\<open>d.get(k)\<close>, \<open>d[k] = v\<close> and \<open>d.update(p)\<close> on an object kept as its list of
  members.\<close>

definition jget :: "string \<Rightarrow> json_object \<Rightarrow> json option" where
  "jget k d = map_of d k"

fun jset :: "string \<Rightarrow> json \<Rightarrow> json_object \<Rightarrow> json_object" where
  "jset k v [] = [(k, v)]"
| "jset k v ((k', v') # d) = (if k = k' then (k, v) # d else (k', v') # jset k v d)"

definition jupdate :: "json_object \<Rightarrow> json_object \<Rightarrow> json_object" where
  "jupdate d p = fold (\<lambda>(k, v). jset k v) p d"

lemma jget_jset [simp]: "jget k (jset k' v d) = (if k = k' then Some v else jget k d)"
  by (induction d) (auto simp: jget_def)

text \<open>An absent text, number or time as a JSON value.\<close>

definition jtext :: "string option \<Rightarrow> json" where
  "jtext t = (case t of None \<Rightarrow> JNull | Some n \<Rightarrow> JStr n)"

definition jint :: "int option \<Rightarrow> json" where
  "jint t = (case t of None \<Rightarrow> JNull | Some n \<Rightarrow> JInt n)"

definition jfloat :: "rat option \<Rightarrow> json" where
  "jfloat t = (case t of None \<Rightarrow> JNull | Some n \<Rightarrow> JFloat n)"

definition jtexts :: "string list \<Rightarrow> json" where
  "jtexts ts = JList (map JStr ts)"

section \<open>Public ids\<close>

definition entity_prefixes :: "(string \<times> string) list" where
  "entity_prefixes = [
    (''project'', ''LPROJ''), (''repository'', ''LREPO''), (''snapshot'', ''LSNAP''),
    (''task'', ''LTASK''), (''task_contract'', ''LCONTR''), (''task_run'', ''LRUN''),
    (''context_package'', ''LCTX''), (''documentation_completion'', ''LDOC''),
    (''evidence'', ''LEVID''), (''engineering_plan'', ''LPLAN''), (''memory'', ''LMEM''),
    (''learning'', ''LLEARN''), (''evaluation'', ''LEVAL''), (''audit'', ''LAUDIT''),
    (''model_provider'', ''LMPROV''), (''model_profile'', ''LMPROF''),
    (''model_execution'', ''LMEXEC''), (''evaluation_suite'', ''LESUITE''),
    (''evaluation_case'', ''LCASE''), (''evaluation_run'', ''LERUN''),
    (''evaluation_case_result'', ''LERES''), (''repository_state'', ''LRSTATE''),
    (''plan_freeze'', ''LFREEZE''), (''plan_evaluation'', ''LEVALPLAN''),
    (''human_rubric'', ''LRUBRIC''), (''benchmark'', ''LBENCH''),
    (''pilot_learning'', ''LPLEARN''), (''pilot_record'', ''LPILOT''),
    (''persistent_workflow'', ''LWORK''), (''workflow_checkpoint'', ''LWCHK''),
    (''resume_validation'', ''LRESUME''), (''queue_checkpoint'', ''LQCHK''),
    (''controlled_commit'', ''LCOMMIT'')]"

definition public_id :: "string \<Rightarrow> nat \<Rightarrow> string" where
  "public_id prefix n = prefix @ ''_'' @ zfill 6 (dec n)"

definition format_public_id :: "string \<Rightarrow> nat \<Rightarrow> string res" where
  "format_public_id entity n =
     (case map_of entity_prefixes entity of
        None \<Rightarrow> Inl (ValueError (''Unknown Lucius entity type: '' @ entity))
      | Some prefix \<Rightarrow>
          if n < 1 then Inl (ValueError ''Lucius public IDs start at 1'')
          else Inr (public_id prefix n))"

definition public_id_number :: "string \<Rightarrow> string \<Rightarrow> nat" where
  "public_id_number pid prefix =
     (let expected = prefix @ ''_'' in
      if \<not> starts_with expected pid then 0
      else let suffix = drop (length expected) pid in
        if suffix \<noteq> [] \<and> list_all is_digit suffix then undec suffix else 0)"

lemma public_id_number_public_id [simp]: "public_id_number (public_id prefix n) prefix = n"
proof -
  have pre: "starts_with (prefix @ ''_'') (public_id prefix n)"
    using starts_with_append [of "prefix @ ''_''" "zfill 6 (dec n)"] by (simp add: public_id_def)
  have suf: "drop (length (prefix @ ''_'')) (public_id prefix n) = zfill 6 (dec n)"
    by (simp add: public_id_def)
  show ?thesis
    unfolding public_id_number_def Let_def suf using pre zfill_dec_digits [of 6 n] by simp
qed

lemma public_id_inject [simp]: "public_id p m = public_id p n \<longleftrightarrow> m = n"
  by (metis public_id_number_public_id)

end
