(* ===== verification/Store.thy ===== *)
theory Store
  imports Domain
begin

text \<open>
  The artifact store of \<^verbatim>\<open>lucius/persistence\<close>: one record per ORM row with the columns
  that the modelled services read or write, and one record \<open>db\<close> for the session, a
  table being the list of its rows under their primary key. \<open>next_id\<close> allocates public
  ids from the counters and from the highest number stored; \<open>audit_record\<close> appends to
  the audit trail. An operation that can raise returns the exception or its value
  together with the store it leaves, so that what a failed operation has already written
  is visible. \<open>utc_now\<close> reads \<open>clock\<close>, which only the environment advances, so that
  equal timestamps are possible.
\<close>

section \<open>Rows\<close>

record project_row =
  p_id :: string
  p_name :: string
  p_slug :: string
  p_organization :: "string option"
  p_type :: project_type
  p_status :: project_status
  p_description :: "string option"
  p_workspace_scope :: "string option"
  p_documentation_policy :: json_object
  p_default_authority_level :: authority_level
  p_created_at :: timestamp
  p_updated_at :: timestamp

record registration_row =
  reg_id :: string
  reg_project_id :: string
  reg_name :: string
  reg_adapter_type :: repository_adapter_type
  reg_location :: string
  reg_canonical_remote :: "string option"
  reg_default_branch :: "string option"
  reg_access_mode :: repository_access_mode
  reg_status :: string
  reg_created_at :: timestamp
  reg_updated_at :: timestamp

record snapshot_row =
  snap_id :: string
  snap_repository_id :: string
  snap_mode :: snapshot_mode
  snap_captured_at :: timestamp
  snap_branch :: "string option"
  snap_commit_sha :: string
  snap_is_dirty :: bool
  snap_dirty_summary :: json_object
  snap_manifest_hash :: string
  snap_file_count :: int
  snap_document_count :: int
  snap_test_count :: int
  snap_technology_profile :: json_object
  snap_manifest :: json_object
  snap_documentation_map :: "json list"
  snap_test_map :: "json list"
  snap_configuration_map :: "json list"
  snap_warnings :: "json list"

record attachment_row =
  att_id :: nat
  att_project_id :: string
  att_repository_id :: string
  att_attached_at :: timestamp
  att_attached_by :: string

record task_row =
  t_id :: string
  t_project_id :: string
  t_title :: string
  t_objective :: string
  t_priority :: task_priority
  t_complexity :: task_complexity
  t_authority_level :: authority_level
  t_status :: task_status
  t_created_by :: actor
  t_blocker_code :: "blocker_code option"
  t_blocker_message :: "string option"
  t_blocked_at :: "timestamp option"
  t_failure_reason :: "string option"
  t_created_at :: timestamp
  t_updated_at :: timestamp

record criterion =
  cr_id :: string
  cr_statement :: string
  cr_status :: criterion_status

record contract_row =
  c_id :: string
  c_task_id :: string
  c_version :: nat
  c_objective :: string
  c_acceptance_criteria :: "criterion list"
  c_constraints :: "string list"
  c_repository_ids :: "string list"
  c_allowed_actions :: "allowed_action list"
  c_allowed_tools :: "string list"
  c_environment :: environment
  c_authority_level :: authority_level
  c_dependencies :: "string list"
  c_documentation_required :: bool
  c_documentation_targets :: "string list"
  c_stop_conditions :: "string list"
  c_created_at :: timestamp
  c_updated_at :: timestamp

record run_row =
  r_id :: string
  r_task_id :: string
  r_snapshot_id :: "string option"
  r_status :: task_run_status
  r_actor :: actor
  r_model_provider :: "string option"
  r_model_name :: "string option"
  r_started_at :: timestamp
  r_finished_at :: "timestamp option"
  r_input_summary :: "string option"
  r_output_summary :: "string option"
  r_confidence :: "rat option"
  r_failure_reason :: "string option"

record completion_row =
  d_id :: string
  d_task_id :: string
  d_targets_completed :: "string list"
  d_evidence_references :: "string list"
  d_completed_at :: timestamp
  d_completed_by :: actor

record memory_row =
  m_id :: string
  m_project_id :: "string option"
  m_organization_id :: "string option"
  m_workspace_id :: "string option"
  m_memory_type :: memory_type
  m_scope :: knowledge_scope
  m_statement :: string
  m_source_type :: "memory_source_type option"
  m_source_reference :: "string option"
  m_source_project_id :: "string option"
  m_source_task_id :: "string option"
  m_source_run_id :: "string option"
  m_source_evidence_ids :: "string list"
  m_confidence :: rat
  m_validation_status :: validation_status
  m_context_tags :: "string list"
  m_technology_tags :: "string list"
  m_created_at :: timestamp
  m_updated_at :: timestamp
  m_validated_at :: "timestamp option"
  m_supersedes_id :: "string option"
  m_superseded_by_id :: "string option"
  m_supersession_reason :: "string option"
  m_requires_revalidation :: bool
  m_revalidation_reason :: "string option"
  m_created_by :: actor
  m_version :: nat

record candidate_row =
  l_id :: string
  l_project_id :: "string option"
  l_run_id :: "string option"
  l_task_id :: "string option"
  l_candidate_type :: learning_candidate_type
  l_statement :: string
  l_evidence_ids :: "string list"
  l_source_memory_ids :: "string list"
  l_source_document_refs :: "string list"
  l_confidence :: rat
  l_status :: learning_candidate_status
  l_proposed_scope :: knowledge_scope
  l_sanitization_status :: sanitization_status
  l_source_classification :: firewall_classification
  l_created_at :: timestamp
  l_updated_at :: timestamp
  l_validated_at :: "timestamp option"
  l_rejected_at :: "timestamp option"
  l_validation_notes :: "string option"
  l_rejection_reason :: "string option"
  l_actor :: actor

record evidence_row =
  e_id :: string
  e_project_id :: string
  e_repository_id :: string
  e_snapshot_id :: string
  e_task_id :: string
  e_task_run_id :: "string option"
  e_source_type :: source_type
  e_path :: string
  e_line_start :: "int option"
  e_line_end :: "int option"
  e_content_hash :: string
  e_snippet :: "string option"
  e_claim :: "string option"
  e_relevance_score :: rat
  e_match_reasons :: "string list"
  e_captured_at :: timestamp

record provider_row =
  mp_id :: string
  mp_name :: string
  mp_provider_type :: provider_type
  mp_status :: provider_status
  mp_supports_local :: bool
  mp_default_timeout :: "int option"
  mp_secret_reference_name :: "string option"
  mp_metadata :: json_object
  mp_created_at :: timestamp
  mp_updated_at :: timestamp

record profile_row =
  mf_id :: string
  mf_provider_id :: string
  mf_model_name :: string
  mf_display_name :: string
  mf_status :: model_profile_status
  mf_capabilities :: "model_capability list"
  mf_privacy_class :: privacy_class
  mf_cost_class :: cost_class
  mf_latency_class :: latency_class
  mf_quality_score :: int
  mf_supports_structured_output :: bool
  mf_supports_tool_use :: bool
  mf_supports_large_context :: bool
  mf_supports_code :: bool
  mf_supports_reasoning :: bool
  mf_max_context_tokens :: "int option"
  mf_max_output_tokens :: "int option"
  mf_input_cost_per_million :: "rat option"
  mf_output_cost_per_million :: "rat option"
  mf_metadata :: json_object
  mf_created_at :: timestamp
  mf_updated_at :: timestamp

record execution_row =
  me_id :: string
  me_request_id :: string
  me_project_id :: "string option"
  me_task_id :: "string option"
  me_run_id :: "string option"
  me_provider_id :: "string option"
  me_provider :: "string option"
  me_model_profile_id :: "string option"
  me_model :: "string option"
  me_status :: model_response_status
  me_capabilities :: "model_capability list"
  me_privacy_class :: privacy_class
  me_routing_decision :: json_object
  me_latency_ms :: "int option"
  me_input_tokens :: "int option"
  me_output_tokens :: "int option"
  me_total_tokens :: "int option"
  me_estimated_cost :: "rat option"
  me_cost_source :: model_cost_source
  me_fallback_used :: bool
  me_attempt_number :: nat
  me_error_code :: "model_error_code option"
  me_created_at :: timestamp

record plan_row =
  pl_id :: string
  pl_task_id :: string
  pl_run_id :: "string option"
  pl_project_id :: string
  pl_task_contract_id :: string
  pl_task_contract_version :: nat
  pl_version :: nat
  pl_status :: string
  pl_summary :: string
  pl_objective :: string
  pl_risk_level :: string
  pl_required_authority_level :: authority_level
  pl_repository_snapshot_ids :: "string list"
  pl_evidence_ids :: "string list"
  pl_memory_ids :: "string list"
  pl_model_execution_ids :: "string list"
  pl_assumptions :: "json list"
  pl_unknowns :: "json list"
  pl_open_questions :: "json list"
  pl_affected_components :: "string list"
  pl_affected_files :: "json list"
  pl_steps :: "json list"
  pl_acceptance_coverage :: "json list"
  pl_deterministic_acceptance_checks :: "json list"
  pl_test_strategy :: "json list"
  pl_documentation_requirements :: "json list"
  pl_rollback_considerations :: "string list"
  pl_orchestration_contract_required :: bool
  pl_orchestration_contract :: json_object
  pl_adversarial_probes :: "json list"
  pl_dependencies :: "string list"
  pl_risks :: "json list"
  pl_estimated_scope :: "string option"
  pl_confidence :: "rat option"
  pl_validation_warnings :: "json list"
  pl_blockers :: "json list"
  pl_planner_version :: string
  pl_supersedes_plan_id :: "string option"
  pl_superseded_by_plan_id :: "string option"
  pl_supersession_reason :: "string option"
  pl_created_by :: string
  pl_created_at :: timestamp
  pl_updated_at :: timestamp

record freeze_row =
  fz_id :: string
  fz_plan_id :: string
  fz_task_id :: string
  fz_project_id :: string
  fz_repository_state_id :: "string option"
  fz_repository_snapshot_ids :: "string list"
  fz_evidence_ids :: "string list"
  fz_commit_sha :: "string option"
  fz_planning_mode :: string
  fz_evaluation_version :: string
  fz_plan_payload :: json_object
  fz_frozen_at :: timestamp
  fz_frozen_by :: string

text \<open>
  A work item of a workflow's backlog is a JSON object. The members the program reads have
  a field of their own; \<open>state\<close> and \<open>priority\<close> may be absent, null or any text, and the
  queue treats the three differently. \<open>qi_extra\<close> holds the other members.
\<close>

datatype raw_field = Absent | Null | Text string

record block_entry =
  be_id :: string
  be_workflow_id :: string
  be_item_id :: string
  be_prior_state :: queue_state
  be_blocking_state :: queue_state
  be_blocking_reason :: string
  be_blocker_category :: string
  be_work_completed :: "string list"
  be_implementation_head :: "string option"
  be_pending_decision_or_dependency :: "string option"
  be_resume_condition :: string
  be_known_risks :: "string list"
  be_relevant_artifacts :: "string list"
  be_repair_counters :: json_object
  be_approval_requirements :: "string list"
  be_next_safe_action :: string
  be_stale_state_validation_requirements :: "string list"
  be_created_at :: timestamp
  be_item_version :: int

record queue_item =
  qi_item_id :: "string option"
  qi_plain_id :: "string option"
  qi_task_id :: "string option"
  qi_logical_task_id :: "string option"
  qi_title :: "string option"
  qi_state :: raw_field
  qi_priority :: raw_field
  qi_created_order :: int
  qi_version :: int
  qi_run_generation :: int
  qi_dependencies :: "string list"
  qi_block_checkpoints :: "block_entry list"
  qi_current_block_checkpoint_id :: "string option"
  qi_started_at :: "timestamp option"
  qi_blocked_at :: "timestamp option"
  qi_resolved_at :: "timestamp option"
  qi_completed_at :: "timestamp option"
  qi_updated_at :: "timestamp option"
  qi_blocking_reason :: "string option"
  qi_blocker_category :: "string option"
  qi_resume_condition :: "string option"
  qi_resolution_event :: "string option"
  qi_work_completed :: "string list"
  qi_completed_substeps :: "string list"
  qi_timeout_seconds :: "int option"
  qi_context_limits :: json_object
  qi_extra :: json_object

record workflow_row =
  wf_id :: string
  wf_project_id :: "string option"
  wf_repository_id :: "string option"
  wf_repository_snapshot_id :: "string option"
  wf_task_id :: "string option"
  wf_plan_id :: "string option"
  wf_plan_freeze_id :: "string option"
  wf_objective :: string
  wf_expected_main_head :: string
  wf_isolated_branch :: string
  wf_worktree_path :: string
  wf_workflow_state :: workflow_state
  wf_authority_tier :: string
  wf_task_backlog :: "queue_item list"
  wf_dependency_graph :: "(string \<times> string list) list"
  wf_active_task_id :: "string option"
  wf_completed_task_ids :: "string list"
  wf_pending_task_ids :: "string list"
  wf_decisions :: "json list"
  wf_deviations :: "json list"
  wf_repair_counters :: json_object
  wf_targeted_test_evidence :: "json list"
  wf_full_test_status :: json_object
  wf_checkpoint_history :: "string list"
  wf_pending_human_approvals :: "string list"
  wf_resume_requirements :: "string list"
  wf_created_at :: timestamp
  wf_updated_at :: timestamp

record checkpoint_row =
  ck_id :: string
  ck_workflow_id :: string
  ck_checkpoint_state :: workflow_state
  ck_implementation_head :: string
  ck_expected_main_head :: string
  ck_branch :: string
  ck_worktree_path :: string
  ck_active_task_id :: "string option"
  ck_completed_task_ids :: "string list"
  ck_pending_task_ids :: "string list"
  ck_dependency_graph :: "(string \<times> string list) list"
  ck_decisions :: "json list"
  ck_deviations :: "json list"
  ck_repair_counters :: json_object
  ck_latest_test_results :: "json list"
  ck_known_warnings :: "string list"
  ck_authority_tier :: string
  ck_pending_human_approvals :: "string list"
  ck_resume_conditions :: "string list"
  ck_recommended_next_action :: string
  ck_created_at :: timestamp

record resume_check =
  rc_name :: string
  rc_status :: string
  rc_severity :: string

record resume_row =
  rv_id :: string
  rv_workflow_id :: string
  rv_checkpoint_id :: string
  rv_result :: resume_result
  rv_checks :: "resume_check list"
  rv_next_eligible_task_id :: "string option"
  rv_notes :: "string option"
  rv_validated_at :: timestamp

record mission_row =
  mi_id :: string
  mi_canonical_sha :: string
  mi_status :: mission_status
  mi_completed_tasks_count :: nat
  mi_waiting_tasks_count :: nat
  mi_blocked_tasks_count :: nat
  mi_created_at :: timestamp
  mi_updated_at :: timestamp
  mi_metadata :: json_object

record wait_row =
  w_id :: string
  w_mission_id :: string
  w_item_id :: "string option"
  w_task_id :: "string option"
  w_wait_class :: wait_class
  w_reason :: string
  w_retry_after :: "timestamp option"
  w_cleared_at :: "timestamp option"
  w_is_cleared :: bool
  w_created_at :: timestamp
  w_metadata :: json_object

record audit_event =
  ev_id :: string
  ev_type :: string
  ev_actor :: string
  ev_project_id :: "string option"
  ev_repository_id :: "string option"
  ev_task_id :: "string option"
  ev_run_id :: "string option"
  ev_authority_level :: authority_level
  ev_action :: string
  ev_result :: string
  ev_timestamp :: timestamp
  ev_metadata :: json_object

section \<open>The session\<close>

record db =
  clock :: timestamp
  id_counters :: "(string \<times> nat) list"
  projects :: "project_row list"
  registrations :: "registration_row list"
  snapshots :: "snapshot_row list"
  attachments :: "attachment_row list"
  tasks :: "task_row list"
  contracts :: "contract_row list"
  runs :: "run_row list"
  completions :: "completion_row list"
  memories :: "memory_row list"
  candidates :: "candidate_row list"
  evidence_refs :: "evidence_row list"
  model_providers :: "provider_row list"
  model_profiles :: "profile_row list"
  model_executions :: "execution_row list"
  plans :: "plan_row list"
  freezes :: "freeze_row list"
  workflows :: "workflow_row list"
  checkpoints :: "checkpoint_row list"
  resumes :: "resume_row list"
  missions :: "mission_row list"
  waits :: "wait_row list"
  events :: "audit_event list"
  other_ids :: "string list"

definition empty_db :: db where
  "empty_db = \<lparr>clock = 0, id_counters = [], projects = [], registrations = [], snapshots = [],
     attachments = [], tasks = [], contracts = [], runs = [], completions = [], memories = [],
     candidates = [], evidence_refs = [],
     model_providers = [], model_profiles = [], model_executions = [], plans = [], freezes = [], workflows = [], checkpoints = [], resumes = [],
     missions = [], waits = [], events = [], other_ids = []\<rparr>"

text \<open>The text ids of every table; \<open>other_ids\<close> are those of the tables that no modelled
  service touches.\<close>

definition all_ids :: "db \<Rightarrow> string list" where
  "all_ids s = map p_id (projects s) @ map reg_id (registrations s) @ map snap_id (snapshots s)
     @ map t_id (tasks s) @ map c_id (contracts s) @ map r_id (runs s)
     @ map d_id (completions s) @ map m_id (memories s) @ map l_id (candidates s)
     @ map e_id (evidence_refs s) @ map mp_id (model_providers s) @ map mf_id (model_profiles s)
     @ map me_id (model_executions s) @ map pl_id (plans s) @ map fz_id (freezes s) @ map wf_id (workflows s)
     @ map ck_id (checkpoints s) @ map rv_id (resumes s) @ map mi_id (missions s)
     @ map w_id (waits s) @ map ev_id (events s) @ other_ids s"

subsection \<open>Access by primary key\<close>

definition get_project :: "string \<Rightarrow> db \<Rightarrow> project_row option" where
  "get_project i s = tget p_id i (projects s)"

definition put_project :: "project_row \<Rightarrow> db \<Rightarrow> db" where
  "put_project r s = s\<lparr>projects := tput p_id r (projects s)\<rparr>"

definition get_registration :: "string \<Rightarrow> db \<Rightarrow> registration_row option" where
  "get_registration i s = tget reg_id i (registrations s)"

definition put_registration :: "registration_row \<Rightarrow> db \<Rightarrow> db" where
  "put_registration r s = s\<lparr>registrations := tput reg_id r (registrations s)\<rparr>"

definition get_snapshot :: "string \<Rightarrow> db \<Rightarrow> snapshot_row option" where
  "get_snapshot i s = tget snap_id i (snapshots s)"

definition put_snapshot :: "snapshot_row \<Rightarrow> db \<Rightarrow> db" where
  "put_snapshot r s = s\<lparr>snapshots := tput snap_id r (snapshots s)\<rparr>"

definition get_task :: "string \<Rightarrow> db \<Rightarrow> task_row option" where
  "get_task i s = tget t_id i (tasks s)"

definition put_task :: "task_row \<Rightarrow> db \<Rightarrow> db" where
  "put_task r s = s\<lparr>tasks := tput t_id r (tasks s)\<rparr>"

definition put_contract :: "contract_row \<Rightarrow> db \<Rightarrow> db" where
  "put_contract r s = s\<lparr>contracts := tput c_id r (contracts s)\<rparr>"

definition get_run :: "string \<Rightarrow> db \<Rightarrow> run_row option" where
  "get_run i s = tget r_id i (runs s)"

definition put_run :: "run_row \<Rightarrow> db \<Rightarrow> db" where
  "put_run r s = s\<lparr>runs := tput r_id r (runs s)\<rparr>"

definition put_completion :: "completion_row \<Rightarrow> db \<Rightarrow> db" where
  "put_completion r s = s\<lparr>completions := tput d_id r (completions s)\<rparr>"

definition get_memory :: "string \<Rightarrow> db \<Rightarrow> memory_row option" where
  "get_memory i s = tget m_id i (memories s)"

definition put_memory :: "memory_row \<Rightarrow> db \<Rightarrow> db" where
  "put_memory r s = s\<lparr>memories := tput m_id r (memories s)\<rparr>"

definition get_candidate :: "string \<Rightarrow> db \<Rightarrow> candidate_row option" where
  "get_candidate i s = tget l_id i (candidates s)"

definition put_candidate :: "candidate_row \<Rightarrow> db \<Rightarrow> db" where
  "put_candidate r s = s\<lparr>candidates := tput l_id r (candidates s)\<rparr>"

definition get_evidence :: "string \<Rightarrow> db \<Rightarrow> evidence_row option" where
  "get_evidence i s = tget e_id i (evidence_refs s)"

definition put_evidence :: "evidence_row \<Rightarrow> db \<Rightarrow> db" where
  "put_evidence r s = s\<lparr>evidence_refs := tput e_id r (evidence_refs s)\<rparr>"

definition get_provider :: "string \<Rightarrow> db \<Rightarrow> provider_row option" where
  "get_provider i s = tget mp_id i (model_providers s)"

definition put_provider :: "provider_row \<Rightarrow> db \<Rightarrow> db" where
  "put_provider r s = s\<lparr>model_providers := tput mp_id r (model_providers s)\<rparr>"

definition get_profile :: "string \<Rightarrow> db \<Rightarrow> profile_row option" where
  "get_profile i s = tget mf_id i (model_profiles s)"

definition put_profile :: "profile_row \<Rightarrow> db \<Rightarrow> db" where
  "put_profile r s = s\<lparr>model_profiles := tput mf_id r (model_profiles s)\<rparr>"

definition put_execution :: "execution_row \<Rightarrow> db \<Rightarrow> db" where
  "put_execution r s = s\<lparr>model_executions := tput me_id r (model_executions s)\<rparr>"

definition get_plan :: "string \<Rightarrow> db \<Rightarrow> plan_row option" where
  "get_plan i s = tget pl_id i (plans s)"

definition get_freeze :: "string \<Rightarrow> db \<Rightarrow> freeze_row option" where
  "get_freeze i s = tget fz_id i (freezes s)"

definition get_workflow :: "string \<Rightarrow> db \<Rightarrow> workflow_row option" where
  "get_workflow i s = tget wf_id i (workflows s)"

definition put_workflow :: "workflow_row \<Rightarrow> db \<Rightarrow> db" where
  "put_workflow r s = s\<lparr>workflows := tput wf_id r (workflows s)\<rparr>"

definition get_checkpoint :: "string \<Rightarrow> db \<Rightarrow> checkpoint_row option" where
  "get_checkpoint i s = tget ck_id i (checkpoints s)"

definition put_checkpoint :: "checkpoint_row \<Rightarrow> db \<Rightarrow> db" where
  "put_checkpoint r s = s\<lparr>checkpoints := tput ck_id r (checkpoints s)\<rparr>"

definition put_resume :: "resume_row \<Rightarrow> db \<Rightarrow> db" where
  "put_resume r s = s\<lparr>resumes := tput rv_id r (resumes s)\<rparr>"

definition get_mission :: "string \<Rightarrow> db \<Rightarrow> mission_row option" where
  "get_mission i s = tget mi_id i (missions s)"

definition put_mission :: "mission_row \<Rightarrow> db \<Rightarrow> db" where
  "put_mission r s = s\<lparr>missions := tput mi_id r (missions s)\<rparr>"

definition get_wait :: "string \<Rightarrow> db \<Rightarrow> wait_row option" where
  "get_wait i s = tget w_id i (waits s)"

definition put_wait :: "wait_row \<Rightarrow> db \<Rightarrow> db" where
  "put_wait r s = s\<lparr>waits := tput w_id r (waits s)\<rparr>"

definition utc_now :: "db \<Rightarrow> timestamp" where
  "utc_now s = clock s"

subsection \<open>Id allocation and the audit trail\<close>

definition persisted_next_number :: "db \<Rightarrow> string \<Rightarrow> nat" where
  "persisted_next_number s prefix =
     fold (\<lambda>pid highest. max highest (public_id_number pid prefix)) (all_ids s) 0 + 1"

fun counter_put :: "string \<Rightarrow> nat \<Rightarrow> (string \<times> nat) list \<Rightarrow> (string \<times> nat) list" where
  "counter_put e n [] = [(e, n)]"
| "counter_put e n ((e', m) # cs) = (if e = e' then (e, n) # cs else (e', m) # counter_put e n cs)"

text \<open>\<open>INSERT OR IGNORE\<close> of the counter, then the \<open>UPDATE ... RETURNING\<close>.\<close>

definition next_id :: "string \<Rightarrow> db \<Rightarrow> string res \<times> db" where
  "next_id entity s =
     (case map_of entity_prefixes entity of
        None \<Rightarrow> (Inl (ValueError (''Unknown Lucius entity type: '' @ entity)), s)
      | Some prefix \<Rightarrow>
          let persisted_next = persisted_next_number s prefix;
              stored = (case map_of (id_counters s) entity of
                          None \<Rightarrow> persisted_next | Some n \<Rightarrow> n);
              new_next = (if stored < persisted_next then persisted_next + 1 else stored + 1);
              s' = s\<lparr>id_counters := counter_put entity new_next (id_counters s)\<rparr>
          in (format_public_id entity (new_next - 1), s'))"

text \<open>The id of an entity whose prefix is registered: the form every service uses, its
  entity being a literal of the source.\<close>

definition fresh_id :: "string \<Rightarrow> db \<Rightarrow> string" where
  "fresh_id entity s = (case fst (next_id entity s) of Inl _ \<Rightarrow> [] | Inr i \<Rightarrow> i)"

definition bump_id :: "string \<Rightarrow> db \<Rightarrow> db" where
  "bump_id entity s = snd (next_id entity s)"

definition audit_record ::
  "string \<Rightarrow> string \<Rightarrow> string option \<Rightarrow> string option \<Rightarrow> string option \<Rightarrow> string option \<Rightarrow>
   authority_level \<Rightarrow> string \<Rightarrow> string \<Rightarrow> json_object \<Rightarrow> db \<Rightarrow> db" where
  "audit_record event_type actor project_id repository_id task_id run_id level action result metadata s =
     (let i = fresh_id ''audit'' s; s' = bump_id ''audit'' s in
      s'\<lparr>events := events s' @ [\<lparr>ev_id = i, ev_type = event_type, ev_actor = actor,
         ev_project_id = project_id, ev_repository_id = repository_id, ev_task_id = task_id,
         ev_run_id = run_id, ev_authority_level = level, ev_action = action,
         ev_result = result, ev_timestamp = utc_now s', ev_metadata = metadata\<rparr>]\<rparr>)"

section \<open>Raising\<close>

text \<open>A step that may raise before it writes: the store stays as it is. \<open>check_that\<close> is
  \<open>if not b: raise e\<close>.\<close>

definition try_res :: "'a res \<Rightarrow> db \<Rightarrow> ('a \<Rightarrow> 'b res \<times> db) \<Rightarrow> 'b res \<times> db" where
  "try_res r s k = (case r of Inl e \<Rightarrow> (Inl e, s) | Inr x \<Rightarrow> k x)"

definition check_that :: "bool \<Rightarrow> exc \<Rightarrow> unit res" where
  "check_that b e = (if b then Inr () else Inl e)"

definition some_or :: "'a option \<Rightarrow> exc \<Rightarrow> 'a res" where
  "some_or x e = (case x of None \<Rightarrow> Inl e | Some v \<Rightarrow> Inr v)"

text \<open>Raising inside a computation that only reads.\<close>

definition bind_res :: "'a res \<Rightarrow> ('a \<Rightarrow> 'b res) \<Rightarrow> 'b res" where
  "bind_res r k = (case r of Inl e \<Rightarrow> Inl e | Inr x \<Rightarrow> k x)"

fun map_res :: "('a \<Rightarrow> 'b res) \<Rightarrow> 'a list \<Rightarrow> 'b list res" where
  "map_res f [] = Inr []"
| "map_res f (x # xs) = bind_res (f x) (\<lambda>y. bind_res (map_res f xs) (\<lambda>ys. Inr (y # ys)))"

text \<open>Running an operation after another one, which may raise after it has written, and an
  operation for every element of a list.\<close>

definition then_op :: "'a res \<times> db \<Rightarrow> ('a \<Rightarrow> db \<Rightarrow> 'b res \<times> db) \<Rightarrow> 'b res \<times> db" where
  "then_op p k = (case p of (Inl e, s) \<Rightarrow> (Inl e, s) | (Inr x, s) \<Rightarrow> k x s)"

fun map_op :: "('a \<Rightarrow> db \<Rightarrow> 'b res \<times> db) \<Rightarrow> 'a list \<Rightarrow> db \<Rightarrow> 'b list res \<times> db" where
  "map_op f [] s = (Inr [], s)"
| "map_op f (x # xs) s = then_op (f x s) (\<lambda>y s1. then_op (map_op f xs s1) (\<lambda>ys s2. (Inr (y # ys), s2)))"

lemma then_op_simps [simp]:
  "then_op (Inl e, s) k = (Inl e, s)" "then_op (Inr x, s) k = k x s"
  by (simp_all add: then_op_def)

lemma then_op_Inr: "then_op p k = (Inr y, t) \<longleftrightarrow> (\<exists>x s. p = (Inr x, s) \<and> k x s = (Inr y, t))"
  by (cases p; cases "fst p") auto

lemma snd_then_op: "snd (then_op p k) = (case fst p of Inl e \<Rightarrow> snd p | Inr x \<Rightarrow> snd (k x (snd p)))"
  by (cases p; cases "fst p") auto

text \<open>What every single operation keeps is kept by the whole list of them.\<close>

lemma map_op_inv:
  assumes "\<And>x s. x \<in> set xs \<Longrightarrow> I s \<Longrightarrow> I (snd (f x s))" and "I s"
  shows "I (snd (map_op f xs s))"
  using assms
proof (induction xs arbitrary: s)
  case (Cons x xs)
  have "I (snd (f x s))" using Cons.prems by simp
  moreover have "I (snd (map_op f xs s'))" if "I s'" for s'
    using Cons.IH [OF _ that] Cons.prems(1) by simp
  ultimately show ?case
    by (auto simp: snd_then_op split: sum.splits)
qed simp

lemma map_op_Inr:
  assumes "map_op f xs s = (Inr ys, t)" and "y \<in> set ys"
    and "\<And>x s. x \<in> set xs \<Longrightarrow> I s \<Longrightarrow> I (snd (f x s))" and "I s"
  shows "\<exists>x s1 s2. x \<in> set xs \<and> I s1 \<and> f x s1 = (Inr y, s2)"
  using assms
proof (induction xs arbitrary: s ys)
  case (Cons x xs)
  then obtain z zs s1 where z: "f x s = (Inr z, s1)" "map_op f xs s1 = (Inr zs, t)" "ys = z # zs"
    by (auto simp: then_op_Inr)
  have inv: "I s1"
    using Cons.prems(3) [of x s] Cons.prems(4) z(1) by simp
  show ?case
  proof (cases "y = z")
    case True
    with z(1) Cons.prems(4) show ?thesis by (metis list.set_intros(1))
  next
    case False
    then have "y \<in> set zs" using Cons.prems(2) z(3) by simp
    from Cons.IH [OF z(2) this _ inv] Cons.prems(3) show ?thesis
      by (metis list.set_intros(2))
  qed
qed simp

lemma bind_res_simps [simp]:
  "bind_res (Inl e) k = Inl e" "bind_res (Inr x) k = k x"
  "bind_res r k = Inr y \<longleftrightarrow> (\<exists>x. r = Inr x \<and> k x = Inr y)"
  by (auto simp: bind_res_def split: sum.splits)

lemma map_res_Inr_iff: "map_res f xs = Inr ys \<longleftrightarrow> list_all2 (\<lambda>x y. f x = Inr y) xs ys"
  by (induction xs arbitrary: ys) (auto simp: list_all2_Cons1)

lemma map_res_total: "(\<And>x. x \<in> set xs \<Longrightarrow> f x = Inr (g x)) \<Longrightarrow> map_res f xs = Inr (map g xs)"
  by (induction xs) auto

lemma try_res_simps [simp]:
  "try_res (Inl e) s k = (Inl e, s)" "try_res (Inr x) s k = k x"
  by (simp_all add: try_res_def)

lemma check_that_simps [simp]:
  "check_that True e = Inr ()" "check_that False e = Inl e"
  "check_that b e = Inr u \<longleftrightarrow> b" "check_that b e = Inl e' \<longleftrightarrow> \<not> b \<and> e' = e"
  by (auto simp: check_that_def)

lemma some_or_simps [simp]:
  "some_or None e = Inl e" "some_or (Some x) e = Inr x"
  "some_or y e = Inr x \<longleftrightarrow> y = Some x" "some_or y e = Inl e' \<longleftrightarrow> y = None \<and> e' = e"
  by (auto simp: some_or_def split: option.splits)

lemma try_res_split:
  "P (try_res r s k) \<longleftrightarrow> (\<forall>e. r = Inl e \<longrightarrow> P (Inl e, s)) \<and> (\<forall>x. r = Inr x \<longrightarrow> P (k x))"
  by (cases r) auto

lemma try_res_split_asm:
  "P (try_res r s k) \<longleftrightarrow> \<not> ((\<exists>e. r = Inl e \<and> \<not> P (Inl e, s)) \<or> (\<exists>x. r = Inr x \<and> \<not> P (k x)))"
  by (cases r) auto

lemmas try_res_splits = try_res_split try_res_split_asm

text \<open>An outcome that is the unchanged store when it is an exception, and an operation all of
  whose outcomes are: it writes nothing when it raises.\<close>

definition clean :: "db \<Rightarrow> 'a res \<times> db \<Rightarrow> bool" where
  "clean s p = (\<forall>e. fst p = Inl e \<longrightarrow> snd p = s)"

definition atomic :: "(db \<Rightarrow> 'a res \<times> db) \<Rightarrow> bool" where
  "atomic f = (\<forall>s e. fst (f s) = Inl e \<longrightarrow> snd (f s) = s)"

lemma clean_simps [simp]:
  "clean s (Inr x, s')" "clean s (Inl e, s') \<longleftrightarrow> s' = s"
  "clean s (try_res r s k) \<longleftrightarrow> (\<forall>x. r = Inr x \<longrightarrow> clean s (k x))"
  by (auto simp: clean_def split: try_res_splits)

lemma atomicI: "(\<And>s. clean s (f s)) \<Longrightarrow> atomic f"
  by (simp add: atomic_def clean_def)

lemma clean_effect:
  assumes "clean s p" and "\<And>y t. p = (Inr y, t) \<Longrightarrow> Q t"
  shows "snd p = s \<or> Q (snd p)"
  using assms by (cases p; cases "fst p") (auto simp: clean_def)

lemma atomicD: "atomic f \<Longrightarrow> f s = (Inl e, s') \<Longrightarrow> s' = s"
  unfolding atomic_def by (metis fst_conv snd_conv)

lemma try_res_Inr_iff [simp]:
  "try_res r s k = (Inr y, t) \<longleftrightarrow> (\<exists>x. r = Inr x \<and> k x = (Inr y, t))"
  by (cases r) auto

section \<open>Facts of the store\<close>

lemmas store_defs = get_project_def put_project_def get_registration_def put_registration_def
  get_snapshot_def put_snapshot_def get_evidence_def get_provider_def put_provider_def
  get_profile_def put_profile_def put_execution_def get_task_def put_task_def
  put_contract_def get_run_def put_run_def put_completion_def get_memory_def put_memory_def
  get_candidate_def put_candidate_def get_plan_def get_freeze_def get_workflow_def
  put_workflow_def get_checkpoint_def put_checkpoint_def put_resume_def get_mission_def
  put_mission_def get_wait_def put_wait_def utc_now_def

lemmas put_defs = put_project_def put_registration_def put_snapshot_def put_provider_def
  put_profile_def put_execution_def put_task_def put_contract_def put_run_def put_completion_def put_memory_def
  put_candidate_def put_evidence_def put_workflow_def put_checkpoint_def put_resume_def put_mission_def put_wait_def

text \<open>Every store access under its locale: reading after a write.\<close>

interpretation project_table: keyed_table get_project put_project p_id
  by unfold_locales (auto simp: store_defs dest: tget_Some_mem)

interpretation registration_table: keyed_table get_registration put_registration reg_id
  by unfold_locales (auto simp: store_defs dest: tget_Some_mem)

interpretation snapshot_table: keyed_table get_snapshot put_snapshot snap_id
  by unfold_locales (auto simp: store_defs dest: tget_Some_mem)

interpretation evidence_table: keyed_table get_evidence put_evidence e_id
  by unfold_locales (auto simp: get_evidence_def put_evidence_def dest: tget_Some_mem)

interpretation provider_table: keyed_table get_provider put_provider mp_id
  by unfold_locales (auto simp: store_defs dest: tget_Some_mem)

interpretation profile_table: keyed_table get_profile put_profile mf_id
  by unfold_locales (auto simp: store_defs dest: tget_Some_mem)

interpretation task_table: keyed_table get_task put_task t_id
  by unfold_locales (auto simp: store_defs dest: tget_Some_mem)

interpretation run_table: keyed_table get_run put_run r_id
  by unfold_locales (auto simp: store_defs dest: tget_Some_mem)

interpretation memory_table: keyed_table get_memory put_memory m_id
  by unfold_locales (auto simp: store_defs dest: tget_Some_mem)

interpretation candidate_table: keyed_table get_candidate put_candidate l_id
  by unfold_locales (auto simp: store_defs dest: tget_Some_mem)

interpretation workflow_table: keyed_table get_workflow put_workflow wf_id
  by unfold_locales (auto simp: store_defs dest: tget_Some_mem)

interpretation checkpoint_table: keyed_table get_checkpoint put_checkpoint ck_id
  by unfold_locales (auto simp: store_defs dest: tget_Some_mem)

interpretation mission_table: keyed_table get_mission put_mission mi_id
  by unfold_locales (auto simp: store_defs dest: tget_Some_mem)

interpretation wait_table: keyed_table get_wait put_wait w_id
  by unfold_locales (auto simp: store_defs dest: tget_Some_mem)

subsection \<open>Allocation touches the counters only\<close>

lemma bump_id_frame [simp]:
  "clock (bump_id e s) = clock s" "projects (bump_id e s) = projects s"
  "registrations (bump_id e s) = registrations s" "snapshots (bump_id e s) = snapshots s"
  "attachments (bump_id e s) = attachments s" "tasks (bump_id e s) = tasks s"
  "contracts (bump_id e s) = contracts s" "runs (bump_id e s) = runs s"
  "completions (bump_id e s) = completions s" "memories (bump_id e s) = memories s"
  "candidates (bump_id e s) = candidates s" "evidence_refs (bump_id e s) = evidence_refs s"
  "model_providers (bump_id e s) = model_providers s" "model_profiles (bump_id e s) = model_profiles s"
  "model_executions (bump_id e s) = model_executions s" "plans (bump_id e s) = plans s"
  "freezes (bump_id e s) = freezes s" "workflows (bump_id e s) = workflows s"
  "checkpoints (bump_id e s) = checkpoints s" "resumes (bump_id e s) = resumes s"
  "missions (bump_id e s) = missions s" "waits (bump_id e s) = waits s"
  "events (bump_id e s) = events s" "other_ids (bump_id e s) = other_ids s"
  "all_ids (bump_id e s) = all_ids s"
  by (simp_all add: bump_id_def next_id_def all_ids_def Let_def split: option.splits)

lemma audit_record_frame [simp]:
  "clock (audit_record t a p r k n l ac re md s) = clock s"
  "projects (audit_record t a p r k n l ac re md s) = projects s"
  "registrations (audit_record t a p r k n l ac re md s) = registrations s"
  "snapshots (audit_record t a p r k n l ac re md s) = snapshots s"
  "attachments (audit_record t a p r k n l ac re md s) = attachments s"
  "tasks (audit_record t a p r k n l ac re md s) = tasks s"
  "contracts (audit_record t a p r k n l ac re md s) = contracts s"
  "runs (audit_record t a p r k n l ac re md s) = runs s"
  "completions (audit_record t a p r k n l ac re md s) = completions s"
  "memories (audit_record t a p r k n l ac re md s) = memories s"
  "candidates (audit_record t a p r k n l ac re md s) = candidates s"
  "evidence_refs (audit_record t a p r k n l ac re md s) = evidence_refs s"
  "model_providers (audit_record t a p r k n l ac re md s) = model_providers s"
  "model_profiles (audit_record t a p r k n l ac re md s) = model_profiles s"
  "model_executions (audit_record t a p r k n l ac re md s) = model_executions s"
  "plans (audit_record t a p r k n l ac re md s) = plans s"
  "freezes (audit_record t a p r k n l ac re md s) = freezes s"
  "workflows (audit_record t a p r k n l ac re md s) = workflows s"
  "checkpoints (audit_record t a p r k n l ac re md s) = checkpoints s"
  "resumes (audit_record t a p r k n l ac re md s) = resumes s"
  "missions (audit_record t a p r k n l ac re md s) = missions s"
  "waits (audit_record t a p r k n l ac re md s) = waits s"
  "other_ids (audit_record t a p r k n l ac re md s) = other_ids s"
  by (simp_all add: audit_record_def Let_def)

subsection \<open>Allocated ids are new\<close>

lemma fold_max_ge_init: "h \<le> fold (\<lambda>x m. max m (f x)) xs (h::nat)"
  by (induction xs arbitrary: h) (auto, metis max.bounded_iff)

lemma fold_max_ge: "x \<in> set xs \<Longrightarrow> f x \<le> fold (\<lambda>x m. max m (f x)) xs (h::nat)"
proof (induction xs arbitrary: h)
  case (Cons y ys)
  then show ?case
    using fold_max_ge_init [of "max h (f y)" f ys] by auto
qed simp

lemma persisted_next_above:
  "i \<in> set (all_ids s) \<Longrightarrow> public_id_number i prefix < persisted_next_number s prefix"
  using fold_max_ge [of i "all_ids s" "\<lambda>pid. public_id_number pid prefix" 0]
  by (simp add: persisted_next_number_def less_Suc_eq_le)

definition registered :: "string \<Rightarrow> bool" where
  "registered entity = (map_of entity_prefixes entity \<noteq> None)"

definition next_number :: "string \<Rightarrow> db \<Rightarrow> nat" where
  "next_number entity s = public_id_number (fresh_id entity s) (the (map_of entity_prefixes entity))"

lemma next_id_registered:
  assumes "map_of entity_prefixes e = Some prefix"
  shows "\<exists>n. next_id e s = (Inr (public_id prefix n), bump_id e s)
      \<and> persisted_next_number s prefix \<le> n
      \<and> map_of (id_counters (bump_id e s)) e = Some (Suc n)
      \<and> (\<forall>m. map_of (id_counters s) e = Some m \<longrightarrow> m \<le> n)"
proof -
  have put: "map_of (counter_put e k cs) e = Some k" for k cs
    by (induction cs) auto
  have pos: "0 < persisted_next_number s prefix"
    by (simp add: persisted_next_number_def)
  show ?thesis
    using assms put pos
    by (auto simp: next_id_def bump_id_def Let_def format_public_id_def split: option.splits)
qed

lemma fresh_id_shape:
  assumes "map_of entity_prefixes e = Some prefix"
  obtains n where "next_id e s = (Inr (fresh_id e s), bump_id e s)"
    and "fresh_id e s = public_id prefix n" and "persisted_next_number s prefix \<le> n"
    and "map_of (id_counters (bump_id e s)) e = Some (Suc n)"
    and "\<And>m. map_of (id_counters s) e = Some m \<Longrightarrow> m \<le> n"
proof -
  from next_id_registered [OF assms, of s] obtain n where
    n: "next_id e s = (Inr (public_id prefix n), bump_id e s)"
      "persisted_next_number s prefix \<le> n"
      "map_of (id_counters (bump_id e s)) e = Some (Suc n)"
      "\<forall>m. map_of (id_counters s) e = Some m \<longrightarrow> m \<le> n"
    by blast
  then have "fresh_id e s = public_id prefix n"
    by (simp add: fresh_id_def)
  with n that show thesis by auto
qed

lemma fresh_id_new:
  assumes "registered e"
  shows "fresh_id e s \<notin> set (all_ids s)"
proof
  assume mem: "fresh_id e s \<in> set (all_ids s)"
  from assms obtain prefix where p: "map_of entity_prefixes e = Some prefix"
    by (auto simp: registered_def)
  obtain n where "fresh_id e s = public_id prefix n" "persisted_next_number s prefix \<le> n"
    using fresh_id_shape [OF p] by metis
  then show False
    using persisted_next_above [OF mem, of prefix] by simp
qed

lemma next_number_grows:
  assumes "registered e" and "map_of (id_counters s') e = map_of (id_counters (bump_id e s)) e"
  shows "next_number e s < next_number e s'"
proof -
  from assms(1) obtain prefix where p: "map_of entity_prefixes e = Some prefix"
    by (auto simp: registered_def)
  obtain n where n: "fresh_id e s = public_id prefix n"
    "map_of (id_counters (bump_id e s)) e = Some (Suc n)"
    using fresh_id_shape [OF p, of s] by metis
  obtain m where m: "fresh_id e s' = public_id prefix m"
    "\<And>k. map_of (id_counters s') e = Some k \<Longrightarrow> k \<le> m"
    using fresh_id_shape [OF p, of s'] by metis
  show ?thesis
    using n m(1) m(2) [of "Suc n"] assms(2) p by (simp add: next_number_def)
qed

text \<open>Registered entities, decided once.\<close>

lemma registered_entities [simp]:
  "registered ''project''" "registered ''repository''" "registered ''snapshot''"
  "registered ''model_provider''" "registered ''model_profile''" "registered ''model_execution''"
  "registered ''engineering_plan''" "registered ''plan_freeze''"
  "registered ''task''" "registered ''task_contract''" "registered ''task_run''"
  "registered ''documentation_completion''" "registered ''memory''" "registered ''learning''" "registered ''evidence''"
  "registered ''context_package''"
  "registered ''audit''" "registered ''persistent_workflow''" "registered ''workflow_checkpoint''"
  "registered ''resume_validation''" "registered ''queue_checkpoint''"
  by (simp_all add: registered_def entity_prefixes_def)

lemma fresh_id_not_key [simp]:
  assumes "registered e"
  shows "fresh_id e s \<notin> t_id ` set (tasks s)" "fresh_id e s \<notin> c_id ` set (contracts s)"
    "fresh_id e s \<notin> r_id ` set (runs s)" "fresh_id e s \<notin> d_id ` set (completions s)"
    "fresh_id e s \<notin> m_id ` set (memories s)" "fresh_id e s \<notin> l_id ` set (candidates s)"
    "fresh_id e s \<notin> wf_id ` set (workflows s)" "fresh_id e s \<notin> ck_id ` set (checkpoints s)"
    "fresh_id e s \<notin> rv_id ` set (resumes s)" "fresh_id e s \<notin> ev_id ` set (events s)"
    "fresh_id e s \<notin> p_id ` set (projects s)" "fresh_id e s \<notin> reg_id ` set (registrations s)"
    "fresh_id e s \<notin> snap_id ` set (snapshots s)" "fresh_id e s \<notin> mp_id ` set (model_providers s)"
    "fresh_id e s \<notin> mf_id ` set (model_profiles s)" "fresh_id e s \<notin> me_id ` set (model_executions s)"
    "fresh_id e s \<notin> e_id ` set (evidence_refs s)" "fresh_id e s \<notin> pl_id ` set (plans s)" "fresh_id e s \<notin> fz_id ` set (freezes s)"
  using fresh_id_new [OF assms, of s] by (auto simp: all_ids_def)

text \<open>An id supply as its clients see it: the next id is new, and drawing it moves on.\<close>

locale id_supply =
  fixes fresh :: "'s \<Rightarrow> string" and bump :: "'s \<Rightarrow> 's" and ids :: "'s \<Rightarrow> string set"
    and number :: "'s \<Rightarrow> nat"
  assumes fresh_new: "fresh s \<notin> ids s"
    and ids_bump: "ids (bump s) = ids s"
    and number_bump: "number s < number (bump s)"
    and fresh_number: "fresh s = fresh s' \<Longrightarrow> number s = number s'"
begin

lemma draws_increase: "number s < number ((bump ^^ Suc k) s)"
proof (induction k)
  case (Suc k)
  then show ?case
    using number_bump [of "(bump ^^ Suc k) s"] by simp
qed (simp add: number_bump)

lemma draws_distinct: "i < j \<Longrightarrow> fresh ((bump ^^ i) s) \<noteq> fresh ((bump ^^ j) s)"
proof
  assume ij: "i < j" and eq: "fresh ((bump ^^ i) s) = fresh ((bump ^^ j) s)"
  obtain k where k: "j = Suc k + i"
    using ij by (metis add.commute less_imp_Suc_add add_Suc_right)
  have "(bump ^^ j) s = (bump ^^ Suc k) ((bump ^^ i) s)"
    by (simp only: k funpow_add o_apply)
  then show False
    using draws_increase [of "(bump ^^ i) s" k] fresh_number [OF eq] by simp
qed

lemma draws_new: "fresh ((bump ^^ i) s) \<notin> ids s"
proof -
  have "ids ((bump ^^ i) s) = ids s"
    by (induction i) (simp_all add: ids_bump)
  with fresh_new [of "(bump ^^ i) s"] show ?thesis by simp
qed

end

lemma id_supply_registered:
  assumes "registered e"
  shows "id_supply (fresh_id e) (bump_id e) (\<lambda>s. set (all_ids s)) (next_number e)"
proof unfold_locales
  show "next_number e s < next_number e (bump_id e s)" for s
    by (rule next_number_grows [OF assms]) simp
  show "fresh_id e s = fresh_id e s' \<Longrightarrow> next_number e s = next_number e s'" for s s'
    by (simp add: next_number_def)
qed (simp_all add: fresh_id_new [OF assms])

interpretation task_ids: id_supply "fresh_id ''task''" "bump_id ''task''"
    "\<lambda>s. set (all_ids s)" "next_number ''task''"
  by (rule id_supply_registered) simp

interpretation workflow_ids: id_supply "fresh_id ''persistent_workflow''"
    "bump_id ''persistent_workflow''" "\<lambda>s. set (all_ids s)" "next_number ''persistent_workflow''"
  by (rule id_supply_registered) simp

subsection \<open>Example stores\<close>

text \<open>A workflow with a given backlog, for the examples of the components.\<close>

definition ex_item :: "string \<Rightarrow> queue_state \<Rightarrow> string list \<Rightarrow> queue_item" where
  "ex_item k q deps = \<lparr>qi_item_id = Some k, qi_plain_id = None, qi_task_id = None, qi_logical_task_id = None,
     qi_title = None, qi_state = Text (queue_state_value q), qi_priority = Absent, qi_created_order = 0,
     qi_version = 0, qi_run_generation = 0, qi_dependencies = deps, qi_block_checkpoints = [],
     qi_current_block_checkpoint_id = None, qi_started_at = None, qi_blocked_at = None,
     qi_resolved_at = None, qi_completed_at = None, qi_updated_at = None, qi_blocking_reason = None,
     qi_blocker_category = None, qi_resume_condition = None, qi_resolution_event = None,
     qi_work_completed = [], qi_completed_substeps = [], qi_timeout_seconds = None,
     qi_context_limits = [], qi_extra = []\<rparr>"

definition ex_workflow :: "string \<Rightarrow> queue_item list \<Rightarrow> workflow_row" where
  "ex_workflow i b = \<lparr>wf_id = i, wf_project_id = Some ''P'', wf_repository_id = None,
     wf_repository_snapshot_id = None, wf_task_id = None, wf_plan_id = None, wf_plan_freeze_id = None,
     wf_objective = ''o'', wf_expected_main_head = ''m'', wf_isolated_branch = ''b'',
     wf_worktree_path = ''w'', wf_workflow_state = IMPLEMENTING, wf_authority_tier = ''L1'',
     wf_task_backlog = b, wf_dependency_graph = [], wf_active_task_id = None,
     wf_completed_task_ids = [], wf_pending_task_ids = [], wf_decisions = [], wf_deviations = [],
     wf_repair_counters = [], wf_targeted_test_evidence = [], wf_full_test_status = [],
     wf_checkpoint_history = [], wf_pending_human_approvals = [], wf_resume_requirements = [],
     wf_created_at = 0, wf_updated_at = 0\<rparr>"

definition ex_store :: "queue_item list \<Rightarrow> db" where
  "ex_store b = empty_db\<lparr>workflows := [ex_workflow ''W'' b]\<rparr>"

lemma ex_store_workflow [simp]: "get_workflow ''W'' (ex_store b) = Some (ex_workflow ''W'' b)"
  by (simp add: get_workflow_def ex_store_def ex_workflow_def)

lemma ex_workflow_backlog [simp]:
  "wf_task_backlog (ex_workflow i b) = b" "wf_id (ex_workflow i b) = i"
  "wf_workflow_state (ex_workflow i b) = IMPLEMENTING"
  by (simp_all add: ex_workflow_def)

subsection \<open>Properties\<close>

text \<open>Id allocation: for a registered entity \<open>next_id\<close> returns a formatted public id, the
  ids it returns along any number of draws are pairwise different and none of them is the id
  of a row of the store, whatever the stored counters say.\<close>

theorem next_id_allocates_new_ids:
  assumes "map_of entity_prefixes entity = Some prefix" and "i < j"
  shows "\<exists>m n. fst (next_id entity ((bump_id entity ^^ i) s)) = Inr (public_id prefix m)
    \<and> fst (next_id entity ((bump_id entity ^^ j) s)) = Inr (public_id prefix n)
    \<and> public_id prefix m \<noteq> public_id prefix n
    \<and> public_id prefix m \<notin> set (all_ids s) \<and> public_id prefix n \<notin> set (all_ids s)"
proof -
  from assms(1) have reg: "registered entity" by (simp add: registered_def)
  note sup = id_supply_registered [OF reg]
  obtain m where m: "next_id entity ((bump_id entity ^^ i) s)
      = (Inr (fresh_id entity ((bump_id entity ^^ i) s)), bump_id entity ((bump_id entity ^^ i) s))"
    "fresh_id entity ((bump_id entity ^^ i) s) = public_id prefix m"
    using fresh_id_shape [OF assms(1)] by metis
  obtain n where n: "next_id entity ((bump_id entity ^^ j) s)
      = (Inr (fresh_id entity ((bump_id entity ^^ j) s)), bump_id entity ((bump_id entity ^^ j) s))"
    "fresh_id entity ((bump_id entity ^^ j) s) = public_id prefix n"
    using fresh_id_shape [OF assms(1)] by metis
  show ?thesis
    using m n id_supply.draws_distinct [OF sup assms(2), of s] id_supply.draws_new [OF sup, of i s]
      id_supply.draws_new [OF sup, of j s]
    by (metis fst_conv)
qed

theorem next_id_allocates_new_ids_witness:
  "\<exists>m n. fst (next_id ''task'' ((bump_id ''task'' ^^ 0) empty_db)) = Inr (public_id ''LTASK'' m)
    \<and> fst (next_id ''task'' ((bump_id ''task'' ^^ 2) empty_db)) = Inr (public_id ''LTASK'' n)
    \<and> public_id ''LTASK'' m \<noteq> public_id ''LTASK'' n
    \<and> public_id ''LTASK'' m \<notin> set (all_ids empty_db) \<and> public_id ''LTASK'' n \<notin> set (all_ids empty_db)"
  by (rule next_id_allocates_new_ids) (simp_all add: entity_prefixes_def)

end
