(* ===== verification/Queue.thy ===== *)
theory Queue
  imports Store
begin

text \<open>
  The non-blocking queue of \<^verbatim>\<open>lucius/pilots/queue.py\<close>: a deterministic scheduler over
  the work items that a workflow keeps in its \<open>task_backlog\<close>. The selection parses
  the raw items of one workflow, or of all of them, into \<open>global_item\<close>s, and picks
  the least eligible one; the operations rewrite one item of the backlog and raise its
  version. An absent \<open>version\<close>, \<open>created_order\<close> or \<open>run_generation\<close>
  is 0, as the code reads it.
\<close>

section \<open>States and ranks\<close>

definition blocked_states :: "queue_state list" where
  "blocked_states = [WAITING_HUMAN, WAITING_EXTERNAL, WAITING_RESOURCE, WAITING_DEPENDENCY,
     WAITING_SCHEDULE, BLOCKED_DEPENDENCY, BLOCKED_AUTHORITY, BLOCKED_DECISION, RETRY_LATER]"

definition terminal_states :: "queue_state list" where
  "terminal_states = [queue_state.COMPLETED, queue_state.FAILED]"

definition eligible_states :: "queue_state list" where
  "eligible_states = [queue_state.READY, READY_TO_RESUME]"

definition valid_priorities :: "string list" where
  "valid_priorities = [''CRITICAL'', ''HIGH'', ''NORMAL'', ''LOW'']"

definition priority_rank :: "string \<Rightarrow> nat" where
  "priority_rank p = (if p = ''CRITICAL'' then 0 else if p = ''HIGH'' then 1
     else if p = ''NORMAL'' then 2 else if p = ''LOW'' then 3 else 2)"

definition state_class_rank :: "queue_state option \<Rightarrow> nat" where
  "state_class_rank q = (if q = Some READY_TO_RESUME then 0 else if q = Some queue_state.READY then 1 else 9)"

definition execution_eligible_states :: "workflow_state list" where
  "execution_eligible_states = [PLAN_READY, IMPLEMENTING, VERIFYING,
     workflow_state.CHECKPOINT_REVIEW_REQUIRED, RESUME_VALIDATION, workflow_state.BLOCKED,
     APPROVED_TO_CONTINUE]"

definition workflow_execution_exclusion_reason :: "workflow_row \<Rightarrow> string option" where
  "workflow_execution_exclusion_reason w =
     (if wf_workflow_state w \<in> set execution_eligible_states then None
      else Some (''WORKFLOW_LIFECYCLE_INELIGIBLE:'' @ workflow_state_value (wf_workflow_state w)))"

section \<open>Reading a raw item\<close>

definition item_id_of :: "queue_item \<Rightarrow> string" where
  "item_id_of item =
     (if truthy (qi_item_id item) then the (qi_item_id item)
      else case qi_task_id item of None \<Rightarrow> ''None'' | Some t \<Rightarrow> t)"

text \<open>\<open>QueueWorkItemState(str(item.get("state", "READY")))\<close>: a null state is the text None.\<close>

definition state_text :: "queue_item \<Rightarrow> string" where
  "state_text item = (case qi_state item of Absent \<Rightarrow> ''READY'' | Null \<Rightarrow> ''None'' | Text t \<Rightarrow> t)"

definition state_if_valid :: "queue_item \<Rightarrow> queue_state option" where
  "state_if_valid item = queue_state_of (state_text item)"

definition state_of :: "queue_item \<Rightarrow> queue_state res" where
  "state_of item = some_or (state_if_valid item)
     (ValueError (CHR 0x27 # state_text item @ CHR 0x27 # '' is not a valid QueueWorkItemState''))"

definition execution_state :: "queue_item \<Rightarrow> queue_state res" where
  "execution_state item =
     (case qi_state item of
        Absent \<Rightarrow> Inl (QueueStateError ''Queue work item is not executable: missing queue state.'')
      | Null \<Rightarrow> Inl (QueueStateError ''Queue work item is not executable: null queue state.'')
      | Text t \<Rightarrow> some_or (queue_state_of t)
          (QueueStateError (''Queue work item is not executable: unknown queue state '' @ CHR 0x27 # t @ CHR 0x27 # ''.'')))"

record parsed_state =
  ps_state :: "queue_state option"
  ps_state_label :: string
  ps_raw_state :: "string option"
  ps_exclusion_reason :: "string option"

definition parse_global_state :: "queue_item \<Rightarrow> parsed_state" where
  "parse_global_state item =
     (case qi_state item of
        Absent \<Rightarrow> \<lparr>ps_state = None, ps_state_label = ''LEGACY_UNSCHEDULABLE'', ps_raw_state = None,
          ps_exclusion_reason = Some ''LEGACY_UNSCHEDULABLE:MISSING_STATE''\<rparr>
      | Null \<Rightarrow> \<lparr>ps_state = None, ps_state_label = ''MALFORMED_UNSCHEDULABLE'', ps_raw_state = None,
          ps_exclusion_reason = Some ''MALFORMED_UNSCHEDULABLE:NULL_STATE''\<rparr>
      | Text raw_state \<Rightarrow>
          (case queue_state_of raw_state of
             None \<Rightarrow> \<lparr>ps_state = None, ps_state_label = ''MALFORMED_UNSCHEDULABLE'',
               ps_raw_state = Some raw_state,
               ps_exclusion_reason = Some (''MALFORMED_UNSCHEDULABLE:UNKNOWN_STATE:'' @ raw_state)\<rparr>
           | Some state \<Rightarrow> \<lparr>ps_state = Some state, ps_state_label = queue_state_value state,
               ps_raw_state = Some raw_state, ps_exclusion_reason = None\<rparr>))"

record parsed_priority =
  pp_priority :: string
  pp_raw_priority :: "string option"
  pp_exclusion_reason :: "string option"

definition parse_global_priority :: "queue_item \<Rightarrow> parsed_priority" where
  "parse_global_priority item =
     (case qi_priority item of
        Text raw_priority \<Rightarrow>
          if raw_priority \<notin> set valid_priorities
          then \<lparr>pp_priority = raw_priority, pp_raw_priority = Some raw_priority,
            pp_exclusion_reason = Some (''MALFORMED_UNSCHEDULABLE:UNKNOWN_PRIORITY:'' @ raw_priority)\<rparr>
          else \<lparr>pp_priority = raw_priority, pp_raw_priority = Some raw_priority, pp_exclusion_reason = None\<rparr>
      | _ \<Rightarrow> \<lparr>pp_priority = ''NORMAL'', pp_raw_priority = None, pp_exclusion_reason = None\<rparr>)"

definition validate_unique_item_ids :: "queue_item list \<Rightarrow> unit res" where
  "validate_unique_item_ids items =
     check_that (distinct (map item_id_of items)) (QueueStateError ''Duplicate queue work item id detected.'')"

text \<open>\<open>_merge_substeps\<close>, the loop of \<open>complete_item\<close> being the same one.\<close>

definition merge_substeps :: "string list \<Rightarrow> string list \<Rightarrow> string list" where
  "merge_substeps existing additional = append_new existing additional"

section \<open>Parsed items\<close>

record global_item =
  gi_project_id :: "string option"
  gi_workflow_id :: string
  gi_repository_id :: "string option"
  gi_workflow_task_id :: "string option"
  gi_item_id :: string
  gi_logical_task_id :: string
  gi_title :: "string option"
  gi_state :: "queue_state option"
  gi_state_label :: string
  gi_raw_state :: "string option"
  gi_priority :: string
  gi_raw_priority :: "string option"
  gi_created_order :: int
  gi_version :: int
  gi_dependencies :: "string list"
  gi_current_block_checkpoint_id :: "string option"
  gi_queue_state_present :: bool
  gi_priority_valid :: bool
  gi_schedulable :: bool
  gi_exclusion_reason :: "string option"
  gi_item :: queue_item

text \<open>\<open>a or b\<close> of two optional texts that are never empty.\<close>

definition first_reason :: "string option \<Rightarrow> string option \<Rightarrow> string option" where
  "first_reason a b = (case a of None \<Rightarrow> b | Some r \<Rightarrow> Some r)"

definition global_item_of :: "string option \<Rightarrow> workflow_row \<Rightarrow> queue_item \<Rightarrow> global_item" where
  "global_item_of exclusion_reason w item =
     (let item_id = item_id_of item; st = parse_global_state item; pr = parse_global_priority item;
          reason = first_reason exclusion_reason
            (first_reason (ps_exclusion_reason st) (pp_exclusion_reason pr))
      in \<lparr>gi_project_id = wf_project_id w, gi_workflow_id = wf_id w,
        gi_repository_id = wf_repository_id w, gi_workflow_task_id = wf_task_id w,
        gi_item_id = item_id,
        gi_logical_task_id = or_else (qi_logical_task_id item) (or_else (qi_task_id item) item_id),
        gi_title = qi_title item, gi_state = ps_state st, gi_state_label = ps_state_label st,
        gi_raw_state = ps_raw_state st, gi_priority = pp_priority pr,
        gi_raw_priority = pp_raw_priority pr, gi_created_order = qi_created_order item,
        gi_version = qi_version item, gi_dependencies = qi_dependencies item,
        gi_current_block_checkpoint_id = qi_current_block_checkpoint_id item,
        gi_queue_state_present = (ps_state st \<noteq> None),
        gi_priority_valid = (pp_exclusion_reason pr = None),
        gi_schedulable = (ps_state st \<noteq> None \<and> reason = None),
        gi_exclusion_reason = reason, gi_item = item\<rparr>)"

definition workflow_items :: "string option \<Rightarrow> workflow_row \<Rightarrow> global_item list res" where
  "workflow_items exclusion_reason w =
     bind_res (validate_unique_item_ids (wf_task_backlog w)) (\<lambda>_.
       Inr (map (global_item_of exclusion_reason w) (wf_task_backlog w)))"

definition global_items :: "string option \<Rightarrow> workflow_row list \<Rightarrow> global_item list res" where
  "global_items exclusion_reason ws =
     bind_res (map_res (workflow_items exclusion_reason) ws) (\<lambda>xss. Inr (concat xss))"

definition execution_items :: "workflow_row \<Rightarrow> global_item list res" where
  "execution_items w = global_items None [w]"

definition global_dependencies_complete :: "global_item \<Rightarrow> global_item list \<Rightarrow> bool" where
  "global_dependencies_complete item items =
     (let completed = map gi_item_id (filter (\<lambda>c. gi_workflow_id c = gi_workflow_id item
            \<and> gi_state c = Some queue_state.COMPLETED) items)
      in list_all (\<lambda>d. d \<in> set completed) (gi_dependencies item))"

definition global_is_eligible :: "global_item \<Rightarrow> global_item list \<Rightarrow> bool" where
  "global_is_eligible item items =
     (gi_state item \<in> Some ` set eligible_states \<and> global_dependencies_complete item items)"

definition is_running :: "global_item \<Rightarrow> bool" where
  "is_running item = (gi_state item = Some queue_state.RUNNING)"

definition is_blocked :: "global_item \<Rightarrow> bool" where
  "is_blocked item = (gi_state item \<in> Some ` set blocked_states)"

definition validate_scoped_running_identities :: "global_item list \<Rightarrow> unit res" where
  "validate_scoped_running_identities items =
     check_that (distinct (map gi_logical_task_id (filter is_running items)))
       (QueueStateError ''Duplicate RUNNING logical task detected.'')"

definition validate_global_running_identities :: "global_item list \<Rightarrow> unit res" where
  "validate_global_running_identities items =
     check_that (distinct (map (\<lambda>i. (gi_project_id i, gi_logical_task_id i)) (filter is_running items)))
       (QueueStateError ''Duplicate global RUNNING logical work item detected.'')"

subsection \<open>Selection keys and reasons\<close>

definition scoped_selection_key :: "global_item \<Rightarrow> nat \<times> nat \<times> int \<times> string" where
  "scoped_selection_key i = (priority_rank (py_upper (gi_priority i)), state_class_rank (gi_state i),
     gi_created_order i, gi_item_id i)"

definition global_selection_key ::
  "global_item \<Rightarrow> nat \<times> nat \<times> int \<times> string \<times> string \<times> string" where
  "global_selection_key i = (priority_rank (py_upper (gi_priority i)), state_class_rank (gi_state i),
     gi_created_order i, or_else (gi_project_id i) [], gi_workflow_id i, gi_item_id i)"

text \<open>\<open>item.state.value\<close> in a reason is read of eligible items only, whose label it is.\<close>

definition scoped_selection_reason :: "global_item \<Rightarrow> string" where
  "scoped_selection_reason i = ''priority='' @ py_upper (gi_priority i) @ '' state='' @ gi_state_label i
     @ '' order='' @ int_text (gi_created_order i)"

definition global_selection_reason :: "global_item \<Rightarrow> string" where
  "global_selection_reason i = ''project='' @ option_text (gi_project_id i) @ '' workflow='' @ gi_workflow_id i
     @ '' priority='' @ py_upper (gi_priority i) @ '' state='' @ gi_state_label i
     @ '' order='' @ int_text (gi_created_order i)"

section \<open>Selection within a workflow\<close>

record queue_selection =
  qs_selected_item_id :: "string option"
  qs_reason :: string
  qs_eligible_item_ids :: "string list"
  qs_blocked_item_ids :: "string list"
  qs_running_item_ids :: "string list"

definition selection_blocked :: "global_item list \<Rightarrow> global_item list" where
  "selection_blocked executable =
     filter (\<lambda>i. is_blocked i \<or> \<not> global_dependencies_complete i executable) executable"

definition scoped_selection :: "global_item list \<Rightarrow> queue_selection res" where
  "scoped_selection parsed =
     (let stateful = filter gi_queue_state_present parsed;
          executable = filter gi_schedulable parsed
      in bind_res (validate_scoped_running_identities stateful) (\<lambda>_.
         let running = filter is_running stateful;
             eligible = filter (\<lambda>i. global_is_eligible i executable) executable;
             blocked = selection_blocked executable
         in Inr (
           if running \<noteq> []
           then \<lparr>qs_selected_item_id = None, qs_reason = ''RUNNING_ITEM_ACTIVE_NO_PREEMPTION'',
             qs_eligible_item_ids = [], qs_blocked_item_ids = [],
             qs_running_item_ids = map gi_item_id running\<rparr>
           else case pick scoped_selection_key eligible of
             None \<Rightarrow> \<lparr>qs_selected_item_id = None, qs_reason = ''NO_ELIGIBLE_WORK'',
               qs_eligible_item_ids = [], qs_blocked_item_ids = map gi_item_id blocked,
               qs_running_item_ids = []\<rparr>
           | Some selected \<Rightarrow> \<lparr>qs_selected_item_id = Some (gi_item_id selected),
               qs_reason = scoped_selection_reason selected,
               qs_eligible_item_ids = map gi_item_id (sort_key scoped_selection_key eligible),
               qs_blocked_item_ids = map gi_item_id blocked, qs_running_item_ids = []\<rparr>)))"

definition workflow_of :: "string \<Rightarrow> db \<Rightarrow> workflow_row res" where
  "workflow_of workflow_id s =
     some_or (get_workflow workflow_id s) (QueueStateError (''Unknown persistent workflow: '' @ workflow_id))"

definition select_next :: "string \<Rightarrow> db \<Rightarrow> queue_selection res" where
  "select_next workflow_id s =
     bind_res (workflow_of workflow_id s) (\<lambda>w. bind_res (execution_items w) scoped_selection)"

section \<open>Operations on a workflow\<close>

definition item_of :: "queue_item list \<Rightarrow> string \<Rightarrow> queue_item res" where
  "item_of items item_id = some_or (tget item_id_of item_id items)
     (QueueStateError (''Unknown queue work item: '' @ item_id))"

definition set_state :: "db \<Rightarrow> queue_state \<Rightarrow> queue_item \<Rightarrow> queue_item" where
  "set_state s state item = item\<lparr>qi_state := Text (queue_state_value state),
     qi_version := qi_version item + 1, qi_updated_at := Some (utc_now s)\<rparr>"

definition start_item :: "db \<Rightarrow> queue_item \<Rightarrow> queue_item" where
  "start_item s item = (set_state s queue_state.RUNNING item)
     \<lparr>qi_started_at := Some (utc_now s), qi_run_generation := qi_run_generation item + 1\<rparr>"

text \<open>The workflow with one item of its backlog replaced.\<close>

definition with_item :: "db \<Rightarrow> queue_item \<Rightarrow> workflow_row \<Rightarrow> workflow_row" where
  "with_item s item w = w\<lparr>wf_task_backlog := tput item_id_of item (wf_task_backlog w),
     wf_updated_at := utc_now s\<rparr>"

definition audit_queue ::
  "string \<Rightarrow> actor \<Rightarrow> workflow_row \<Rightarrow> string \<Rightarrow> string \<Rightarrow> json_object \<Rightarrow> db \<Rightarrow> db" where
  "audit_queue event_type actor w action result metadata =
     audit_record event_type (actor_value actor) (wf_project_id w) (wf_repository_id w) (wf_task_id w)
       None L0 action result metadata"

definition executable_workflow :: "workflow_row \<Rightarrow> unit res" where
  "executable_workflow w =
     (case workflow_execution_exclusion_reason w of
        None \<Rightarrow> Inr ()
      | Some r \<Rightarrow> Inl (QueueStateError (''Workflow is not executable: '' @ r)))"

definition start_next :: "string \<Rightarrow> actor \<Rightarrow> db \<Rightarrow> queue_selection res \<times> db" where
  "start_next workflow_id actor s =
     try_res (workflow_of workflow_id s) s (\<lambda>w.
     try_res (executable_workflow w) s (\<lambda>_.
     try_res (select_next (wf_id w) s) s (\<lambda>selection.
     try_res (execution_items w) s (\<lambda>parsed.
     case qs_selected_item_id selection of
       None \<Rightarrow>
         (case filter (\<lambda>i. \<not> gi_schedulable i) parsed of
            [] \<Rightarrow> (Inr selection, s)
          | i # _ \<Rightarrow> (Inl (QueueStateError (''Queue work item is not executable: ''
                       @ option_text (gi_exclusion_reason i))), s))
     | Some selected_id \<Rightarrow>
         try_res (item_of (wf_task_backlog w) selected_id) s (\<lambda>item.
         try_res (some_or (find (\<lambda>c. gi_item_id c = selected_id) parsed)
                    (QueueStateError ''Selected queue work item no longer exists.'')) s (\<lambda>selected.
         try_res (check_that (gi_schedulable selected)
                    (QueueStateError (''Selected queue work item is not schedulable: ''
                       @ option_text (gi_exclusion_reason selected)))) s (\<lambda>_.
         try_res (check_that (gi_state selected \<in> Some ` set eligible_states)
                    (QueueStateError (''Selected queue work item is not executable: ''
                       @ gi_state_label selected))) s (\<lambda>_.
         let w' = (with_item s (start_item s item) w)\<lparr>wf_active_task_id := Some (item_id_of item)\<rparr>
         in (Inr selection,
             audit_queue ''QUEUE_WORK_ITEM_STARTED'' actor w' ''start_queue_work_item''
               (item_id_of item) [(''workflow_id'', JStr (wf_id w)),
                 (''selection_reason'', JStr (qs_reason selection))] (put_workflow w' s)))))))))) "

subsection \<open>Blocking\<close>

record block_request =
  bq_blocking_state :: queue_state
  bq_blocking_reason :: string
  bq_blocker_category :: string
  bq_resume_condition :: string
  bq_work_completed :: "string list option"
  bq_implementation_head :: "string option"
  bq_pending_decision_or_dependency :: "string option"
  bq_known_risks :: "string list option"
  bq_relevant_artifacts :: "string list option"
  bq_repair_counters :: "json_object option"
  bq_approval_requirements :: "string list option"
  bq_next_safe_action :: string
  bq_stale_state_validation_requirements :: "string list option"

text \<open>\<open>x or d\<close> of an optional list.\<close>

definition list_or :: "'a list option \<Rightarrow> 'a list \<Rightarrow> 'a list" where
  "list_or x d = (case x of None \<Rightarrow> d | Some l \<Rightarrow> if l = [] then d else l)"

definition default_stale_requirements :: "string list" where
  "default_stale_requirements = [''current_block_checkpoint_id matches'',
     ''item_state matches blocking_state'', ''item_version matches checkpoint item_version'']"

definition block_checkpoint ::
  "db \<Rightarrow> workflow_row \<Rightarrow> string \<Rightarrow> queue_item \<Rightarrow> queue_state \<Rightarrow> block_request \<Rightarrow> block_entry" where
  "block_checkpoint s w item_id item prior q =
     \<lparr>be_id = fresh_id ''queue_checkpoint'' s, be_workflow_id = wf_id w, be_item_id = item_id,
      be_prior_state = prior, be_blocking_state = bq_blocking_state q,
      be_blocking_reason = bq_blocking_reason q, be_blocker_category = bq_blocker_category q,
      be_work_completed = list_or (bq_work_completed q) (qi_completed_substeps item),
      be_implementation_head = bq_implementation_head q,
      be_pending_decision_or_dependency = bq_pending_decision_or_dependency q,
      be_resume_condition = bq_resume_condition q, be_known_risks = list_or (bq_known_risks q) [],
      be_relevant_artifacts = list_or (bq_relevant_artifacts q) [],
      be_repair_counters = list_or (bq_repair_counters q) (wf_repair_counters w),
      be_approval_requirements = list_or (bq_approval_requirements q) [],
      be_next_safe_action = bq_next_safe_action q,
      be_stale_state_validation_requirements =
        list_or (bq_stale_state_validation_requirements q) default_stale_requirements,
      be_created_at = utc_now s, be_item_version = qi_version item\<rparr>"

definition block_item :: "db \<Rightarrow> block_entry \<Rightarrow> block_request \<Rightarrow> queue_item \<Rightarrow> queue_item" where
  "block_item s ck q item = set_state s (bq_blocking_state q)
     (item\<lparr>qi_block_checkpoints := qi_block_checkpoints item @ [ck],
       qi_current_block_checkpoint_id := Some (be_id ck), qi_blocked_at := Some (utc_now s),
       qi_blocking_reason := Some (bq_blocking_reason q),
       qi_blocker_category := Some (bq_blocker_category q),
       qi_resume_condition := Some (bq_resume_condition q),
       qi_work_completed := be_work_completed ck,
       qi_completed_substeps := merge_substeps (qi_completed_substeps item) (be_work_completed ck)\<rparr>)"

definition block_metadata :: "workflow_row \<Rightarrow> string \<Rightarrow> string \<Rightarrow> json_object" where
  "block_metadata w item_id checkpoint_id = [(''workflow_id'', JStr (wf_id w)), (''item_id'', JStr item_id),
     (''queue_checkpoint_id'', JStr checkpoint_id)]"

text \<open>The part the two blocking operations share, once their guards have passed.\<close>

definition record_block ::
  "string \<Rightarrow> workflow_row \<Rightarrow> string \<Rightarrow> queue_item \<Rightarrow> queue_state \<Rightarrow> block_request \<Rightarrow> actor \<Rightarrow>
   db \<Rightarrow> block_entry res \<times> db" where
  "record_block action w item_id item prior q actor s =
     (let s1 = bump_id ''queue_checkpoint'' s;
          ck = block_checkpoint s w item_id item prior q;
          w' = (with_item s1 (block_item s1 ck q item) w)
                 \<lparr>wf_active_task_id := None, wf_checkpoint_history := wf_checkpoint_history w @ [be_id ck]\<rparr>
      in (Inr ck, audit_queue ''QUEUE_WORK_ITEM_BLOCKED'' actor w' action
            (queue_state_value (bq_blocking_state q)) (block_metadata w item_id (be_id ck)) (put_workflow w' s1)))"

definition blocking_state_required :: "queue_state \<Rightarrow> unit res" where
  "blocking_state_required q = check_that (q \<in> set blocked_states)
     (QueueStateError (''Blocking state required, got '' @ queue_state_value q))"

definition block_running_item ::
  "string \<Rightarrow> string \<Rightarrow> block_request \<Rightarrow> actor \<Rightarrow> db \<Rightarrow> block_entry res \<times> db" where
  "block_running_item workflow_id item_id q actor s =
     try_res (blocking_state_required (bq_blocking_state q)) s (\<lambda>_.
     try_res (workflow_of workflow_id s) s (\<lambda>w.
     try_res (item_of (wf_task_backlog w) item_id) s (\<lambda>item.
     try_res (state_of item) s (\<lambda>prior.
     try_res (check_that (prior = queue_state.RUNNING)
                (QueueStateError (''Only RUNNING work can be blocked, got '' @ queue_state_value prior))) s (\<lambda>_.
     record_block ''block_queue_work_item'' w item_id item prior q actor s)))))"

definition block_dispatch_selected_item ::
  "string \<Rightarrow> string \<Rightarrow> queue_state \<Rightarrow> int \<Rightarrow> block_request \<Rightarrow> actor \<Rightarrow> db \<Rightarrow> block_entry res \<times> db" where
  "block_dispatch_selected_item workflow_id item_id expected_state expected_version q actor s =
     try_res (blocking_state_required (bq_blocking_state q)) s (\<lambda>_.
     try_res (check_that (expected_state \<in> set eligible_states)
                (QueueStateError (''Dispatch-selected item must be READY or READY_TO_RESUME, got ''
                   @ queue_state_value expected_state))) s (\<lambda>_.
     try_res (workflow_of workflow_id s) s (\<lambda>w.
     try_res (item_of (wf_task_backlog w) item_id) s (\<lambda>item.
     try_res (state_of item) s (\<lambda>prior.
     try_res (check_that (prior = expected_state)
                (QueueStateError ''Stale dispatch selection cannot block newer queue state.'')) s (\<lambda>_.
     try_res (check_that (qi_version item = expected_version)
                (QueueStateError ''Stale dispatch selection version cannot block newer queue state.'')) s (\<lambda>_.
     record_block ''block_dispatch_selected_queue_work_item'' w item_id item prior q actor s)))))))"

subsection \<open>Repairing, resolving and completing\<close>

text \<open>The guards that repair and resolution share: the checkpoint and the version must be the
  item's own, and the item must be blocked.\<close>

definition current_block :: "string \<Rightarrow> string \<Rightarrow> int \<Rightarrow> queue_item \<Rightarrow> unit res" where
  "current_block verb checkpoint_id expected_version item =
     bind_res (check_that (qi_current_block_checkpoint_id item = Some checkpoint_id)
       (QueueStateError (''Stale checkpoint cannot '' @ verb @ '' newer queue state.''))) (\<lambda>_.
     bind_res (check_that (qi_version item = expected_version)
       (QueueStateError (''Stale item version cannot '' @ verb @ '' queue state.''))) (\<lambda>_.
     bind_res (state_of item) (\<lambda>st.
     check_that (st \<in> set blocked_states)
       (QueueStateError (''Blocked item required, got '' @ queue_state_value st)))))"

definition allowed_context_limit_keys :: "string list" where
  "allowed_context_limit_keys = [''deterministic_verification'', ''read_only_context_paths'']"

definition valid_context_paths :: "json \<Rightarrow> bool" where
  "valid_context_paths v =
     (case v of JList ps \<Rightarrow> ps \<noteq> [] \<and>
        list_all (\<lambda>p. case p of JStr t \<Rightarrow> py_strip t \<noteq> [] | _ \<Rightarrow> False) ps
      | _ \<Rightarrow> False)"

definition valid_patch :: "json_object \<Rightarrow> unit res" where
  "valid_patch patch =
     (let forbidden = sorted_set (filter (\<lambda>k. k \<notin> set allowed_context_limit_keys) (map fst patch)) in
      bind_res (check_that (forbidden = [])
        (QueueStateError (''Unsafe context_limits repair keys are not allowed: '' @ join_with '', '' forbidden))) (\<lambda>_.
      bind_res (check_that (case jget ''deterministic_verification'' patch of
                              None \<Rightarrow> True | Some v \<Rightarrow> v = JBool True)
        (QueueStateError ''deterministic_verification repair may only set the value to true.'')) (\<lambda>_.
      check_that (case jget ''read_only_context_paths'' patch of
                    None \<Rightarrow> True | Some v \<Rightarrow> valid_context_paths v)
        (QueueStateError ''read_only_context_paths repair requires a non-empty list of non-empty strings.''))))"

text \<open>\<open>dict(context_limits_patch or {})\<close> is the list of the patch's members.\<close>

definition repaired :: "db \<Rightarrow> int option \<Rightarrow> json_object \<Rightarrow> queue_item \<Rightarrow> queue_item" where
  "repaired s tm patch x = x\<lparr>qi_timeout_seconds := (case tm of None \<Rightarrow> qi_timeout_seconds x | Some t \<Rightarrow> Some t),
     qi_context_limits := jupdate (qi_context_limits x) patch, qi_version := qi_version x + 1,
     qi_updated_at := Some (utc_now s)\<rparr>"

definition configuration_json :: "queue_item \<Rightarrow> json" where
  "configuration_json x = JObj [(''timeout_seconds'', jint (qi_timeout_seconds x)),
     (''context_limits'', JObj (qi_context_limits x))]"

definition repair_metadata :: "workflow_row \<Rightarrow> string \<Rightarrow> string \<Rightarrow> queue_item \<Rightarrow> queue_item \<Rightarrow> json_object" where
  "repair_metadata w item_id checkpoint_id before after = block_metadata w item_id checkpoint_id
     @ [(''previous_version'', JInt (qi_version before)), (''new_version'', JInt (qi_version after)),
        (''before'', configuration_json before), (''after'', configuration_json after)]"

definition repair_blocked_item_configuration ::
  "string \<Rightarrow> string \<Rightarrow> string \<Rightarrow> int \<Rightarrow> int option \<Rightarrow> json_object \<Rightarrow> actor \<Rightarrow>
   db \<Rightarrow> queue_item res \<times> db" where
  "repair_blocked_item_configuration workflow_id item_id checkpoint_id expected_version
       timeout_seconds patch actor s =
     try_res (workflow_of workflow_id s) s (\<lambda>w.
     try_res (item_of (wf_task_backlog w) item_id) s (\<lambda>item.
     try_res (current_block ''repair'' checkpoint_id expected_version item) s (\<lambda>_.
     try_res (check_that (case timeout_seconds of None \<Rightarrow> True | Some t \<Rightarrow> 0 < t)
                (QueueStateError ''timeout_seconds repair must be a positive integer.'')) s (\<lambda>_.
     try_res (valid_patch patch) s (\<lambda>_.
     let item' = repaired s timeout_seconds patch item;
         w' = with_item s item' w
     in (Inr item', audit_queue ''QUEUE_WORK_ITEM_CONFIGURATION_REPAIRED'' actor w'
           ''repair_blocked_queue_work_item_configuration'' item_id
           (repair_metadata w item_id checkpoint_id item item') (put_workflow w' s)))))))"

definition resolved :: "db \<Rightarrow> string \<Rightarrow> queue_item \<Rightarrow> queue_item" where
  "resolved s ev x = set_state s READY_TO_RESUME
     (x\<lparr>qi_resolution_event := Some ev, qi_resolved_at := Some (utc_now s)\<rparr>)"

definition resolve_blocker ::
  "string \<Rightarrow> string \<Rightarrow> string \<Rightarrow> int \<Rightarrow> string \<Rightarrow> actor \<Rightarrow> db \<Rightarrow> queue_item res \<times> db" where
  "resolve_blocker workflow_id item_id checkpoint_id expected_version resolution_event actor s =
     try_res (workflow_of workflow_id s) s (\<lambda>w.
     try_res (item_of (wf_task_backlog w) item_id) s (\<lambda>item.
     try_res (current_block ''resolve'' checkpoint_id expected_version item) s (\<lambda>_.
     let item' = resolved s resolution_event item;
         w' = with_item s item' w
     in (Inr item', audit_queue ''QUEUE_WORK_ITEM_READY_TO_RESUME'' actor w' ''resolve_queue_blocker''
           (queue_state_value READY_TO_RESUME) (block_metadata w item_id checkpoint_id) (put_workflow w' s)))))"

definition completed_item_ids :: "queue_item list \<Rightarrow> string list" where
  "completed_item_ids items = map item_id_of (filter (\<lambda>i. state_if_valid i = Some queue_state.COMPLETED) items)"

definition pending_item_ids :: "queue_item list \<Rightarrow> string list" where
  "pending_item_ids items = map item_id_of (filter (\<lambda>i.
     state_if_valid i \<notin> Some ` set terminal_states) items)"

definition completed :: "db \<Rightarrow> string list \<Rightarrow> queue_item \<Rightarrow> queue_item" where
  "completed s substeps x = set_state s queue_state.COMPLETED
     (x\<lparr>qi_completed_substeps := append_new (qi_completed_substeps x) substeps,
       qi_completed_at := Some (utc_now s)\<rparr>)"

definition completed_workflow :: "db \<Rightarrow> string \<Rightarrow> queue_item \<Rightarrow> workflow_row \<Rightarrow> workflow_row" where
  "completed_workflow s k y w = (with_item s y w)
     \<lparr>wf_active_task_id := (if wf_active_task_id w = Some k then None else wf_active_task_id w),
      wf_completed_task_ids := sorted_set (completed_item_ids (tput item_id_of y (wf_task_backlog w))),
      wf_pending_task_ids := sorted_set (pending_item_ids (tput item_id_of y (wf_task_backlog w)))\<rparr>"

definition completion_metadata ::
  "workflow_row \<Rightarrow> string \<Rightarrow> string \<Rightarrow> queue_item \<Rightarrow> queue_item \<Rightarrow> json_object" where
  "completion_metadata w workflow_id item_id before after = [(''workflow_id'', JStr (wf_id w)),
     (''requested_workflow_id'', JStr workflow_id), (''requested_item_id'', JStr item_id),
     (''completed_item_id'', JStr (item_id_of after)),
     (''completed_substeps'', jtexts (qi_completed_substeps after)),
     (''completed_previous_state'', JStr (state_text before)),
     (''completed_new_state'', JStr (queue_state_value queue_state.COMPLETED)),
     (''completed_previous_version'', JInt (qi_version before)),
     (''completed_new_version'', JInt (qi_version after)),
     (''mutation_identity_matches_request'', JBool (wf_id w = workflow_id \<and> item_id_of after = item_id))]"

definition complete_item ::
  "string \<Rightarrow> string \<Rightarrow> string list \<Rightarrow> actor \<Rightarrow> db \<Rightarrow> queue_item res \<times> db" where
  "complete_item workflow_id item_id completed_substeps actor s =
     try_res (workflow_of workflow_id s) s (\<lambda>w.
     try_res (executable_workflow w) s (\<lambda>_.
     try_res (item_of (wf_task_backlog w) item_id) s (\<lambda>item.
     try_res (execution_state item) s (\<lambda>target.
     try_res (check_that (target \<in> {queue_state.RUNNING, READY_TO_RESUME})
                (QueueStateError (''Cannot complete item from state '' @ queue_state_value target))) s (\<lambda>_.
     let item' = completed s completed_substeps item;
         w' = completed_workflow s item_id item' w
     in (Inr item', audit_queue ''QUEUE_WORK_ITEM_COMPLETED'' actor w' ''complete_queue_work_item''
           item_id (completion_metadata w workflow_id item_id item item') (put_workflow w' s)))))))"

subsection \<open>Inspection\<close>

record excluded_payload =
  xp_item :: queue_item
  xp_state_label :: string
  xp_raw_state :: "string option"
  xp_raw_priority :: "string option"
  xp_exclusion_reason :: "string option"
  xp_queue_state_present :: bool
  xp_priority_valid :: bool

definition excluded_payload_of :: "global_item \<Rightarrow> excluded_payload" where
  "excluded_payload_of i = \<lparr>xp_item = gi_item i, xp_state_label = gi_state_label i,
     xp_raw_state = gi_raw_state i, xp_raw_priority = gi_raw_priority i,
     xp_exclusion_reason = gi_exclusion_reason i,
     xp_queue_state_present = gi_queue_state_present i, xp_priority_valid = gi_priority_valid i\<rparr>"

record queue_status =
  st_workflow_id :: string
  st_running :: "queue_item list"
  st_blocked :: "queue_item list"
  st_ready :: "queue_item list"
  st_ready_to_resume :: "queue_item list"
  st_dependency_blocked :: "queue_item list"
  st_completed :: "queue_item list"
  st_failed :: "queue_item list"
  st_excluded :: "excluded_payload list"
  st_next_selection :: queue_selection

definition inspect :: "string \<Rightarrow> db \<Rightarrow> queue_status res" where
  "inspect workflow_id s =
     bind_res (workflow_of workflow_id s) (\<lambda>w.
     bind_res (execution_items w) (\<lambda>parsed.
     let executable = filter gi_schedulable parsed;
         in_state = (\<lambda>q. filter (\<lambda>i. gi_state i = Some q) executable);
         complete = (\<lambda>i. global_dependencies_complete i executable)
     in bind_res (select_next workflow_id s) (\<lambda>selection.
       Inr \<lparr>st_workflow_id = wf_id w,
         st_running = map gi_item (in_state queue_state.RUNNING),
         st_blocked = map gi_item (filter is_blocked executable),
         st_ready = map gi_item (filter complete (in_state queue_state.READY)),
         st_ready_to_resume = map gi_item (filter complete (in_state READY_TO_RESUME)),
         st_dependency_blocked = map gi_item (filter (\<lambda>i. \<not> complete i) executable),
         st_completed = map gi_item (in_state queue_state.COMPLETED),
         st_failed = map gi_item (in_state queue_state.FAILED),
         st_excluded = map excluded_payload_of (filter (\<lambda>i. \<not> gi_schedulable i) parsed),
         st_next_selection = selection\<rparr>)))"

section \<open>Selection across workflows\<close>

record workflow_exclusion =
  we_project_id :: "string option"
  we_workflow_id :: string
  we_workflow_state :: workflow_state
  we_reason :: string
  we_item_count :: nat
  we_items :: "global_item list"

record global_selection =
  gs_selected_project_id :: "string option"
  gs_selected_workflow_id :: "string option"
  gs_selected_item_id :: "string option"
  gs_reason :: string
  gs_selected_item_version :: "int option"
  gs_started_project_id :: "string option"
  gs_started_workflow_id :: "string option"
  gs_started_item_id :: "string option"
  gs_started_previous_state :: "string option"
  gs_started_new_state :: "string option"
  gs_started_previous_version :: "int option"
  gs_started_new_version :: "int option"
  gs_mutation_identity_matches_selection :: "bool option"
  gs_eligible_items :: "global_item list"
  gs_blocked_items :: "global_item list"
  gs_running_items :: "global_item list"
  gs_excluded_items :: "global_item list"

definition no_selection :: "string \<Rightarrow> global_selection" where
  "no_selection reason = \<lparr>gs_selected_project_id = None, gs_selected_workflow_id = None,
     gs_selected_item_id = None, gs_reason = reason, gs_selected_item_version = None,
     gs_started_project_id = None, gs_started_workflow_id = None, gs_started_item_id = None,
     gs_started_previous_state = None, gs_started_new_state = None,
     gs_started_previous_version = None, gs_started_new_version = None,
     gs_mutation_identity_matches_selection = None, gs_eligible_items = [],
     gs_blocked_items = [], gs_running_items = [], gs_excluded_items = []\<rparr>"

text \<open>An empty list of ids is falsy, as \<open>None\<close> is: all workflows, ordered by id.\<close>

definition global_workflows :: "string list option \<Rightarrow> db \<Rightarrow> workflow_row list res" where
  "global_workflows workflow_ids s =
     bind_res (if list_or workflow_ids [] \<noteq> [] then map_res (\<lambda>i. workflow_of i s) (the workflow_ids)
               else Inr (sort_key wf_id (workflows s)))
       (\<lambda>ws. Inr (filter (\<lambda>w. wf_task_backlog w \<noteq> []) ws))"

definition exclude_workflow :: "workflow_row \<Rightarrow> string \<Rightarrow> workflow_exclusion res" where
  "exclude_workflow w reason =
     bind_res (global_items (Some reason) [w]) (\<lambda>items.
       Inr \<lparr>we_project_id = wf_project_id w, we_workflow_id = wf_id w,
         we_workflow_state = wf_workflow_state w, we_reason = reason,
         we_item_count = length (wf_task_backlog w), we_items = items\<rparr>)"

fun partition_global_workflows ::
  "workflow_row list \<Rightarrow> (workflow_row list \<times> workflow_exclusion list) res" where
  "partition_global_workflows [] = Inr ([], [])"
| "partition_global_workflows (w # ws) =
     (case workflow_execution_exclusion_reason w of
        None \<Rightarrow> bind_res (partition_global_workflows ws) (\<lambda>(sched, excl). Inr (w # sched, excl))
      | Some reason \<Rightarrow>
          bind_res (exclude_workflow w reason) (\<lambda>x.
          bind_res (partition_global_workflows ws) (\<lambda>(sched, excl). Inr (sched, x # excl))))"

definition global_selection_of ::
  "global_item list \<Rightarrow> workflow_exclusion list \<Rightarrow> global_selection res" where
  "global_selection_of items lifecycle_excluded =
     (let stateful = filter gi_queue_state_present items;
          executable = filter gi_schedulable items;
          excluded = concat (map we_items lifecycle_excluded) @ filter (\<lambda>i. \<not> gi_schedulable i) items
      in bind_res (validate_global_running_identities stateful) (\<lambda>_.
         let running = filter is_running stateful;
             eligible = filter (\<lambda>i. global_is_eligible i executable) executable;
             blocked = selection_blocked executable
         in Inr (
           if running \<noteq> []
           then (no_selection ''GLOBAL_RUNNING_ITEM_ACTIVE_NO_PREEMPTION'')
             \<lparr>gs_running_items := running, gs_excluded_items := excluded\<rparr>
           else case pick global_selection_key eligible of
             None \<Rightarrow> (no_selection ''NO_GLOBAL_ELIGIBLE_WORK'')
               \<lparr>gs_blocked_items := blocked, gs_excluded_items := excluded\<rparr>
           | Some selected \<Rightarrow> (no_selection (global_selection_reason selected))
               \<lparr>gs_selected_project_id := gi_project_id selected,
                gs_selected_workflow_id := Some (gi_workflow_id selected),
                gs_selected_item_id := Some (gi_item_id selected),
                gs_selected_item_version := Some (gi_version selected),
                gs_eligible_items := sort_key global_selection_key eligible,
                gs_blocked_items := blocked, gs_excluded_items := excluded\<rparr>)))"

definition select_global_next :: "string list option \<Rightarrow> db \<Rightarrow> global_selection res" where
  "select_global_next workflow_ids s =
     bind_res (global_workflows workflow_ids s) (\<lambda>ws.
     bind_res (partition_global_workflows ws) (\<lambda>(sched, excl).
     bind_res (global_items None sched) (\<lambda>items.
     global_selection_of items excl)))"

definition same_selection :: "global_selection \<Rightarrow> global_selection \<Rightarrow> bool" where
  "same_selection a b =
     (gs_selected_project_id a = gs_selected_project_id b
      \<and> gs_selected_workflow_id a = gs_selected_workflow_id b
      \<and> gs_selected_item_id a = gs_selected_item_id b
      \<and> gs_selected_item_version a = gs_selected_item_version b)"

definition in_scope :: "string list option \<Rightarrow> string \<Rightarrow> bool" where
  "in_scope workflow_ids i = (case workflow_ids of None \<Rightarrow> True | Some is \<Rightarrow> is = [] \<or> i \<in> set is)"

text \<open>What \<open>_start_global_selection\<close> checks before it writes: the workflow, the raw
  item and the parsed item to start.\<close>

definition admit_global_selection ::
  "global_selection \<Rightarrow> string list option \<Rightarrow> db \<Rightarrow> (workflow_row \<times> queue_item \<times> global_item) res" where
  "admit_global_selection sel workflow_ids s =
     bind_res (workflow_of (or_else (gs_selected_workflow_id sel) []) s) (\<lambda>w.
     bind_res (check_that (in_scope workflow_ids (wf_id w))
       (QueueStateError ''Global selection workflow is outside requested scope.'')) (\<lambda>_.
     bind_res (check_that (workflow_execution_exclusion_reason w = None)
       (QueueStateError ''Stale global selection: workflow is no longer schedulable.'')) (\<lambda>_.
     bind_res (select_global_next workflow_ids s) (\<lambda>current.
     bind_res (check_that (same_selection current sel)
       (QueueStateError ''Stale global selection: caller must re-run global selection.'')) (\<lambda>_.
     bind_res (execution_items w) (\<lambda>parsed.
     bind_res (validate_global_running_identities (filter gi_queue_state_present parsed)) (\<lambda>_.
     bind_res (check_that (filter is_running parsed = [])
       (QueueStateError ''Stale global selection: running item active, no preemption allowed.'')) (\<lambda>_.
     bind_res (item_of (wf_task_backlog w) (or_else (gs_selected_item_id sel) [])) (\<lambda>item.
     bind_res (some_or (find (\<lambda>c. Some (gi_item_id c) = gs_selected_item_id sel) parsed)
       (QueueStateError ''Stale global selection: selected item no longer exists.'')) (\<lambda>selected.
     bind_res (check_that (gi_schedulable selected)
       (QueueStateError (''Selected global item is not schedulable: ''
          @ option_text (gi_exclusion_reason selected)))) (\<lambda>_.
     bind_res (check_that (gi_state selected \<in> Some ` set eligible_states)
       (QueueStateError (''Selected global item is no longer eligible: '' @ gi_state_label selected))) (\<lambda>_.
     bind_res (check_that (global_dependencies_complete selected parsed)
       (QueueStateError ''Selected global item dependencies are no longer complete.'')) (\<lambda>_.
     bind_res (case gs_eligible_items current of [] \<Rightarrow> Inl (IndexError ''list index out of range'')
               | first # _ \<Rightarrow> check_that (global_selection_key selected = global_selection_key first)
                   (QueueStateError ''Stale global selection: ordering changed, caller must re-run global selection.''))
       (\<lambda>_. Inr (w, item, selected)))))))))))))))"

definition start_global_selection ::
  "global_selection \<Rightarrow> string list option \<Rightarrow> actor \<Rightarrow> db \<Rightarrow> global_selection res \<times> db" where
  "start_global_selection sel workflow_ids actor s =
     try_res (admit_global_selection sel workflow_ids s) s (\<lambda>(w, item, selected).
     let item' = start_item s item;
         w' = (with_item s item' w)\<lparr>wf_active_task_id := Some (item_id_of item)\<rparr>;
         s1 = put_workflow w' s
     in if gs_selected_project_id sel \<noteq> wf_project_id w \<or> gs_selected_workflow_id sel \<noteq> Some (wf_id w)
           \<or> gs_selected_item_id sel \<noteq> Some (item_id_of item)
        then (Inl (QueueStateError ''Global selection identity did not match mutation identity.''), s1)
        else (Inr (sel\<lparr>gs_started_project_id := wf_project_id w, gs_started_workflow_id := Some (wf_id w),
                gs_started_item_id := Some (item_id_of item),
                gs_started_previous_state := Some (gi_state_label selected),
                gs_started_new_state := Some ''RUNNING'',
                gs_started_previous_version := Some (qi_version item),
                gs_started_new_version := Some (qi_version item'),
                gs_mutation_identity_matches_selection := Some True\<rparr>),
              audit_queue ''GLOBAL_QUEUE_WORK_ITEM_STARTED'' actor w' ''start_global_queue_work_item''
                (item_id_of item) [(''workflow_id'', JStr (wf_id w)), (''selection_reason'', JStr (gs_reason sel)),
                  (''selected_item_version'', jint (gs_selected_item_version sel)),
                  (''started_previous_version'', JInt (qi_version item)),
                  (''started_new_version'', JInt (qi_version item')),
                  (''mutation_identity_matches_selection'', JBool True)] s1))"

definition start_selected_global_item ::
  "global_selection \<Rightarrow> string list option \<Rightarrow> actor \<Rightarrow> db \<Rightarrow> global_selection res \<times> db" where
  "start_selected_global_item sel workflow_ids actor s =
     (if gs_selected_workflow_id sel = None then (Inr sel, s)
      else start_global_selection sel workflow_ids actor s)"

definition start_global_next ::
  "string list option \<Rightarrow> actor \<Rightarrow> db \<Rightarrow> global_selection res \<times> db" where
  "start_global_next workflow_ids actor s =
     try_res (select_global_next workflow_ids s) s (\<lambda>sel.
       start_selected_global_item sel workflow_ids actor s)"

record global_status =
  gl_observed_workflow_ids :: "string list"
  gl_workflow_ids :: "string list"
  gl_active_project_ids :: "string list"
  gl_running :: "global_item list"
  gl_blocked :: "global_item list"
  gl_ready :: "global_item list"
  gl_ready_to_resume :: "global_item list"
  gl_dependency_blocked :: "global_item list"
  gl_completed :: "global_item list"
  gl_failed :: "global_item list"
  gl_legacy_unschedulable :: "global_item list"
  gl_lifecycle_excluded :: "workflow_exclusion list"
  gl_next_selection :: global_selection

definition inspect_global :: "string list option \<Rightarrow> db \<Rightarrow> global_status res" where
  "inspect_global workflow_ids s =
     bind_res (global_workflows workflow_ids s) (\<lambda>ws.
     bind_res (partition_global_workflows ws) (\<lambda>(sched, excl).
     bind_res (global_items None sched) (\<lambda>items.
     let executable = filter gi_schedulable items;
         in_state = (\<lambda>q. filter (\<lambda>i. gi_state i = Some q) executable);
         complete = (\<lambda>i. global_dependencies_complete i executable)
     in bind_res (select_global_next (Some (map wf_id ws)) s) (\<lambda>selection.
       Inr \<lparr>gl_observed_workflow_ids = map wf_id ws, gl_workflow_ids = map wf_id sched,
         gl_active_project_ids = sorted_set (concat (map (\<lambda>i.
           if truthy (gi_project_id i) then [the (gi_project_id i)] else []) executable)),
         gl_running = in_state queue_state.RUNNING, gl_blocked = filter is_blocked executable,
         gl_ready = filter complete (in_state queue_state.READY),
         gl_ready_to_resume = filter complete (in_state READY_TO_RESUME),
         gl_dependency_blocked = filter (\<lambda>i. \<not> complete i) executable,
         gl_completed = in_state queue_state.COMPLETED, gl_failed = in_state queue_state.FAILED,
         gl_legacy_unschedulable = filter (\<lambda>i. \<not> gi_queue_state_present i) items,
         gl_lifecycle_excluded = excl, gl_next_selection = selection\<rparr>))))"

section \<open>Facts of the raw items\<close>

definition raw_state :: "queue_item \<Rightarrow> queue_state option" where
  "raw_state item = (case qi_state item of Text t \<Rightarrow> queue_state_of t | _ \<Rightarrow> None)"

definition raw_running :: "queue_item \<Rightarrow> bool" where
  "raw_running item = (raw_state item = Some queue_state.RUNNING)"

definition raw_priority :: "queue_item \<Rightarrow> string" where
  "raw_priority item = (case qi_priority item of Text p \<Rightarrow> p | _ \<Rightarrow> ''NORMAL'')"

definition raw_schedulable :: "queue_item \<Rightarrow> bool" where
  "raw_schedulable item = (raw_state item \<noteq> None \<and> raw_priority item \<in> set valid_priorities)"

text \<open>The eligibility of a raw item of a backlog, read off the items directly.\<close>

definition raw_eligible :: "queue_item list \<Rightarrow> queue_item \<Rightarrow> bool" where
  "raw_eligible items item \<longleftrightarrow> raw_schedulable item
     \<and> raw_state item \<in> {Some queue_state.READY, Some READY_TO_RESUME}
     \<and> (\<forall>d \<in> set (qi_dependencies item). \<exists>x \<in> set items. item_id_of x = d
          \<and> raw_state x = Some queue_state.COMPLETED \<and> raw_schedulable x)"

definition raw_key :: "queue_item \<Rightarrow> nat \<times> nat \<times> int \<times> string" where
  "raw_key item = (priority_rank (raw_priority item), state_class_rank (raw_state item),
     qi_created_order item, item_id_of item)"

lemma normal_valid [simp]: "''NORMAL'' \<in> set valid_priorities"
  by (simp add: valid_priorities_def)

lemma parse_simps [simp]:
  "ps_state (parse_global_state item) = raw_state item"
  "ps_exclusion_reason (parse_global_state item) = None \<longleftrightarrow> raw_state item \<noteq> None"
  "pp_priority (parse_global_priority item) = raw_priority item"
  "pp_exclusion_reason (parse_global_priority item) = None \<longleftrightarrow> raw_priority item \<in> set valid_priorities"
  by (simp_all add: parse_global_state_def raw_state_def parse_global_priority_def raw_priority_def
      split: raw_field.split option.split)

lemma first_reason_None [simp]: "first_reason a b = None \<longleftrightarrow> a = None \<and> b = None"
  by (simp add: first_reason_def split: option.split)

lemma global_item_simps [simp]:
  "gi_item_id (global_item_of r w item) = item_id_of item"
  "gi_workflow_id (global_item_of r w item) = wf_id w"
  "gi_project_id (global_item_of r w item) = wf_project_id w"
  "gi_state (global_item_of r w item) = raw_state item"
  "gi_priority (global_item_of r w item) = raw_priority item"
  "gi_created_order (global_item_of r w item) = qi_created_order item"
  "gi_version (global_item_of r w item) = qi_version item"
  "gi_dependencies (global_item_of r w item) = qi_dependencies item"
  "gi_item (global_item_of r w item) = item"
  "gi_queue_state_present (global_item_of r w item) = (raw_state item \<noteq> None)"
  "gi_schedulable (global_item_of None w item) = raw_schedulable item"
  "gi_schedulable (global_item_of (Some x) w item) = False"
  "is_running (global_item_of r w item) = raw_running item"
  by (auto simp: global_item_of_def Let_def raw_schedulable_def is_running_def raw_running_def)

lemma raw_running_iff: "raw_running item \<longleftrightarrow> qi_state item = Text ''RUNNING''"
  using queue_state_of_value [of queue_state.RUNNING]
  by (auto simp: raw_running_def raw_state_def split: raw_field.splits dest: queue_state_of_Some)

lemma state_if_valid_raw: "raw_state item = Some q \<Longrightarrow> state_if_valid item = Some q"
  by (auto simp: raw_state_def state_if_valid_def state_text_def split: raw_field.splits)

lemma raw_running_valid: "raw_running item \<longleftrightarrow> state_if_valid item = Some queue_state.RUNNING"
  by (cases "qi_state item")
    (auto simp: raw_running_def raw_state_def state_if_valid_def state_text_def queue_state_of_def
      all_queue_states_def)

lemma upper_valid: "p \<in> set valid_priorities \<Longrightarrow> py_upper p = p"
  by (auto simp: valid_priorities_def py_upper_def upper_char_def)

lemma scoped_key_raw:
  "raw_schedulable item \<Longrightarrow> scoped_selection_key (global_item_of r w item) = raw_key item"
  by (simp add: scoped_selection_key_def raw_key_def raw_schedulable_def upper_valid)

lemma execution_items_Inr [op_simps]:
  "execution_items w = Inr ps \<longleftrightarrow> distinct (map item_id_of (wf_task_backlog w))
     \<and> ps = map (global_item_of None w) (wf_task_backlog w)"
  by (auto simp: execution_items_def global_items_def workflow_items_def validate_unique_item_ids_def)

lemma workflow_of_Inr [op_simps]: "workflow_of i s = Inr w \<longleftrightarrow> get_workflow i s = Some w"
  by (simp add: workflow_of_def)

lemma executable_workflow_Inr [op_simps]:
  "executable_workflow w = Inr u \<longleftrightarrow> wf_workflow_state w \<in> set execution_eligible_states"
  by (simp add: executable_workflow_def workflow_execution_exclusion_reason_def)

lemma item_of_Inr [op_simps]: "item_of items i = Inr item \<longleftrightarrow> tget item_id_of i items = Some item"
  by (simp add: item_of_def)

lemma state_of_Inr [op_simps]: "state_of item = Inr q \<longleftrightarrow> state_if_valid item = Some q"
  by (simp add: state_of_def)

lemma execution_state_Inr [op_simps]: "execution_state item = Inr q \<longleftrightarrow> raw_state item = Some q"
  by (auto simp: execution_state_def raw_state_def split: raw_field.splits)

lemma current_block_Inr [op_simps]:
  "current_block verb c v item = Inr u \<longleftrightarrow> qi_current_block_checkpoint_id item = Some c
     \<and> qi_version item = v \<and> (\<exists>q \<in> set blocked_states. state_if_valid item = Some q)"
  by (auto simp: current_block_def state_of_Inr)

lemma blocking_state_required_Inr [op_simps]:
  "blocking_state_required q = Inr u \<longleftrightarrow> q \<in> set blocked_states"
  by (simp add: blocking_state_required_def)

lemma set_state_simps [simp]:
  "item_id_of (set_state s q item) = item_id_of item" "qi_version (set_state s q item) = qi_version item + 1"
  "raw_state (set_state s q item) = Some q" "state_if_valid (set_state s q item) = Some q"
  "qi_dependencies (set_state s q item) = qi_dependencies item"
  "qi_current_block_checkpoint_id (set_state s q item) = qi_current_block_checkpoint_id item"
  by (simp_all add: set_state_def item_id_of_def raw_state_def state_if_valid_def state_text_def)

lemma start_item_simps [simp]:
  "item_id_of (start_item s item) = item_id_of item" "qi_version (start_item s item) = qi_version item + 1"
  "state_if_valid (start_item s item) = Some queue_state.RUNNING"
  by (simp_all add: start_item_def item_id_of_def set_state_def state_if_valid_def state_text_def
      flip: queue_state_value.simps)

lemma block_item_simps [simp]:
  "item_id_of (block_item s ck q item) = item_id_of item"
  "qi_version (block_item s ck q item) = qi_version item + 1"
  "state_if_valid (block_item s ck q item) = Some (bq_blocking_state q)"
  "qi_current_block_checkpoint_id (block_item s ck q item) = Some (be_id ck)"
  by (simp_all add: block_item_def) (simp add: item_id_of_def)

lemma with_item_simps [simp]:
  "wf_id (with_item s item w) = wf_id w"
  "wf_task_backlog (with_item s item w) = tput item_id_of item (wf_task_backlog w)"
  "wf_workflow_state (with_item s item w) = wf_workflow_state w"
  "wf_project_id (with_item s item w) = wf_project_id w"
  by (simp_all add: with_item_def)

lemma audit_queue_frame [simp]:
  "workflows (audit_queue e a w ac re md s) = workflows s" "clock (audit_queue e a w ac re md s) = clock s"
  by (simp_all add: audit_queue_def)

lemma get_workflow_cong: "workflows s = workflows s' \<Longrightarrow> get_workflow i s = get_workflow i s'"
  by (simp add: get_workflow_def)

lemma get_workflow_audit [simp]: "get_workflow i (audit_queue e a w ac re md s) = get_workflow i s"
  by (simp add: get_workflow_def)

section \<open>Scoped selection\<close>

interpretation scoped_choice: ranked_choice scoped_selection_key "pick scoped_selection_key"
  by (rule ranked_choice_pick)

interpretation global_choice: ranked_choice global_selection_key "pick global_selection_key"
  by (rule ranked_choice_pick)

text \<open>The candidates of a selection among parsed items.\<close>

definition candidates_of :: "global_item list \<Rightarrow> global_item list" where
  "candidates_of parsed = filter (\<lambda>i. global_is_eligible i (filter gi_schedulable parsed))
     (filter gi_schedulable parsed)"

lemma eligible_states_image: "Some ` set eligible_states = {Some queue_state.READY, Some READY_TO_RESUME}"
  by (auto simp: eligible_states_def)

lemma completed_ids_raw:
  "d \<in> set (map gi_item_id (filter (\<lambda>c. gi_workflow_id c = wf_id w \<and> gi_state c = Some queue_state.COMPLETED)
       (filter gi_schedulable (map (global_item_of None w) items))))
     \<longleftrightarrow> (\<exists>x \<in> set items. item_id_of x = d \<and> raw_state x = Some queue_state.COMPLETED \<and> raw_schedulable x)"
  by (auto simp: filter_map o_def)

lemma global_eligible_raw:
  "raw_schedulable x \<Longrightarrow>
     global_is_eligible (global_item_of None w x) (filter gi_schedulable (map (global_item_of None w) items))
     \<longleftrightarrow> raw_eligible items x"
  unfolding global_is_eligible_def global_dependencies_complete_def Let_def list_all_iff
    raw_eligible_def eligible_states_image global_item_simps completed_ids_raw by auto

lemma candidate_iff:
  "g \<in> set (candidates_of (map (global_item_of None w) items))
     \<longleftrightarrow> (\<exists>x \<in> set items. g = global_item_of None w x \<and> raw_eligible items x)"
proof -
  have "raw_eligible items x \<Longrightarrow> raw_schedulable x" for x by (simp add: raw_eligible_def)
  then show ?thesis
    unfolding candidates_of_def using global_eligible_raw [of _ w items] by auto
qed

lemma no_running_iff:
  "filter is_running (filter gi_queue_state_present (map (global_item_of r w) items)) = []
     \<longleftrightarrow> (\<forall>x \<in> set items. \<not> raw_running x)"
  by (auto simp: filter_empty_conv raw_running_def)

lemma scoped_selection_shape:
  assumes "scoped_selection (map (global_item_of None w) items) = Inr sel"
  shows "qs_selected_item_id sel = (if \<exists>x \<in> set items. raw_running x then None
    else map_option gi_item_id (pick scoped_selection_key (candidates_of (map (global_item_of None w) items))))"
proof -
  have "qs_selected_item_id sel =
    (if filter is_running (filter gi_queue_state_present (map (global_item_of None w) items)) \<noteq> [] then None
     else map_option gi_item_id (pick scoped_selection_key (candidates_of (map (global_item_of None w) items))))"
    using assms by (auto simp: scoped_selection_def Let_def candidates_of_def split: option.splits)
  then show ?thesis unfolding no_running_iff by auto
qed

lemma select_next_Inr:
  assumes "get_workflow i s = Some w" and "select_next i s = Inr sel"
  shows "distinct (map item_id_of (wf_task_backlog w))
    \<and> scoped_selection (map (global_item_of None w) (wf_task_backlog w)) = Inr sel"
  using assms by (auto simp: select_next_def op_simps)

lemma select_next_Some:
  assumes "get_workflow i s = Some w" and "select_next i s = Inr sel"
    and "qs_selected_item_id sel = Some k"
  shows "\<exists>x \<in> set (wf_task_backlog w). item_id_of x = k \<and> raw_eligible (wf_task_backlog w) x
    \<and> (\<forall>y \<in> set (wf_task_backlog w). raw_eligible (wf_task_backlog w) y \<longrightarrow> raw_key x \<le> raw_key y)
    \<and> (\<forall>y \<in> set (wf_task_backlog w). \<not> raw_running y)"
proof -
  let ?b = "wf_task_backlog w" and ?ps = "map (global_item_of None w) (wf_task_backlog w)"
  from select_next_Inr [OF assms(1,2)] have sc: "scoped_selection ?ps = Inr sel" by blast
  have nr: "\<forall>y \<in> set ?b. \<not> raw_running y"
    using scoped_selection_shape [OF sc] assms(3) by (metis option.distinct(1))
  then have "map_option gi_item_id (pick scoped_selection_key (candidates_of ?ps)) = Some k"
    using scoped_selection_shape [OF sc] assms(3) by (metis (no_types))
  then obtain g where g: "pick scoped_selection_key (candidates_of ?ps) = Some g" and k: "gi_item_id g = k"
    by blast
  from scoped_choice.chosen_mem [OF g] candidate_iff obtain x where
    x: "x \<in> set ?b" "g = global_item_of None w x" "raw_eligible ?b x" by blast
  have "raw_key x \<le> raw_key y" if "y \<in> set ?b" "raw_eligible ?b y" for y
  proof -
    have "global_item_of None w y \<in> set (candidates_of ?ps)"
      using that candidate_iff by blast
    from scoped_choice.chosen_least [OF g this] that x show ?thesis
      by (simp add: scoped_key_raw raw_eligible_def)
  qed
  with x k nr show ?thesis by auto
qed

lemma select_next_None:
  assumes "get_workflow i s = Some w" and "select_next i s = Inr sel"
    and "qs_selected_item_id sel = None"
  shows "(\<exists>y \<in> set (wf_task_backlog w). raw_running y)
    \<or> (\<forall>y \<in> set (wf_task_backlog w). \<not> raw_eligible (wf_task_backlog w) y)"
proof (rule disjCI)
  let ?b = "wf_task_backlog w" and ?ps = "map (global_item_of None w) (wf_task_backlog w)"
  assume "\<not> (\<forall>y \<in> set ?b. \<not> raw_eligible ?b y)"
  then obtain y where "global_item_of None w y \<in> set (candidates_of ?ps)"
    using candidate_iff by blast
  then have "candidates_of ?ps \<noteq> []" by auto
  then have "pick scoped_selection_key (candidates_of ?ps) \<noteq> None" by simp
  moreover from select_next_Inr [OF assms(1,2)] have "scoped_selection ?ps = Inr sel" by blast
  ultimately show "\<exists>y \<in> set ?b. raw_running y"
    using scoped_selection_shape [of w ?b sel] assms(3) by (simp split: if_splits)
qed

end
