(* ===== verification/Queue_Steps.thy ===== *)
theory Queue_Steps
  imports Queue
begin

text \<open>
  The steps of the queue: what every operation of \<^theory_text>\<open>Queue\<close> writes, global selection and
  its start, the invariants of the backlogs, and the properties of the queue.
\<close>

section \<open>Steps and what they write\<close>

inductive queue_step :: "db \<Rightarrow> db \<Rightarrow> bool" where
  "queue_step s (snd (start_next i a s))"
| "queue_step s (snd (block_running_item i k q a s))"
| "queue_step s (snd (block_dispatch_selected_item i k e v q a s))"
| "queue_step s (snd (repair_blocked_item_configuration i k c v tm pt a s))"
| "queue_step s (snd (resolve_blocker i k c v ev a s))"
| "queue_step s (snd (complete_item i k ss a s))"
| "queue_step s (snd (start_selected_global_item sel is a s))"
| "queue_step s (snd (start_global_next is a s))"
| "clock s \<le> now \<Longrightarrow> queue_step s (s\<lparr>clock := now\<rparr>)"

text \<open>The moves of an item.\<close>

inductive queue_edge :: "queue_state \<Rightarrow> queue_state \<Rightarrow> bool" where
  edge_start: "a \<in> set eligible_states \<Longrightarrow> queue_edge a queue_state.RUNNING"
| edge_block: "a \<in> insert queue_state.RUNNING (set eligible_states) \<Longrightarrow> b \<in> set blocked_states \<Longrightarrow> queue_edge a b"
| edge_repair: "a \<in> set blocked_states \<Longrightarrow> queue_edge a a"
| edge_resolve: "a \<in> set blocked_states \<Longrightarrow> queue_edge a READY_TO_RESUME"
| edge_complete: "a \<in> {queue_state.RUNNING, READY_TO_RESUME} \<Longrightarrow> queue_edge a queue_state.COMPLETED"

inductive_simps queue_edge_from: "queue_edge a b"

lemma no_edge_from_terminal [simp]: "\<not> queue_edge queue_state.COMPLETED b" "\<not> queue_edge queue_state.FAILED b"
  by (auto simp: queue_edge_from eligible_states_def blocked_states_def)

text \<open>A rewritten item keeps its id, has the next version, and its state has moved along an
  edge.\<close>

definition item_edge :: "queue_item \<Rightarrow> queue_item \<Rightarrow> bool" where
  "item_edge x y \<longleftrightarrow> item_id_of y = item_id_of x \<and> qi_version y = qi_version x + 1
     \<and> (\<exists>a b. state_if_valid x = Some a \<and> state_if_valid y = Some b \<and> queue_edge a b)"

lemma item_edgeI:
  assumes "state_if_valid x = Some a" "queue_edge a b" "item_id_of y = item_id_of x"
    "qi_version y = qi_version x + 1" "state_if_valid y = Some b"
  shows "item_edge x y"
  using assms by (auto simp: item_edge_def)

text \<open>What a successful operation does to the workflows: it rewrites one item of one backlog, and
  an item is started only where none is running.\<close>

definition writes_item :: "db \<Rightarrow> db \<Rightarrow> bool" where
  "writes_item s t \<longleftrightarrow> (\<exists>w w' x y. get_workflow (wf_id w) s = Some w
     \<and> tget item_id_of (item_id_of x) (wf_task_backlog w) = Some x \<and> item_edge x y
     \<and> wf_id w' = wf_id w \<and> wf_workflow_state w' = wf_workflow_state w
     \<and> wf_task_backlog w' = tput item_id_of y (wf_task_backlog w)
     \<and> (raw_running y \<longrightarrow> (\<forall>z \<in> set (wf_task_backlog w). \<not> raw_running z))
     \<and> workflows t = tput wf_id w' (workflows s))"

lemma writes_itemI:
  assumes "get_workflow i s = Some w" "tget item_id_of k (wf_task_backlog w) = Some x" "item_edge x y"
    "wf_id w' = wf_id w" "wf_workflow_state w' = wf_workflow_state w"
    "wf_task_backlog w' = tput item_id_of y (wf_task_backlog w)"
    "raw_running y \<Longrightarrow> \<forall>z \<in> set (wf_task_backlog w). \<not> raw_running z"
    "workflows t = tput wf_id w' (workflows s)"
  shows "writes_item s t"
  unfolding writes_item_def
  using assms workflow_table.get_key [OF assms(1)] tget_Some_mem [OF assms(2)] by blast

lemma find_parsed [simp]:
  "find (\<lambda>c. gi_item_id c = k) (map (global_item_of r w) b) = map_option (global_item_of r w) (tget item_id_of k b)"
  by (induction b) auto

lemma record_block_writes:
  assumes "get_workflow i s = Some w" "tget item_id_of k (wf_task_backlog w) = Some x"
    "state_if_valid x = Some a" "a \<in> insert queue_state.RUNNING (set eligible_states)"
    "bq_blocking_state q \<in> set blocked_states"
  shows "writes_item s (snd (record_block act w k x p q ac s))"
proof (rule writes_itemI [OF assms(1,2)])
  let ?ck = "block_checkpoint s w k x p q" and ?s1 = "bump_id ''queue_checkpoint'' s"
  show "item_edge x (block_item ?s1 ?ck q x)"
    by (rule item_edgeI [OF assms(3) edge_block [OF assms(4,5)]]) simp_all
  show "raw_running (block_item ?s1 ?ck q x) \<Longrightarrow> \<forall>z \<in> set (wf_task_backlog w). \<not> raw_running z"
    using assms(5) by (auto simp: raw_running_valid blocked_states_def)
qed (simp_all add: record_block_def Let_def put_workflow_def)

lemma select_next_item:
  assumes "get_workflow i s = Some w" "select_next i s = Inr sel" "qs_selected_item_id sel = Some k"
    "tget item_id_of k (wf_task_backlog w) = Some x"
  shows "raw_eligible (wf_task_backlog w) x \<and> (\<forall>z \<in> set (wf_task_backlog w). \<not> raw_running z)"
proof -
  obtain y where y: "y \<in> set (wf_task_backlog w)" "item_id_of y = k" "raw_eligible (wf_task_backlog w) y"
    "\<forall>z \<in> set (wf_task_backlog w). \<not> raw_running z"
    using select_next_Some [OF assms(1-3)] by blast
  have "y = x"
    using tget_distinct [of item_id_of "wf_task_backlog w" y] select_next_Inr [OF assms(1,2)] y(1,2) assms(4)
    by simp
  with y show ?thesis by simp
qed

lemma start_item_writes:
  assumes "get_workflow i s = Some w" "tget item_id_of k (wf_task_backlog w) = Some x"
    "raw_state x = Some a" "a \<in> set eligible_states" "\<forall>z \<in> set (wf_task_backlog w). \<not> raw_running z"
    "workflows t = tput wf_id ((with_item s (start_item s x) w)\<lparr>wf_active_task_id := ac\<rparr>) (workflows s)"
  shows "writes_item s t"
  by (rule writes_itemI [OF assms(1,2) item_edgeI [OF state_if_valid_raw [OF assms(3)] edge_start [OF assms(4)]]
        _ _ _ _ assms(6)]) (simp_all add: assms(5))

lemma start_next_effect: "snd (start_next i a s) = s \<or> writes_item s (snd (start_next i a s))"
proof (cases "fst (start_next i a s)")
  case (Inl e)
  then show ?thesis
    by (auto simp: start_next_def Let_def split: try_res_splits option.splits list.splits)
next
  case (Inr sel)
  have "\<exists>w. get_workflow i s = Some w \<and> (snd (start_next i a s) = s \<or> (\<exists>k x. select_next i s = Inr sel
      \<and> qs_selected_item_id sel = Some k \<and> tget item_id_of k (wf_task_backlog w) = Some x
      \<and> workflows (snd (start_next i a s)) = tput wf_id
          ((with_item s (start_item s x) w)\<lparr>wf_active_task_id := Some (item_id_of x)\<rparr>) (workflows s)))"
    using Inr workflow_table.get_key
    by (auto simp: start_next_def Let_def op_simps put_workflow_def
        split: try_res_splits option.splits list.splits)
  then show ?thesis
    using select_next_item start_item_writes
    by (auto simp: raw_eligible_def eligible_states_def) (metis list.set_intros start_item_writes eligible_states_def)+
qed

lemma block_running_effect:
  "snd (block_running_item i k q a s) = s \<or> writes_item s (snd (block_running_item i k q a s))"
  by (auto simp: block_running_item_def op_simps split: try_res_splits intro: record_block_writes)

lemma block_dispatch_effect:
  "snd (block_dispatch_selected_item i k e v q a s) = s
     \<or> writes_item s (snd (block_dispatch_selected_item i k e v q a s))"
  by (auto simp: block_dispatch_selected_item_def op_simps split: try_res_splits intro: record_block_writes)

lemma blocked_not_running: "q \<in> set blocked_states \<Longrightarrow> q \<noteq> queue_state.RUNNING"
  by (auto simp: blocked_states_def)

lemma rewrite_effect:
  assumes "get_workflow i s = Some w" "tget item_id_of k (wf_task_backlog w) = Some x"
    "state_if_valid x = Some p" "queue_edge p b" "state_if_valid y = Some b" "b \<noteq> queue_state.RUNNING"
    "item_id_of y = item_id_of x" "qi_version y = qi_version x + 1"
    "workflows t = tput wf_id w' (workflows s)" "wf_id w' = wf_id w"
    "wf_workflow_state w' = wf_workflow_state w"
    "wf_task_backlog w' = tput item_id_of y (wf_task_backlog w)"
  shows "writes_item s t"
  by (rule writes_itemI [OF assms(1,2) item_edgeI [OF assms(3,4,7,8,5)] _ _ _ _ assms(9)])
    (use assms(5,6,10-12) in \<open>auto simp: raw_running_valid\<close>)

lemma clean_queue_operations:
  "clean s (start_next i a s)" "clean s (block_running_item i k q a s)"
  "clean s (block_dispatch_selected_item i k e v q a s)"
  "clean s (repair_blocked_item_configuration i k c v tm pt a s)"
  "clean s (resolve_blocker i k c v ev a s)" "clean s (complete_item i k ss a s)"
  by (simp_all add: start_next_def block_running_item_def block_dispatch_selected_item_def
      repair_blocked_item_configuration_def resolve_blocker_def complete_item_def record_block_def
      Let_def split: option.split list.split)

lemma repaired_simps [simp]:
  "item_id_of (repaired s tm pt x) = item_id_of x" "qi_version (repaired s tm pt x) = qi_version x + 1"
  "state_if_valid (repaired s tm pt x) = state_if_valid x"
  by (simp_all add: repaired_def item_id_of_def state_if_valid_def state_text_def)

lemma repair_Inr:
  "repair_blocked_item_configuration i k c v tm pt a s = (Inr y, t) \<longleftrightarrow> (\<exists>w x. get_workflow i s = Some w
     \<and> tget item_id_of k (wf_task_backlog w) = Some x \<and> current_block ''repair'' c v x = Inr ()
     \<and> (\<forall>n. tm = Some n \<longrightarrow> 0 < n) \<and> valid_patch pt = Inr () \<and> y = repaired s tm pt x
     \<and> t = audit_queue ''QUEUE_WORK_ITEM_CONFIGURATION_REPAIRED'' a (with_item s y w)
         ''repair_blocked_queue_work_item_configuration'' k (repair_metadata w k c x y) (put_workflow (with_item s y w) s))"
  by (auto simp: repair_blocked_item_configuration_def Let_def workflow_of_Inr item_of_Inr
      split: option.splits)

lemma repair_effect:
  "snd (repair_blocked_item_configuration i k c v tm pt a s) = s
     \<or> writes_item s (snd (repair_blocked_item_configuration i k c v tm pt a s))"
proof (rule clean_effect [OF clean_queue_operations(4)])
  fix y t
  assume "repair_blocked_item_configuration i k c v tm pt a s = (Inr y, t)"
  then obtain w x q where
    e: "get_workflow i s = Some w" "tget item_id_of k (wf_task_backlog w) = Some x"
      "q \<in> set blocked_states" "state_if_valid x = Some q" "y = repaired s tm pt x"
      "workflows t = tput wf_id (with_item s y w) (workflows s)"
    by (auto simp: repair_Inr current_block_Inr put_workflow_def)
  show "writes_item s t"
    by (rule rewrite_effect [OF e(1,2,4) edge_repair [OF e(3)] _ blocked_not_running [OF e(3)] _ _ e(6)])
      (simp_all add: e(4,5))
qed

lemma resolved_simps [simp]:
  "item_id_of (resolved s ev x) = item_id_of x" "qi_version (resolved s ev x) = qi_version x + 1"
  "state_if_valid (resolved s ev x) = Some READY_TO_RESUME" "raw_state (resolved s ev x) = Some READY_TO_RESUME"
  by (simp_all add: resolved_def) (simp add: item_id_of_def)

lemma resolve_blocker_Inr:
  "resolve_blocker i k c v ev a s = (Inr y, t) \<longleftrightarrow> (\<exists>w x. get_workflow i s = Some w
     \<and> tget item_id_of k (wf_task_backlog w) = Some x \<and> current_block ''resolve'' c v x = Inr ()
     \<and> y = resolved s ev x
     \<and> t = audit_queue ''QUEUE_WORK_ITEM_READY_TO_RESUME'' a (with_item s y w) ''resolve_queue_blocker''
         (queue_state_value READY_TO_RESUME) (block_metadata w k c) (put_workflow (with_item s y w) s))"
  by (auto simp: resolve_blocker_def Let_def workflow_of_Inr item_of_Inr simp del: queue_state_value.simps)

lemma resolve_effect:
  "snd (resolve_blocker i k c v ev a s) = s \<or> writes_item s (snd (resolve_blocker i k c v ev a s))"
proof (rule clean_effect [OF clean_queue_operations(5)])
  fix y t
  assume "resolve_blocker i k c v ev a s = (Inr y, t)"
  then obtain w x q where
    e: "get_workflow i s = Some w" "tget item_id_of k (wf_task_backlog w) = Some x"
      "q \<in> set blocked_states" "state_if_valid x = Some q" "y = resolved s ev x"
      "workflows t = tput wf_id (with_item s y w) (workflows s)"
    by (auto simp: resolve_blocker_Inr current_block_Inr put_workflow_def)
  show "writes_item s t"
    by (rule rewrite_effect [OF e(1,2,4) edge_resolve [OF e(3)] _ _ _ _ e(6)]) (simp_all add: e(5))
qed

lemma completed_simps [simp]:
  "item_id_of (completed s ss x) = item_id_of x" "qi_version (completed s ss x) = qi_version x + 1"
  "state_if_valid (completed s ss x) = Some queue_state.COMPLETED"
  "raw_state (completed s ss x) = Some queue_state.COMPLETED"
  by (simp_all add: completed_def del: queue_state_value.simps) (simp add: item_id_of_def)

lemma complete_item_Inr:
  "complete_item i k ss a s = (Inr y, t) \<longleftrightarrow> (\<exists>w x. get_workflow i s = Some w
     \<and> wf_workflow_state w \<in> set execution_eligible_states
     \<and> tget item_id_of k (wf_task_backlog w) = Some x
     \<and> raw_state x \<in> {Some queue_state.RUNNING, Some READY_TO_RESUME} \<and> y = completed s ss x
     \<and> t = audit_queue ''QUEUE_WORK_ITEM_COMPLETED'' a (completed_workflow s k y w)
         ''complete_queue_work_item'' k (completion_metadata w i k x y) (put_workflow (completed_workflow s k y w) s))"
  by (auto simp: complete_item_def Let_def workflow_of_Inr item_of_Inr executable_workflow_Inr
      execution_state_Inr)

lemma complete_effect:
  "snd (complete_item i k ss a s) = s \<or> writes_item s (snd (complete_item i k ss a s))"
proof (rule clean_effect [OF clean_queue_operations(6)])
  fix y t
  assume "complete_item i k ss a s = (Inr y, t)"
  then obtain w x q where
    e: "get_workflow i s = Some w" "tget item_id_of k (wf_task_backlog w) = Some x"
      "raw_state x = Some q" "q \<in> {queue_state.RUNNING, READY_TO_RESUME}" "y = completed s ss x"
      "workflows t = tput wf_id (completed_workflow s k y w) (workflows s)"
    by (auto simp: complete_item_Inr put_workflow_def)
  show "writes_item s t"
    by (rule rewrite_effect [OF e(1,2) state_if_valid_raw [OF e(3)] edge_complete [OF e(4)] _ _ _ _ e(6)])
      (simp_all add: e(5) completed_workflow_def)
qed

section \<open>Global selection\<close>

text \<open>The executable workflows that a global selection looks at.\<close>

definition schedulable_in :: "string list option \<Rightarrow> db \<Rightarrow> workflow_row list" where
  "schedulable_in is s = (case global_workflows is s of Inl _ \<Rightarrow> []
     | Inr ws \<Rightarrow> filter (\<lambda>w. workflow_execution_exclusion_reason w = None) ws)"

definition global_raw_key :: "workflow_row \<Rightarrow> queue_item \<Rightarrow> nat \<times> nat \<times> int \<times> string \<times> string \<times> string" where
  "global_raw_key w x = (priority_rank (raw_priority x), state_class_rank (raw_state x),
     qi_created_order x, or_else (wf_project_id w) [], wf_id w, item_id_of x)"

lemma global_key_raw:
  "raw_schedulable x \<Longrightarrow> global_selection_key (global_item_of r w x) = global_raw_key w x"
  by (simp add: global_selection_key_def global_raw_key_def raw_schedulable_def upper_valid)

lemma partition_Inr:
  "partition_global_workflows ws = Inr (sched, excl) \<Longrightarrow>
     sched = filter (\<lambda>w. workflow_execution_exclusion_reason w = None) ws"
proof (induction ws arbitrary: sched excl)
  case (Cons w ws)
  then show ?case by (fastforce split: option.splits prod.splits)
qed simp

lemma workflow_items_Inr:
  "workflow_items r w = Inr gs \<longleftrightarrow> distinct (map item_id_of (wf_task_backlog w))
     \<and> gs = map (global_item_of r w) (wf_task_backlog w)"
  by (auto simp: workflow_items_def validate_unique_item_ids_def)

lemma global_items_Inr:
  "global_items r ws = Inr gs \<Longrightarrow> (\<forall>w \<in> set ws. distinct (map item_id_of (wf_task_backlog w)))
     \<and> gs = concat (map (\<lambda>w. map (global_item_of r w) (wf_task_backlog w)) ws)"
proof (induction ws arbitrary: gs)
  case (Cons w ws)
  then show ?case by (fastforce simp: global_items_def workflow_items_Inr)
qed (simp add: global_items_def)

lemma schedulable_in_stored:
  assumes "w \<in> set (schedulable_in is s)" and "distinct (map wf_id (workflows s))"
  shows "get_workflow (wf_id w) s = Some w"
proof -
  from assms(1) obtain ws where ws: "global_workflows is s = Inr ws" "w \<in> set ws"
    by (cases "global_workflows is s") (auto simp: schedulable_in_def)
  show ?thesis
  proof (cases "list_or is [] = []")
    case True
    with ws have "w \<in> set (workflows s)" by (auto simp: global_workflows_def)
    with assms(2) show ?thesis by (simp add: get_workflow_def tget_distinct)
  next
    case False
    with ws obtain ws' where "list_all2 (\<lambda>i w. workflow_of i s = Inr w) (the is) ws'" "w \<in> set ws'"
      by (auto simp: global_workflows_def map_res_Inr_iff)
    then obtain i where "get_workflow i s = Some w"
      by (induction rule: list_all2_induct) (auto simp: workflow_of_Inr)
    then show ?thesis using workflow_table.get_key by simp
  qed
qed

lemma schedulable_in_executable:
  "w \<in> set (schedulable_in is s) \<Longrightarrow> workflow_execution_exclusion_reason w = None"
  by (auto simp: schedulable_in_def split: sum.splits)

definition scope_items :: "string list option \<Rightarrow> db \<Rightarrow> global_item list" where
  "scope_items is s = concat (map (\<lambda>w. map (global_item_of None w) (wf_task_backlog w)) (schedulable_in is s))"

lemma mem_scope_items:
  "g \<in> set (scope_items is s) \<longleftrightarrow>
     (\<exists>w \<in> set (schedulable_in is s). \<exists>x \<in> set (wf_task_backlog w). g = global_item_of None w x)"
  by (auto simp: scope_items_def)

text \<open>Dependencies are looked up within the item's own workflow, so with unique workflow ids an
  item is eligible among all items exactly when it is eligible in its backlog.\<close>

lemma candidates_scope:
  assumes "distinct (map wf_id (workflows s))"
  shows "g \<in> set (candidates_of (scope_items is s)) \<longleftrightarrow>
    (\<exists>w \<in> set (schedulable_in is s). \<exists>x \<in> set (wf_task_backlog w).
       g = global_item_of None w x \<and> raw_eligible (wf_task_backlog w) x)"
proof -
  let ?ex = "filter gi_schedulable (scope_items is s)"
  have same: "v = w" if "v \<in> set (schedulable_in is s)" "w \<in> set (schedulable_in is s)" "wf_id v = wf_id w" for v w
    using schedulable_in_stored [OF that(1) assms] schedulable_in_stored [OF that(2) assms] that(3)
    by (metis option.inject)
  have dep: "d \<in> set (map gi_item_id (filter (\<lambda>c. gi_workflow_id c = wf_id w
      \<and> gi_state c = Some queue_state.COMPLETED) ?ex))
    \<longleftrightarrow> (\<exists>z \<in> set (wf_task_backlog w). item_id_of z = d \<and> raw_state z = Some queue_state.COMPLETED
          \<and> raw_schedulable z)" (is "?l \<longleftrightarrow> ?r") if w: "w \<in> set (schedulable_in is s)" for d w
  proof
    assume ?l
    then obtain c where c: "c \<in> set (scope_items is s)" "gi_schedulable c" "gi_workflow_id c = wf_id w"
      "gi_state c = Some queue_state.COMPLETED" "gi_item_id c = d" by auto
    from c(1) obtain v z where "v \<in> set (schedulable_in is s)" "z \<in> set (wf_task_backlog v)"
      "c = global_item_of None v z" unfolding mem_scope_items by blast
    with c have "v \<in> set (schedulable_in is s)" "z \<in> set (wf_task_backlog v)" "wf_id v = wf_id w"
      "raw_schedulable z" "raw_state z = Some queue_state.COMPLETED" "item_id_of z = d" by simp_all
    with same [OF _ w] show ?r by blast
  next
    assume ?r
    then obtain z where z: "z \<in> set (wf_task_backlog w)" "item_id_of z = d"
      "raw_state z = Some queue_state.COMPLETED" "raw_schedulable z" by blast
    have "global_item_of None w z \<in> set (scope_items is s)"
      using w z(1) by (auto simp: mem_scope_items)
    then have "global_item_of None w z \<in> set (filter (\<lambda>c. gi_workflow_id c = wf_id w
      \<and> gi_state c = Some queue_state.COMPLETED) ?ex)"
      using z by simp
    then have "gi_item_id (global_item_of None w z) \<in> gi_item_id ` set (filter (\<lambda>c. gi_workflow_id c = wf_id w
      \<and> gi_state c = Some queue_state.COMPLETED) ?ex)"
      by (rule imageI)
    then show ?l using z(2) by simp
  qed
  have el: "global_is_eligible (global_item_of None w x) ?ex \<and> raw_schedulable x \<longleftrightarrow> raw_eligible (wf_task_backlog w) x"
    if "w \<in> set (schedulable_in is s)" for w x
    unfolding global_is_eligible_def global_dependencies_complete_def Let_def list_all_iff
      raw_eligible_def eligible_states_image global_item_simps dep [OF that] by auto
  have "g \<in> set (candidates_of (scope_items is s)) \<longleftrightarrow>
    (\<exists>w \<in> set (schedulable_in is s). \<exists>x \<in> set (wf_task_backlog w).
       g = global_item_of None w x \<and> global_is_eligible (global_item_of None w x) ?ex \<and> raw_schedulable x)"
    unfolding candidates_of_def set_filter mem_Collect_eq mem_scope_items by auto blast
  then show ?thesis using el by auto
qed

lemma select_global_shape:
  assumes "select_global_next is s = Inr sel"
  shows "if \<exists>g \<in> set (scope_items is s). is_running g
    then gs_selected_workflow_id sel = None \<and> gs_selected_item_id sel = None
    else case pick global_selection_key (candidates_of (scope_items is s)) of
        None \<Rightarrow> gs_selected_workflow_id sel = None \<and> gs_selected_item_id sel = None
      | Some g \<Rightarrow> gs_selected_project_id sel = gi_project_id g \<and> gs_selected_workflow_id sel = Some (gi_workflow_id g)
          \<and> gs_selected_item_id sel = Some (gi_item_id g) \<and> gs_selected_item_version sel = Some (gi_version g)"
proof -
  obtain ws sched excl gs where w: "global_workflows is s = Inr ws"
    "partition_global_workflows ws = Inr (sched, excl)" "global_items None sched = Inr gs"
    "global_selection_of gs excl = Inr sel"
    using assms by (auto simp: select_global_next_def)
  have gs: "gs = scope_items is s"
    using global_items_Inr [OF w(3)] partition_Inr [OF w(2)] w(1)
    by (simp add: scope_items_def schedulable_in_def)
  have run: "filter is_running (filter gi_queue_state_present gs) = filter is_running gs"
    unfolding gs by (auto simp: mem_scope_items raw_running_def intro!: filter_cong)
  show ?thesis
  proof (cases "filter is_running gs = []")
    case True
    with w(4) have "\<not> (\<exists>g \<in> set gs. is_running g)" by (auto simp: filter_empty_conv)
    moreover have "case pick global_selection_key (candidates_of gs) of
        None \<Rightarrow> gs_selected_workflow_id sel = None \<and> gs_selected_item_id sel = None
      | Some g \<Rightarrow> gs_selected_project_id sel = gi_project_id g \<and> gs_selected_workflow_id sel = Some (gi_workflow_id g)
          \<and> gs_selected_item_id sel = Some (gi_item_id g) \<and> gs_selected_item_version sel = Some (gi_version g)"
      using w(4) True run
      by (auto simp: global_selection_of_def Let_def candidates_of_def no_selection_def
          simp del: filter_filter split: option.splits)
    ultimately show ?thesis unfolding gs by simp
  next
    case False
    then have "\<exists>g \<in> set gs. is_running g" by (auto simp: filter_empty_conv)
    moreover have "gs_selected_workflow_id sel = None \<and> gs_selected_item_id sel = None"
      using w(4) False run
      by (auto simp: global_selection_of_def Let_def no_selection_def simp del: filter_filter)
    ultimately show ?thesis unfolding gs by simp
  qed
qed

lemma select_global_Some:
  assumes "select_global_next is s = Inr sel" and "gs_selected_item_id sel = Some k"
    and "distinct (map wf_id (workflows s))"
  shows "\<exists>w \<in> set (schedulable_in is s). \<exists>x \<in> set (wf_task_backlog w).
    raw_eligible (wf_task_backlog w) x \<and> item_id_of x = k
    \<and> gs_selected_project_id sel = wf_project_id w \<and> gs_selected_workflow_id sel = Some (wf_id w)
    \<and> gs_selected_item_version sel = Some (qi_version x)
    \<and> (\<forall>v \<in> set (schedulable_in is s). \<forall>y \<in> set (wf_task_backlog v). \<not> raw_running y
        \<and> (raw_eligible (wf_task_backlog v) y \<longrightarrow> global_raw_key w x \<le> global_raw_key v y))"
proof -
  let ?c = "candidates_of (scope_items is s)"
  have nr: "\<not> (\<exists>g \<in> set (scope_items is s). is_running g)"
    using select_global_shape [OF assms(1)] assms(2) by (metis option.distinct(1))
  with select_global_shape [OF assms(1)] assms(2) obtain g where
    g: "pick global_selection_key ?c = Some g" "gs_selected_project_id sel = gi_project_id g"
      "gs_selected_workflow_id sel = Some (gi_workflow_id g)" "gi_item_id g = k"
      "gs_selected_item_version sel = Some (gi_version g)"
    by (cases "pick global_selection_key ?c") auto
  obtain w x where x: "w \<in> set (schedulable_in is s)" "x \<in> set (wf_task_backlog w)"
    "g = global_item_of None w x" "raw_eligible (wf_task_backlog w) x"
    using global_choice.chosen_mem [OF g(1)] candidates_scope [OF assms(3)] by blast
  have least: "global_raw_key w x \<le> global_raw_key v y" if "v \<in> set (schedulable_in is s)"
    "y \<in> set (wf_task_backlog v)" "raw_eligible (wf_task_backlog v) y" for v y
  proof -
    have "global_item_of None v y \<in> set ?c"
      using that candidates_scope [OF assms(3)] by blast
    from global_choice.chosen_least [OF g(1) this] x that(3) show ?thesis
      by (simp add: global_key_raw raw_eligible_def)
  qed
  have "\<not> raw_running y" if "v \<in> set (schedulable_in is s)" "y \<in> set (wf_task_backlog v)" for v y
  proof
    assume "raw_running y"
    moreover have "global_item_of None v y \<in> set (scope_items is s)"
      using that by (auto simp: mem_scope_items)
    ultimately show False using nr by fastforce
  qed
  with least x g show ?thesis by auto
qed

text \<open>What an admitted selection guarantees.\<close>

lemma admit_Inr:
  assumes "admit_global_selection sel is s = Inr (w, item, g)"
  shows "get_workflow (or_else (gs_selected_workflow_id sel) []) s = Some w
    \<and> wf_workflow_state w \<in> set execution_eligible_states
    \<and> (\<exists>cur. select_global_next is s = Inr cur \<and> same_selection cur sel)
    \<and> (\<forall>z \<in> set (wf_task_backlog w). \<not> raw_running z)
    \<and> (\<exists>k q. gs_selected_item_id sel = Some k \<and> tget item_id_of k (wf_task_backlog w) = Some item
        \<and> raw_state item = Some q \<and> q \<in> set eligible_states \<and> gi_state_label g = queue_state_value q)"
proof -
  obtain cur where adm: "get_workflow (or_else (gs_selected_workflow_id sel) []) s = Some w"
      "workflow_execution_exclusion_reason w = None" "select_global_next is s = Inr cur" "same_selection cur sel"
      "filter is_running (map (global_item_of None w) (wf_task_backlog w)) = []"
      "tget item_id_of (or_else (gs_selected_item_id sel) []) (wf_task_backlog w) = Some item"
      "find (\<lambda>c. Some (gi_item_id c) = gs_selected_item_id sel)
         (map (global_item_of None w) (wf_task_backlog w)) = Some g"
      "gi_state g \<in> Some ` set eligible_states"
    using assms by (auto simp: admit_global_selection_def op_simps workflow_of_Inr)
  from adm(7) obtain k where k: "gs_selected_item_id sel = Some k"
    by (cases "gs_selected_item_id sel") (auto simp: find_Some_iff)
  have it: "tget item_id_of k (wf_task_backlog w) = Some item"
    using adm(6) k by (cases k) (simp_all add: or_else_def)
  have g: "g = global_item_of None w item"
    using adm(7) k it by simp
  have "wf_workflow_state w \<in> set execution_eligible_states"
    using adm(2) by (simp add: workflow_execution_exclusion_reason_def split: if_splits)
  moreover have "\<forall>z \<in> set (wf_task_backlog w). \<not> raw_running z"
    using adm(5) by (auto simp: filter_empty_conv)
  moreover have "\<exists>q. raw_state item = Some q \<and> q \<in> set eligible_states \<and> gi_state_label g = queue_state_value q"
    using adm(8) g
    by (auto simp: global_item_of_def Let_def parse_global_state_def raw_state_def split: raw_field.splits option.splits)
  ultimately show ?thesis using adm k it by blast
qed

lemma admit_identity:
  assumes "admit_global_selection sel is s = Inr (w, item, g)" and "distinct (map wf_id (workflows s))"
  shows "gs_selected_project_id sel = wf_project_id w \<and> gs_selected_workflow_id sel = Some (wf_id w)
    \<and> gs_selected_item_id sel = Some (item_id_of item) \<and> gs_selected_item_version sel = Some (qi_version item)"
proof -
  obtain cur k where c: "select_global_next is s = Inr cur" "same_selection cur sel"
    "gs_selected_item_id sel = Some k" "tget item_id_of k (wf_task_backlog w) = Some item"
    "get_workflow (or_else (gs_selected_workflow_id sel) []) s = Some w"
    using admit_Inr [OF assms(1)] by blast
  have "gs_selected_item_id cur = Some k"
    using c(2,3) by (simp add: same_selection_def)
  then obtain v x where v: "v \<in> set (schedulable_in is s)" "x \<in> set (wf_task_backlog v)" "item_id_of x = k"
    "gs_selected_project_id cur = wf_project_id v" "gs_selected_workflow_id cur = Some (wf_id v)"
    "gs_selected_item_version cur = Some (qi_version x)"
    using select_global_Some [OF c(1) _ assms(2)] by blast
  have stored: "get_workflow (wf_id v) s = Some v"
    by (rule schedulable_in_stored [OF v(1) assms(2)])
  have "gs_selected_workflow_id sel = Some (wf_id v)"
    using c(2) v(5) by (simp add: same_selection_def)
  then have "or_else (gs_selected_workflow_id sel) [] = wf_id v"
    by (simp add: or_else_def)
  with stored c(5) have vw: "v = w" by simp
  have "distinct (map item_id_of (wf_task_backlog w))"
    using assms(1) by (auto simp: admit_global_selection_def execution_items_Inr)
  with v(2,3) vw c(4) have "x = item"
    using tget_distinct [of item_id_of "wf_task_backlog w" x] by simp
  with v vw c(2,3) show ?thesis by (simp add: same_selection_def)
qed

lemma start_global_effect:
  "snd (start_selected_global_item sel is a s) = s \<or> writes_item s (snd (start_selected_global_item sel is a s))"
proof (cases "gs_selected_workflow_id sel = None")
  case False
  show ?thesis
  proof (cases "admit_global_selection sel is s")
    case (Inl e)
    with False show ?thesis by (simp add: start_selected_global_item_def start_global_selection_def)
  next
    case (Inr adm)
    obtain w item g where adm: "adm = (w, item, g)" by (cases adm)
    obtain k q where k: "get_workflow (or_else (gs_selected_workflow_id sel) []) s = Some w"
      "tget item_id_of k (wf_task_backlog w) = Some item" "raw_state item = Some q" "q \<in> set eligible_states"
      "\<forall>z \<in> set (wf_task_backlog w). \<not> raw_running z"
      using admit_Inr [OF Inr [unfolded adm]] by blast
    have "workflows (snd (start_selected_global_item sel is a s)) =
      tput wf_id ((with_item s (start_item s item) w)\<lparr>wf_active_task_id := Some (item_id_of item)\<rparr>) (workflows s)"
      using False Inr adm
      by (auto simp: start_selected_global_item_def start_global_selection_def Let_def put_workflow_def)
    with start_item_writes [OF k] show ?thesis by blast
  qed
qed (simp add: start_selected_global_item_def)

lemma start_global_next_effect:
  "snd (start_global_next is a s) = s \<or> writes_item s (snd (start_global_next is a s))"
  using start_global_effect by (auto simp: start_global_next_def split: try_res_splits)

lemma queue_step_writes: "queue_step s t \<Longrightarrow> workflows t = workflows s \<or> writes_item s t"
proof (induction rule: queue_step.induct)
  case (1 s i a)
  then show ?case using start_next_effect [of i a s] by auto
next
  case (2 s i k q a)
  then show ?case using block_running_effect [of i k q a s] by auto
next
  case (3 s i k e v q a)
  then show ?case using block_dispatch_effect [of i k e v q a s] by auto
next
  case (4 s i k c v tm pt a)
  then show ?case using repair_effect [of i k c v tm pt a s] by auto
next
  case (5 s i k c v ev a)
  then show ?case using resolve_effect [of i k c v ev a s] by auto
next
  case (6 s i k ss a)
  then show ?case using complete_effect [of i k ss a s] by auto
next
  case (7 s sel is' a)
  then show ?case using start_global_effect [of sel is' a s] by auto
next
  case (8 s is' a)
  then show ?case using start_global_next_effect [of is' a s] by auto
qed simp

section \<open>Invariants of the queue\<close>

text \<open>A workflow never has two items in RUNNING.\<close>

definition single_running :: "db \<Rightarrow> bool" where
  "single_running s = list_all (\<lambda>w. length (filter raw_running (wf_task_backlog w)) \<le> 1) (workflows s)"

lemma running_tput:
  "\<not> raw_running y \<Longrightarrow> length (filter raw_running (tput item_id_of y b)) \<le> length (filter raw_running b)"
  by (induction b) auto

lemma running_start:
  "\<forall>z \<in> set b. \<not> raw_running z \<Longrightarrow> length (filter raw_running (tput item_id_of y b)) \<le> 1"
  by (induction b) (auto simp: filter_empty_conv)

lemma writes_item_single: "writes_item s t \<Longrightarrow> single_running s \<Longrightarrow> single_running t"
proof -
  assume "writes_item s t" and single: "single_running s"
  then obtain w w' x y where w: "get_workflow (wf_id w) s = Some w"
    "wf_task_backlog w' = tput item_id_of y (wf_task_backlog w)"
    "raw_running y \<longrightarrow> (\<forall>z \<in> set (wf_task_backlog w). \<not> raw_running z)"
    "workflows t = tput wf_id w' (workflows s)"
    unfolding writes_item_def by blast
  have "w \<in> set (workflows s)"
    using w(1) by (auto simp: get_workflow_def dest: tget_Some_mem)
  then have "length (filter raw_running (wf_task_backlog w)) \<le> 1"
    using single by (simp add: single_running_def list_all_iff)
  then have "length (filter raw_running (wf_task_backlog w')) \<le> 1"
    using w(2,3) running_start running_tput order_trans by (cases "raw_running y") (fastforce, metis)
  with single w(4) set_tput [of wf_id w' "workflows s"] show "single_running t"
    by (auto simp: single_running_def list_all_iff)
qed

lemma queue_step_single: "queue_step s t \<Longrightarrow> single_running s \<Longrightarrow> single_running t"
  using queue_step_writes writes_item_single by (fastforce simp: single_running_def)

interpretation queue_running: invariant_machine queue_step single_running
  by unfold_locales (rule queue_step_single)

text \<open>An item under its workflow and its id, and how it evolves.\<close>

definition workflow_item :: "string \<Rightarrow> string \<Rightarrow> db \<Rightarrow> queue_item option" where
  "workflow_item i k s = (case get_workflow i s of None \<Rightarrow> None
     | Some w \<Rightarrow> tget item_id_of k (wf_task_backlog w))"

lemma writes_item_edge:
  assumes "writes_item s t" and "workflow_item i k s = Some x"
  shows "\<exists>y. workflow_item i k t = Some y \<and> (x = y \<or> item_edge x y)"
proof -
  from assms(1) obtain w w' z y where w: "get_workflow (wf_id w) s = Some w"
    "tget item_id_of (item_id_of z) (wf_task_backlog w) = Some z" "item_edge z y"
    "wf_id w' = wf_id w" "wf_task_backlog w' = tput item_id_of y (wf_task_backlog w)"
    "workflows t = tput wf_id w' (workflows s)"
    unfolding writes_item_def by blast
  have get: "get_workflow i t = (if wf_id w = i then Some w' else get_workflow i s)"
    using w(4,6) by (simp add: get_workflow_def)
  show ?thesis
  proof (cases "wf_id w = i")
    case True
    with w(1) assms(2) have "tget item_id_of k (wf_task_backlog w) = Some x"
      by (simp add: workflow_item_def)
    then show ?thesis
      using True w(2,3,5) get by (auto simp: workflow_item_def item_edge_def split: if_splits)
  qed (use get assms(2) in \<open>simp add: workflow_item_def\<close>)
qed

interpretation queue_items: lifecycle_machine queue_step "workflow_item i" item_edge for i
proof
  fix s t k x
  assume "queue_step s t" "workflow_item i k s = Some x"
  then show "\<exists>y. workflow_item i k t = Some y \<and> (x = y \<or> item_edge x y)"
    using queue_step_writes [of s t] writes_item_edge [of s t i k x]
    by (cases "workflows t = workflows s") (simp_all add: workflow_item_def get_workflow_def)
qed

lemma item_edges_version: "item_edge\<^sup>*\<^sup>* x y \<Longrightarrow> qi_version x \<le> qi_version y \<and> (qi_version x = qi_version y \<longrightarrow> x = y)"
  by (induction rule: rtranclp_induct) (auto simp: item_edge_def)

lemma item_edges_states: "item_edge\<^sup>*\<^sup>* x y \<Longrightarrow> state_if_valid x = Some a \<Longrightarrow>
    \<exists>b. state_if_valid y = Some b \<and> queue_edge\<^sup>*\<^sup>* a b"
  by (induction rule: rtranclp_induct) (auto simp: item_edge_def intro: rtranclp.rtrancl_into_rtrancl)

lemma select_next_total:
  assumes "get_workflow i s = Some w" "distinct (map item_id_of (wf_task_backlog w))"
    "\<forall>x \<in> set (wf_task_backlog w). \<not> raw_running x"
  shows "\<exists>sel. select_next i s = Inr sel"
proof -
  have "filter is_running (filter gi_queue_state_present (map (global_item_of None w) (wf_task_backlog w))) = []"
    using assms(3) no_running_iff by blast
  then have "validate_scoped_running_identities (filter gi_queue_state_present
      (map (global_item_of None w) (wf_task_backlog w))) = Inr ()"
    by (simp only: validate_scoped_running_identities_def) simp
  moreover have "execution_items w = Inr (map (global_item_of None w) (wf_task_backlog w))"
    using assms(2) by (simp add: execution_items_Inr)
  ultimately show ?thesis
    using assms(1) by (simp add: select_next_def workflow_of_def scoped_selection_def Let_def)
qed

section \<open>An example workflow\<close>

lemma ex_item_simps [simp]:
  "item_id_of (ex_item k q ds) = (if k = [] then ''None'' else k)"
  "raw_state (ex_item k q ds) = Some q" "state_if_valid (ex_item k q ds) = Some q"
  "qi_dependencies (ex_item k q ds) = ds" "qi_version (ex_item k q ds) = 0"
  "raw_priority (ex_item k q ds) = ''NORMAL''" "qi_created_order (ex_item k q ds) = 0"
  "qi_current_block_checkpoint_id (ex_item k q ds) = None"
  by (simp_all add: ex_item_def item_id_of_def truthy_def raw_state_def state_if_valid_def
      state_text_def raw_priority_def)

definition ex_block :: block_request where
  "ex_block = \<lparr>bq_blocking_state = WAITING_HUMAN, bq_blocking_reason = ''r'', bq_blocker_category = ''c'',
     bq_resume_condition = ''x'', bq_work_completed = None, bq_implementation_head = None,
     bq_pending_decision_or_dependency = None, bq_known_risks = None, bq_relevant_artifacts = None,
     bq_repair_counters = None, bq_approval_requirements = None, bq_next_safe_action = ''n'',
     bq_stale_state_validation_requirements = None\<rparr>"

section \<open>Properties\<close>

text \<open>C2. Selection within a workflow: \<open>select_next\<close> selects nothing exactly when an item of the
  workflow is RUNNING or none is eligible; otherwise the selected item is in the backlog, is READY
  or READY_TO_RESUME with a valid priority, has every dependency completed in that backlog, and
  is least among all eligible items under (priority, state class, created order, item id).\<close>

theorem select_next_picks_least_eligible:
  assumes "get_workflow i s = Some w" and "select_next i s = Inr sel"
  shows "case qs_selected_item_id sel of
      None \<Rightarrow> (\<exists>y \<in> set (wf_task_backlog w). raw_running y)
        \<or> (\<forall>y \<in> set (wf_task_backlog w). \<not> raw_eligible (wf_task_backlog w) y)
    | Some k \<Rightarrow> (\<exists>x \<in> set (wf_task_backlog w). item_id_of x = k \<and> raw_eligible (wf_task_backlog w) x
        \<and> (\<forall>y \<in> set (wf_task_backlog w). \<not> raw_running y
            \<and> (raw_eligible (wf_task_backlog w) y \<longrightarrow> raw_key x \<le> raw_key y)))"
  using select_next_Some [OF assms] select_next_None [OF assms] by (fastforce split: option.split)

theorem select_next_picks_least_eligible_witness:
  "\<exists>sel. select_next ''W'' (ex_store [ex_item ''B'' queue_state.READY [''C''], ex_item ''A'' queue_state.READY [],
       ex_item ''C'' queue_state.COMPLETED []]) = Inr sel \<and> qs_selected_item_id sel = Some ''A''"
proof -
  let ?b = "[ex_item ''B'' queue_state.READY [''C''], ex_item ''A'' queue_state.READY [],
       ex_item ''C'' queue_state.COMPLETED []]"
  have "\<exists>sel. select_next ''W'' (ex_store ?b) = Inr sel"
    by (rule select_next_total [OF ex_store_workflow]) (simp_all add: raw_running_def)
  then obtain sel where sel: "select_next ''W'' (ex_store ?b) = Inr sel" by blast
  have el: "raw_eligible ?b (ex_item ''A'' queue_state.READY [])" "\<not> raw_eligible ?b (ex_item ''C'' queue_state.COMPLETED [])"
    "raw_eligible ?b (ex_item ''B'' queue_state.READY [''C''])"
    by (simp_all add: raw_eligible_def raw_schedulable_def)
  have less: "\<not> raw_key (ex_item ''B'' queue_state.READY [''C'']) \<le> raw_key (ex_item ''A'' queue_state.READY [])"
    by (simp add: raw_key_def less_eq_char_def)
  have run: "\<not> raw_running (ex_item k queue_state.READY ds)" "\<not> raw_running (ex_item k queue_state.COMPLETED ds)" for k ds
    by (simp_all add: raw_running_def)
  have "qs_selected_item_id sel = Some ''A''"
    using select_next_picks_least_eligible [OF ex_store_workflow sel] el less run
    by (cases "qs_selected_item_id sel") auto
  with sel show ?thesis by blast
qed

definition ranking :: "queue_selection \<Rightarrow> string option \<times> string \<times> string list" where
  "ranking sel = (qs_selected_item_id sel, qs_reason sel, qs_eligible_item_ids sel)"

lemma mset_filter_map: "mset xs = mset ys \<Longrightarrow> mset (map f (filter P xs)) = mset (map f (filter P ys))"
  by (metis mset_filter mset_map)

lemma scoped_selection_perm:
  assumes "mset ps = mset qs" and "distinct (map gi_item_id ps)"
  shows "bind_res (scoped_selection ps) (\<lambda>x. Inr (ranking x)) = bind_res (scoped_selection qs) (\<lambda>x. Inr (ranking x))"
proof -
  let ?f = "\<lambda>r. filter gi_queue_state_present r"
  have sets: "set ps = set qs" using assms(1) by (rule mset_eq_setD)
  have ident: "validate_scoped_running_identities (?f ps) = validate_scoped_running_identities (?f qs)"
    unfolding validate_scoped_running_identities_def filter_filter
    by (simp only: mset_eq_imp_distinct_iff [OF mset_filter_map [OF assms(1)]])
  have run: "filter is_running (?f ps) = [] \<longleftrightarrow> filter is_running (?f qs) = []"
    unfolding filter_empty_conv set_filter sets by (rule refl)
  have deps: "global_dependencies_complete i (filter gi_schedulable ps)
      = global_dependencies_complete i (filter gi_schedulable qs)" for i
    using sets by (simp add: global_dependencies_complete_def Let_def)
  have cand: "mset (candidates_of ps) = mset (candidates_of qs)"
    unfolding candidates_of_def global_is_eligible_def deps using assms(1) by (metis mset_filter)
  have "inj_on gi_item_id (set ps)"
    using assms(2) by (simp add: distinct_map)
  then have inj: "inj_on scoped_selection_key (set (candidates_of ps))"
    by (auto simp: inj_on_def candidates_of_def scoped_selection_key_def)
  have "pick scoped_selection_key (candidates_of ps) = pick scoped_selection_key (candidates_of qs)"
    "sort_key scoped_selection_key (candidates_of ps) = sort_key scoped_selection_key (candidates_of qs)"
    using pick_perm [OF inj cand] sort_key_perm [OF inj cand] by auto
  then show ?thesis
    using ident run unfolding scoped_selection_def Let_def candidates_of_def ranking_def
    by (cases "validate_scoped_running_identities (?f qs)") (auto split: option.split)
qed

text \<open>Order independence: permuting the stored backlog changes neither the selected item, nor the
  reason, nor the ranked list of eligible items that \<open>select_next\<close> returns, nor whether it
  raises.\<close>

theorem select_next_order_independent:
  assumes "get_workflow i s = Some w" and "get_workflow i t = Some (w\<lparr>wf_task_backlog := b\<rparr>)"
    and "mset b = mset (wf_task_backlog w)"
  shows "bind_res (select_next i t) (\<lambda>x. Inr (ranking x)) = bind_res (select_next i s) (\<lambda>x. Inr (ranking x))"
proof -
  have g: "global_item_of None (w\<lparr>wf_task_backlog := b\<rparr>) = global_item_of None w"
    by (rule ext) (simp add: global_item_of_def)
  have d: "distinct (map item_id_of b) \<longleftrightarrow> distinct (map item_id_of (wf_task_backlog w))"
    using assms(3) by (metis mset_eq_imp_distinct_iff mset_map)
  have "bind_res (scoped_selection (map (global_item_of None w) b)) (\<lambda>x. Inr (ranking x))
      = bind_res (scoped_selection (map (global_item_of None w) (wf_task_backlog w))) (\<lambda>x. Inr (ranking x))"
    if "distinct (map item_id_of b)"
    by (rule scoped_selection_perm) (use that assms(3) in \<open>simp_all add: o_def mset_map\<close>)
  then show ?thesis
    using assms(1,2) g d
    by (simp add: select_next_def workflow_of_def execution_items_def global_items_def workflow_items_def
        validate_unique_item_ids_def check_that_def bind_res_def)
qed

theorem select_next_order_independent_witness:
  "bind_res (select_next ''W'' (ex_store [ex_item ''A'' queue_state.READY [], ex_item ''B'' READY_TO_RESUME []]))
      (\<lambda>x. Inr (ranking x))
   = bind_res (select_next ''W'' (ex_store [ex_item ''B'' READY_TO_RESUME [], ex_item ''A'' queue_state.READY []]))
      (\<lambda>x. Inr (ranking x))"
proof (rule select_next_order_independent [OF ex_store_workflow])
  show "get_workflow ''W'' (ex_store [ex_item ''A'' queue_state.READY [], ex_item ''B'' READY_TO_RESUME []]) =
    Some (ex_workflow ''W'' [ex_item ''B'' READY_TO_RESUME [], ex_item ''A'' queue_state.READY []]
      \<lparr>wf_task_backlog := [ex_item ''A'' queue_state.READY [], ex_item ''B'' READY_TO_RESUME []]\<rparr>)"
    by (simp add: ex_workflow_def get_workflow_def ex_store_def)
qed (simp add: add_mset_commute)

text \<open>C6. No two running items: along any sequence of queue operations a workflow whose backlogs hold
  at most one RUNNING item each keeps it so.\<close>

theorem queue_keeps_single_running:
  assumes "queue_step\<^sup>*\<^sup>* s t" and "single_running s" and "w \<in> set (workflows t)"
  shows "length (filter (\<lambda>x. qi_state x = Text ''RUNNING'') (wf_task_backlog w)) \<le> 1"
  using queue_running.run_inv [OF assms(1,2)] assms(3)
  by (simp add: single_running_def list_all_iff raw_running_iff [abs_def])

lemma ex_store_start:
  "queue_step\<^sup>*\<^sup>* (ex_store b) (snd (start_next ''W'' LUCIUS (ex_store b)))"
  by (rule r_into_rtranclp) (rule queue_step.intros)

theorem queue_keeps_single_running_witness:
  "list_all (\<lambda>w. length (filter (\<lambda>x. qi_state x = Text ''RUNNING'') (wf_task_backlog w)) \<le> 1)
     (workflows (snd (start_next ''W'' LUCIUS (ex_store [ex_item ''A'' queue_state.READY [],
       ex_item ''B'' queue_state.READY []]))))"
  unfolding list_all_iff
  by (rule ballI, rule queue_keeps_single_running [OF ex_store_start])
    (simp_all add: single_running_def ex_store_def raw_running_def)


lemma ex_store_item: "workflow_item ''W'' ''A'' (ex_store (ex_item ''A'' q ds # b)) = Some (ex_item ''A'' q ds)"
  by (simp add: workflow_item_def)


lemma blocked_states_shape: "q \<in> {WAITING_RESOURCE_SHORT, WAITING_RESOURCE_LONG} \<Longrightarrow> \<not> queue_edge q b"
  by (auto simp: queue_edge_from eligible_states_def blocked_states_def)

text \<open>Stuck waits: an item in WAITING_RESOURCE_SHORT or WAITING_RESOURCE_LONG is left as it is by
  every sequence of queue operations: it is never selected, and neither a repair nor a resolution
  accepts it.\<close>

theorem resource_wait_items_are_stuck:
  assumes "queue_step\<^sup>*\<^sup>* s t" and "workflow_item i k s = Some x"
    and "state_if_valid x \<in> {Some WAITING_RESOURCE_SHORT, Some WAITING_RESOURCE_LONG}"
  shows "workflow_item i k t = Some x"
proof (rule queue_items.run_terminal [OF assms(1,2)])
  show "\<not> item_edge x y" for y
    using assms(3) blocked_states_shape by (fastforce simp: item_edge_def)
qed

theorem resource_wait_items_are_stuck_witness:
  "workflow_item ''W'' ''A'' (snd (start_next ''W'' LUCIUS (ex_store [ex_item ''A'' WAITING_RESOURCE_SHORT []])))
     = Some (ex_item ''A'' WAITING_RESOURCE_SHORT [])"
  by (rule resource_wait_items_are_stuck [OF ex_store_start ex_store_item]) simp

text \<open>Failed queue operations write nothing: every operation on one workflow that raises leaves the
  store as it was.\<close>

theorem queue_operations_atomic:
  "atomic (start_next i a) \<and> atomic (block_running_item i k q a)
    \<and> atomic (block_dispatch_selected_item i k e v q a)
    \<and> atomic (repair_blocked_item_configuration i k c v tm pt a)
    \<and> atomic (resolve_blocker i k c v ev a) \<and> atomic (complete_item i k ss a)"
  by (intro conjI atomicI clean_queue_operations)

lemma block_running_Inr:
  assumes "block_running_item i k q a s = (Inr ck, t)"
  shows "\<exists>w x. get_workflow i s = Some w \<and> tget item_id_of k (wf_task_backlog w) = Some x
    \<and> raw_running x \<and> bq_blocking_state q \<in> set blocked_states
    \<and> ck = block_checkpoint s w k x queue_state.RUNNING q
    \<and> workflow_item i k t = Some (block_item (bump_id ''queue_checkpoint'' s) ck q x)"
proof -
  obtain w x where w: "get_workflow i s = Some w" "tget item_id_of k (wf_task_backlog w) = Some x"
    "state_if_valid x = Some queue_state.RUNNING" "bq_blocking_state q \<in> set blocked_states"
    "record_block ''block_queue_work_item'' w k x queue_state.RUNNING q a s = (Inr ck, t)"
    using assms by (auto simp: block_running_item_def op_simps)
  have id: "wf_id w = i" "item_id_of x = k"
    using workflow_table.get_key [OF w(1)] tget_Some_mem [OF w(2)] by auto
  have "ck = block_checkpoint s w k x queue_state.RUNNING q"
    using w(5) by (simp add: record_block_def Let_def)
  moreover have "workflow_item i k t = Some (block_item (bump_id ''queue_checkpoint'' s) ck q x)"
    using w(5) id by (auto simp: record_block_def Let_def workflow_item_def get_workflow_def put_workflow_def)
  ultimately show ?thesis
    using w by (auto simp: raw_running_valid)
qed

lemma resolve_current_iff:
  assumes "workflow_item i k t = Some y"
  shows "(\<exists>z u. resolve_blocker i k c v ev a t = (Inr z, u)) \<longleftrightarrow>
    qi_current_block_checkpoint_id y = Some c \<and> qi_version y = v
      \<and> (\<exists>q \<in> set blocked_states. state_if_valid y = Some q)"
proof -
  obtain w where "get_workflow i t = Some w" "tget item_id_of k (wf_task_backlog w) = Some y"
    using assms by (auto simp: workflow_item_def split: option.splits)
  then show ?thesis by (auto simp: resolve_blocker_Inr current_block_Inr)
qed

lemma resolve_item:
  assumes "resolve_blocker i k c v ev a t = (Inr z, u)"
  shows "workflow_item i k u = Some z \<and> state_if_valid z = Some READY_TO_RESUME \<and> qi_version z = v + 1"
proof -
  obtain w x where w: "get_workflow i t = Some w" "tget item_id_of k (wf_task_backlog w) = Some x"
    "z = resolved t ev x" "workflows u = tput wf_id (with_item t z w) (workflows t)" "qi_version x = v"
    using assms by (auto simp: resolve_blocker_Inr current_block_Inr put_workflow_def)
  have "wf_id w = i" "item_id_of x = k"
    using workflow_table.get_key [OF w(1)] tget_Some_mem [OF w(2)] by auto
  with w show ?thesis by (simp add: workflow_item_def get_workflow_def)
qed



lemma item_ids_disjoint:
  assumes "distinct (map item_id_of b)"
  shows "set (completed_item_ids b) \<inter> set (pending_item_ids b) = {}"
  using assms
  by (auto simp: completed_item_ids_def pending_item_ids_def terminal_states_def distinct_map inj_on_def)

text \<open>Completion's bookkeeping: when \<open>complete_item\<close> succeeds on a backlog without duplicate ids, the
  item was RUNNING or READY_TO_RESUME and is COMPLETED; the workflow's completed ids are then the
  sorted ids of its COMPLETED items, the item among them, its pending ids the sorted ids of the
  items in no terminal state, and the two lists are disjoint.\<close>

theorem complete_item_bookkeeping:
  assumes "complete_item i k ss a s = (Inr y, t)" and "get_workflow i s = Some w"
    and "distinct (map item_id_of (wf_task_backlog w))"
  shows "\<exists>w' x. get_workflow i t = Some w' \<and> workflow_item i k s = Some x \<and> workflow_item i k t = Some y
    \<and> raw_state x \<in> {Some queue_state.RUNNING, Some READY_TO_RESUME} \<and> raw_state y = Some queue_state.COMPLETED
    \<and> wf_completed_task_ids w' = sorted_set (completed_item_ids (wf_task_backlog w'))
    \<and> wf_pending_task_ids w' = sorted_set (pending_item_ids (wf_task_backlog w'))
    \<and> k \<in> set (wf_completed_task_ids w')
    \<and> set (wf_completed_task_ids w') \<inter> set (wf_pending_task_ids w') = {}"
proof -
  obtain x where x: "tget item_id_of k (wf_task_backlog w) = Some x"
    "raw_state x \<in> {Some queue_state.RUNNING, Some READY_TO_RESUME}" "y = completed s ss x"
    "workflows t = tput wf_id (completed_workflow s k y w) (workflows s)"
    using assms(1,2) by (auto simp: complete_item_Inr put_workflow_def)
  let ?w = "completed_workflow s k y w"
  have id: "wf_id w = i" "item_id_of x = k" "item_id_of y = k"
    using workflow_table.get_key [OF assms(2)] tget_Some_mem [OF x(1)] x(3) by auto
  have get: "get_workflow i t = Some ?w"
    using id x(4) by (simp add: get_workflow_def completed_workflow_def)
  have bl: "wf_task_backlog ?w = tput item_id_of y (wf_task_backlog w)"
    "wf_completed_task_ids ?w = sorted_set (completed_item_ids (wf_task_backlog ?w))"
    "wf_pending_task_ids ?w = sorted_set (pending_item_ids (wf_task_backlog ?w))"
    by (simp_all add: completed_workflow_def)
  have "y \<in> set (filter (\<lambda>z. state_if_valid z = Some queue_state.COMPLETED) (wf_task_backlog ?w))"
    using bl(1) x(3) by simp
  then have k: "k \<in> set (completed_item_ids (wf_task_backlog ?w))"
    unfolding completed_item_ids_def using id(3) by (metis imageI list.set_map)
  have "distinct (map item_id_of (wf_task_backlog ?w))"
    unfolding bl(1) by (rule distinct_tput [OF assms(3)])
  then have "set (wf_completed_task_ids ?w) \<inter> set (wf_pending_task_ids ?w) = {}"
    unfolding bl(2,3) set_sorted_set by (rule item_ids_disjoint)
  moreover have "workflow_item i k s = Some x" "workflow_item i k t = Some y"
    using assms(2) x(1) get bl(1) id(3) by (simp_all add: workflow_item_def)
  ultimately show ?thesis
    using get bl(2,3) k x(2,3) by (intro exI [of _ ?w] exI [of _ x]) simp
qed

theorem complete_item_bookkeeping_witness:
  "\<exists>y t w'. complete_item ''W'' ''A'' [''s''] LUCIUS (ex_store [ex_item ''A'' queue_state.RUNNING [],
       ex_item ''B'' queue_state.READY []]) = (Inr y, t)
     \<and> get_workflow ''W'' t = Some w' \<and> ''A'' \<in> set (wf_completed_task_ids w')"
proof -
  let ?s = "ex_store [ex_item ''A'' queue_state.RUNNING [], ex_item ''B'' queue_state.READY []]"
  have "\<exists>y t. complete_item ''W'' ''A'' [''s''] LUCIUS ?s = (Inr y, t)"
    unfolding complete_item_Inr by (simp add: execution_eligible_states_def)
  then obtain y t where c: "complete_item ''W'' ''A'' [''s''] LUCIUS ?s = (Inr y, t)" by blast
  from complete_item_bookkeeping [OF c ex_store_workflow] c show ?thesis by fastforce
qed


definition ex_two :: db where
  "ex_two = empty_db\<lparr>workflows := [ex_workflow ''V'' [ex_item ''B'' queue_state.READY []],
     ex_workflow ''W'' [ex_item ''A'' READY_TO_RESUME []]]\<rparr>"

definition ex_B :: global_item where
  "ex_B = global_item_of None (ex_workflow ''V'' [ex_item ''B'' queue_state.READY []]) (ex_item ''B'' queue_state.READY [])"

definition ex_A :: global_item where
  "ex_A = global_item_of None (ex_workflow ''W'' [ex_item ''A'' READY_TO_RESUME []]) (ex_item ''A'' READY_TO_RESUME [])"

lemma ex_workflow_executable [simp]: "workflow_execution_exclusion_reason (ex_workflow i b) = None"
  by (simp add: workflow_execution_exclusion_reason_def execution_eligible_states_def)

lemma ex_AB_simps [simp]:
  "gi_item_id ex_A = ''A''" "gi_workflow_id ex_A = ''W''" "gi_schedulable ex_A" "gi_schedulable ex_B"
  "\<not> is_running ex_A" "\<not> is_running ex_B" "gi_state ex_A = Some READY_TO_RESUME"
  "gi_dependencies ex_A = []" "gi_dependencies ex_B = []" "gi_state ex_B = Some queue_state.READY"
  by (simp_all add: ex_A_def ex_B_def raw_schedulable_def raw_running_def)

lemma ex_two_keys: "\<not> global_selection_key ex_B \<le> global_selection_key ex_A"
  by (simp add: ex_A_def ex_B_def global_key_raw raw_schedulable_def global_raw_key_def state_class_rank_def)

lemma ex_two_selection:
  "\<exists>sel. select_global_next None ex_two = Inr sel \<and> gs_selected_item_id sel = Some ''A''
     \<and> gs_selected_workflow_id sel = Some ''W'' \<and> gs_eligible_items sel = [ex_A, ex_B]"
proof -
  have ws: "global_workflows None ex_two = Inr [ex_workflow ''V'' [ex_item ''B'' queue_state.READY []],
     ex_workflow ''W'' [ex_item ''A'' READY_TO_RESUME []]]"
    by (simp add: global_workflows_def list_or_def ex_two_def less_eq_char_def)
  have p: "partition_global_workflows [ex_workflow ''V'' [ex_item ''B'' queue_state.READY []],
     ex_workflow ''W'' [ex_item ''A'' READY_TO_RESUME []]] = Inr ([ex_workflow ''V'' [ex_item ''B'' queue_state.READY []],
     ex_workflow ''W'' [ex_item ''A'' READY_TO_RESUME []]], [])"
    by simp
  have g: "global_items None [ex_workflow ''V'' [ex_item ''B'' queue_state.READY []],
     ex_workflow ''W'' [ex_item ''A'' READY_TO_RESUME []]] = Inr [ex_B, ex_A]"
    by (simp add: global_items_def workflow_items_def validate_unique_item_ids_def ex_A_def ex_B_def)
  have elig: "global_is_eligible ex_B [ex_B, ex_A]" "global_is_eligible ex_A [ex_B, ex_A]"
    by (simp_all add: global_is_eligible_def eligible_states_def global_dependencies_complete_def Let_def)
  have pick: "pick global_selection_key [ex_B, ex_A] = Some ex_A"
    "sort_key global_selection_key [ex_B, ex_A] = [ex_A, ex_B]"
    using ex_two_keys by (simp_all add: pick_def)
  have "\<exists>sel. global_selection_of [ex_B, ex_A] [] = Inr sel \<and> gs_selected_item_id sel = Some ''A''
     \<and> gs_selected_workflow_id sel = Some ''W'' \<and> gs_eligible_items sel = [ex_A, ex_B]"
    using elig pick
    by (simp add: global_selection_of_def Let_def validate_global_running_identities_def no_selection_def
        del: sort_key_simps)
  then show ?thesis
    by (simp add: select_global_next_def ws p g del: partition_global_workflows.simps)
qed

lemma ex_two_admitted:
  assumes "select_global_next None ex_two = Inr sel" "gs_selected_item_id sel = Some ''A''"
    "gs_selected_workflow_id sel = Some ''W''" "gs_eligible_items sel = [ex_A, ex_B]"
  shows "\<exists>adm. admit_global_selection sel None ex_two = Inr adm"
proof -
  let ?w = "ex_workflow ''W'' [ex_item ''A'' READY_TO_RESUME []]"
  have w: "workflow_of (or_else (gs_selected_workflow_id sel) []) ex_two = Inr ?w"
    using assms(3) by (simp add: workflow_of_Inr or_else_def get_workflow_def ex_two_def)
  have p: "execution_items ?w = Inr [ex_A]"
    by (simp add: execution_items_Inr ex_A_def)
  have i: "item_of (wf_task_backlog ?w) (or_else (gs_selected_item_id sel) []) = Inr (ex_item ''A'' READY_TO_RESUME [])"
    using assms(2) by (simp add: item_of_Inr or_else_def)
  show ?thesis
    unfolding admit_global_selection_def w
    using assms p i
    by (simp add: in_scope_def same_selection_def validate_global_running_identities_def
        eligible_states_def global_dependencies_complete_def Let_def)
qed

lemma ex_two_distinct: "distinct (map wf_id (workflows ex_two))"
  by (simp add: ex_two_def)


text \<open>Starting a global selection: with unique workflow ids, \<open>start_selected_global_item\<close> either raises
  and writes nothing, or the selection is still what \<open>select_global_next\<close> returns, no executable
  workflow in scope has a RUNNING item, and exactly the selected item is rewritten: RUNNING, under
  the version after the one selected.\<close>

theorem start_selected_global_item_starts_current:
  assumes "distinct (map wf_id (workflows s))" and "gs_selected_workflow_id sel = Some i"
  shows "case start_selected_global_item sel is a s of
      (Inl e, t) \<Rightarrow> t = s
    | (Inr r, t) \<Rightarrow> (\<exists>cur k x y. select_global_next is s = Inr cur \<and> same_selection cur sel
        \<and> gs_selected_item_id sel = Some k \<and> gs_selected_item_version sel = Some (qi_version x)
        \<and> workflow_item i k s = Some x \<and> workflow_item i k t = Some y \<and> item_edge x y \<and> raw_running y
        \<and> (\<forall>v \<in> set (schedulable_in is s). \<forall>z \<in> set (wf_task_backlog v). \<not> raw_running z)
        \<and> (\<forall>j l. (j, l) \<noteq> (i, k) \<longrightarrow> workflow_item j l t = workflow_item j l s))"
proof (cases "admit_global_selection sel is s")
  case (Inl e)
  with assms show ?thesis by (simp add: start_selected_global_item_def start_global_selection_def)
next
  case (Inr adm)
  obtain w x g where adm: "adm = (w, x, g)" by (cases adm)
  note ident = admit_identity [OF Inr [unfolded adm] assms(1)]
  obtain cur k q where c: "select_global_next is s = Inr cur" "same_selection cur sel"
    "gs_selected_item_id sel = Some k" "tget item_id_of k (wf_task_backlog w) = Some x"
    "get_workflow (or_else (gs_selected_workflow_id sel) []) s = Some w"
    "raw_state x = Some q" "q \<in> set eligible_states"
    using admit_Inr [OF Inr [unfolded adm]] by blast
  let ?y = "start_item s x"
  let ?w = "(with_item s ?y w)\<lparr>wf_active_task_id := Some (item_id_of x)\<rparr>"
  obtain r t where rt: "start_selected_global_item sel is a s = (Inr r, t)"
    "workflows t = tput wf_id ?w (workflows s)"
    using ident Inr adm assms(2)
    by (simp add: start_selected_global_item_def start_global_selection_def Let_def put_workflow_def)
  have i: "wf_id w = i" and k: "item_id_of x = k" using ident assms(2) c(3) by simp_all
  have get: "get_workflow i s = Some w"
    using c(5) assms(2) by (cases i) (simp_all add: or_else_def)
  have edge: "item_edge x ?y"
    by (rule item_edgeI [OF state_if_valid_raw [OF c(6)] edge_start [OF c(7)]]) simp_all
  have gett: "get_workflow j t = (if i = j then Some ?w else get_workflow j s)" for j
    using rt(2) i by (simp add: get_workflow_def)
  have "gs_selected_item_id cur = Some k" using c(2,3) by (simp add: same_selection_def)
  then have nr: "\<forall>v \<in> set (schedulable_in is s). \<forall>z \<in> set (wf_task_backlog v). \<not> raw_running z"
    using select_global_Some [OF c(1) _ assms(1)] by blast
  have "workflow_item i k t = Some ?y" "workflow_item i k s = Some x"
    using gett get c(4) k by (simp_all add: workflow_item_def)
  moreover have "workflow_item j l t = workflow_item j l s" if "(j, l) \<noteq> (i, k)" for j l
    using that gett get k by (auto simp: workflow_item_def)
  moreover have "raw_running ?y" by (simp add: raw_running_valid)
  ultimately show ?thesis using rt(1) c ident edge nr by auto
qed

theorem start_selected_global_item_starts_current_witness:
  "\<exists>sel r t y. start_selected_global_item sel None LUCIUS ex_two = (Inr r, t)
     \<and> workflow_item ''W'' ''A'' t = Some y \<and> raw_running y"
proof -
  obtain sel where sel: "select_global_next None ex_two = Inr sel" "gs_selected_item_id sel = Some ''A''"
    "gs_selected_workflow_id sel = Some ''W''" "gs_eligible_items sel = [ex_A, ex_B]"
    using ex_two_selection by blast
  obtain w x g where adm: "admit_global_selection sel None ex_two = Inr (w, x, g)"
    using ex_two_admitted [OF sel] by (metis prod_cases3)
  obtain r t where r: "start_selected_global_item sel None LUCIUS ex_two = (Inr r, t)"
    using adm admit_identity [OF adm ex_two_distinct] sel(3)
    by (simp add: start_selected_global_item_def start_global_selection_def Let_def)
  have "\<exists>y. workflow_item ''W'' ''A'' t = Some y \<and> raw_running y"
    using start_selected_global_item_starts_current [OF ex_two_distinct sel(3), of None LUCIUS] sel(2)
    by (auto simp: r)
  with r show ?thesis by blast
qed

end
