(* ===== verification/Tasks.thy ===== *)
theory Tasks
  imports Store
begin

text \<open>
  The task contracts of \<^verbatim>\<open>lucius/tasks\<close>: the authority policy (\<^verbatim>\<open>policy.py\<close>) and the
  task service (\<^verbatim>\<open>service.py\<close>), whose operations move a task along its lifecycle.
  An operation is a function from the store to its value or exception and the store it
  leaves. Arguments that the code types by an enumeration are of that enumeration's type.
\<close>

section \<open>Authority policy\<close>

primrec authority_rank :: "authority_level \<Rightarrow> nat" where
  "authority_rank L0 = 0"
| "authority_rank L1 = 1"
| "authority_rank L2 = 2"
| "authority_rank L3 = 3"

primrec action_authority :: "allowed_action \<Rightarrow> authority_level" where
  "action_authority READ_REPOSITORY = L0"
| "action_authority READ_DOCUMENTATION = L0"
| "action_authority RUN_TESTS = L0"
| "action_authority CREATE_TEMP_FILES = L0"
| "action_authority WRITE_SOURCE = L1"
| "action_authority WRITE_TESTS = L1"
| "action_authority WRITE_DOCUMENTATION = L1"
| "action_authority CREATE_MIGRATION = L1"
| "action_authority CREATE_COMMIT = L2"

primrec environment_authority :: "environment \<Rightarrow> authority_level" where
  "environment_authority SANDBOX = L0"
| "environment_authority DEVELOPMENT = L0"
| "environment_authority STAGING = L2"
| "environment_authority PRODUCTION = L3"

definition authority_exceeds :: "authority_level \<Rightarrow> authority_level \<Rightarrow> bool" where
  "authority_exceeds candidate maximum = (authority_rank candidate > authority_rank maximum)"

text \<open>The levels ordered by their rank.\<close>

instantiation authority_level :: linorder
begin

definition less_eq_authority_level :: "authority_level \<Rightarrow> authority_level \<Rightarrow> bool" where
  "less_eq_authority_level a b = (authority_rank a \<le> authority_rank b)"

definition less_authority_level :: "authority_level \<Rightarrow> authority_level \<Rightarrow> bool" where
  "less_authority_level a b = (authority_rank a < authority_rank b)"

instance
proof
  fix a b :: authority_level
  show "a \<le> b \<Longrightarrow> b \<le> a \<Longrightarrow> a = b"
    by (cases a; cases b) (simp_all add: less_eq_authority_level_def)
qed (auto simp: less_eq_authority_level_def less_authority_level_def)

end

lemma authority_exceeds_iff [simp]: "authority_exceeds a b \<longleftrightarrow> b < a"
  by (simp add: authority_exceeds_def less_authority_level_def)

primrec authority_value :: "authority_level \<Rightarrow> string" where
  "authority_value L0 = ''L0''"
| "authority_value L1 = ''L1''"
| "authority_value L2 = ''L2''"
| "authority_value L3 = ''L3''"

primrec action_value :: "allowed_action \<Rightarrow> string" where
  "action_value READ_REPOSITORY = ''READ_REPOSITORY''"
| "action_value READ_DOCUMENTATION = ''READ_DOCUMENTATION''"
| "action_value RUN_TESTS = ''RUN_TESTS''"
| "action_value CREATE_TEMP_FILES = ''CREATE_TEMP_FILES''"
| "action_value WRITE_SOURCE = ''WRITE_SOURCE''"
| "action_value WRITE_TESTS = ''WRITE_TESTS''"
| "action_value WRITE_DOCUMENTATION = ''WRITE_DOCUMENTATION''"
| "action_value CREATE_MIGRATION = ''CREATE_MIGRATION''"
| "action_value CREATE_COMMIT = ''CREATE_COMMIT''"

primrec environment_value :: "environment \<Rightarrow> string" where
  "environment_value SANDBOX = ''SANDBOX''"
| "environment_value DEVELOPMENT = ''DEVELOPMENT''"
| "environment_value STAGING = ''STAGING''"
| "environment_value PRODUCTION = ''PRODUCTION''"

primrec project_status_value :: "project_status \<Rightarrow> string" where
  "project_status_value project_status.ACTIVE = ''ACTIVE''"
| "project_status_value project_status.PAUSED = ''PAUSED''"
| "project_status_value ARCHIVED = ''ARCHIVED''"

record structured_blocker =
  b_code :: blocker_code
  b_message :: string
  b_metadata :: json_object

record validation_result =
  vr_valid :: bool
  vr_blockers :: "structured_blocker list"

definition blocker :: "blocker_code \<Rightarrow> string \<Rightarrow> json_object \<Rightarrow> structured_blocker" where
  "blocker code message metadata = \<lparr>b_code = code, b_message = message, b_metadata = metadata\<rparr>"

definition validate_authority ::
  "authority_level \<Rightarrow> authority_level \<Rightarrow> allowed_action list \<Rightarrow> environment \<Rightarrow> structured_blocker list"
where
  "validate_authority task_authority contract_authority actions environment =
     (if authority_exceeds contract_authority task_authority
      then [blocker AUTHORITY_INSUFFICIENT ''TaskContract authority cannot exceed Task authority.''
              [(''task_authority'', JStr (authority_value task_authority)),
               (''contract_authority'', JStr (authority_value contract_authority))]]
      else [])
     @ concat (map (\<lambda>action.
         let required = action_authority action in
         if authority_exceeds required contract_authority \<or> authority_exceeds required task_authority
         then [blocker AUTHORITY_INSUFFICIENT
                 (''Action '' @ action_value action @ '' requires authority '' @ authority_value required @ ''.'')
                 [(''action'', JStr (action_value action)),
                  (''required_authority'', JStr (authority_value required))]]
         else []) actions)
     @ (let env_required = environment_authority environment in
        if authority_exceeds env_required contract_authority \<or> authority_exceeds env_required task_authority
        then [blocker AUTHORITY_INSUFFICIENT
                (''Environment '' @ environment_value environment @ '' requires authority ''
                   @ authority_value env_required @ ''.'')
                [(''environment'', JStr (environment_value environment)),
                 (''required_authority'', JStr (authority_value env_required))]]
        else [])"

section \<open>Lookups and guards of the service\<close>

definition task_of :: "string \<Rightarrow> db \<Rightarrow> task_row res" where
  "task_of task_id s = some_or (get_task task_id s) (ValueError (''Unknown task: '' @ task_id))"

definition project_of :: "string \<Rightarrow> db \<Rightarrow> project_row res" where
  "project_of project_id s =
     some_or (get_project project_id s) (ValueError (''Unknown project: '' @ project_id))"

text \<open>The contract of the task with the highest version.\<close>

definition active_contract :: "string \<Rightarrow> db \<Rightarrow> contract_row option" where
  "active_contract task_id s =
     pick (\<lambda>c. - int (c_version c)) (filter (\<lambda>c. c_task_id c = task_id) (contracts s))"

definition completion_of :: "string \<Rightarrow> db \<Rightarrow> completion_row option" where
  "completion_of task_id s = find (\<lambda>d. d_task_id d = task_id) (completions s)"

definition attached :: "string \<Rightarrow> string \<Rightarrow> db \<Rightarrow> bool" where
  "attached project_id repository_id s =
     list_ex (\<lambda>a. att_project_id a = project_id \<and> att_repository_id a = repository_id) (attachments s)"

definition terminal_statuses :: "task_status list" where
  "terminal_statuses = [COMPLETE, task_status.CANCELLED]"

definition ensure_transition :: "task_row \<Rightarrow> task_status list \<Rightarrow> unit res" where
  "ensure_transition task allowed_from =
     (if t_status task \<in> set terminal_statuses
      then Inl (ValueError ''Task is terminal for Phase 1.5'')
      else if t_status task \<notin> set allowed_from
      then Inl (ValueError (''Invalid Task transition from '' @ task_status_value (t_status task)))
      else Inr ())"

definition apply_blocker :: "task_row \<Rightarrow> structured_blocker \<Rightarrow> db \<Rightarrow> task_row" where
  "apply_blocker task b s = task\<lparr>t_status := task_status.BLOCKED,
     t_blocker_code := Some (b_code b), t_blocker_message := Some (b_message b),
     t_blocked_at := Some (utc_now s), t_updated_at := utc_now s\<rparr>"

text \<open>An audit event about a task, with the default authority level.\<close>

definition audit_task ::
  "string \<Rightarrow> actor \<Rightarrow> task_row \<Rightarrow> string option \<Rightarrow> string \<Rightarrow> string \<Rightarrow> json_object \<Rightarrow> db \<Rightarrow> db" where
  "audit_task event_type actor task run_id action result metadata =
     audit_record event_type (actor_value actor) (Some (t_project_id task)) None (Some (t_id task)) run_id L0
       action result metadata"

definition blocker_json :: "structured_blocker \<Rightarrow> json" where
  "blocker_json b = JObj [(''code'', JStr (blocker_code_value (b_code b))),
     (''message'', JStr (b_message b)), (''metadata'', JObj (b_metadata b))]"

section \<open>Contract validation\<close>

definition validate_repositories :: "task_row \<Rightarrow> contract_row \<Rightarrow> db \<Rightarrow> structured_blocker list" where
  "validate_repositories task contract s =
     concat (map (\<lambda>repository_id.
       if get_registration repository_id s = None \<or> \<not> attached (t_project_id task) repository_id s
       then [blocker MISSING_REPOSITORY ''TaskContract repository is not attached to the Task project.''
               [(''repository_id'', JStr repository_id)]]
       else []) (c_repository_ids contract))"

definition dependency_blockers :: "task_row \<Rightarrow> db \<Rightarrow> string \<Rightarrow> structured_blocker list" where
  "dependency_blockers task s dependency_id =
     (if dependency_id = t_id task
      then [blocker DEPENDENCY_BLOCKED ''Task cannot depend on itself.'' []]
      else case get_task dependency_id s of
        None \<Rightarrow> [blocker DEPENDENCY_BLOCKED ''Task dependency does not exist.''
                  [(''dependency_id'', JStr dependency_id)]]
      | Some dependency \<Rightarrow>
          (case active_contract (t_id dependency) s of
             None \<Rightarrow> []
           | Some dependency_contract \<Rightarrow>
               if t_id task \<in> set (c_dependencies dependency_contract)
               then [blocker DEPENDENCY_BLOCKED ''Direct task dependency cycle detected.''
                       [(''dependency_id'', JStr dependency_id)]]
               else [])
          @ (if t_status dependency \<noteq> COMPLETE
             then [blocker DEPENDENCY_BLOCKED ''Task dependency is not COMPLETE.''
                     [(''dependency_id'', JStr dependency_id),
                      (''dependency_status'', JStr (task_status_value (t_status dependency)))]]
             else []))"

definition validate_dependencies :: "task_row \<Rightarrow> contract_row \<Rightarrow> db \<Rightarrow> structured_blocker list" where
  "validate_dependencies task contract s =
     concat (map (dependency_blockers task s) (c_dependencies contract))"

definition project_blockers :: "task_row \<Rightarrow> db \<Rightarrow> structured_blocker list" where
  "project_blockers task s =
     (case get_project (t_project_id task) s of
        None \<Rightarrow> [blocker INVALID_CONTRACT ''Task project does not exist.'' []]
      | Some project \<Rightarrow>
          if p_status project \<noteq> project_status.ACTIVE
          then [blocker PROJECT_INACTIVE ''Project must be ACTIVE before a Task can become READY.''
                  [(''project_status'', JStr (project_status_value (p_status project)))]]
          else [])"

definition contract_blockers :: "task_row \<Rightarrow> contract_row \<Rightarrow> db \<Rightarrow> structured_blocker list" where
  "contract_blockers task contract s =
     (if py_strip (c_objective contract) = []
      then [blocker INVALID_CONTRACT ''TaskContract objective is blank.'' []] else [])
     @ (if c_acceptance_criteria contract = []
        then [blocker INVALID_CONTRACT ''TaskContract requires acceptance criteria.'' []] else [])
     @ (if c_documentation_required contract \<and> c_documentation_targets contract = []
        then [blocker DOCUMENTATION_REQUIRED
                ''Documentation targets are required when documentation_required is true.'' []]
        else [])
     @ validate_repositories task contract s
     @ validate_dependencies task contract s
     @ validate_authority (t_authority_level task) (c_authority_level contract)
         (c_allowed_actions contract) (c_environment contract)"

definition validate_contract :: "string \<Rightarrow> db \<Rightarrow> validation_result res" where
  "validate_contract task_id s =
     (case task_of task_id s of
        Inl e \<Rightarrow> Inl e
      | Inr task \<Rightarrow>
          (case active_contract (t_id task) s of
             None \<Rightarrow> Inr \<lparr>vr_valid = False,
               vr_blockers = project_blockers task s
                 @ [blocker INVALID_CONTRACT ''Task has no active contract.'' []]\<rparr>
           | Some contract \<Rightarrow>
               let blockers = project_blockers task s @ contract_blockers task contract s
               in Inr \<lparr>vr_valid = (blockers = []), vr_blockers = blockers\<rparr>))"

section \<open>The operations\<close>

definition create_task ::
  "string \<Rightarrow> string \<Rightarrow> string \<Rightarrow> task_priority \<Rightarrow> task_complexity \<Rightarrow> authority_level \<Rightarrow> actor \<Rightarrow>
   db \<Rightarrow> task_row res \<times> db" where
  "create_task project_id title objective priority complexity level created_by s =
     try_res (project_of project_id s) s (\<lambda>project.
     try_res (check_that (p_status project = project_status.ACTIVE)
                (ValueError ''Project must be ACTIVE to receive new active work'')) s (\<lambda>_.
     let s1 = bump_id ''task'' s;
         task = \<lparr>t_id = fresh_id ''task'' s, t_project_id = p_id project, t_title = title,
           t_objective = objective, t_priority = priority, t_complexity = complexity,
           t_authority_level = level, t_status = task_status.DRAFT, t_created_by = created_by,
           t_blocker_code = None, t_blocker_message = None, t_blocked_at = None,
           t_failure_reason = None, t_created_at = utc_now s1, t_updated_at = utc_now s1\<rparr>;
         s2 = put_task task s1
     in (Inr task, audit_task ''TASK_CREATED'' created_by task None ''create_task'' ''SUCCESS'' [(''title'', JStr title),
           (''authority_level'', JStr (authority_value level))] s2)))"

text \<open>An acceptance criterion as given: a text, or a mapping with optional members.\<close>

datatype criterion_input =
    PlainCriterion string
  | MappedCriterion (ci_statement: "string option") (ci_status: "criterion_status option")
      (ci_id: "string option") (ci_key: "string option")

definition criterion_key :: "nat \<Rightarrow> string" where
  "criterion_key index = ''AC-'' @ zfill 3 (dec index)"

fun normalize_from :: "nat \<Rightarrow> criterion_input list \<Rightarrow> criterion list" where
  "normalize_from index [] = []"
| "normalize_from index (item # items) =
     (let (statement, status, key) =
        (case item of
           PlainCriterion text \<Rightarrow> (py_strip text, criterion_status.PENDING, criterion_key index)
         | MappedCriterion statement status i k \<Rightarrow>
             (py_strip (case statement of None \<Rightarrow> [] | Some t \<Rightarrow> t),
              (case status of None \<Rightarrow> criterion_status.PENDING | Some st \<Rightarrow> st),
              or_else i (or_else k (criterion_key index))))
      in (if statement \<noteq> []
          then [\<lparr>cr_id = key, cr_statement = statement, cr_status = status\<rparr>] else [])
         @ normalize_from (Suc index) items)"

definition normalize_acceptance_criteria :: "criterion_input list \<Rightarrow> criterion list" where
  "normalize_acceptance_criteria criteria = normalize_from 1 criteria"

record contract_input =
  in_objective :: string
  in_acceptance_criteria :: "criterion_input list"
  in_constraints :: "string list"
  in_repository_ids :: "string list"
  in_allowed_actions :: "allowed_action list"
  in_allowed_tools :: "string list"
  in_environment :: environment
  in_authority_level :: authority_level
  in_dependencies :: "string list"
  in_documentation_required :: bool
  in_documentation_targets :: "string list"
  in_stop_conditions :: "string list"

definition create_or_update_contract ::
  "string \<Rightarrow> contract_input \<Rightarrow> actor \<Rightarrow> db \<Rightarrow> contract_row res \<times> db" where
  "create_or_update_contract task_id inp actor s =
     try_res (task_of task_id s) s (\<lambda>task.
     let latest = active_contract (t_id task) s;
         event_type = (case latest of None \<Rightarrow> ''TASK_CONTRACT_CREATED'' | Some _ \<Rightarrow> ''TASK_CONTRACT_UPDATED'');
         (cid, version, created, s1) =
           (case latest of
              None \<Rightarrow> (fresh_id ''task_contract'' s, 1, utc_now s, bump_id ''task_contract'' s)
            | Some c \<Rightarrow> (c_id c, c_version c, c_created_at c, s));
         contract = \<lparr>c_id = cid, c_task_id = t_id task, c_version = version,
           c_objective = in_objective inp,
           c_acceptance_criteria = normalize_acceptance_criteria (in_acceptance_criteria inp),
           c_constraints = in_constraints inp, c_repository_ids = in_repository_ids inp,
           c_allowed_actions = in_allowed_actions inp, c_allowed_tools = in_allowed_tools inp,
           c_environment = in_environment inp, c_authority_level = in_authority_level inp,
           c_dependencies = in_dependencies inp,
           c_documentation_required = in_documentation_required inp,
           c_documentation_targets = in_documentation_targets inp,
           c_stop_conditions = in_stop_conditions inp,
           c_created_at = created, c_updated_at = utc_now s1\<rparr>;
         s2 = put_contract contract s1
     in (Inr contract, audit_task event_type actor task None ''create_or_update_contract'' ''SUCCESS'' 
           [(''contract_id'', JStr (c_id contract)), (''version'', JInt (int (c_version contract)))] s2))"

definition mark_ready :: "string \<Rightarrow> actor \<Rightarrow> db \<Rightarrow> validation_result res \<times> db" where
  "mark_ready task_id actor s =
     try_res (task_of task_id s) s (\<lambda>task.
     try_res (ensure_transition task [task_status.DRAFT, task_status.BLOCKED, task_status.FAILED]) s (\<lambda>_.
     try_res (validate_contract (t_id task) s) s (\<lambda>result.
     if \<not> vr_valid result
     then (Inr result,
           audit_task ''TASK_BLOCKED'' actor task None ''mark_ready'' ''BLOCKED''
             [(''blocker_code'', JStr (blocker_code_value (b_code (hd (vr_blockers result)))))]
             (audit_task ''POLICY_BLOCK'' actor task None ''mark_ready'' ''BLOCKED''
               [(''blockers'', JList (map blocker_json (vr_blockers result)))]
               (put_task (apply_blocker task (hd (vr_blockers result)) s) s)))
     else (Inr result,
           audit_task ''TASK_READY'' actor task None ''mark_ready'' ''SUCCESS'' []
             (put_task (task\<lparr>t_status := task_status.READY, t_blocker_code := None,
                t_blocker_message := None, t_blocked_at := None, t_updated_at := utc_now s\<rparr>) s)))))"

definition validate_snapshot_binding :: "task_row \<Rightarrow> string \<Rightarrow> db \<Rightarrow> unit res" where
  "validate_snapshot_binding task snapshot_id s =
     (case get_snapshot snapshot_id s of
        None \<Rightarrow> Inl (ValueError (''Unknown repository snapshot: '' @ snapshot_id))
      | Some snapshot \<Rightarrow>
          check_that (attached (t_project_id task) (snap_repository_id snapshot) s)
            (ValueError ''RepositorySnapshot does not belong to a repository attached to the Task project''))"

definition start_run ::
  "string \<Rightarrow> string option \<Rightarrow> actor \<Rightarrow> string option \<Rightarrow> string option \<Rightarrow> string option \<Rightarrow>
   db \<Rightarrow> run_row res \<times> db" where
  "start_run task_id snapshot_id actor model_provider model_name input_summary s =
     try_res (task_of task_id s) s (\<lambda>task.
     try_res (check_that (t_status task = task_status.READY)
                (ValueError ''Task must be READY before starting a run'')) s (\<lambda>_.
     try_res (case snapshot_id of None \<Rightarrow> Inr () | Some i \<Rightarrow> validate_snapshot_binding task i s) s (\<lambda>_.
     let s1 = bump_id ''task_run'' s;
         run = \<lparr>r_id = fresh_id ''task_run'' s, r_task_id = t_id task, r_snapshot_id = snapshot_id,
           r_status = task_run_status.RUNNING, r_actor = actor, r_model_provider = model_provider,
           r_model_name = model_name, r_started_at = utc_now s1, r_finished_at = None,
           r_input_summary = input_summary, r_output_summary = None, r_confidence = None,
           r_failure_reason = None\<rparr>;
         s2 = put_task (task\<lparr>t_status := task_status.RUNNING, t_updated_at := utc_now s1\<rparr>) (put_run run s1)
     in (Inr run, audit_task ''TASK_RUN_STARTED'' actor task (Some (r_id run)) ''start_run'' ''SUCCESS'' 
           [(''snapshot_id'', jtext snapshot_id)] s2))))"

definition block_task :: "string \<Rightarrow> blocker_code \<Rightarrow> string \<Rightarrow> actor \<Rightarrow> db \<Rightarrow> task_row res \<times> db" where
  "block_task task_id code message actor s =
     try_res (task_of task_id s) s (\<lambda>task.
     try_res (ensure_transition task
        [task_status.DRAFT, task_status.READY, task_status.RUNNING, task_status.BLOCKED]) s (\<lambda>_.
     let task' = apply_blocker task (blocker code message []) s
     in (Inr task', audit_task ''TASK_BLOCKED'' actor task None ''block_task'' ''BLOCKED'' 
           [(''blocker_code'', JStr (blocker_code_value code))]
           (put_task task' s))))"

text \<open>\<open>if run_id: run = session.get(...); if run: ...\<close>.\<close>

definition finish_run :: "string option \<Rightarrow> (run_row \<Rightarrow> run_row) \<Rightarrow> db \<Rightarrow> db" where
  "finish_run run_id f s =
     (if truthy run_id
      then case get_run (the run_id) s of None \<Rightarrow> s | Some run \<Rightarrow> put_run (f run) s
      else s)"

definition fail_task :: "string \<Rightarrow> string \<Rightarrow> string option \<Rightarrow> actor \<Rightarrow> db \<Rightarrow> task_row res \<times> db" where
  "fail_task task_id reason run_id actor s =
     try_res (task_of task_id s) s (\<lambda>task.
     try_res (ensure_transition task
        [task_status.RUNNING, task_status.BLOCKED, task_status.READY]) s (\<lambda>_.
     let task' = task\<lparr>t_status := task_status.FAILED, t_failure_reason := Some reason,
                t_updated_at := utc_now s\<rparr>;
         s1 = put_task task' s;
         s2 = finish_run run_id (\<lambda>run. run\<lparr>r_status := task_run_status.FAILED,
                r_finished_at := Some (utc_now s1), r_failure_reason := Some reason\<rparr>) s1
     in (Inr task', audit_task ''TASK_FAILED'' actor task run_id ''fail_task'' ''FAILED'' 
           [(''failure_reason'', JStr reason)] s2)))"

definition mark_implementation_complete ::
  "string \<Rightarrow> string option \<Rightarrow> string option \<Rightarrow> actor \<Rightarrow> db \<Rightarrow> task_row res \<times> db" where
  "mark_implementation_complete task_id run_id output_summary actor s =
     try_res (task_of task_id s) s (\<lambda>task.
     try_res (ensure_transition task [task_status.RUNNING]) s (\<lambda>_.
     let task' = task\<lparr>t_status := IMPLEMENTATION_COMPLETE, t_updated_at := utc_now s\<rparr>;
         s1 = put_task task' s;
         s2 = finish_run run_id (\<lambda>run. run\<lparr>r_status := task_run_status.SUCCEEDED,
                r_finished_at := Some (utc_now s1), r_output_summary := output_summary\<rparr>) s1
     in (Inr task', audit_task ''TASK_IMPLEMENTATION_COMPLETE'' actor task run_id
           ''mark_implementation_complete'' ''SUCCESS'' [] s2)))"

definition mark_documentation_pending :: "string \<Rightarrow> actor \<Rightarrow> db \<Rightarrow> task_row res \<times> db" where
  "mark_documentation_pending task_id actor s =
     try_res (task_of task_id s) s (\<lambda>task.
     try_res (ensure_transition task [IMPLEMENTATION_COMPLETE]) s (\<lambda>_.
     let task' = task\<lparr>t_status := DOCUMENTATION_PENDING, t_updated_at := utc_now s\<rparr>
     in (Inr task', audit_task ''TASK_DOCUMENTATION_PENDING'' actor task None
           ''mark_documentation_pending'' ''SUCCESS'' [] (put_task task' s))))"

definition record_documentation_completion ::
  "string \<Rightarrow> string list \<Rightarrow> string list \<Rightarrow> actor \<Rightarrow> db \<Rightarrow> completion_row res \<times> db" where
  "record_documentation_completion task_id targets_completed evidence_references completed_by s =
     try_res (task_of task_id s) s (\<lambda>task.
     let (did, s1) = (case completion_of (t_id task) s of
            None \<Rightarrow> (fresh_id ''documentation_completion'' s, bump_id ''documentation_completion'' s)
          | Some existing \<Rightarrow> (d_id existing, s));
         row = \<lparr>d_id = did, d_task_id = t_id task, d_targets_completed = targets_completed,
           d_evidence_references = evidence_references, d_completed_at = utc_now s1,
           d_completed_by = completed_by\<rparr>
     in (Inr row, put_completion row s1))"

text \<open>What stops a completion: no evidence, or targets left; the first is audited.\<close>

definition completion_gate :: "task_row \<Rightarrow> db \<Rightarrow> (structured_blocker \<times> bool) option" where
  "completion_gate task s =
     (case active_contract (t_id task) s of
        None \<Rightarrow> None
      | Some contract \<Rightarrow>
          if \<not> c_documentation_required contract then None
          else (case completion_of (t_id task) s of
              None \<Rightarrow> Some (blocker DOCUMENTATION_REQUIRED
                     ''Documentation evidence is required before Task completion.'' [], True)
            | Some completion \<Rightarrow>
                if t_status task \<noteq> DOCUMENTATION_PENDING \<or> d_evidence_references completion = []
                then Some (blocker DOCUMENTATION_REQUIRED
                       ''Documentation evidence is required before Task completion.'' [], True)
                else let missing = sorted_set (filter (\<lambda>t. t \<notin> set (d_targets_completed completion))
                                                (c_documentation_targets contract))
                  in if missing \<noteq> []
                     then Some (blocker DOCUMENTATION_REQUIRED ''Documentation targets are incomplete.''
                            [(''missing_targets'', JList (map JStr missing))], False)
                     else None))"

definition complete_task :: "string \<Rightarrow> actor \<Rightarrow> db \<Rightarrow> validation_result res \<times> db" where
  "complete_task task_id actor s =
     try_res (task_of task_id s) s (\<lambda>task.
     try_res (ensure_transition task [IMPLEMENTATION_COMPLETE, DOCUMENTATION_PENDING]) s (\<lambda>_.
     case completion_gate task s of
       Some (b, audited) \<Rightarrow>
         (Inr \<lparr>vr_valid = False, vr_blockers = [b]\<rparr>,
          if audited
          then audit_task ''POLICY_BLOCK'' actor task None ''complete_task'' ''BLOCKED'' [(''blocker'', blocker_json b)] s else s)
     | None \<Rightarrow>
         (Inr \<lparr>vr_valid = True, vr_blockers = []\<rparr>,
          audit_task ''TASK_COMPLETE'' actor task None ''complete_task'' ''SUCCESS'' []
            (put_task (task\<lparr>t_status := COMPLETE, t_updated_at := utc_now s\<rparr>) s))))"

definition cancel_task :: "string \<Rightarrow> actor \<Rightarrow> db \<Rightarrow> task_row res \<times> db" where
  "cancel_task task_id actor s =
     try_res (task_of task_id s) s (\<lambda>task.
     try_res (ensure_transition task
        [task_status.DRAFT, task_status.READY, task_status.RUNNING, task_status.BLOCKED]) s (\<lambda>_.
     let task' = task\<lparr>t_status := task_status.CANCELLED, t_updated_at := utc_now s\<rparr>
     in (Inr task', audit_task ''TASK_CANCELLED'' actor task None ''cancel_task'' ''SUCCESS'' []
           (put_task task' s))))"

section \<open>The lifecycle of a task\<close>

text \<open>The transitions the operations may make, one rule per target.\<close>

inductive task_edge :: "task_status \<Rightarrow> task_status \<Rightarrow> bool" where
  to_ready: "a \<in> {task_status.DRAFT, task_status.BLOCKED, task_status.FAILED} \<Longrightarrow> task_edge a task_status.READY"
| to_running: "task_edge task_status.READY task_status.RUNNING"
| to_blocked: "a \<in> {task_status.DRAFT, task_status.READY, task_status.RUNNING, task_status.BLOCKED,
     task_status.FAILED} \<Longrightarrow> task_edge a task_status.BLOCKED"
| to_failed: "a \<in> {task_status.RUNNING, task_status.BLOCKED, task_status.READY} \<Longrightarrow> task_edge a task_status.FAILED"
| to_implemented: "task_edge task_status.RUNNING IMPLEMENTATION_COMPLETE"
| to_documentation: "task_edge IMPLEMENTATION_COMPLETE DOCUMENTATION_PENDING"
| to_complete: "a \<in> {IMPLEMENTATION_COMPLETE, DOCUMENTATION_PENDING} \<Longrightarrow> task_edge a COMPLETE"
| to_cancelled: "a \<in> {task_status.DRAFT, task_status.READY, task_status.RUNNING, task_status.BLOCKED}
     \<Longrightarrow> task_edge a task_status.CANCELLED"

inductive_simps task_edge_targets [simp]:
  "task_edge a task_status.READY" "task_edge a task_status.RUNNING" "task_edge a task_status.BLOCKED"
  "task_edge a task_status.FAILED" "task_edge a IMPLEMENTATION_COMPLETE"
  "task_edge a DOCUMENTATION_PENDING" "task_edge a COMPLETE" "task_edge a task_status.CANCELLED"

inductive_cases task_edge_from_terminal: "task_edge COMPLETE b" "task_edge task_status.CANCELLED b"

text \<open>A step of the service: one operation with any arguments, or time passing.\<close>

inductive task_step :: "db \<Rightarrow> db \<Rightarrow> bool" where
  "task_step s (snd (create_task p t ob pr co l a s))"
| "task_step s (snd (create_or_update_contract i inp a s))"
| "task_step s (snd (mark_ready i a s))"
| "task_step s (snd (start_run i sn a mp mn su s))"
| "task_step s (snd (block_task i c m a s))"
| "task_step s (snd (fail_task i re ru a s))"
| "task_step s (snd (mark_implementation_complete i ru os a s))"
| "task_step s (snd (mark_documentation_pending i a s))"
| "task_step s (snd (record_documentation_completion i ts es a s))"
| "task_step s (snd (complete_task i a s))"
| "task_step s (snd (cancel_task i a s))"
| "clock s \<le> now \<Longrightarrow> task_step s (s\<lparr>clock := now\<rparr>)"

definition task_status_of :: "string \<Rightarrow> db \<Rightarrow> task_status option" where
  "task_status_of i s = map_option t_status (get_task i s)"

subsection \<open>What the operations leave alone\<close>

lemma audit_task_frame [simp]:
  "tasks (audit_task e a t r ac re md s) = tasks s" "contracts (audit_task e a t r ac re md s) = contracts s"
  "runs (audit_task e a t r ac re md s) = runs s" "completions (audit_task e a t r ac re md s) = completions s"
  "clock (audit_task e a t r ac re md s) = clock s" "projects (audit_task e a t r ac re md s) = projects s"
  by (simp_all add: audit_task_def)

lemma finish_run_frame [simp]:
  "tasks (finish_run r f s) = tasks s" "contracts (finish_run r f s) = contracts s"
  "completions (finish_run r f s) = completions s"
  by (simp_all add: finish_run_def put_run_def split: option.splits)

lemma get_task_cong: "tasks s = tasks s' \<Longrightarrow> get_task i s = get_task i s'"
  by (simp add: get_task_def)

lemma get_task_frame [simp]:
  "get_task i (audit_task e a t r ac re md s) = get_task i s"
  "get_task i (finish_run ru f s) = get_task i s"
  "get_task i (bump_id e s) = get_task i s"
  "get_task i (put_run rr s) = get_task i s"
  "get_task i (put_contract c s) = get_task i s"
  "get_task i (put_completion d s) = get_task i s"
  "get_task i (s\<lparr>clock := now\<rparr>) = get_task i s"
  by (rule get_task_cong, simp add: put_run_def put_contract_def put_completion_def)+

lemma task_of_Inr [simp]: "task_of i s = Inr task \<longleftrightarrow> get_task i s = Some task"
  by (simp add: task_of_def)

lemma ensure_transition_Inr [simp]:
  "ensure_transition task allowed = Inr u \<longleftrightarrow>
     t_status task \<notin> set terminal_statuses \<and> t_status task \<in> set allowed"
  by (simp add: ensure_transition_def)

lemma apply_blocker_simps [simp]:
  "t_id (apply_blocker task b s) = t_id task"
  "t_status (apply_blocker task b s) = task_status.BLOCKED"
  by (simp_all add: apply_blocker_def)

lemma get_put_task_frame [simp]:
  "get_task i (put_task r (bump_id e s)) = get_task i (put_task r s)"
  "get_task i (put_task r (put_run rr s)) = get_task i (put_task r s)"
  by (simp_all add: task_table.get_put)

lemma task_status_of_frame [simp]:
  "task_status_of i (audit_task e a t r ac re md s) = task_status_of i s"
  "task_status_of i (finish_run ru f s) = task_status_of i s"
  "task_status_of i (bump_id e s) = task_status_of i s"
  "task_status_of i (put_run rr s) = task_status_of i s"
  "task_status_of i (put_contract c s) = task_status_of i s"
  "task_status_of i (put_completion d s) = task_status_of i s"
  "task_status_of i (s\<lparr>clock := now\<rparr>) = task_status_of i s"
  "task_status_of i (put_task z (bump_id e s)) = task_status_of i (put_task z s)"
  "task_status_of i (put_task z (put_run rr s)) = task_status_of i (put_task z s)"
  by (simp_all add: task_status_of_def)

text \<open>A stored task is under its own id, and rewriting it moves only its own status.\<close>

lemma status_put_task:
  assumes "get_task j s = Some task" and "t_id task' = t_id task"
    and "t_status task = t_status task' \<or> task_edge (t_status task) (t_status task')"
    and "task_status_of i s = Some a"
  shows "\<exists>b. task_status_of i (put_task task' s) = Some b \<and> (a = b \<or> task_edge a b)"
  using assms task_table.get_key [OF assms(1)]
  by (auto simp: task_status_of_def task_table.get_put split: if_splits)

lemma get_task_fresh [simp]: "get_task (fresh_id ''task'' s) s = None"
  by (simp add: get_task_def tget_None_iff)

lemma get_new_task:
  assumes "get_task i s = Some z" and "t_id task = fresh_id ''task'' s"
  shows "get_task i (put_task task s) = Some z"
  using assms by (auto simp: task_table.get_put)

lemmas task_op_defs = create_task_def create_or_update_contract_def mark_ready_def start_run_def
  block_task_def fail_task_def mark_implementation_complete_def mark_documentation_pending_def
  record_documentation_completion_def complete_task_def cancel_task_def

subsection \<open>Steps and edges\<close>

lemma task_step_edge:
  assumes "task_step s t" and "task_status_of i s = Some a"
  shows "\<exists>b. task_status_of i t = Some b \<and> (a = b \<or> task_edge a b)"
  using assms
proof (induction rule: task_step.induct)
  case (1 s p t ob pr co l ac)
  then show ?case
    by (auto simp: create_task_def Let_def task_status_of_def get_new_task split: try_res_splits)
next
  case (2 s j inp ac)
  then show ?case
    by (auto simp: create_or_update_contract_def Let_def task_status_of_def split: try_res_splits prod.splits option.splits)
next
  case (3 s j ac)
  then show ?case
    by (auto simp: mark_ready_def Let_def terminal_statuses_def split: try_res_splits
        intro: status_put_task)
next
  case (4 s j sn ac mp mn su)
  then show ?case
    by (auto simp: start_run_def Let_def split: try_res_splits intro: status_put_task)
next
  case (5 s j c m ac)
  then show ?case
    by (auto simp: block_task_def Let_def terminal_statuses_def split: try_res_splits
        intro: status_put_task)
next
  case (6 s j re ru ac)
  then show ?case
    by (auto simp: fail_task_def Let_def terminal_statuses_def split: try_res_splits
        intro: status_put_task)
next
  case (7 s j ru os ac)
  then show ?case
    by (auto simp: mark_implementation_complete_def Let_def split: try_res_splits
        intro: status_put_task)
next
  case (8 s j ac)
  then show ?case
    by (auto simp: mark_documentation_pending_def Let_def split: try_res_splits
        intro: status_put_task)
next
  case (9 s j ts es ac)
  then show ?case
    by (auto simp: record_documentation_completion_def Let_def task_status_of_def
        split: try_res_splits prod.splits option.splits)
next
  case (10 s j ac)
  then show ?case
    by (auto simp: complete_task_def Let_def terminal_statuses_def
        split: try_res_splits option.splits intro: status_put_task)
next
  case (11 s j ac)
  then show ?case
    by (auto simp: cancel_task_def Let_def terminal_statuses_def split: try_res_splits
        intro: status_put_task)
qed auto

interpretation task_lifecycle: lifecycle_machine task_step task_status_of task_edge
  by unfold_locales (rule task_step_edge)

section \<open>Validation as a specification\<close>

text \<open>The condition under which a contract releases its task, read declaratively.\<close>

definition authority_sufficient ::
  "authority_level \<Rightarrow> authority_level \<Rightarrow> allowed_action list \<Rightarrow> environment \<Rightarrow> bool" where
  "authority_sufficient task_authority contract_authority actions environment \<longleftrightarrow>
     contract_authority \<le> task_authority
     \<and> (\<forall>action \<in> set actions. action_authority action \<le> contract_authority)
     \<and> environment_authority environment \<le> contract_authority"

definition dependency_met :: "task_row \<Rightarrow> db \<Rightarrow> string \<Rightarrow> bool" where
  "dependency_met task s d \<longleftrightarrow> d \<noteq> t_id task \<and>
     (\<exists>dep. get_task d s = Some dep \<and> t_status dep = COMPLETE
        \<and> (\<forall>c. active_contract d s = Some c \<longrightarrow> t_id task \<notin> set (c_dependencies c)))"

definition releasable :: "task_row \<Rightarrow> contract_row \<Rightarrow> db \<Rightarrow> bool" where
  "releasable task c s \<longleftrightarrow>
     (\<exists>p. get_project (t_project_id task) s = Some p \<and> p_status p = project_status.ACTIVE)
     \<and> py_strip (c_objective c) \<noteq> [] \<and> c_acceptance_criteria c \<noteq> []
     \<and> (c_documentation_required c \<longrightarrow> c_documentation_targets c \<noteq> [])
     \<and> (\<forall>r \<in> set (c_repository_ids c). get_registration r s \<noteq> None \<and> attached (t_project_id task) r s)
     \<and> (\<forall>d \<in> set (c_dependencies c). dependency_met task s d)
     \<and> authority_sufficient (t_authority_level task) (c_authority_level c) (c_allowed_actions c)
         (c_environment c)"

lemma concat_map_Nil_iff: "concat (map f xs) = [] \<longleftrightarrow> (\<forall>x \<in> set xs. f x = [])"
  by (induction xs) auto

lemma if_single_Nil_iff [simp]:
  "(if b then [x] else []) = [] \<longleftrightarrow> \<not> b" "[] = (if b then [x] else []) \<longleftrightarrow> \<not> b"
  by auto

lemma validate_authority_Nil_iff:
  "validate_authority ta ca acts env = [] \<longleftrightarrow> authority_sufficient ta ca acts env"
proof -
  have "validate_authority ta ca acts env = [] \<longleftrightarrow> ca \<le> ta
      \<and> (\<forall>a \<in> set acts. action_authority a \<le> ca \<and> action_authority a \<le> ta)
      \<and> environment_authority env \<le> ca \<and> environment_authority env \<le> ta"
    by (simp add: validate_authority_def Let_def not_less concat_map_Nil_iff del: concat_eq_Nil_conv)
  then show ?thesis
    by (auto simp: authority_sufficient_def intro: order_trans)
qed

lemma dependency_blockers_Nil_iff: "dependency_blockers task s d = [] \<longleftrightarrow> dependency_met task s d"
proof (cases "get_task d s")
  case (Some dep)
  then have "t_id dep = d" by (rule task_table.get_key)
  with Some show ?thesis
    by (auto simp: dependency_blockers_def dependency_met_def split: option.splits)
qed (auto simp: dependency_blockers_def dependency_met_def)

lemma project_blockers_Nil_iff:
  "project_blockers task s = [] \<longleftrightarrow>
     (\<exists>p. get_project (t_project_id task) s = Some p \<and> p_status p = project_status.ACTIVE)"
  by (auto simp: project_blockers_def split: option.splits)

lemma validate_repositories_Nil_iff:
  "validate_repositories task c s = [] \<longleftrightarrow>
     (\<forall>r \<in> set (c_repository_ids c). get_registration r s \<noteq> None \<and> attached (t_project_id task) r s)"
  by (simp add: validate_repositories_def concat_map_Nil_iff del: concat_eq_Nil_conv)

lemma validate_dependencies_Nil_iff:
  "validate_dependencies task c s = [] \<longleftrightarrow> (\<forall>d \<in> set (c_dependencies c). dependency_met task s d)"
  by (simp add: validate_dependencies_def dependency_blockers_Nil_iff concat_map_Nil_iff
      del: concat_eq_Nil_conv)

lemma contract_blockers_Nil_iff:
  "releasable task c s \<longleftrightarrow> project_blockers task s = [] \<and> contract_blockers task c s = []"
  by (simp add: contract_blockers_def releasable_def project_blockers_Nil_iff
      validate_repositories_Nil_iff validate_dependencies_Nil_iff validate_authority_Nil_iff conj_assoc)

lemma validate_contract_valid_iff:
  assumes "get_task i s = Some task"
  shows "\<exists>r. validate_contract i s = Inr r
    \<and> (vr_valid r \<longleftrightarrow> (\<exists>c. active_contract i s = Some c \<and> releasable task c s))
    \<and> (vr_valid r \<longleftrightarrow> vr_blockers r = [])"
  using assms task_table.get_key [OF assms]
  by (auto simp: validate_contract_def task_of_def Let_def contract_blockers_Nil_iff split: option.splits)

subsection \<open>An example store\<close>

definition ex_project :: project_row where
  "ex_project = \<lparr>p_id = ''P'', p_name = ''P'', p_slug = ''p'', p_organization = None,
     p_type = DFG_INTERNAL, p_status = project_status.ACTIVE, p_description = None, p_workspace_scope = None,
     p_documentation_policy = [], p_default_authority_level = L0, p_created_at = 0, p_updated_at = 0\<rparr>"

definition ex_task :: "string \<Rightarrow> task_status \<Rightarrow> task_row" where
  "ex_task i st = \<lparr>t_id = i, t_project_id = ''P'', t_title = ''t'', t_objective = ''o'',
     t_priority = task_priority.NORMAL, t_complexity = T0, t_authority_level = L1, t_status = st,
     t_created_by = SYSTEM, t_blocker_code = None, t_blocker_message = None, t_blocked_at = None,
     t_failure_reason = None, t_created_at = 0, t_updated_at = 0\<rparr>"

definition ex_contract :: "string \<Rightarrow> string \<Rightarrow> bool \<Rightarrow> contract_row" where
  "ex_contract i task docs = \<lparr>c_id = i, c_task_id = task, c_version = 1, c_objective = ''o'',
     c_acceptance_criteria = [\<lparr>cr_id = ''AC-001'', cr_statement = ''x'', cr_status = criterion_status.PENDING\<rparr>],
     c_constraints = [], c_repository_ids = [], c_allowed_actions = [WRITE_SOURCE], c_allowed_tools = [],
     c_environment = SANDBOX, c_authority_level = L1, c_dependencies = [],
     c_documentation_required = docs, c_documentation_targets = (if docs then [''README''] else []),
     c_stop_conditions = [], c_created_at = 0, c_updated_at = 0\<rparr>"

definition ex_db :: "task_status \<Rightarrow> bool \<Rightarrow> db" where
  "ex_db st docs = empty_db\<lparr>projects := [ex_project], tasks := [ex_task ''A'' st, ex_task ''B'' task_status.READY],
     contracts := [ex_contract ''CA'' ''A'' docs, ex_contract ''CB'' ''B'' docs]\<rparr>"

lemmas ex_task_defs = ex_db_def ex_contract_def ex_task_def ex_project_def empty_db_def

lemma ex_active_contract [simp]:
  "active_contract ''A'' (ex_db st docs) = Some (ex_contract ''CA'' ''A'' docs)"
  by (simp add: active_contract_def pick_def ex_db_def ex_contract_def)

subsection \<open>Properties\<close>

text \<open>C5. Authority policy: \<open>validate_authority\<close> reports no blocker exactly when the contract's
  authority is within the task's, every allowed action's required level is within the
  contract's, and so is the environment's.\<close>

theorem validate_authority_exact:
  "validate_authority ta ca acts env = [] \<longleftrightarrow>
     ca \<le> ta \<and> list_all (\<lambda>a. action_authority a \<le> ca) acts \<and> environment_authority env \<le> ca"
  by (simp add: validate_authority_Nil_iff authority_sufficient_def list_all_iff)





text \<open>Runs: \<open>start_run\<close> succeeds exactly on a READY task whose snapshot, if one is named,
  belongs to an attached repository; it then stores one new RUNNING run of that task under an id
  no row had and moves only that task, to RUNNING; otherwise it raises and writes nothing.\<close>

theorem start_run_starts_one_run:
  assumes "get_task i s = Some task"
  shows "if t_status task = task_status.READY \<and>
        (\<forall>n. sn = Some n \<longrightarrow> (\<exists>x. get_snapshot n s = Some x
           \<and> attached (t_project_id task) (snap_repository_id x) s))
      then (\<exists>r. fst (start_run i sn a mp mn su s) = Inr r \<and> r_id r \<notin> set (all_ids s)
        \<and> r_task_id r = i \<and> r_status r = task_run_status.RUNNING
        \<and> runs (snd (start_run i sn a mp mn su s)) = runs s @ [r]
        \<and> (\<forall>j. task_status_of j (snd (start_run i sn a mp mn su s)) =
             (if j = i then Some task_status.RUNNING else task_status_of j s)))
      else (\<exists>e. start_run i sn a mp mn su s = (Inl e, s))"
proof (cases "t_status task = task_status.READY \<and>
        (\<forall>n. sn = Some n \<longrightarrow> (\<exists>x. get_snapshot n s = Some x
           \<and> attached (t_project_id task) (snap_repository_id x) s))")
  case True
  have key: "t_id task = i" using assms by (rule task_table.get_key)
  have "(case sn of None \<Rightarrow> Inr () | Some i \<Rightarrow> validate_snapshot_binding task i s) = Inr ()"
    using True by (auto simp: validate_snapshot_binding_def split: option.splits)
  with True assms key show ?thesis
    by (simp add: start_run_def task_of_def Let_def put_defs fresh_id_new tput_fresh
        task_status_of_def get_task_def)
next
  case False
  with assms show ?thesis
    by (auto simp: start_run_def task_of_def Let_def validate_snapshot_binding_def
        split: try_res_splits option.splits)
qed

theorem start_run_starts_one_run_witness:
  "\<exists>r. fst (start_run ''A'' None SYSTEM None None None (ex_db task_status.READY False)) = Inr r
     \<and> r_task_id r = ''A'' \<and> r_status r = task_run_status.RUNNING"
  using start_run_starts_one_run [of "''A''" "ex_db task_status.READY False"
      "ex_task ''A'' task_status.READY" None SYSTEM None None None]
  by (auto simp: get_task_def ex_task_defs)

definition documentation_done :: "task_row \<Rightarrow> db \<Rightarrow> bool" where
  "documentation_done task s \<longleftrightarrow>
     (\<forall>c. active_contract (t_id task) s = Some c \<longrightarrow> c_documentation_required c \<longrightarrow>
        t_status task = DOCUMENTATION_PENDING \<and>
        (\<exists>d. completion_of (t_id task) s = Some d \<and> d_evidence_references d \<noteq> []
           \<and> set (c_documentation_targets c) \<subseteq> set (d_targets_completed d)))"

lemma completion_gate_None_iff: "completion_gate task s = None \<longleftrightarrow> documentation_done task s"
proof -
  have "sorted_set xs = [] \<longleftrightarrow> set xs = {}" for xs :: "string list"
    by (metis set_empty set_sorted_set)
  then show ?thesis
    by (auto simp: completion_gate_def documentation_done_def Let_def subset_code(1) filter_empty_conv
        split: option.splits)
qed

lemma completion_gate_code:
  "completion_gate task s = Some (b, u) \<Longrightarrow> b_code b = DOCUMENTATION_REQUIRED"
  by (auto simp: completion_gate_def blocker_def Let_def split: option.splits if_splits)

text \<open>C4. Completion gate: on a task in IMPLEMENTATION_COMPLETE or DOCUMENTATION_PENDING,
  \<open>complete_task\<close> makes it COMPLETE exactly when no documentation is required or the task is in
  DOCUMENTATION_PENDING with recorded evidence that covers every documentation target; otherwise
  the task keeps its status and the result carries the DOCUMENTATION_REQUIRED blocker.\<close>

theorem complete_task_gate:
  assumes "get_task i s = Some task"
    and "t_status task \<in> {IMPLEMENTATION_COMPLETE, DOCUMENTATION_PENDING}"
  shows "\<exists>r. fst (complete_task i a s) = Inr r \<and> (vr_valid r \<longleftrightarrow> documentation_done task s)
    \<and> (\<forall>b \<in> set (vr_blockers r). b_code b = DOCUMENTATION_REQUIRED)
    \<and> (vr_blockers r = [] \<longleftrightarrow> vr_valid r)
    \<and> task_status_of i (snd (complete_task i a s)) =
        Some (if documentation_done task s then COMPLETE else t_status task)"
proof -
  have key: "t_id task = i" using assms(1) by (rule task_table.get_key)
  have ens: "ensure_transition task [IMPLEMENTATION_COMPLETE, DOCUMENTATION_PENDING] = Inr ()"
    using assms(2) by (auto simp: terminal_statuses_def)
  show ?thesis
  proof (cases "completion_gate task s")
    case None
    then show ?thesis
      using assms(1) key completion_gate_None_iff [of task s]
      by (simp add: complete_task_def task_of_def task_status_of_def task_table.get_put ens
          del: ensure_transition_Inr)
  next
    case (Some x)
    obtain b u where "x = (b, u)" by (cases x)
    with Some show ?thesis
      using assms(1) completion_gate_None_iff [of task s] completion_gate_code [of task s b u]
      by (simp add: complete_task_def task_of_def task_status_of_def ens del: ensure_transition_Inr)
  qed
qed

theorem complete_task_gate_witness:
  "\<exists>r. fst (complete_task ''A'' SYSTEM (ex_db DOCUMENTATION_PENDING True)) = Inr r \<and> \<not> vr_valid r
    \<and> task_status_of ''A'' (snd (complete_task ''A'' SYSTEM (ex_db DOCUMENTATION_PENDING True)))
        = Some DOCUMENTATION_PENDING"
proof -
  have t: "get_task ''A'' (ex_db DOCUMENTATION_PENDING True) = Some (ex_task ''A'' DOCUMENTATION_PENDING)"
    by (simp add: get_task_def ex_task_defs)
  have "\<not> documentation_done (ex_task ''A'' DOCUMENTATION_PENDING) (ex_db DOCUMENTATION_PENDING True)"
    using ex_active_contract [of DOCUMENTATION_PENDING True]
    by (simp add: documentation_done_def ex_task_def completion_of_def)
      (simp add: ex_task_defs)
  with complete_task_gate [OF t, of SYSTEM] show ?thesis
    by (auto simp: ex_task_def)
qed


subsection \<open>Contracts are rewritten in place\<close>

text \<open>What every operation keeps of the contracts: a task has at most one, and its version is 1.\<close>

definition single_contract :: "db \<Rightarrow> bool" where
  "single_contract s \<longleftrightarrow> distinct (map c_id (contracts s)) \<and> distinct (map c_task_id (contracts s))
     \<and> (\<forall>c \<in> set (contracts s). c_version c = 1)"

lemma active_contract_mem: "active_contract i s = Some c \<Longrightarrow> c \<in> set (contracts s) \<and> c_task_id c = i"
  by (auto simp: active_contract_def dest: pick_Some_mem)

lemma active_contract_None: "active_contract i s = None \<Longrightarrow> i \<notin> c_task_id ` set (contracts s)"
  by (auto simp: active_contract_def filter_empty_conv)

lemma distinct_map_tput:
  assumes "distinct (map key t)" "distinct (map f t)" "x \<in> set t" "key r = key x" "f r = f x"
  shows "map f (tput key r t) = map f t"
  using assms
proof (induction t)
  case (Cons y t)
  then show ?case
    by (cases "x = y") (auto simp: image_iff)
qed simp

lemma put_contract_single:
  assumes "single_contract s" "active_contract i s = Some c0"
    "c_id c = c_id c0" "c_task_id c = i" "c_version c = c_version c0"
  shows "single_contract (put_contract c s)"
proof -
  from active_contract_mem [OF assms(2)] assms(1) have
    c0: "c0 \<in> set (contracts s)" "c_task_id c0 = i" "c_version c0 = 1"
    by (auto simp: single_contract_def)
  have "map c_task_id (tput c_id c (contracts s)) = map c_task_id (contracts s)"
    using assms(1,3,4) c0(1,2) distinct_map_tput [of c_id "contracts s" c_task_id c0 c]
    by (simp add: single_contract_def)
  then show ?thesis
    using assms(1,5) c0 set_tput [of c_id c "contracts s"]
    by (auto simp: single_contract_def put_contract_def distinct_tput)
qed

lemma new_contract_single:
  assumes "single_contract s" "active_contract i s = None"
    "c_id c = fresh_id ''task_contract'' s" "c_task_id c = i" "c_version c = 1"
    "contracts s' = contracts s"
  shows "single_contract (put_contract c s')"
  using assms active_contract_None [OF assms(2)]
  by (auto simp: single_contract_def put_contract_def tput_fresh)

lemma single_contract_audit [simp]: "single_contract (audit_task e a t r ac re md s) = single_contract s"
  by (simp add: single_contract_def)

lemma contracts_frame:
  "contracts (put_task r s) = contracts s" "contracts (put_run rr s) = contracts s"
  "contracts (put_completion d s) = contracts s"
  by (simp_all add: put_defs)

lemma contracts_operations:
  "contracts (snd (create_task p t ob pr co l a s)) = contracts s"
  "contracts (snd (mark_ready i a s)) = contracts s"
  "contracts (snd (start_run i sn a mp mn su s)) = contracts s"
  "contracts (snd (block_task i c m a s)) = contracts s"
  "contracts (snd (fail_task i re ru a s)) = contracts s"
  "contracts (snd (mark_implementation_complete i ru os a s)) = contracts s"
  "contracts (snd (mark_documentation_pending i a s)) = contracts s"
  "contracts (snd (record_documentation_completion i ts es a s)) = contracts s"
  "contracts (snd (complete_task i a s)) = contracts s"
  "contracts (snd (cancel_task i a s)) = contracts s"
  by (simp_all add: task_op_defs Let_def contracts_frame split: try_res_split option.split prod.split)

lemma task_step_single: "task_step s t \<Longrightarrow> single_contract s \<Longrightarrow> single_contract t"
proof (induction rule: task_step.induct)
  case (2 s i inp a)
  show ?case
  proof (cases "get_task i s")
    case (Some task)
    have key: "t_id task = i" using Some by (rule task_table.get_key)
    show ?thesis
    proof (cases "active_contract i s")
      case None
      then show ?thesis
        using Some key 2
        by (simp add: create_or_update_contract_def task_of_def Let_def)
          (rule new_contract_single [of s i], simp_all)
    next
      case (Some c0)
      then show ?thesis
        using \<open>get_task i s = Some task\<close> key
          put_contract_single [OF 2 Some]
        by (simp add: create_or_update_contract_def task_of_def Let_def)
    qed
  qed (use 2 in \<open>simp add: create_or_update_contract_def task_of_def\<close>)
qed (simp_all add: single_contract_def contracts_operations)

interpretation contract_store: invariant_machine task_step single_contract
  by unfold_locales (rule task_step_single)

text \<open>Contract versions: along any sequence of service operations every task keeps at most one
  contract and that contract's version stays 1, however often \<open>create_or_update_contract\<close>
  rewrites it. A version comparison can therefore not tell a rewritten contract from the original.\<close>

theorem contract_version_never_moves:
  assumes "task_step\<^sup>*\<^sup>* s0 s" and "contracts s0 = []" and "c \<in> set (contracts s)"
  shows "c_version c = 1 \<and> (\<forall>c' \<in> set (contracts s). c_task_id c' = c_task_id c \<longrightarrow> c' = c)"
proof -
  have "single_contract s"
    using contract_store.run_inv [OF assms(1)] assms(2) by (simp add: single_contract_def)
  with assms(3) show ?thesis
    by (auto simp: single_contract_def distinct_map inj_on_def)
qed

definition ex_input :: "string \<Rightarrow> contract_input" where
  "ex_input objective = \<lparr>in_objective = objective, in_acceptance_criteria = [PlainCriterion ''x''],
     in_constraints = [], in_repository_ids = [], in_allowed_actions = [], in_allowed_tools = [],
     in_environment = SANDBOX, in_authority_level = L0, in_dependencies = [],
     in_documentation_required = False, in_documentation_targets = [], in_stop_conditions = []\<rparr>"

theorem contract_version_never_moves_witness:
  "\<exists>c \<in> set (contracts (snd (create_or_update_contract ''A'' (ex_input ''new'') SYSTEM
       (snd (create_or_update_contract ''A'' (ex_input ''old'') SYSTEM
         (ex_db task_status.DRAFT False\<lparr>contracts := []\<rparr>)))))).
     c_objective c = ''new'' \<and> c_version c = 1"
proof -
  let ?s0 = "ex_db task_status.DRAFT False\<lparr>contracts := []\<rparr>"
  let ?s1 = "snd (create_or_update_contract ''A'' (ex_input ''old'') SYSTEM ?s0)"
  let ?s2 = "snd (create_or_update_contract ''A'' (ex_input ''new'') SYSTEM ?s1)"
  have run: "task_step\<^sup>*\<^sup>* ?s0 ?s2"
    by (rule rtranclp.rtrancl_into_rtrancl [OF r_into_rtranclp]) (rule task_step.intros)+
  have t: "task_of ''A'' ?s0 = Inr (ex_task ''A'' task_status.DRAFT)"
    by (simp add: get_task_def ex_task_defs)
  have tt: "tasks ?s1 = tasks ?s0"
    by (simp add: create_or_update_contract_def Let_def put_contract_def split: try_res_split option.split prod.split)
  have t1: "task_of ''A'' ?s1 = Inr (ex_task ''A'' task_status.DRAFT)"
    using t tt by (simp add: get_task_def)
  have i: "t_id (ex_task ''A'' st) = ''A''" for st
    by (simp add: ex_task_def)
  have "\<exists>c \<in> set (contracts ?s2). c_objective c = ''new''"
  proof (cases "active_contract ''A'' ?s1")
    case None
    then show ?thesis
      by (simp add: create_or_update_contract_def [of _ "ex_input ''new''"] t1 i Let_def put_contract_def)
        (rule bexI [OF _ tput_mem], simp add: ex_input_def)
  next
    case (Some c)
    then show ?thesis
      by (simp add: create_or_update_contract_def [of _ "ex_input ''new''"] t1 i Let_def put_contract_def)
        (rule bexI [OF _ tput_mem], simp add: ex_input_def)
  qed
  then show ?thesis
    using contract_version_never_moves [OF run] by (auto simp: empty_db_def)
qed

end
