(* ===== verification/Workflows.thy ===== *)
theory Workflows
  imports Store
begin

text \<open>
  The persistent workflows of \<^verbatim>\<open>lucius/pilots/workflows.py\<close>: creation, the plan's
  attachment, progress updates, checkpoints and resume validations. The schema objects that the
  operations return have the columns of their rows, so the rows are returned.
\<close>

section \<open>Operations\<close>

text \<open>\<open>x or d\<close> and \<open>x is not None\<close> for optional lists.\<close>

definition list_or_nil :: "'a list option \<Rightarrow> 'a list" where
  "list_or_nil x = (case x of None \<Rightarrow> [] | Some l \<Rightarrow> l)"

definition given :: "'a option \<Rightarrow> 'a \<Rightarrow> 'a" where
  "given x old = (case x of None \<Rightarrow> old | Some v \<Rightarrow> v)"

definition default_repair_counters :: json_object where
  "default_repair_counters = [(''total'', JInt 0), (''by_task'', JObj []),
     (''limits'', JObj [(''per_task'', JInt 3), (''total'', JInt 8)])]"

record workflow_input =
  wi_objective :: string
  wi_expected_main_head :: string
  wi_isolated_branch :: string
  wi_worktree_path :: string
  wi_authority_tier :: string
  wi_project_id :: "string option"
  wi_repository_id :: "string option"
  wi_repository_snapshot_id :: "string option"
  wi_task_id :: "string option"
  wi_task_backlog :: "queue_item list option"
  wi_dependency_graph :: "(string \<times> string list) list option"
  wi_active_task_id :: "string option"
  wi_completed_task_ids :: "string list option"
  wi_pending_task_ids :: "string list option"
  wi_decisions :: "json list option"
  wi_deviations :: "json list option"
  wi_repair_counters :: "json_object option"
  wi_pending_human_approvals :: "string list option"
  wi_resume_requirements :: "string list option"

definition audit_workflow ::
  "string \<Rightarrow> actor \<Rightarrow> workflow_row \<Rightarrow> string \<Rightarrow> string \<Rightarrow> json_object \<Rightarrow> db \<Rightarrow> db" where
  "audit_workflow event_type actor w action result metadata =
     audit_record event_type (actor_value actor) (wf_project_id w) (wf_repository_id w) (wf_task_id w)
       None L0 action result metadata"

definition new_workflow :: "string \<Rightarrow> timestamp \<Rightarrow> workflow_input \<Rightarrow> workflow_row" where
  "new_workflow i now inp = \<lparr>wf_id = i, wf_project_id = wi_project_id inp,
      wf_repository_id = wi_repository_id inp,
      wf_repository_snapshot_id = wi_repository_snapshot_id inp, wf_task_id = wi_task_id inp,
      wf_plan_id = None, wf_plan_freeze_id = None, wf_objective = wi_objective inp,
      wf_expected_main_head = wi_expected_main_head inp,
      wf_isolated_branch = wi_isolated_branch inp, wf_worktree_path = wi_worktree_path inp,
      wf_workflow_state = OBJECTIVE_ACCEPTED, wf_authority_tier = wi_authority_tier inp,
      wf_task_backlog = list_or_nil (wi_task_backlog inp),
      wf_dependency_graph = list_or_nil (wi_dependency_graph inp),
      wf_active_task_id = wi_active_task_id inp,
      wf_completed_task_ids = list_or_nil (wi_completed_task_ids inp),
      wf_pending_task_ids = list_or_nil (wi_pending_task_ids inp),
      wf_decisions = list_or_nil (wi_decisions inp),
      wf_deviations = list_or_nil (wi_deviations inp),
      wf_repair_counters = (let r = list_or_nil (wi_repair_counters inp)
        in if r = [] then default_repair_counters else r),
      wf_targeted_test_evidence = [], wf_full_test_status = [], wf_checkpoint_history = [],
      wf_pending_human_approvals = list_or_nil (wi_pending_human_approvals inp),
      wf_resume_requirements = list_or_nil (wi_resume_requirements inp),
      wf_created_at = now, wf_updated_at = now\<rparr>"

definition create_workflow :: "workflow_input \<Rightarrow> actor \<Rightarrow> db \<Rightarrow> workflow_row res \<times> db" where
  "create_workflow inp actor s =
     (let s1 = bump_id ''persistent_workflow'' s;
          row = new_workflow (fresh_id ''persistent_workflow'' s) (utc_now s1) inp
      in (Inr row, audit_workflow ''PERSISTENT_WORKFLOW_CREATED'' actor row ''create_persistent_workflow''
            (workflow_state_value (wf_workflow_state row))
            [(''workflow_id'', JStr (wf_id row)), (''authority_tier'', JStr (wi_authority_tier inp))] (put_workflow row s1)))"

definition persistent_workflow_of :: "string \<Rightarrow> db \<Rightarrow> workflow_row res" where
  "persistent_workflow_of workflow_id s =
     some_or (get_workflow workflow_id s) (ValueError (''Unknown persistent workflow: '' @ workflow_id))"

definition attach_plan :: "string \<Rightarrow> string \<Rightarrow> string \<Rightarrow> actor \<Rightarrow> db \<Rightarrow> workflow_row res \<times> db" where
  "attach_plan workflow_id plan_id plan_freeze_id actor s =
     try_res (persistent_workflow_of workflow_id s) s (\<lambda>row.
     let row' = row\<lparr>wf_plan_id := Some plan_id, wf_plan_freeze_id := Some plan_freeze_id,
           wf_workflow_state := PLAN_READY, wf_updated_at := utc_now s\<rparr>
     in (Inr row', audit_workflow ''PERSISTENT_WORKFLOW_PLAN_ATTACHED'' actor row' ''attach_workflow_plan''
           (workflow_state_value PLAN_READY)
           [(''workflow_id'', JStr (wf_id row)), (''plan_id'', JStr plan_id),
            (''plan_freeze_id'', JStr plan_freeze_id)] (put_workflow row' s)))"

record progress_input =
  pi_state :: workflow_state
  pi_active_task_id :: "string option"
  pi_completed_task_ids :: "string list option"
  pi_pending_task_ids :: "string list option"
  pi_decisions :: "json list option"
  pi_deviations :: "json list option"
  pi_repair_counters :: "json_object option"
  pi_targeted_test_evidence :: "json list option"
  pi_full_test_status :: "json_object option"
  pi_pending_human_approvals :: "string list option"

definition update_progress :: "string \<Rightarrow> progress_input \<Rightarrow> actor \<Rightarrow> db \<Rightarrow> workflow_row res \<times> db" where
  "update_progress workflow_id p actor s =
     try_res (persistent_workflow_of workflow_id s) s (\<lambda>row.
     let row' = row\<lparr>wf_workflow_state := pi_state p, wf_active_task_id := pi_active_task_id p,
           wf_completed_task_ids := given (pi_completed_task_ids p) (wf_completed_task_ids row),
           wf_pending_task_ids := given (pi_pending_task_ids p) (wf_pending_task_ids row),
           wf_decisions := given (pi_decisions p) (wf_decisions row),
           wf_deviations := given (pi_deviations p) (wf_deviations row),
           wf_repair_counters := given (pi_repair_counters p) (wf_repair_counters row),
           wf_targeted_test_evidence := given (pi_targeted_test_evidence p) (wf_targeted_test_evidence row),
           wf_full_test_status := given (pi_full_test_status p) (wf_full_test_status row),
           wf_pending_human_approvals := given (pi_pending_human_approvals p) (wf_pending_human_approvals row),
           wf_updated_at := utc_now s\<rparr>
     in (Inr row', audit_workflow ''PERSISTENT_WORKFLOW_PROGRESS_UPDATED'' actor row' ''update_workflow_progress''
           (workflow_state_value (pi_state p))
           [(''workflow_id'', JStr (wf_id row)), (''active_task_id'', jtext (pi_active_task_id p))] (put_workflow row' s)))"

record checkpoint_input =
  ci_checkpoint_state :: workflow_state
  ci_implementation_head :: string
  ci_expected_main_head :: string
  ci_branch :: string
  ci_worktree_path :: string
  ci_active_task_id :: "string option"
  ci_completed_task_ids :: "string list"
  ci_pending_task_ids :: "string list"
  ci_dependency_graph :: "(string \<times> string list) list"
  ci_decisions :: "json list"
  ci_deviations :: "json list"
  ci_repair_counters :: json_object
  ci_latest_test_results :: "json list"
  ci_known_warnings :: "string list"
  ci_authority_tier :: string
  ci_pending_human_approvals :: "string list"
  ci_resume_conditions :: "string list"
  ci_recommended_next_action :: string

definition checkpoint_of :: "string \<Rightarrow> workflow_row \<Rightarrow> checkpoint_input \<Rightarrow> timestamp \<Rightarrow> checkpoint_row" where
  "checkpoint_of i w c now = \<lparr>ck_id = i, ck_workflow_id = wf_id w,
     ck_checkpoint_state = ci_checkpoint_state c, ck_implementation_head = ci_implementation_head c,
     ck_expected_main_head = ci_expected_main_head c, ck_branch = ci_branch c,
     ck_worktree_path = ci_worktree_path c, ck_active_task_id = ci_active_task_id c,
     ck_completed_task_ids = ci_completed_task_ids c, ck_pending_task_ids = ci_pending_task_ids c,
     ck_dependency_graph = ci_dependency_graph c, ck_decisions = ci_decisions c,
     ck_deviations = ci_deviations c, ck_repair_counters = ci_repair_counters c,
     ck_latest_test_results = ci_latest_test_results c, ck_known_warnings = ci_known_warnings c,
     ck_authority_tier = ci_authority_tier c, ck_pending_human_approvals = ci_pending_human_approvals c,
     ck_resume_conditions = ci_resume_conditions c,
     ck_recommended_next_action = ci_recommended_next_action c, ck_created_at = now\<rparr>"

definition checkpointed :: "string \<Rightarrow> timestamp \<Rightarrow> checkpoint_input \<Rightarrow> workflow_row \<Rightarrow> workflow_row" where
  "checkpointed i now c w = w\<lparr>wf_workflow_state := ci_checkpoint_state c,
     wf_active_task_id := ci_active_task_id c, wf_completed_task_ids := ci_completed_task_ids c,
     wf_pending_task_ids := ci_pending_task_ids c, wf_decisions := ci_decisions c,
     wf_deviations := ci_deviations c, wf_repair_counters := ci_repair_counters c,
     wf_targeted_test_evidence := ci_latest_test_results c,
     wf_pending_human_approvals := ci_pending_human_approvals c,
     wf_checkpoint_history := wf_checkpoint_history w @ [i], wf_updated_at := now\<rparr>"

definition record_checkpoint :: "string \<Rightarrow> checkpoint_input \<Rightarrow> actor \<Rightarrow> db \<Rightarrow> checkpoint_row res \<times> db" where
  "record_checkpoint workflow_id c actor s =
     try_res (persistent_workflow_of workflow_id s) s (\<lambda>w.
     let s1 = bump_id ''workflow_checkpoint'' s;
         ck = checkpoint_of (fresh_id ''workflow_checkpoint'' s) w c (utc_now s1);
         w' = checkpointed (ck_id ck) (utc_now s1) c w
     in (Inr ck, audit_workflow ''PERSISTENT_WORKFLOW_CHECKPOINT_RECORDED'' actor w' ''record_workflow_checkpoint''
           (workflow_state_value (ck_checkpoint_state ck))
           [(''workflow_id'', JStr (wf_id w)), (''checkpoint_id'', JStr (ck_id ck))] (put_workflow w' (put_checkpoint ck s1))))"

definition resume_result_of :: "resume_check list \<Rightarrow> resume_result" where
  "resume_result_of checks =
     (let failed = filter (\<lambda>c. rc_status c \<noteq> ''PASS'') checks in
      if failed = [] then SAFE_TO_RESUME
      else if list_ex (\<lambda>c. rc_severity c = ''BLOCKING'') failed then resume_result.BLOCKED
      else resume_result.CHECKPOINT_REVIEW_REQUIRED)"

primrec resume_result_value :: "resume_result \<Rightarrow> string" where
  "resume_result_value SAFE_TO_RESUME = ''SAFE_TO_RESUME''"
| "resume_result_value resume_result.CHECKPOINT_REVIEW_REQUIRED = ''CHECKPOINT_REVIEW_REQUIRED''"
| "resume_result_value resume_result.BLOCKED = ''BLOCKED''"

definition validate_resume ::
  "string \<Rightarrow> string \<Rightarrow> resume_check list \<Rightarrow> string option \<Rightarrow> string option \<Rightarrow> actor \<Rightarrow>
   db \<Rightarrow> resume_row res \<times> db" where
  "validate_resume workflow_id checkpoint_id checks next_eligible_task_id notes actor s =
     try_res (persistent_workflow_of workflow_id s) s (\<lambda>w.
     try_res (case get_checkpoint checkpoint_id s of
                None \<Rightarrow> Inl (ValueError (''Unknown checkpoint for workflow: '' @ checkpoint_id))
              | Some ck \<Rightarrow> if ck_workflow_id ck \<noteq> wf_id w
                  then Inl (ValueError (''Unknown checkpoint for workflow: '' @ checkpoint_id)) else Inr ck) s (\<lambda>ck.
     let result = resume_result_of checks;
         s1 = bump_id ''resume_validation'' s;
         row = \<lparr>rv_id = fresh_id ''resume_validation'' s, rv_workflow_id = wf_id w,
           rv_checkpoint_id = ck_id ck, rv_result = result, rv_checks = checks,
           rv_next_eligible_task_id = next_eligible_task_id, rv_notes = notes,
           rv_validated_at = utc_now s1\<rparr>;
         w' = w\<lparr>wf_workflow_state := RESUME_VALIDATION, wf_active_task_id := next_eligible_task_id,
           wf_updated_at := utc_now s1\<rparr>
     in (Inr row, audit_workflow ''PERSISTENT_WORKFLOW_RESUME_VALIDATED'' actor w' ''validate_workflow_resume''
           (resume_result_value result)
           [(''workflow_id'', JStr (wf_id w)), (''checkpoint_id'', JStr (ck_id ck)),
            (''resume_validation_id'', JStr (rv_id row))] (put_workflow w' (put_resume row s1)))))"

section \<open>Steps\<close>

inductive workflow_step :: "db \<Rightarrow> db \<Rightarrow> bool" where
  "workflow_step s (snd (create_workflow inp a s))"
| "workflow_step s (snd (attach_plan i p f a s))"
| "workflow_step s (snd (update_progress i pr a s))"
| "workflow_step s (snd (record_checkpoint i c a s))"
| "workflow_step s (snd (validate_resume i c cs n no a s))"
| "clock s \<le> now \<Longrightarrow> workflow_step s (s\<lparr>clock := now\<rparr>)"

lemma audit_workflow_frame [simp]:
  "workflows (audit_workflow e a w ac re md s) = workflows s"
  "checkpoints (audit_workflow e a w ac re md s) = checkpoints s"
  "resumes (audit_workflow e a w ac re md s) = resumes s"
  by (simp_all add: audit_workflow_def)

lemma persistent_workflow_of_Inr [op_simps]:
  "persistent_workflow_of i s = Inr w \<longleftrightarrow> get_workflow i s = Some w"
  by (simp add: persistent_workflow_of_def)

lemmas workflow_op_defs = create_workflow_def attach_plan_def update_progress_def record_checkpoint_def
  validate_resume_def

lemma get_checkpoint_fresh [simp]: "get_checkpoint (fresh_id ''workflow_checkpoint'' s) s = None"
  by (simp add: get_checkpoint_def tget_None_iff)

lemma get_workflow_fresh [simp]: "get_workflow (fresh_id ''persistent_workflow'' s) s = None"
  by (simp add: get_workflow_def tget_None_iff)

subsection \<open>The checkpoint history\<close>

text \<open>Every id of a workflow's history is the id of a stored checkpoint of that workflow.\<close>

definition history_ok :: "db \<Rightarrow> bool" where
  "history_ok s \<longleftrightarrow> (\<forall>w \<in> set (workflows s). \<forall>c \<in> set (wf_checkpoint_history w).
     \<exists>k. get_checkpoint c s = Some k \<and> ck_workflow_id k = wf_id w)"

lemma history_okI:
  assumes "history_ok s" and "set (workflows t) \<subseteq> insert w' (set (workflows s))"
    and "\<And>i k. get_checkpoint i s = Some k \<Longrightarrow> get_checkpoint i t = Some k"
    and "\<And>c. c \<in> set (wf_checkpoint_history w') \<Longrightarrow> \<exists>k. get_checkpoint c t = Some k \<and> ck_workflow_id k = wf_id w'"
  shows "history_ok t"
  unfolding history_ok_def
proof (intro ballI)
  fix w c
  assume w: "w \<in> set (workflows t)" "c \<in> set (wf_checkpoint_history w)"
  show "\<exists>k. get_checkpoint c t = Some k \<and> ck_workflow_id k = wf_id w"
  proof (cases "w = w'")
    case False
    with w assms(2) have "w \<in> set (workflows s)" by auto
    with w(2) assms(1,3) show ?thesis unfolding history_ok_def by metis
  qed (use assms(4) w(2) in simp)
qed

lemma get_checkpoint_frame [simp]:
  "get_checkpoint i (audit_workflow e a w ac re md s) = get_checkpoint i s"
  "get_checkpoint i (put_workflow w s) = get_checkpoint i s"
  "get_checkpoint i (bump_id e s) = get_checkpoint i s"
  "get_checkpoint i (put_resume r s) = get_checkpoint i s"
  "get_checkpoint i (s\<lparr>clock := n\<rparr>) = get_checkpoint i s"
  by (simp_all add: get_checkpoint_def put_workflow_def put_resume_def)

lemma stored_history:
  "history_ok s \<Longrightarrow> get_workflow i s = Some w \<Longrightarrow> c \<in> set (wf_checkpoint_history w) \<Longrightarrow>
     \<exists>k. get_checkpoint c s = Some k \<and> ck_workflow_id k = wf_id w"
  by (auto simp: history_ok_def get_workflow_def dest: tget_Some_mem)

lemma rewrite_history_ok:
  assumes "history_ok s" "get_workflow i s = Some w" "workflows t = tput wf_id w' (workflows s)"
    "wf_id w' = wf_id w" "wf_checkpoint_history w' = wf_checkpoint_history w"
    "checkpoints t = checkpoints s"
  shows "history_ok t"
proof (rule history_okI [OF assms(1), where w' = w'])
  show "set (workflows t) \<subseteq> insert w' (set (workflows s))"
    unfolding assms(3) by (rule set_tput)
qed (use assms(4-6) stored_history [OF assms(1,2)] in \<open>simp_all add: get_checkpoint_def\<close>)

lemma workflow_step_history: "workflow_step s t \<Longrightarrow> history_ok s \<Longrightarrow> history_ok t"
proof (induction rule: workflow_step.induct)
  case (1 s inp a)
  show ?case
  proof -
    have "\<exists>w'. wf_checkpoint_history w' = [] \<and> workflows (snd (create_workflow inp a s)) = tput wf_id w' (workflows s)
        \<and> checkpoints (snd (create_workflow inp a s)) = checkpoints s"
      by (intro exI [of _ "new_workflow (fresh_id ''persistent_workflow'' s)
            (utc_now (bump_id ''persistent_workflow'' s)) inp"])
        (simp add: create_workflow_def Let_def put_workflow_def, simp add: new_workflow_def)
    then obtain w' where w': "wf_checkpoint_history w' = []"
      "workflows (snd (create_workflow inp a s)) = tput wf_id w' (workflows s)"
      "checkpoints (snd (create_workflow inp a s)) = checkpoints s" by blast
    show ?thesis
    proof (rule history_okI [OF 1, where w' = w'])
      show "set (workflows (snd (create_workflow inp a s))) \<subseteq> insert w' (set (workflows s))"
        unfolding w'(2) by (rule set_tput)
    qed (use w'(1,3) in \<open>simp_all add: get_checkpoint_def\<close>)
  qed
next
  case (2 s i p f a)
  then show ?case
    by (auto simp: attach_plan_def Let_def op_simps put_workflow_def split: try_res_splits
        intro: rewrite_history_ok)
next
  case (3 s i pr a)
  then show ?case
    by (auto simp: update_progress_def Let_def op_simps put_workflow_def split: try_res_splits
        intro: rewrite_history_ok)
next
  case (4 s i c a)
  show ?case
  proof (cases "get_workflow i s")
    case None
    with 4 show ?thesis by (simp add: record_checkpoint_def persistent_workflow_of_def)
  next
    case (Some w)
    let ?t = "snd (record_checkpoint i c a s)"
    let ?ck = "checkpoint_of (fresh_id ''workflow_checkpoint'' s) w c (utc_now (bump_id ''workflow_checkpoint'' s))"
    have ck: "get_checkpoint j ?t = (if j = ck_id ?ck then Some ?ck else get_checkpoint j s)" for j
      using Some by (simp add: record_checkpoint_def persistent_workflow_of_def Let_def checkpoint_table.get_put)
    have old: "get_checkpoint j s = Some k \<Longrightarrow> get_checkpoint j ?t = Some k" for j k
      using ck by (auto simp: checkpoint_of_def)
    have "\<exists>w'. wf_id w' = wf_id w \<and> wf_checkpoint_history w' = wf_checkpoint_history w @ [ck_id ?ck]
        \<and> workflows ?t = tput wf_id w' (workflows s)"
      using Some
      by (intro exI [of _ "checkpointed (ck_id ?ck) (utc_now (bump_id ''workflow_checkpoint'' s)) c w"])
        (simp add: record_checkpoint_def persistent_workflow_of_def Let_def put_workflow_def
          put_checkpoint_def checkpointed_def)
    then obtain w' where w': "wf_id w' = wf_id w" "wf_checkpoint_history w' = wf_checkpoint_history w @ [ck_id ?ck]"
      "workflows ?t = tput wf_id w' (workflows s)" by blast
    show ?thesis
    proof (rule history_okI [OF 4 _ old])
      show "set (workflows ?t) \<subseteq> insert w' (set (workflows s))" using w'(3) set_tput by metis
      show "\<exists>k. get_checkpoint j ?t = Some k \<and> ck_workflow_id k = wf_id w'"
        if "j \<in> set (wf_checkpoint_history w')" for j
        using that w'(1,2) stored_history [OF 4 Some] old ck by (auto simp: checkpoint_of_def)
    qed
  qed
next
  case (5 s i c cs n no a)
  then show ?case
    by (auto simp: validate_resume_def Let_def op_simps put_workflow_def put_resume_def
        split: try_res_splits option.splits if_splits intro: rewrite_history_ok)
next
  case (6 s now)
  then show ?case by (simp add: history_ok_def)
qed

interpretation checkpoint_history: invariant_machine workflow_step history_ok
  by unfold_locales (rule workflow_step_history)

text \<open>How a workflow evolves: it keeps its id and objective and only extends its history.\<close>

definition workflow_edge :: "workflow_row \<Rightarrow> workflow_row \<Rightarrow> bool" where
  "workflow_edge w w' \<longleftrightarrow> wf_id w' = wf_id w \<and> wf_objective w' = wf_objective w
     \<and> wf_task_backlog w' = wf_task_backlog w
     \<and> (\<exists>cs. wf_checkpoint_history w' = wf_checkpoint_history w @ cs)"

lemma workflow_edgeI:
  assumes "wf_id w' = wf_id w" "wf_objective w' = wf_objective w" "wf_task_backlog w' = wf_task_backlog w"
    "wf_checkpoint_history w' = wf_checkpoint_history w @ cs"
  shows "workflow_edge w w'"
  using assms by (auto simp: workflow_edge_def)

lemma put_workflow_edge:
  assumes "get_workflow i s = Some w" "workflows t = tput wf_id w' (workflows s)" "workflow_edge w w'"
    "get_workflow j s = Some v"
  shows "\<exists>v'. get_workflow j t = Some v' \<and> (v = v' \<or> workflow_edge v v')"
  using assms workflow_table.get_key [OF assms(1)]
  by (auto simp: get_workflow_def workflow_edge_def)

lemma workflow_step_edge:
  assumes "workflow_step s t" and "get_workflow j s = Some v"
  shows "\<exists>v'. get_workflow j t = Some v' \<and> (v = v' \<or> workflow_edge v v')"
  using assms
proof (induction rule: workflow_step.induct)
  case (1 s inp a)
  then have "j \<noteq> fresh_id ''persistent_workflow'' s" by auto
  with 1 show ?case
    by (simp add: create_workflow_def Let_def get_workflow_def put_workflow_def new_workflow_def)
next
  case (2 s i p f a)
  then show ?case
    by (auto simp: attach_plan_def Let_def op_simps put_workflow_def split: try_res_splits
        intro!: put_workflow_edge [where i = i] workflow_edgeI)
next
  case (3 s i pr a)
  then show ?case
    by (auto simp: update_progress_def Let_def op_simps put_workflow_def split: try_res_splits
        intro!: put_workflow_edge [where i = i] workflow_edgeI)
next
  case (4 s i c a)
  then show ?case
    by (auto simp: record_checkpoint_def Let_def op_simps put_workflow_def put_checkpoint_def checkpointed_def
        split: try_res_splits intro!: put_workflow_edge [where i = i] workflow_edgeI)
next
  case (5 s i c cs n no a)
  then show ?case
    by (auto simp: validate_resume_def Let_def op_simps put_workflow_def put_resume_def
        split: try_res_splits option.splits if_splits intro!: put_workflow_edge [where i = i] workflow_edgeI)
qed (simp add: get_workflow_def)

interpretation workflow_rows: lifecycle_machine workflow_step get_workflow workflow_edge
  by unfold_locales (rule workflow_step_edge)

section \<open>Properties\<close>

definition ex_checkpoint_input :: checkpoint_input where
  "ex_checkpoint_input = \<lparr>ci_checkpoint_state = VERIFYING, ci_implementation_head = ''h'',
     ci_expected_main_head = ''m'', ci_branch = ''b'', ci_worktree_path = ''w'', ci_active_task_id = Some ''T'',
     ci_completed_task_ids = [''A''], ci_pending_task_ids = [''T''], ci_dependency_graph = [],
     ci_decisions = [], ci_deviations = [], ci_repair_counters = [], ci_latest_test_results = [],
     ci_known_warnings = [], ci_authority_tier = ''L1'', ci_pending_human_approvals = [],
     ci_resume_conditions = [], ci_recommended_next_action = ''n''\<rparr>"

lemma ex_checkpoint_step:
  "workflow_step\<^sup>*\<^sup>* s (snd (record_checkpoint i c a s))"
  by (rule r_into_rtranclp) (rule workflow_step.intros)

text \<open>C19. Checkpoints: on a known workflow \<open>record_checkpoint\<close> stores the given snapshot under an id no
  row had, makes the workflow agree with it (state, active task, completed and pending ids,
  decisions, deviations, counters, approvals) and appends its id to the history; the
  checkpoint read back is the one returned.\<close>

theorem record_checkpoint_round_trip:
  assumes "get_workflow i s = Some w"
  shows "\<exists>ck w'. fst (record_checkpoint i c a s) = Inr ck
    \<and> get_checkpoint (ck_id ck) s = None \<and> ck_id ck \<notin> set (all_ids s)
    \<and> get_checkpoint (ck_id ck) (snd (record_checkpoint i c a s)) = Some ck
    \<and> ck = checkpoint_of (ck_id ck) w c (utc_now s)
    \<and> get_workflow i (snd (record_checkpoint i c a s)) = Some w'
    \<and> wf_workflow_state w' = ck_checkpoint_state ck \<and> wf_active_task_id w' = ck_active_task_id ck
    \<and> wf_completed_task_ids w' = ck_completed_task_ids ck \<and> wf_pending_task_ids w' = ck_pending_task_ids ck
    \<and> wf_decisions w' = ck_decisions ck \<and> wf_deviations w' = ck_deviations ck
    \<and> wf_repair_counters w' = ck_repair_counters ck
    \<and> wf_pending_human_approvals w' = ck_pending_human_approvals ck
    \<and> wf_checkpoint_history w' = wf_checkpoint_history w @ [ck_id ck]"
proof -
  have i: "wf_id w = i" by (rule workflow_table.get_key [OF assms])
  have get: "get_workflow j (audit_workflow e b v ac re md t) = get_workflow j t" for j e b v ac re md t
    by (simp add: get_workflow_def)
  let ?ck = "checkpoint_of (fresh_id ''workflow_checkpoint'' s) w c (utc_now s)"
  have id: "ck_id ?ck = fresh_id ''workflow_checkpoint'' s" by (simp add: checkpoint_of_def)
  have now: "utc_now (bump_id ''workflow_checkpoint'' s) = utc_now s" by (simp add: utc_now_def)
  have res: "record_checkpoint i c a s = (Inr ?ck, audit_workflow ''PERSISTENT_WORKFLOW_CHECKPOINT_RECORDED'' a
      (checkpointed (ck_id ?ck) (utc_now s) c w) ''record_workflow_checkpoint''
      (workflow_state_value (ck_checkpoint_state ?ck))
      [(''workflow_id'', JStr (wf_id w)), (''checkpoint_id'', JStr (ck_id ?ck))]
      (put_workflow (checkpointed (ck_id ?ck) (utc_now s) c w) (put_checkpoint ?ck (bump_id ''workflow_checkpoint'' s))))"
    using assms by (simp add: record_checkpoint_def persistent_workflow_of_def Let_def now)
  show ?thesis
    unfolding res using i id
    by (intro exI [of _ ?ck] exI [of _ "checkpointed (ck_id ?ck) (utc_now s) c w"])
      (simp add: get workflow_table.get_put checkpoint_table.get_put fresh_id_new,
        simp add: checkpointed_def checkpoint_of_def)
qed

theorem record_checkpoint_round_trip_witness:
  "\<exists>ck w'. fst (record_checkpoint ''W'' ex_checkpoint_input LUCIUS (ex_store [])) = Inr ck
    \<and> get_workflow ''W'' (snd (record_checkpoint ''W'' ex_checkpoint_input LUCIUS (ex_store []))) = Some w'
    \<and> wf_checkpoint_history w' = [ck_id ck]"
  using record_checkpoint_round_trip [OF ex_store_workflow [of "[]"], of ex_checkpoint_input LUCIUS]
  by (fastforce simp: ex_workflow_def)

text \<open>Checkpoint history: along any sequence of workflow operations, started from workflows without
  history, every id of a workflow's history names a stored checkpoint of that very workflow.\<close>

theorem checkpoint_history_resolves:
  assumes "workflow_step\<^sup>*\<^sup>* s t" and "list_all (\<lambda>w. wf_checkpoint_history w = []) (workflows s)"
    and "get_workflow i t = Some w" and "c \<in> set (wf_checkpoint_history w)"
  shows "\<exists>k. get_checkpoint c t = Some k \<and> ck_workflow_id k = i"
proof -
  have "history_ok s" using assms(2) by (simp add: history_ok_def list_all_iff)
  then have "history_ok t" by (rule checkpoint_history.run_inv [OF assms(1)])
  with stored_history [OF _ assms(3,4)] workflow_table.get_key [OF assms(3)] show ?thesis by simp
qed

theorem checkpoint_history_resolves_witness:
  "\<exists>w k c. get_workflow ''W'' (snd (record_checkpoint ''W'' ex_checkpoint_input LUCIUS (ex_store []))) = Some w
    \<and> wf_checkpoint_history w = [c]
    \<and> get_checkpoint c (snd (record_checkpoint ''W'' ex_checkpoint_input LUCIUS (ex_store []))) = Some k
    \<and> ck_workflow_id k = ''W''"
proof -
  let ?t = "snd (record_checkpoint ''W'' ex_checkpoint_input LUCIUS (ex_store []))"
  have "\<exists>w c. get_workflow ''W'' ?t = Some w \<and> wf_checkpoint_history w = [c]"
    by (simp add: record_checkpoint_def persistent_workflow_of_def Let_def get_workflow_def put_workflow_def
        put_checkpoint_def checkpointed_def ex_store_def ex_workflow_def)
  then obtain w c where w: "get_workflow ''W'' ?t = Some w" "wf_checkpoint_history w = [c]" by blast
  have e: "list_all (\<lambda>w. wf_checkpoint_history w = []) (workflows (ex_store []))"
    by (simp add: ex_store_def ex_workflow_def)
  from checkpoint_history_resolves [OF ex_checkpoint_step e w(1), of c] w show ?thesis by auto
qed

lemma workflow_edges: "workflow_edge\<^sup>*\<^sup>* w w' \<Longrightarrow> w = w' \<or> workflow_edge w w'"
  by (induction rule: rtranclp_induct) (auto simp: workflow_edge_def)

text \<open>Workflow rows: along any sequence of workflow operations a workflow is never lost, its objective and
  backlog stay, and its checkpoint history only grows at the end.\<close>

theorem workflow_history_grows:
  assumes "workflow_step\<^sup>*\<^sup>* s t" and "get_workflow i s = Some w"
  shows "\<exists>w' cs. get_workflow i t = Some w' \<and> wf_objective w' = wf_objective w
    \<and> wf_task_backlog w' = wf_task_backlog w \<and> wf_checkpoint_history w' = wf_checkpoint_history w @ cs"
proof -
  obtain w' where "get_workflow i t = Some w'" "workflow_edge\<^sup>*\<^sup>* w w'"
    using workflow_rows.run_edges [OF assms] by blast
  then show ?thesis using workflow_edges [of w w'] by (auto simp: workflow_edge_def)
qed

theorem workflow_history_grows_witness:
  "\<exists>w'. get_workflow ''W'' (snd (record_checkpoint ''W'' ex_checkpoint_input LUCIUS (ex_store []))) = Some w'
     \<and> wf_objective w' = ''o''"
  using workflow_history_grows [OF ex_checkpoint_step [of "ex_store []" "''W''" ex_checkpoint_input LUCIUS] ex_store_workflow]
  by (auto simp: ex_workflow_def)

text \<open>Resume validation: it raises, writing nothing, exactly when the workflow is unknown or the
  checkpoint is not one of its own; otherwise it stores the verdict (SAFE_TO_RESUME when
  every check passed, BLOCKED when a failed check is blocking, review otherwise) under a new id
  and moves the workflow to RESUME_VALIDATION, whatever the verdict.\<close>

theorem validate_resume_verdict:
  "if get_workflow i s \<noteq> None \<and> map_option ck_workflow_id (get_checkpoint c s) = Some i
   then \<exists>r t w. validate_resume i c cs n no a s = (Inr r, t)
     \<and> rv_id r \<notin> set (all_ids s) \<and> resumes t = resumes s @ [r]
     \<and> (rv_result r = SAFE_TO_RESUME \<longleftrightarrow> list_all (\<lambda>x. rc_status x = ''PASS'') cs)
     \<and> (rv_result r = resume_result.BLOCKED \<longleftrightarrow>
          list_ex (\<lambda>x. rc_status x \<noteq> ''PASS'' \<and> rc_severity x = ''BLOCKING'') cs)
     \<and> get_workflow i t = Some w \<and> wf_workflow_state w = RESUME_VALIDATION \<and> wf_active_task_id w = n
   else \<exists>e. validate_resume i c cs n no a s = (Inl e, s)"
proof -
  have verdict: "resume_result_of cs = SAFE_TO_RESUME \<longleftrightarrow> list_all (\<lambda>x. rc_status x = ''PASS'') cs"
    "resume_result_of cs = resume_result.BLOCKED \<longleftrightarrow>
      list_ex (\<lambda>x. rc_status x \<noteq> ''PASS'' \<and> rc_severity x = ''BLOCKING'') cs"
    by (auto simp: resume_result_of_def Let_def filter_empty_conv list_all_iff list_ex_iff)
  have get: "get_workflow j (audit_workflow e b v ac re md t) = get_workflow j t" for j e b v ac re md t
    by (simp add: get_workflow_def)
  consider (none) "get_workflow i s = None"
    | (other) w where "get_workflow i s = Some w" "map_option ck_workflow_id (get_checkpoint c s) \<noteq> Some i"
    | (own) w k where "get_workflow i s = Some w" "get_checkpoint c s = Some k" "ck_workflow_id k = i"
    by (cases "get_workflow i s"; cases "get_checkpoint c s") auto
  then show ?thesis
  proof cases
    case none
    then show ?thesis by (simp add: validate_resume_def persistent_workflow_of_def)
  next
    case other
    with workflow_table.get_key [OF other(1)] show ?thesis
      by (auto simp: validate_resume_def persistent_workflow_of_def split: option.split)
  next
    case own
    with workflow_table.get_key [OF own(1)] show ?thesis
      by (simp add: validate_resume_def persistent_workflow_of_def Let_def verdict get workflow_table.get_put
          fresh_id_new) (simp add: put_workflow_def put_resume_def tput_fresh)
  qed
qed

end
