(* ===== verification/Missions.thy ===== *)
theory Missions
  imports Store
begin

text \<open>
  The durable missions of \<^verbatim>\<open>lucius/runtime/mission.py\<close>: missions, their waits,
  recovery after a restart, and the reconciliation of a mission's status with the items of all
  workflows. Timestamps count microseconds. An id that the code draws with \<open>uuid4\<close>
  is an argument, and a timestamp inside a JSON payload is kept as a number in place of its
  ISO text. A record object returned to the caller is the mission's row with its waits.
\<close>

section \<open>Items of the workflows\<close>

definition all_items :: "db \<Rightarrow> queue_item list" where
  "all_items s = concat (map wf_task_backlog (workflows s))"

definition matches_item :: "string \<Rightarrow> queue_item \<Rightarrow> bool" where
  "matches_item i item = (qi_plain_id item = Some i \<or> qi_item_id item = Some i \<or> qi_logical_task_id item = Some i)"

definition set_item_state :: "queue_state \<Rightarrow> queue_item \<Rightarrow> queue_item" where
  "set_item_state q item = item\<lparr>qi_state := Text (queue_state_value q)\<rparr>"

text \<open>The first workflow with a matching item has all its matching items rewritten.\<close>

fun update_first_match :: "string \<Rightarrow> queue_state \<Rightarrow> workflow_row list \<Rightarrow> workflow_row list" where
  "update_first_match i q [] = []"
| "update_first_match i q (w # ws) =
     (if list_ex (matches_item i) (wf_task_backlog w)
      then w\<lparr>wf_task_backlog := map (\<lambda>x. if matches_item i x then set_item_state q x else x) (wf_task_backlog w)\<rparr> # ws
      else w # update_first_match i q ws)"

definition update_item_state :: "string \<Rightarrow> queue_state \<Rightarrow> db \<Rightarrow> db" where
  "update_item_state i q s = s\<lparr>workflows := update_first_match i q (workflows s)\<rparr>"

section \<open>Reconciliation\<close>

definition waiting_classes :: "wait_class list" where
  "waiting_classes = [RESOURCE, RESOURCE_SHORT, RESOURCE_LONG, DEPENDENCY, SCHEDULE]"

definition has_state :: "queue_state list \<Rightarrow> queue_item \<Rightarrow> bool" where
  "has_state qs item = (case qi_state item of Text t \<Rightarrow> t \<in> queue_state_value ` set qs | _ \<Rightarrow> False)"

definition waiting_states :: "queue_state list" where
  "waiting_states = [WAITING_RESOURCE, WAITING_RESOURCE_SHORT, WAITING_RESOURCE_LONG, WAITING_DEPENDENCY,
     WAITING_SCHEDULE, WAITING_HUMAN, WAITING_EXTERNAL]"

definition blocked_item_states :: "queue_state list" where
  "blocked_item_states = [BLOCKED_DEPENDENCY, BLOCKED_AUTHORITY, BLOCKED_DECISION]"

definition ready_states :: "queue_state list" where
  "ready_states = [queue_state.READY, READY_TO_RESUME]"

definition seconds :: "int \<Rightarrow> int" where
  "seconds n = n * 1000000"

definition mission_waits :: "string \<Rightarrow> db \<Rightarrow> wait_row list" where
  "mission_waits mission_id s = filter (\<lambda>w. w_mission_id w = mission_id) (waits s)"

definition uncleared :: "wait_row list \<Rightarrow> wait_row list" where
  "uncleared ws = filter (\<lambda>w. \<not> w_is_cleared w) ws"

definition sleeping_metadata :: "wait_row list \<Rightarrow> json" where
  "sleeping_metadata unc =
     (let dates = concat (map (\<lambda>w. case w_retry_after w of None \<Rightarrow> [] | Some r \<Rightarrow> [r]) unc)
      in JObj [
       (''why_not_executable'', JStr ''All active work packages are waiting on resources, dependencies, or schedules.''),
       (''earliest_wake_at'', if dates = [] then JNull else JInt (Min (set dates))),
       (''unresolved_dependencies'', JList (map (\<lambda>w. JStr (w_reason w))
          (filter (\<lambda>w. w_wait_class w = DEPENDENCY) unc))),
       (''blocked_authority_decisions'', JList (map (\<lambda>w. JStr (w_reason w))
          (filter (\<lambda>w. w_wait_class w \<in> {AUTHORITY, DECISION}) unc)))])"

text \<open>The wait is a long one: a long resource, or a retry more than a minute away.\<close>

definition long_wait :: "timestamp \<Rightarrow> wait_row \<Rightarrow> bool" where
  "long_wait now w = (w_wait_class w = RESOURCE_LONG \<or>
     (case w_retry_after w of None \<Rightarrow> False | Some r \<Rightarrow> r - now > seconds 60))"

definition reconciled_status :: "mission_status \<Rightarrow> queue_item list \<Rightarrow> wait_row list \<Rightarrow> timestamp \<Rightarrow> mission_status" where
  "reconciled_status status items unc now =
     (let ready = filter (has_state ready_states) items;
          waiting = filter (has_state waiting_states) items;
          blocked = filter (has_state blocked_item_states) items;
          completed = length (filter (has_state [queue_state.COMPLETED]) items)
      in if status \<in> {mission_status.PAUSED, INTERRUPTED} \<and> ready = [] then status
         else if ready \<noteq> [] then mission_status.ACTIVE
         else if waiting \<noteq> [] \<or> unc \<noteq> []
         then (if list_ex (long_wait now) unc then SLEEPING else WAITING)
         else if items \<noteq> [] \<and> completed = length items \<and> blocked = [] then mission_status.COMPLETED
         else if blocked \<noteq> [] then mission_status.FAILED
         else WAITING)"

definition reconciled_metadata :: "mission_row \<Rightarrow> queue_item list \<Rightarrow> wait_row list \<Rightarrow> json_object" where
  "reconciled_metadata m items unc =
     (let ready = filter (has_state ready_states) items;
          waiting = filter (has_state waiting_states) items
      in if ready = [] \<and> mi_status m \<notin> {mission_status.PAUSED, INTERRUPTED} \<and> (waiting \<noteq> [] \<or> unc \<noteq> [])
         then jset ''sleeping_metadata'' (sleeping_metadata unc) (mi_metadata m)
         else mi_metadata m)"

definition reconciled :: "mission_row \<Rightarrow> queue_item list \<Rightarrow> wait_row list \<Rightarrow> timestamp \<Rightarrow> mission_row" where
  "reconciled m items unc now = m\<lparr>
     mi_completed_tasks_count := max (length (filter (has_state [queue_state.COMPLETED]) items)) (mi_completed_tasks_count m),
     mi_waiting_tasks_count := max (length (filter (has_state waiting_states) items))
       (length (filter (\<lambda>w. w_wait_class w \<in> set waiting_classes) unc)),
     mi_blocked_tasks_count := max (length (filter (has_state blocked_item_states) items))
       (length (filter (\<lambda>w. w_wait_class w \<in> {AUTHORITY, DECISION}) unc)),
     mi_status := reconciled_status (mi_status m) items unc now,
     mi_metadata := reconciled_metadata m items unc, mi_updated_at := now\<rparr>"

type_synonym mission_record = "mission_row \<times> wait_row list"

definition mission_of :: "string \<Rightarrow> db \<Rightarrow> mission_row res" where
  "mission_of mission_id s = some_or (get_mission mission_id s)
     (ValueError (''Durable mission '' @ CHR 0x27 # mission_id @ CHR 0x27 # '' not found''))"

definition reconcile_mission_state :: "string \<Rightarrow> db \<Rightarrow> mission_record res \<times> db" where
  "reconcile_mission_state mission_id s =
     try_res (mission_of mission_id s) s (\<lambda>m.
     let ws = mission_waits mission_id s;
         m' = reconciled m (all_items s) (uncleared ws) (utc_now s)
     in (Inr (m', ws), put_mission m' s))"

section \<open>Operations\<close>

definition audit_mission :: "actor \<Rightarrow> string \<Rightarrow> string \<Rightarrow> string \<Rightarrow> json_object \<Rightarrow> db \<Rightarrow> db" where
  "audit_mission actor event_type action result metadata =
     audit_record event_type (actor_value actor) None None None None L0 action result metadata"

definition jlist_of :: "json option \<Rightarrow> json list" where
  "jlist_of v = (case v of Some (JList l) \<Rightarrow> l | _ \<Rightarrow> [])"

definition create_mission ::
  "actor \<Rightarrow> string \<Rightarrow> json_object \<Rightarrow> string \<Rightarrow> string \<Rightarrow> db \<Rightarrow> mission_record res \<times> db" where
  "create_mission actor canonical_sha metadata mission_id attempt_id s =
     try_res (check_that (get_mission mission_id s = None) (IntegrityError ''durable_missions.id'')) s (\<lambda>_.
     let meta = jset ''current_attempt_id'' (JStr attempt_id) metadata;
         attempts = jlist_of (jget ''attempts'' meta)
           @ [JObj [(''attempt_id'', JStr attempt_id), (''started_at'', JInt (utc_now s))]];
         m = \<lparr>mi_id = mission_id, mi_canonical_sha = canonical_sha, mi_status = mission_status.ACTIVE,
           mi_completed_tasks_count = 0, mi_waiting_tasks_count = 0, mi_blocked_tasks_count = 0,
           mi_created_at = utc_now s, mi_updated_at = utc_now s,
           mi_metadata = jset ''attempts'' (JList attempts) meta\<rparr>
     in (Inr (m, []), audit_mission actor ''DURABLE_MISSION_CREATED'' ''create_mission'' ''SUCCESS''
           [(''mission_id'', JStr mission_id), (''attempt_id'', JStr attempt_id),
            (''canonical_sha'', JStr canonical_sha)] (put_mission m s)))"

record wait_input =
  ni_wait_class :: wait_class
  ni_reason :: string
  ni_item_id :: "string option"
  ni_task_id :: "string option"
  ni_project_id :: "string option"
  ni_dependency_or_resource :: "string option"
  ni_retry_after :: "timestamp option"
  ni_provider_info :: json_object
  ni_attempts :: int
  ni_last_attempt :: "timestamp option"
  ni_next_eligibility_eval :: "timestamp option"
  ni_provenance :: json_object
  ni_metadata :: json_object

text \<open>\<open>if x: meta[k] = x\<close>.\<close>

definition jset_if :: "bool \<Rightarrow> string \<Rightarrow> json \<Rightarrow> json_object \<Rightarrow> json_object" where
  "jset_if b k v d = (if b then jset k v d else d)"

definition jtime :: "timestamp option \<Rightarrow> json" where
  "jtime t = (case t of None \<Rightarrow> JNull | Some n \<Rightarrow> JInt n)"

definition wait_metadata_of :: "wait_input \<Rightarrow> timestamp \<Rightarrow> json_object" where
  "wait_metadata_of n now =
     jset ''entered_at'' (JInt now)
     (jset_if (ni_provenance n \<noteq> []) ''provenance'' (JObj (ni_provenance n))
     (jset_if (ni_next_eligibility_eval n \<noteq> None) ''next_eligibility_eval'' (jtime (ni_next_eligibility_eval n))
     (jset_if (ni_last_attempt n \<noteq> None) ''last_attempt'' (jtime (ni_last_attempt n))
     (jset ''attempts'' (JInt (ni_attempts n))
     (jset_if (ni_provider_info n \<noteq> []) ''provider_info'' (JObj (ni_provider_info n))
     (jset_if (truthy (ni_dependency_or_resource n)) ''dependency_or_resource'' (jtext (ni_dependency_or_resource n))
     (jset_if (truthy (ni_project_id n)) ''project_id'' (jtext (ni_project_id n)) (ni_metadata n))))))))"

text \<open>The state an item takes for a class of wait; a HUMAN wait leaves it alone.\<close>

primrec state_of_wait :: "wait_class \<Rightarrow> queue_state option" where
  "state_of_wait RESOURCE_SHORT = Some WAITING_RESOURCE_SHORT"
| "state_of_wait RESOURCE_LONG = Some WAITING_RESOURCE_LONG"
| "state_of_wait RESOURCE = Some WAITING_RESOURCE"
| "state_of_wait DEPENDENCY = Some WAITING_DEPENDENCY"
| "state_of_wait SCHEDULE = Some WAITING_SCHEDULE"
| "state_of_wait AUTHORITY = Some BLOCKED_AUTHORITY"
| "state_of_wait DECISION = Some BLOCKED_DECISION"
| "state_of_wait wait_class.HUMAN = None"

definition wait_of :: "string \<Rightarrow> string \<Rightarrow> wait_input \<Rightarrow> timestamp \<Rightarrow> wait_row" where
  "wait_of wait_id mission_id n now = \<lparr>w_id = wait_id, w_mission_id = mission_id,
     w_item_id = ni_item_id n, w_task_id = ni_task_id n, w_wait_class = ni_wait_class n,
     w_reason = ni_reason n, w_retry_after = ni_retry_after n, w_cleared_at = None,
     w_is_cleared = False, w_created_at = now, w_metadata = wait_metadata_of n now\<rparr>"

definition record_wait ::
  "actor \<Rightarrow> string \<Rightarrow> string \<Rightarrow> wait_input \<Rightarrow> db \<Rightarrow> wait_row res \<times> db" where
  "record_wait actor wait_id mission_id n s =
     try_res (check_that (get_wait wait_id s = None) (IntegrityError ''durable_waits.id'')) s (\<lambda>_.
     let w = wait_of wait_id mission_id n (utc_now s);
         s1 = put_wait w s;
         s2 = (if truthy (ni_item_id n)
               then case state_of_wait (ni_wait_class n) of None \<Rightarrow> s1
                 | Some q \<Rightarrow> update_item_state (the (ni_item_id n)) q s1
               else s1)
     in case reconcile_mission_state mission_id s2 of
          (Inl e, s3) \<Rightarrow> (Inl e, s3)
        | (Inr _, s3) \<Rightarrow> (Inr w, audit_mission actor ''DURABLE_WAIT_RECORDED'' ''record_wait'' ''SUCCESS''
            [(''wait_id'', JStr wait_id), (''mission_id'', JStr mission_id), (''item_id'', jtext (ni_item_id n)),
             (''wait_class'', JStr (wait_class_value (ni_wait_class n))), (''reason'', JStr (ni_reason n))] s3))"

text \<open>Marking a wait cleared at a time, and releasing its item.\<close>

definition release_wait :: "timestamp \<Rightarrow> wait_row \<Rightarrow> db \<Rightarrow> db" where
  "release_wait now w s =
     (let s1 = put_wait (w\<lparr>w_is_cleared := True, w_cleared_at := Some now\<rparr>) s
      in if truthy (w_item_id w) \<and> w_wait_class w \<in> set waiting_classes
         then update_item_state (the (w_item_id w)) queue_state.READY s1 else s1)"

definition clear_wait :: "actor \<Rightarrow> string \<Rightarrow> db \<Rightarrow> wait_row option res \<times> db" where
  "clear_wait actor wait_id s =
     (case get_wait wait_id s of
        None \<Rightarrow> (Inr None, s)
      | Some w \<Rightarrow>
          (case reconcile_mission_state (w_mission_id w) (release_wait (utc_now s) w s) of
             (Inl e, s2) \<Rightarrow> (Inl e, s2)
           | (Inr _, s2) \<Rightarrow> (Inr (Some (w\<lparr>w_is_cleared := True, w_cleared_at := Some (utc_now s)\<rparr>)),
               audit_mission actor ''DURABLE_WAIT_CLEARED'' ''clear_wait'' ''SUCCESS''
                 [(''wait_id'', JStr wait_id), (''mission_id'', JStr (w_mission_id w))] s2)))"

definition get_mission_record :: "string \<Rightarrow> db \<Rightarrow> mission_record option res \<times> db" where
  "get_mission_record mission_id s =
     (if get_mission mission_id s = None then (Inr None, s)
      else case reconcile_mission_state mission_id s of
          (Inl e, s1) \<Rightarrow> (Inl e, s1) | (Inr r, s1) \<Rightarrow> (Inr (Some r), s1))"

definition expired :: "timestamp \<Rightarrow> wait_row \<Rightarrow> bool" where
  "expired now w = (case w_retry_after w of None \<Rightarrow> False | Some r \<Rightarrow> r \<le> now)"

definition recover_mission ::
  "actor \<Rightarrow> string \<Rightarrow> string option \<Rightarrow> string option \<Rightarrow> string \<Rightarrow> db \<Rightarrow> mission_record res \<times> db" where
  "recover_mission actor mission_id current_canonical_sha canonical_sha attempt_id s =
     (let target_sha = or_else current_canonical_sha (or_else canonical_sha ''HEAD'') in
      try_res (mission_of mission_id s) s (\<lambda>m.
      try_res (check_that (mi_canonical_sha m = target_sha)
        (ValueError (''Canonical SHA mismatch during mission recovery: mission sha='' @ mi_canonical_sha m
           @ '', current sha='' @ target_sha))) s (\<lambda>_.
      let meta = jset ''current_attempt_id'' (JStr attempt_id) (mi_metadata m);
          attempts = jlist_of (jget ''attempts'' meta) @ [JObj [(''attempt_id'', JStr attempt_id),
            (''started_at'', JInt (utc_now s)), (''recovered'', JBool True)]];
          s1 = put_mission (m\<lparr>mi_metadata := jset ''attempts'' (JList attempts) meta\<rparr>) s;
          s2 = fold (\<lambda>w t. if expired (utc_now s) w then release_wait (utc_now s) w t else t)
                 (uncleared (mission_waits mission_id s1)) s1
      in case reconcile_mission_state mission_id s2 of
           (Inl e, s3) \<Rightarrow> (Inl e, s3)
         | (Inr r, s3) \<Rightarrow> (Inr r,
             audit_mission actor ''DURABLE_MISSION_RECOVERED'' ''recover_mission'' ''SUCCESS''
               [(''mission_id'', JStr mission_id), (''attempt_id'', JStr attempt_id),
                (''canonical_sha'', jtext current_canonical_sha)] s3))))"

definition record_interruption ::
  "actor \<Rightarrow> string \<Rightarrow> string option \<Rightarrow> string \<Rightarrow> json_object \<Rightarrow> db \<Rightarrow> mission_record res \<times> db" where
  "record_interruption actor mission_id attempt_id reason checkpoint_data s =
     try_res (mission_of mission_id s) s (\<lambda>m.
     let eff_attempt = (if truthy attempt_id then jtext attempt_id
           else case jget ''current_attempt_id'' (mi_metadata m) of None \<Rightarrow> JNull | Some v \<Rightarrow> v);
         meta = jset ''last_interruption'' (JObj [(''attempt_id'', eff_attempt),
           (''timestamp'', JInt (utc_now s)), (''reason'', JStr reason), (''checkpoint'', JObj checkpoint_data)])
           (mi_metadata m);
         s1 = put_mission (m\<lparr>mi_status := mission_status.PAUSED, mi_metadata := meta, mi_updated_at := utc_now s\<rparr>) s
     in reconcile_mission_state mission_id
          (audit_mission actor ''DURABLE_MISSION_INTERRUPTED'' ''record_interruption'' ''INTERRUPTED''
            [(''mission_id'', JStr mission_id), (''attempt_id'', eff_attempt), (''reason'', JStr reason),
             (''checkpoint'', JObj checkpoint_data)] s1))"

text \<open>Whether a path exists is a question to the file system: a parameter. The paths of a
  dependency are texts.\<close>

definition json_truthy :: "json \<Rightarrow> bool" where
  "json_truthy v = (case v of JNull \<Rightarrow> False | JBool b \<Rightarrow> b | JInt n \<Rightarrow> n \<noteq> 0 | JFloat r \<Rightarrow> r \<noteq> 0 | JStr t \<Rightarrow> t \<noteq> []
     | JList l \<Rightarrow> l \<noteq> [] | JObj d \<Rightarrow> d \<noteq> [])"

definition required_paths :: "json_object \<Rightarrow> json list" where
  "required_paths meta = jlist_of
     (case jget ''required_paths'' meta of
        Some v \<Rightarrow> if json_truthy v then Some v else jget ''dependency_file_paths'' meta
      | None \<Rightarrow> jget ''dependency_file_paths'' meta)"

definition should_clear :: "(string \<Rightarrow> bool) \<Rightarrow> timestamp \<Rightarrow> wait_row \<Rightarrow> bool" where
  "should_clear path_exists now w =
     (expired now w
      \<or> w_wait_class w = DEPENDENCY \<and> required_paths (w_metadata w) \<noteq> []
          \<and> list_all (\<lambda>p. case p of JStr t \<Rightarrow> path_exists t | _ \<Rightarrow> False) (required_paths (w_metadata w))
      \<or> jget ''provider_reavailable'' (w_metadata w) = Some (JBool True)
      \<or> jget ''can_resume'' (w_metadata w) = Some (JBool True))"

fun reevaluate_waits ::
  "(string \<Rightarrow> bool) \<Rightarrow> actor \<Rightarrow> timestamp \<Rightarrow> wait_row list \<Rightarrow> db \<Rightarrow> wait_row list res \<times> db" where
  "reevaluate_waits path_exists actor now [] s = (Inr [], s)"
| "reevaluate_waits path_exists actor now (w # ws) s =
     (if should_clear path_exists now w
      then case clear_wait actor (w_id w) s of
          (Inl e, s1) \<Rightarrow> (Inl e, s1)
        | (Inr c, s1) \<Rightarrow>
            (case reevaluate_waits path_exists actor now ws s1 of
               (Inl e, s2) \<Rightarrow> (Inl e, s2)
             | (Inr cs, s2) \<Rightarrow> (Inr (case c of None \<Rightarrow> cs | Some r \<Rightarrow> r # cs), s2))
      else reevaluate_waits path_exists actor now ws s)"

definition reevaluate_durable_waits ::
  "(string \<Rightarrow> bool) \<Rightarrow> actor \<Rightarrow> string option \<Rightarrow> db \<Rightarrow> wait_row list res \<times> db" where
  "reevaluate_durable_waits path_exists actor mission_id s =
     reevaluate_waits path_exists actor (utc_now s)
       (filter (\<lambda>w. case mission_id of None \<Rightarrow> True | Some i \<Rightarrow> w_mission_id w = i) (uncleared (waits s))) s"

section \<open>Frames\<close>

lemma audit_mission_frame [simp]:
  "missions (audit_mission a e ac re md s) = missions s" "waits (audit_mission a e ac re md s) = waits s"
  "workflows (audit_mission a e ac re md s) = workflows s" "clock (audit_mission a e ac re md s) = clock s"
  by (simp_all add: audit_mission_def)

lemma update_item_state_frame [simp]:
  "missions (update_item_state i q s) = missions s" "waits (update_item_state i q s) = waits s"
  "clock (update_item_state i q s) = clock s"
  by (simp_all add: update_item_state_def)

lemma mission_of_Inr [op_simps]: "mission_of i s = Inr m \<longleftrightarrow> get_mission i s = Some m"
  by (simp add: mission_of_def)

lemma get_mission_frame [simp]:
  "get_mission i (audit_mission a e ac re md s) = get_mission i s"
  "get_mission i (update_item_state j q s) = get_mission i s"
  "get_mission i (put_wait w s) = get_mission i s"
  by (simp_all add: get_mission_def put_wait_def)

lemma get_wait_frame [simp]:
  "get_wait i (audit_mission a e ac re md s) = get_wait i s"
  "get_wait i (update_item_state j q s) = get_wait i s"
  "get_wait i (put_mission m s) = get_wait i s"
  by (simp_all add: get_wait_def put_mission_def)

lemma release_wait_frame [simp]:
  "missions (release_wait now w s) = missions s" "clock (release_wait now w s) = clock s"
  "get_mission i (release_wait now w s) = get_mission i s"
  "get_wait i (release_wait now w s) =
     (if w_id w = i then Some (w\<lparr>w_is_cleared := True, w_cleared_at := Some now\<rparr>) else get_wait i s)"
  by (simp_all add: release_wait_def Let_def put_wait_def get_mission_def get_wait_def)

lemma reconcile_Inr:
  "reconcile_mission_state i s = (Inr r, t) \<longleftrightarrow> (\<exists>m. get_mission i s = Some m
     \<and> r = (reconciled m (all_items s) (uncleared (mission_waits i s)) (utc_now s), mission_waits i s)
     \<and> t = put_mission (fst r) s)"
  by (auto simp: reconcile_mission_state_def Let_def mission_of_Inr)

lemma reconcile_cases:
  "(get_mission i s = None \<and> (\<exists>e. reconcile_mission_state i s = (Inl e, s)))
   \<or> (\<exists>m. get_mission i s = Some m \<and> reconcile_mission_state i s =
        (Inr (reconciled m (all_items s) (uncleared (mission_waits i s)) (utc_now s), mission_waits i s),
         put_mission (reconciled m (all_items s) (uncleared (mission_waits i s)) (utc_now s)) s))"
  by (cases "get_mission i s") (auto simp: reconcile_mission_state_def Let_def mission_of_def)

section \<open>Steps\<close>

text \<open>A step of the supervisor with any arguments, or of its environment: time passes, and the
  queue and the workflows change as they like. \<open>w_id\<close> is the primary key of the waits.\<close>

definition wait_keys :: "db \<Rightarrow> bool" where
  "wait_keys s = distinct (map w_id (waits s))"

inductive mission_step :: "db \<Rightarrow> db \<Rightarrow> bool" where
  "mission_step s (snd (create_mission a sha md i att s))"
| "mission_step s (snd (record_wait a wi i n s))"
| "mission_step s (snd (clear_wait a wi s))"
| "mission_step s (snd (get_mission_record i s))"
| "wait_keys s \<Longrightarrow> mission_step s (snd (recover_mission a i c c' att s))"
| "mission_step s (snd (record_interruption a i att re ck s))"
| "mission_step s (snd (reevaluate_durable_waits pe a i s))"
| "mission_step s (snd (reconcile_mission_state i s))"
| "missions t = missions s \<Longrightarrow> waits t = waits s \<Longrightarrow> mission_step s t"

text \<open>A mission keeps its baseline commit and never loses completed work; a wait that is cleared
  stays cleared.\<close>

definition mission_edge :: "mission_row \<Rightarrow> mission_row \<Rightarrow> bool" where
  "mission_edge m m' \<longleftrightarrow> mi_id m' = mi_id m \<and> mi_canonical_sha m' = mi_canonical_sha m
     \<and> mi_created_at m' = mi_created_at m \<and> mi_completed_tasks_count m \<le> mi_completed_tasks_count m'"

definition wait_edge :: "wait_row \<Rightarrow> wait_row \<Rightarrow> bool" where
  "wait_edge w w' \<longleftrightarrow> w_id w' = w_id w \<and> w_mission_id w' = w_mission_id w \<and> w_reason w' = w_reason w
     \<and> w_wait_class w' = w_wait_class w \<and> w_is_cleared w' \<and> w_cleared_at w' \<noteq> None"

text \<open>The effect of an operation on missions and waits.\<close>

definition missions_grow :: "db \<Rightarrow> db \<Rightarrow> bool" where
  "missions_grow s t \<longleftrightarrow> (\<forall>i m. get_mission i s = Some m \<longrightarrow> (\<exists>m'. get_mission i t = Some m' \<and> mission_edge m m'))
     \<and> (\<forall>i w. get_wait i s = Some w \<longrightarrow> (\<exists>w'. get_wait i t = Some w' \<and> (w = w' \<or> wait_edge w w')))"

lemma missions_growI:
  assumes "\<And>i m. get_mission i s = Some m \<Longrightarrow> \<exists>m'. get_mission i t = Some m' \<and> mission_edge m m'"
    and "\<And>i w. get_wait i s = Some w \<Longrightarrow> \<exists>w'. get_wait i t = Some w' \<and> (w = w' \<or> wait_edge w w')"
  shows "missions_grow s t"
  using assms by (simp add: missions_grow_def)

lemma mission_edge_refl [simp]: "mission_edge m m"
  by (simp add: mission_edge_def)

lemma missions_grow_refl [simp]: "missions_grow s s"
  by (auto simp: missions_grow_def)

lemma missions_growD:
  "missions_grow s t \<Longrightarrow> get_mission i s = Some m \<Longrightarrow> \<exists>m'. get_mission i t = Some m' \<and> mission_edge m m'"
  "missions_grow s t \<Longrightarrow> get_wait i s = Some w \<Longrightarrow> \<exists>w'. get_wait i t = Some w' \<and> (w = w' \<or> wait_edge w w')"
  unfolding missions_grow_def by blast+

lemma mission_edge_trans: "mission_edge a b \<Longrightarrow> mission_edge b c \<Longrightarrow> mission_edge a c"
  by (auto simp: mission_edge_def)

lemma wait_edge_trans: "wait_edge a b \<Longrightarrow> wait_edge b c \<Longrightarrow> wait_edge a c"
  by (auto simp: wait_edge_def)

lemma missions_grow_trans: "missions_grow s t \<Longrightarrow> missions_grow t u \<Longrightarrow> missions_grow s u"
proof (rule missions_growI)
  fix i m
  assume g: "missions_grow s t" "missions_grow t u" "get_mission i s = Some m"
  show "\<exists>m'. get_mission i u = Some m' \<and> mission_edge m m'"
    using missions_growD(1) [OF g(1,3)] missions_growD(1) [OF g(2)] mission_edge_trans by blast
next
  fix i w
  assume g: "missions_grow s t" "missions_grow t u" "get_wait i s = Some w"
  show "\<exists>w'. get_wait i u = Some w' \<and> (w = w' \<or> wait_edge w w')"
    using missions_growD(2) [OF g(1,3)] missions_growD(2) [OF g(2)] wait_edge_trans by blast
qed

lemma same_missions_grow: "missions t = missions s \<Longrightarrow> waits t = waits s \<Longrightarrow> missions_grow s t"
  by (simp add: missions_grow_def get_mission_def get_wait_def)

lemma put_mission_grow:
  assumes "get_mission i s = Some m" "mission_edge m m'"
  shows "missions_grow s (put_mission m' s)"
  using assms mission_table.get_key [OF assms(1)]
  by (intro missions_growI) (auto simp: mission_table.get_put mission_edge_def)

lemma release_wait_grow:
  assumes "get_wait (w_id w) s = Some w"
  shows "missions_grow s (release_wait now w s)"
  using assms by (intro missions_growI) (auto simp: wait_edge_def)

lemma reconciled_edge: "mission_edge m (reconciled m items unc now)"
  by (simp add: mission_edge_def reconciled_def)

lemma reconcile_grow: "missions_grow s (snd (reconcile_mission_state i s))"
  using reconcile_cases [of i s] put_mission_grow reconciled_edge by fastforce

lemma create_mission_grow: "missions_grow s (snd (create_mission a sha md i att s))"
  by (cases "get_mission i s")
    (auto simp: create_mission_def Let_def mission_table.get_put check_that_def intro!: missions_growI)

lemma record_wait_grow: "missions_grow s (snd (record_wait a wi i n s))"
proof (cases "get_wait wi s")
  case None
  let ?w = "wait_of wi i n (utc_now s)"
  let ?s2 = "if truthy (ni_item_id n)
               then case state_of_wait (ni_wait_class n) of None \<Rightarrow> put_wait ?w s
                 | Some q \<Rightarrow> update_item_state (the (ni_item_id n)) q (put_wait ?w s)
               else put_wait ?w s"
  have "missions ?s2 = missions (put_wait ?w s)" "waits ?s2 = waits (put_wait ?w s)"
    by (auto split: option.split)
  moreover have "missions_grow s (put_wait ?w s)"
    using None by (intro missions_growI) (auto simp: wait_table.get_put wait_of_def)
  ultimately have "missions_grow s ?s2"
    by (meson missions_grow_trans same_missions_grow)
  then have "missions_grow s (snd (reconcile_mission_state i ?s2))"
    using reconcile_grow missions_grow_trans by blast
  moreover have "missions (snd (record_wait a wi i n s)) = missions (snd (reconcile_mission_state i ?s2))
      \<and> waits (snd (record_wait a wi i n s)) = waits (snd (reconcile_mission_state i ?s2))"
    using None unfolding record_wait_def Let_def
    by (simp split: prod.split sum.split)
  ultimately show ?thesis
    by (meson missions_grow_trans same_missions_grow)
qed (simp add: record_wait_def check_that_def)

lemma clear_wait_grow: "missions_grow s (snd (clear_wait a wi s))"
proof (cases "get_wait wi s")
  case (Some w)
  have id: "w_id w = wi" using Some by (rule wait_table.get_key)
  let ?s1 = "release_wait (utc_now s) w s"
  have "missions_grow s (snd (reconcile_mission_state (w_mission_id w) ?s1))"
    using release_wait_grow [of w s] reconcile_grow missions_grow_trans Some id by blast
  moreover have "missions (snd (clear_wait a wi s)) = missions (snd (reconcile_mission_state (w_mission_id w) ?s1))
      \<and> waits (snd (clear_wait a wi s)) = waits (snd (reconcile_mission_state (w_mission_id w) ?s1))"
    using Some unfolding clear_wait_def by (simp split: prod.split sum.split)
  ultimately show ?thesis
    by (meson missions_grow_trans same_missions_grow)
qed (simp add: clear_wait_def)

lemma get_mission_record_grow: "missions_grow s (snd (get_mission_record i s))"
  using reconcile_grow [of s i] by (auto simp: get_mission_record_def split: prod.split sum.split)

text \<open>Releasing a list of stored, pairwise different waits.\<close>

definition release_expired :: "timestamp \<Rightarrow> wait_row list \<Rightarrow> db \<Rightarrow> db" where
  "release_expired now ws s = fold (\<lambda>w t. if expired now w then release_wait now w t else t) ws s"

lemma release_expired_waits:
  assumes "distinct (map w_id ws)"
  shows "get_wait j (release_expired now ws s) =
    (case find (\<lambda>w. expired now w \<and> w_id w = j) ws of
       Some w \<Rightarrow> Some (w\<lparr>w_is_cleared := True, w_cleared_at := Some now\<rparr>) | None \<Rightarrow> get_wait j s)"
  using assms
proof (induction ws arbitrary: s)
  case (Cons w ws)
  then have "find (\<lambda>v. expired now v \<and> w_id v = w_id w) ws = None"
    by (auto simp: find_None_iff image_iff)
  with Cons show ?case
    by (auto simp: release_expired_def split: option.split)
qed (simp add: release_expired_def)

lemma release_expired_frame [simp]:
  "missions (release_expired now ws s) = missions s" "clock (release_expired now ws s) = clock s"
  by (induction ws arbitrary: s) (auto simp: release_expired_def)

lemma release_expired_grow:
  assumes "\<And>w. w \<in> set ws \<Longrightarrow> get_wait (w_id w) s = Some w" "distinct (map w_id ws)"
  shows "missions_grow s (release_expired now ws s)"
proof (rule missions_growI)
  show "\<exists>m'. get_mission i (release_expired now ws s) = Some m' \<and> mission_edge m m'"
    if "get_mission i s = Some m" for i m
    using that by (simp add: get_mission_def)
  show "\<exists>w'. get_wait i (release_expired now ws s) = Some w' \<and> (w = w' \<or> wait_edge w w')"
    if "get_wait i s = Some w" for i w
  proof (cases "find (\<lambda>w. expired now w \<and> w_id w = i) ws")
    case (Some v)
    then have "v \<in> set ws" "w_id v = i" by (auto simp: find_Some_iff)
    with assms(1) that have "v = w" by force
    with Some show ?thesis using release_expired_waits [OF assms(2)] by (auto simp: wait_edge_def)
  qed (use that release_expired_waits [OF assms(2)] in auto)
qed

lemma stored_uncleared:
  assumes "wait_keys s"
  shows "w \<in> set (uncleared (mission_waits i s)) \<Longrightarrow> get_wait (w_id w) s = Some w"
    and "distinct (map w_id (uncleared (mission_waits i s)))"
  using assms
  by (auto simp: wait_keys_def uncleared_def mission_waits_def get_wait_def tget_distinct
      distinct_map_filter)

definition recovery_start :: "string \<Rightarrow> string \<Rightarrow> mission_row \<Rightarrow> db \<Rightarrow> db" where
  "recovery_start i att m s =
     (let meta = jset ''current_attempt_id'' (JStr att) (mi_metadata m)
      in put_mission (m\<lparr>mi_metadata := jset ''attempts'' (JList (jlist_of (jget ''attempts'' meta)
           @ [JObj [(''attempt_id'', JStr att), (''started_at'', JInt (utc_now s)), (''recovered'', JBool True)]]))
           meta\<rparr>) s)"

lemma recovery_start_frame [simp]:
  "waits (recovery_start i att m s) = waits s" "workflows (recovery_start i att m s) = workflows s"
  "clock (recovery_start i att m s) = clock s" "get_wait j (recovery_start i att m s) = get_wait j s"
  by (simp_all add: recovery_start_def Let_def put_mission_def get_wait_def)

lemma recover_mission_unfold:
  assumes "get_mission i s = Some m" "mi_canonical_sha m = or_else c (or_else c' ''HEAD'')"
  shows "recover_mission a i c c' att s =
    (case reconcile_mission_state i (release_expired (utc_now s) (uncleared (mission_waits i s)) (recovery_start i att m s)) of
       (Inl e, t) \<Rightarrow> (Inl e, t)
     | (Inr r, t) \<Rightarrow> (Inr r, audit_mission a ''DURABLE_MISSION_RECOVERED'' ''recover_mission'' ''SUCCESS''
         [(''mission_id'', JStr i), (''attempt_id'', JStr att),
                (''canonical_sha'', jtext c)] t))"
  using assms
  by (simp add: recover_mission_def mission_of_def Let_def release_expired_def recovery_start_def
      mission_waits_def put_mission_def)

lemma recover_mission_reject:
  assumes "\<nexists>m. get_mission i s = Some m \<and> mi_canonical_sha m = or_else c (or_else c' ''HEAD'')"
  shows "\<exists>e. recover_mission a i c c' att s = (Inl e, s)"
  using assms
  by (cases "get_mission i s") (auto simp: recover_mission_def Let_def mission_of_def check_that_def)

lemma recovery_start_grow:
  assumes "get_mission i s = Some m"
  shows "missions_grow s (recovery_start i att m s)"
  unfolding recovery_start_def Let_def
  by (rule put_mission_grow [OF assms]) (simp add: mission_edge_def)

lemma recover_mission_grow:
  assumes "wait_keys s"
  shows "missions_grow s (snd (recover_mission a i c c' att s))"
proof (cases "\<exists>m. get_mission i s = Some m \<and> mi_canonical_sha m = or_else c (or_else c' ''HEAD'')")
  case True
  then obtain m where m: "get_mission i s = Some m" "mi_canonical_sha m = or_else c (or_else c' ''HEAD'')" by blast
  let ?s1 = "recovery_start i att m s"
  let ?s2 = "release_expired (utc_now s) (uncleared (mission_waits i s)) ?s1"
  have "missions_grow s ?s1" by (rule recovery_start_grow [OF m(1)])
  moreover have "missions_grow ?s1 ?s2"
    by (rule release_expired_grow) (use stored_uncleared [OF assms] in simp_all)
  ultimately have "missions_grow s (snd (reconcile_mission_state i ?s2))"
    using reconcile_grow missions_grow_trans by blast
  moreover have "missions (snd (recover_mission a i c c' att s)) = missions (snd (reconcile_mission_state i ?s2))
      \<and> waits (snd (recover_mission a i c c' att s)) = waits (snd (reconcile_mission_state i ?s2))"
    unfolding recover_mission_unfold [OF m] by (simp split: prod.split sum.split)
  ultimately show ?thesis
    by (meson missions_grow_trans same_missions_grow)
next
  case False
  then obtain e where "recover_mission a i c c' att s = (Inl e, s)"
    using recover_mission_reject by blast
  then show ?thesis by simp
qed

lemma record_interruption_grow: "missions_grow s (snd (record_interruption a i att re ck s))"
proof (cases "get_mission i s")
  case (Some m)
  have "\<exists>meta md. record_interruption a i att re ck s = reconcile_mission_state i
      (audit_mission a ''DURABLE_MISSION_INTERRUPTED'' ''record_interruption'' ''INTERRUPTED'' md
        (put_mission (m\<lparr>mi_status := mission_status.PAUSED, mi_metadata := meta, mi_updated_at := utc_now s\<rparr>) s))"
    using Some by (auto simp: record_interruption_def mission_of_def Let_def)
  then obtain meta md where r: "record_interruption a i att re ck s = reconcile_mission_state i
      (audit_mission a ''DURABLE_MISSION_INTERRUPTED'' ''record_interruption'' ''INTERRUPTED'' md
        (put_mission (m\<lparr>mi_status := mission_status.PAUSED, mi_metadata := meta, mi_updated_at := utc_now s\<rparr>) s))"
    by blast
  have "missions_grow s (put_mission (m\<lparr>mi_status := mission_status.PAUSED, mi_metadata := meta, mi_updated_at := utc_now s\<rparr>) s)"
    by (rule put_mission_grow [OF Some]) (simp add: mission_edge_def)
  then show ?thesis
    unfolding r by (meson audit_mission_frame missions_grow_trans reconcile_grow same_missions_grow)
qed (simp add: record_interruption_def mission_of_def)

lemma reevaluate_waits_grow: "missions_grow s (snd (reevaluate_waits pe a now ws s))"
proof (induction ws arbitrary: s)
  case (Cons w ws)
  show ?case
  proof (cases "should_clear pe now w")
    case True
    obtain r s1 where r: "clear_wait a (w_id w) s = (r, s1)" by fastforce
    then have g: "missions_grow s s1" using clear_wait_grow [of s a "w_id w"] by simp
    obtain r2 s2 where r2: "reevaluate_waits pe a now ws s1 = (r2, s2)" by fastforce
    then have "missions_grow s s2" using missions_grow_trans [OF g Cons.IH [of s1]] by simp
    then show ?thesis
      using True r r2 g by (cases r; cases r2) simp_all
  qed (use Cons in simp)
qed simp

lemma mission_step_grow: "mission_step s t \<Longrightarrow> missions_grow s t"
  by (induction rule: mission_step.induct)
    (simp_all add: create_mission_grow record_wait_grow clear_wait_grow get_mission_record_grow
      recover_mission_grow record_interruption_grow reevaluate_durable_waits_def reevaluate_waits_grow
      reconcile_grow same_missions_grow)

interpretation mission_rows: lifecycle_machine mission_step get_mission mission_edge
  by unfold_locales (use mission_step_grow missions_growD(1) in blast)

interpretation wait_rows: lifecycle_machine mission_step get_wait wait_edge
  by unfold_locales (use mission_step_grow missions_growD(2) in blast)

lemma mission_edges: "mission_edge\<^sup>*\<^sup>* m m' \<Longrightarrow> mission_edge m m'"
  by (induction rule: rtranclp_induct) (auto intro: mission_edge_trans)

lemma wait_edges: "wait_edge\<^sup>*\<^sup>* w w' \<Longrightarrow> w = w' \<or> wait_edge w w'"
  by (induction rule: rtranclp_induct) (auto intro: wait_edge_trans)

section \<open>Reconciliation settles\<close>

lemma tput_again: "tput key r (tput key r t) = tput key r t"
  by (induction t) auto

lemma jset_again: "jset k v (jset k v d) = jset k v d"
  by (induction d) auto

lemma reconciled_status_again:
  "reconciled_status (reconciled_status st items unc now) items unc now = reconciled_status st items unc now"
  by (auto simp: reconciled_status_def Let_def)

lemma reconciled_metadata_again:
  "reconciled_metadata (reconciled m items unc now) items unc = reconciled_metadata m items unc"
  by (auto simp: reconciled_metadata_def reconciled_def reconciled_status_def Let_def jset_again)

section \<open>Examples\<close>

definition ex_mission :: mission_row where
  "ex_mission = \<lparr>mi_id = ''M'', mi_canonical_sha = ''sha'', mi_status = WAITING, mi_completed_tasks_count = 0,
     mi_waiting_tasks_count = 0, mi_blocked_tasks_count = 0, mi_created_at = 0, mi_updated_at = 0,
     mi_metadata = []\<rparr>"

definition ex_wait :: "string option \<Rightarrow> timestamp option \<Rightarrow> wait_row" where
  "ex_wait item retry = \<lparr>w_id = ''X'', w_mission_id = ''M'', w_item_id = item, w_task_id = None,
     w_wait_class = RESOURCE, w_reason = ''r'', w_retry_after = retry, w_cleared_at = None,
     w_is_cleared = False, w_created_at = 0, w_metadata = []\<rparr>"

definition ex_missions :: "queue_item list \<Rightarrow> wait_row list \<Rightarrow> db" where
  "ex_missions b ws = (ex_store b)\<lparr>missions := [ex_mission], waits := ws\<rparr>"

lemma ex_missions_simps [simp]:
  "get_mission ''M'' (ex_missions b ws) = Some ex_mission" "mi_canonical_sha ex_mission = ''sha''"
  "waits (ex_missions b ws) = ws" "clock (ex_missions b ws) = 0" "all_items (ex_missions b ws) = b"
  by (simp_all add: ex_missions_def ex_mission_def get_mission_def ex_store_def empty_db_def all_items_def)

section \<open>Properties\<close>

text \<open>Missions and waits over time: along any sequence of supervisor operations, interleaved with any
  change of the workflows and with time, a mission keeps its baseline commit and its count of
  completed tasks never decreases, and a cleared wait stays cleared.\<close>

theorem mission_progress_is_kept:
  assumes "mission_step\<^sup>*\<^sup>* s t" and "get_mission i s = Some m" and "get_wait j s = Some w"
  shows "\<exists>m' w'. get_mission i t = Some m' \<and> get_wait j t = Some w'
    \<and> mi_canonical_sha m' = mi_canonical_sha m \<and> mi_completed_tasks_count m \<le> mi_completed_tasks_count m'
    \<and> w_mission_id w' = w_mission_id w \<and> (w_is_cleared w \<longrightarrow> w_is_cleared w')"
proof -
  obtain m' where m: "get_mission i t = Some m'" "mission_edge\<^sup>*\<^sup>* m m'"
    using mission_rows.run_edges [OF assms(1,2)] by blast
  obtain w' where w: "get_wait j t = Some w'" "wait_edge\<^sup>*\<^sup>* w w'"
    using wait_rows.run_edges [OF assms(1,3)] by blast
  show ?thesis
    using m(1) w(1) mission_edges [OF m(2)] wait_edges [OF w(2)]
    by (auto simp: mission_edge_def wait_edge_def)
qed

theorem mission_progress_is_kept_witness:
  "\<exists>m' w'. get_mission ''M'' (snd (clear_wait LUCIUS ''X'' (ex_missions [] [ex_wait None None]))) = Some m'
    \<and> get_wait ''X'' (snd (clear_wait LUCIUS ''X'' (ex_missions [] [ex_wait None None]))) = Some w'
    \<and> mi_canonical_sha m' = ''sha''"
proof -
  have "mission_step\<^sup>*\<^sup>* (ex_missions [] [ex_wait None None])
      (snd (clear_wait LUCIUS ''X'' (ex_missions [] [ex_wait None None])))"
    by (rule r_into_rtranclp) (rule mission_step.intros)
  moreover have "get_wait ''X'' (ex_missions [] [ex_wait None None]) = Some (ex_wait None None)"
    by (simp add: get_wait_def ex_wait_def)
  ultimately show ?thesis
    using mission_progress_is_kept [OF _ ex_missions_simps(1)] by fastforce
qed

text \<open>Reconciliation settles: reconciling a mission a second time, at the same time and with nothing
  else changed, returns the same record and leaves the same store.\<close>

theorem reconcile_is_idempotent:
  assumes "reconcile_mission_state i s = (Inr r, t)"
  shows "reconcile_mission_state i t = (Inr r, t)"
proof -
  obtain m where m: "get_mission i s = Some m"
    "r = (reconciled m (all_items s) (uncleared (mission_waits i s)) (utc_now s), mission_waits i s)"
    "t = put_mission (fst r) s"
    using assms reconcile_Inr by blast
  let ?items = "all_items s" and ?unc = "uncleared (mission_waits i s)"
  have i: "mi_id m = i" using m(1) by (rule mission_table.get_key)
  have same: "all_items t = ?items" "mission_waits i t = mission_waits i s" "utc_now t = utc_now s"
    by (simp_all add: m(3) all_items_def mission_waits_def put_mission_def utc_now_def)
  have get: "get_mission i t = Some (fst r)"
    using i by (simp add: m(2,3) mission_table.get_put reconciled_def)
  have rec: "reconciled (fst r) ?items ?unc (utc_now s) = fst r"
    using reconciled_status_again [of "mi_status m" ?items ?unc "utc_now s"]
      reconciled_metadata_again [of m ?items ?unc "utc_now s"]
    by (simp add: m(2) reconciled_def)
  have "put_mission (fst r) t = t"
    by (simp add: m(3) put_mission_def tput_again)
  then show ?thesis
    unfolding reconcile_Inr using get same rec m(2) by simp
qed

theorem reconcile_is_idempotent_witness:
  "\<exists>r t. reconcile_mission_state ''M'' (ex_missions [] []) = (Inr r, t)
     \<and> reconcile_mission_state ''M'' t = (Inr r, t)"
proof -
  obtain r t where r: "reconcile_mission_state ''M'' (ex_missions [] []) = (Inr r, t)"
    using reconcile_Inr [of "''M''" "ex_missions [] []"] by fastforce
  then show ?thesis using reconcile_is_idempotent [OF r] by blast
qed

lemma has_state_iff: "has_state [q] x \<longleftrightarrow> qi_state x = Text (queue_state_value q)"
  by (auto simp: has_state_def split: raw_field.splits)

lemma all_filtered: "length (filter P xs) = length xs \<Longrightarrow> list_all P xs"
  by (metis filter_id_conv length_filter_less less_irrefl list_all_iff)

text \<open>C20. Reported completion is real: a reconciled mission is COMPLETED only when no wait of it is
  uncleared, there are items, and every item of every workflow is COMPLETED; and it is ACTIVE
  whenever some item is READY or READY_TO_RESUME, whatever its status was.\<close>

theorem reconciled_completion_is_real:
  assumes "reconcile_mission_state i s = (Inr r, t)"
  shows "(mi_status (fst r) = mission_status.COMPLETED \<longrightarrow> uncleared (mission_waits i s) = [] \<and> all_items s \<noteq> []
      \<and> list_all (\<lambda>x. qi_state x = Text ''COMPLETED'') (all_items s))
    \<and> (list_ex (has_state ready_states) (all_items s) \<longrightarrow> mi_status (fst r) = mission_status.ACTIVE)"
proof -
  let ?items = "all_items s" and ?unc = "uncleared (mission_waits i s)"
  obtain m where m: "r = (reconciled m ?items ?unc (utc_now s), mission_waits i s)"
    using assms unfolding reconcile_Inr by blast
  then have st: "mi_status (fst r) = reconciled_status (mi_status m) ?items ?unc (utc_now s)"
    by (simp add: reconciled_def)
  have "?unc = [] \<and> ?items \<noteq> [] \<and> length (filter (has_state [queue_state.COMPLETED]) ?items) = length ?items"
    if "mi_status (fst r) = mission_status.COMPLETED"
    using that st by (auto simp: reconciled_status_def Let_def split: if_splits)
  moreover have "list_all (\<lambda>x. qi_state x = Text ''COMPLETED'') ?items"
    if "length (filter (has_state [queue_state.COMPLETED]) ?items) = length ?items"
    using all_filtered [OF that] by (simp add: has_state_iff list_all_iff)
  moreover have "mi_status (fst r) = mission_status.ACTIVE" if "list_ex (has_state ready_states) ?items"
  proof -
    have "filter (has_state ready_states) ?items \<noteq> []"
      using that by (auto simp: list_ex_iff filter_empty_conv)
    then show ?thesis using st by (simp add: reconciled_status_def Let_def)
  qed
  ultimately show ?thesis by blast
qed

theorem reconciled_completion_is_real_witness:
  "\<exists>r t. reconcile_mission_state ''M'' (ex_missions [ex_item ''A'' queue_state.READY []] []) = (Inr r, t)
     \<and> mi_status (fst r) = mission_status.ACTIVE"
proof -
  obtain r t where r: "reconcile_mission_state ''M'' (ex_missions [ex_item ''A'' queue_state.READY []] []) = (Inr r, t)"
    using reconcile_Inr [of "''M''" "ex_missions [ex_item ''A'' queue_state.READY []] []"] by fastforce
  then show ?thesis
    using reconciled_completion_is_real [OF r] by (simp add: has_state_def ready_states_def ex_item_def)
qed

lemma reconcile_waits [simp]: "get_wait j (snd (reconcile_mission_state i s)) = get_wait j s"
  using reconcile_cases [of i s] by auto

text \<open>Recovery: with unique wait ids, \<open>recover_mission\<close> on a mission whose baseline commit is the
  current one clears exactly the mission's uncleared waits whose retry time has come, at the
  current time, and leaves every other wait as it was; on an unknown mission or another commit
  it raises and writes nothing.\<close>

theorem recover_mission_clears_expired:
  assumes "wait_keys s"
  shows "if map_option mi_canonical_sha (get_mission i s) = Some (or_else c (or_else c' ''HEAD''))
    then (\<exists>r. fst (recover_mission a i c c' att s) = Inr r)
      \<and> (\<forall>j. get_wait j (snd (recover_mission a i c c' att s)) =
           map_option (\<lambda>w. if w_mission_id w = i \<and> \<not> w_is_cleared w \<and> expired (utc_now s) w
             then w\<lparr>w_is_cleared := True, w_cleared_at := Some (utc_now s)\<rparr> else w) (get_wait j s))
    else \<exists>e. recover_mission a i c c' att s = (Inl e, s)"
proof (cases "map_option mi_canonical_sha (get_mission i s) = Some (or_else c (or_else c' ''HEAD''))")
  case True
  then obtain m where m: "get_mission i s = Some m" "mi_canonical_sha m = or_else c (or_else c' ''HEAD'')" by auto
  let ?ws = "uncleared (mission_waits i s)"
  let ?s2 = "release_expired (utc_now s) ?ws (recovery_start i att m s)"
  have "get_mission i ?s2 = get_mission i (recovery_start i att m s)" by (simp add: get_mission_def)
  also have "\<dots> \<noteq> None"
    using mission_table.get_key [OF m(1)]
    by (simp add: recovery_start_def Let_def mission_table.get_put)
  finally obtain r t where r: "reconcile_mission_state i ?s2 = (Inr r, t)"
    using reconcile_cases [of i ?s2] by auto
  have w: "get_wait j (snd (recover_mission a i c c' att s)) = get_wait j ?s2" for j
    unfolding recover_mission_unfold [OF m] using r reconcile_waits [of j i ?s2] by simp
  have "get_wait j ?s2 = map_option (\<lambda>w. if w_mission_id w = i \<and> \<not> w_is_cleared w \<and> expired (utc_now s) w
             then w\<lparr>w_is_cleared := True, w_cleared_at := Some (utc_now s)\<rparr> else w) (get_wait j s)" for j
  proof (cases "find (\<lambda>w. expired (utc_now s) w \<and> w_id w = j) ?ws")
    case (Some v)
    then have v: "v \<in> set ?ws" "expired (utc_now s) v" "w_id v = j" by (auto simp: find_Some_iff)
    then have "get_wait j s = Some v" using stored_uncleared(1) [OF assms] by blast
    moreover have "w_mission_id v = i" "\<not> w_is_cleared v"
      using v(1) by (auto simp: uncleared_def mission_waits_def)
    ultimately show ?thesis
      using release_expired_waits [OF stored_uncleared(2) [OF assms], of j] Some v(2) by simp
  next
    case None
    have "\<not> (w_mission_id w = i \<and> \<not> w_is_cleared w \<and> expired (utc_now s) w)" if "get_wait j s = Some w" for w
      using None that wait_table.get_key [OF that]
      by (auto simp: find_None_iff uncleared_def mission_waits_def get_wait_def dest: tget_Some_mem)
    then show ?thesis
      using release_expired_waits [OF stored_uncleared(2) [OF assms], of j] None
      by (cases "get_wait j s") auto
  qed
  moreover have "\<exists>r. fst (recover_mission a i c c' att s) = Inr r"
    unfolding recover_mission_unfold [OF m] r by simp
  ultimately show ?thesis using True w by simp
next
  case False
  then have "\<nexists>m. get_mission i s = Some m \<and> mi_canonical_sha m = or_else c (or_else c' ''HEAD'')" by auto
  from recover_mission_reject [OF this] False show ?thesis by (simp only: if_False)
qed

theorem recover_mission_clears_expired_witness:
  "\<exists>w. get_wait ''X'' (snd (recover_mission LUCIUS ''M'' (Some ''sha'') None ''att''
      (ex_missions [] [ex_wait None (Some (-1))]))) = Some w \<and> w_is_cleared w"
proof -
  let ?s = "ex_missions [] [ex_wait None (Some (-1))]"
  have k: "wait_keys ?s" by (simp add: wait_keys_def)
  have g: "get_wait ''X'' ?s = Some (ex_wait None (Some (-1)))"
    by (simp add: get_wait_def ex_wait_def)
  have e: "expired (utc_now ?s) (ex_wait None (Some (-1)))"
    by (simp add: expired_def ex_wait_def utc_now_def)
  show ?thesis
    using recover_mission_clears_expired [OF k, of "''M''" "Some ''sha''" None LUCIUS "''att''"] g e
    by (simp add: or_else_def ex_wait_def)
qed

text \<open>Interruption does not hold: after \<open>record_interruption\<close> the mission is PAUSED only while no item
  of any workflow is ready; with a READY or READY_TO_RESUME item anywhere it is ACTIVE at once.\<close>

theorem interruption_yields_to_ready_items:
  assumes "get_mission i s = Some m"
  shows "\<exists>r. fst (record_interruption a i att re ck s) = Inr r
    \<and> mi_status (fst r) = (if list_ex (has_state ready_states) (all_items s)
        then mission_status.ACTIVE else mission_status.PAUSED)"
proof -
  obtain meta md where r: "record_interruption a i att re ck s = reconcile_mission_state i
      (audit_mission a ''DURABLE_MISSION_INTERRUPTED'' ''record_interruption'' ''INTERRUPTED'' md
        (put_mission (m\<lparr>mi_status := mission_status.PAUSED, mi_metadata := meta, mi_updated_at := utc_now s\<rparr>) s))"
    (is "_ = reconcile_mission_state i ?s1")
    using assms by (simp add: record_interruption_def mission_of_def Let_def)
  have g: "get_mission i ?s1 = Some (m\<lparr>mi_status := mission_status.PAUSED, mi_metadata := meta, mi_updated_at := utc_now s\<rparr>)"
    using mission_table.get_key [OF assms] by (simp add: mission_table.get_put)
  have items: "all_items ?s1 = all_items s" by (simp add: all_items_def put_mission_def)
  have ready: "list_ex P xs \<longleftrightarrow> filter P xs \<noteq> []" for P and xs :: "queue_item list"
    by (auto simp: list_ex_iff filter_empty_conv)
  show ?thesis
    unfolding r using reconcile_cases [of i ?s1] g
    by (auto simp: reconciled_def reconciled_status_def Let_def items ready)
qed

theorem interruption_yields_to_ready_items_witness:
  "\<exists>r. fst (record_interruption LUCIUS ''M'' None ''SIGINT'' [] (ex_missions [ex_item ''A'' queue_state.READY []] [])) = Inr r
    \<and> mi_status (fst r) = mission_status.ACTIVE"
  using interruption_yields_to_ready_items [OF ex_missions_simps(1), of LUCIUS None "''SIGINT''" "[]"
      "[ex_item ''A'' queue_state.READY []]" "[]"]
  by (simp add: has_state_def ready_states_def ex_item_def)

end
