(* ===== verification/Models.thy ===== *)
theory Models
  imports Store
begin

text \<open>
  Model selection of \<^verbatim>\<open>lucius/models\<close>: the ranks and policies
  (\<^verbatim>\<open>capabilities.py\<close>, \<^verbatim>\<open>policies.py\<close>), the router (\<^verbatim>\<open>router.py\<close>) and the schemas
  they work on (\<^verbatim>\<open>schemas.py\<close>). Costs are rationals where the code has floats. A set of
  capabilities is a list of its members.
\<close>

section \<open>Schemas\<close>

record model_provider =
  pv_id :: "string option"
  pv_name :: string
  pv_provider_type :: provider_type
  pv_status :: provider_status
  pv_supports_local :: bool
  pv_default_timeout :: "int option"
  pv_secret_reference_name :: "string option"
  pv_metadata :: json_object
  pv_created_at :: timestamp
  pv_updated_at :: timestamp

record model_profile =
  pf_id :: "string option"
  pf_provider_id :: string
  pf_model_name :: string
  pf_display_name :: string
  pf_status :: model_profile_status
  pf_capabilities :: "model_capability list"
  pf_privacy_class :: privacy_class
  pf_cost_class :: cost_class
  pf_latency_class :: latency_class
  pf_quality_score :: int
  pf_supports_structured_output :: bool
  pf_supports_tool_use :: bool
  pf_supports_large_context :: bool
  pf_supports_code :: bool
  pf_supports_reasoning :: bool
  pf_max_context_tokens :: "int option"
  pf_max_output_tokens :: "int option"
  pf_input_cost_per_million :: "rat option"
  pf_output_cost_per_million :: "rat option"
  pf_metadata :: json_object
  pf_created_at :: timestamp
  pf_updated_at :: timestamp

record model_message =
  mm_role :: string
  mm_content :: string

text \<open>A schema of structured output: a model class, given by its validation (an error text, or
  the dump of the validated data), or any other object.\<close>

datatype output_schema = ModelClass "json_object \<Rightarrow> string + json_object" | OtherSchema json

record model_request =
  rq_request_id :: string
  rq_task_id :: "string option"
  rq_run_id :: "string option"
  rq_project_id :: "string option"
  rq_purpose :: string
  rq_required_capabilities :: "model_capability list"
  rq_privacy_class :: privacy_class
  rq_minimum_quality :: int
  rq_max_cost_class :: "cost_class option"
  rq_max_estimated_cost :: "rat option"
  rq_max_attempts :: "int option"
  rq_preferred_provider :: "string option"
  rq_preferred_model :: "string option"
  rq_fallback_model_ids :: "string list"
  rq_input_messages :: "model_message list"
  rq_structured_output_schema :: "output_schema option"
  rq_max_output_tokens :: "int option"
  rq_timeout :: "int option"
  rq_fallback_allowed :: bool
  rq_metadata :: json_object
  rq_created_at :: timestamp

record routing_rejection =
  rr_provider_id :: "string option"
  rr_model_profile_id :: "string option"
  rr_reason :: model_error_code
  rr_message :: string

record routing_decision =
  rd_request_id :: string
  rd_selected_profile_id :: "string option"
  rd_fallback_profile_ids :: "string list"
  rd_reasons :: "string list"
  rd_rejected :: "routing_rejection list"
  rd_error_code :: "model_error_code option"

section \<open>Ranks\<close>

primrec privacy_rank :: "privacy_class \<Rightarrow> nat" where
  "privacy_rank PUBLIC = 0"
| "privacy_rank INTERNAL = 1"
| "privacy_rank CONFIDENTIAL = 2"
| "privacy_rank RESTRICTED = 3"

primrec cost_rank :: "cost_class \<Rightarrow> nat" where
  "cost_rank FREE = 0"
| "cost_rank cost_class.LOW = 1"
| "cost_rank cost_class.MEDIUM = 2"
| "cost_rank cost_class.HIGH = 3"
| "cost_rank PREMIUM = 4"

primrec latency_rank :: "latency_class \<Rightarrow> nat" where
  "latency_rank latency_class.LOW = 0"
| "latency_rank latency_class.MEDIUM = 1"
| "latency_rank latency_class.HIGH = 2"

definition privacy_allows :: "privacy_class \<Rightarrow> privacy_class \<Rightarrow> bool" where
  "privacy_allows model_privacy request_privacy = (privacy_rank request_privacy \<le> privacy_rank model_privacy)"

definition cost_allows :: "cost_class \<Rightarrow> cost_class option \<Rightarrow> bool" where
  "cost_allows model_cost max_cost =
     (case max_cost of None \<Rightarrow> True | Some m \<Rightarrow> cost_rank model_cost \<le> cost_rank m)"

definition capabilities_satisfied :: "model_capability list \<Rightarrow> model_capability list \<Rightarrow> bool \<Rightarrow> bool" where
  "capabilities_satisfied model_capabilities required provider_supports_local =
     list_all (\<lambda>c. c = PRIVATE_INFERENCE \<and> provider_supports_local \<or> c \<in> set model_capabilities) required"

section \<open>Policies\<close>

text \<open>A bool is an int to Python's \<open>isinstance\<close>.\<close>

definition estimate_request_tokens :: "model_request \<Rightarrow> int" where
  "estimate_request_tokens request =
     (case jget ''context_tokens'' (rq_metadata request) of
        Some (JInt n) \<Rightarrow> n
      | Some (JBool b) \<Rightarrow> of_bool b
      | _ \<Rightarrow> let chars = (\<Sum>m\<leftarrow>rq_input_messages request. length (mm_content m)) in
          if chars \<noteq> 0 then max 1 (int (chars div 4)) else 0)"

definition estimate_profile_cost :: "model_profile \<Rightarrow> int \<Rightarrow> int option \<Rightarrow> rat option" where
  "estimate_profile_cost profile input_tokens output_tokens =
     (let out = (case output_tokens of None \<Rightarrow> 0 | Some n \<Rightarrow> n);
          price = (\<lambda>p. case p of None \<Rightarrow> 0 | Some r \<Rightarrow> r)
      in if pf_input_cost_per_million profile = None \<and> pf_output_cost_per_million profile = None
         then None
         else Some (price (pf_input_cost_per_million profile) * of_int input_tokens / 1000000
           + price (pf_output_cost_per_million profile) * of_int out / 1000000))"

primrec provider_status_value :: "provider_status \<Rightarrow> string" where
  "provider_status_value provider_status.ACTIVE = ''ACTIVE''"
| "provider_status_value provider_status.PAUSED = ''PAUSED''"
| "provider_status_value provider_status.DISABLED = ''DISABLED''"

primrec profile_status_value :: "model_profile_status \<Rightarrow> string" where
  "profile_status_value model_profile_status.ACTIVE = ''ACTIVE''"
| "profile_status_value model_profile_status.PAUSED = ''PAUSED''"
| "profile_status_value model_profile_status.DISABLED = ''DISABLED''"

primrec privacy_value :: "privacy_class \<Rightarrow> string" where
  "privacy_value PUBLIC = ''PUBLIC''"
| "privacy_value INTERNAL = ''INTERNAL''"
| "privacy_value CONFIDENTIAL = ''CONFIDENTIAL''"
| "privacy_value RESTRICTED = ''RESTRICTED''"

primrec cost_value :: "cost_class \<Rightarrow> string" where
  "cost_value FREE = ''FREE''"
| "cost_value cost_class.LOW = ''LOW''"
| "cost_value cost_class.MEDIUM = ''MEDIUM''"
| "cost_value cost_class.HIGH = ''HIGH''"
| "cost_value PREMIUM = ''PREMIUM''"

primrec capability_value :: "model_capability \<Rightarrow> string" where
  "capability_value TEXT_GENERATION = ''TEXT_GENERATION''"
| "capability_value STRUCTURED_OUTPUT = ''STRUCTURED_OUTPUT''"
| "capability_value CODE_REASONING = ''CODE_REASONING''"
| "capability_value CODE_GENERATION = ''CODE_GENERATION''"
| "capability_value model_capability.PLANNING = ''PLANNING''"
| "capability_value SUMMARIZATION = ''SUMMARIZATION''"
| "capability_value CLASSIFICATION = ''CLASSIFICATION''"
| "capability_value LONG_CONTEXT = ''LONG_CONTEXT''"
| "capability_value TOOL_USE = ''TOOL_USE''"
| "capability_value HIGH_REASONING = ''HIGH_REASONING''"
| "capability_value PRIVATE_INFERENCE = ''PRIVATE_INFERENCE''"

primrec provider_type_value :: "provider_type \<Rightarrow> string" where
  "provider_type_value LOCAL = ''LOCAL''"
| "provider_type_value OPENAI = ''OPENAI''"
| "provider_type_value ANTHROPIC = ''ANTHROPIC''"
| "provider_type_value GOOGLE = ''GOOGLE''"
| "provider_type_value CUSTOM = ''CUSTOM''"

primrec model_error_value :: "model_error_code \<Rightarrow> string" where
  "model_error_value MODEL_NOT_FOUND = ''MODEL_NOT_FOUND''"
| "model_error_value MODEL_DISABLED = ''MODEL_DISABLED''"
| "model_error_value PROVIDER_UNAVAILABLE = ''PROVIDER_UNAVAILABLE''"
| "model_error_value CAPABILITY_UNAVAILABLE = ''CAPABILITY_UNAVAILABLE''"
| "model_error_value PRIVACY_POLICY_BLOCK = ''PRIVACY_POLICY_BLOCK''"
| "model_error_value AUTHORITY_BLOCK = ''AUTHORITY_BLOCK''"
| "model_error_value UNSAFE_REQUEST = ''UNSAFE_REQUEST''"
| "model_error_value COST_POLICY_BLOCK = ''COST_POLICY_BLOCK''"
| "model_error_value BUDGET_EXCEEDED = ''BUDGET_EXCEEDED''"
| "model_error_value CONTEXT_LIMIT_EXCEEDED = ''CONTEXT_LIMIT_EXCEEDED''"
| "model_error_value TIMEOUT = ''TIMEOUT''"
| "model_error_value RATE_LIMIT = ''RATE_LIMIT''"
| "model_error_value TRANSIENT_ERROR = ''TRANSIENT_ERROR''"
| "model_error_value INVALID_RESPONSE = ''INVALID_RESPONSE''"
| "model_error_value STRUCTURED_OUTPUT_INVALID = ''STRUCTURED_OUTPUT_INVALID''"
| "model_error_value PROVIDER_ERROR = ''PROVIDER_ERROR''"
| "model_error_value NO_ELIGIBLE_MODEL = ''NO_ELIGIBLE_MODEL''"

text \<open>The format \<open>{r:.kf}\<close>.\<close>

definition round_half_even :: "rat \<Rightarrow> int" where
  "round_half_even r = (let q = \<lfloor>r\<rfloor>; f = r - of_int q in
     if f < 1 / 2 \<or> f = 1 / 2 \<and> even q then q else q + 1)"

definition fixed_text :: "nat \<Rightarrow> rat \<Rightarrow> string" where
  "fixed_text k r = (let s = zfill (Suc k) (dec (nat (round_half_even (\<bar>r\<bar> * 10 ^ k)))) in
     (if r < 0 then ''-'' else []) @ take (length s - k) s @ ''.'' @ drop (length s - k) s)"

definition reject :: "model_provider \<Rightarrow> model_profile \<Rightarrow> model_error_code \<Rightarrow> string \<Rightarrow> routing_rejection" where
  "reject provider profile reason message = \<lparr>rr_provider_id = pv_id provider,
     rr_model_profile_id = pf_id profile, rr_reason = reason, rr_message = message\<rparr>"

definition required_capabilities :: "model_request \<Rightarrow> model_capability list" where
  "required_capabilities request = rq_required_capabilities request
     @ (if rq_structured_output_schema request \<noteq> None then [STRUCTURED_OUTPUT] else [])"

definition over_limit :: "int option \<Rightarrow> int \<Rightarrow> bool" where
  "over_limit limit n = (case limit of None \<Rightarrow> False | Some l \<Rightarrow> l < n)"

text \<open>One check of a policy: its code and message when it fails.\<close>

definition check_policy ::
  "model_provider \<Rightarrow> model_profile \<Rightarrow> bool \<Rightarrow> model_error_code \<Rightarrow> string \<Rightarrow> routing_rejection list" where
  "check_policy provider profile ok reason message =
     (if ok then [] else [reject provider profile reason message])"

definition cost_within :: "rat option \<Rightarrow> rat option \<Rightarrow> bool" where
  "cost_within limit estimate =
     (case (limit, estimate) of (Some l, Some c) \<Rightarrow> c \<le> l | _ \<Rightarrow> True)"

definition validate_profile_for_request ::
  "model_request \<Rightarrow> model_provider \<Rightarrow> model_profile \<Rightarrow> routing_rejection list" where
  "validate_profile_for_request request provider profile =
     (let check = check_policy provider profile;
          context_tokens = estimate_request_tokens request;
          estimated_cost = estimate_profile_cost profile context_tokens (rq_max_output_tokens request)
      in check (pv_status provider = provider_status.ACTIVE) PROVIDER_UNAVAILABLE
           (''Provider '' @ option_text (pv_id provider) @ '' is '' @ provider_status_value (pv_status provider) @ ''.'')
       @ check (pf_status profile = model_profile_status.ACTIVE) MODEL_DISABLED
           (''Model profile '' @ option_text (pf_id profile) @ '' is '' @ profile_status_value (pf_status profile) @ ''.'')
       @ check (capabilities_satisfied (pf_capabilities profile) (required_capabilities request)
                  (pv_supports_local provider)) CAPABILITY_UNAVAILABLE
           ''Required capabilities are not satisfied.''
       @ check (privacy_allows (pf_privacy_class profile) (rq_privacy_class request)) PRIVACY_POLICY_BLOCK
           (privacy_value (pf_privacy_class profile) @ '' model cannot process ''
              @ privacy_value (rq_privacy_class request) @ '' request.'')
       @ check (cost_allows (pf_cost_class profile) (rq_max_cost_class request)) COST_POLICY_BLOCK
           (cost_value (pf_cost_class profile) @ '' exceeds max cost ''
              @ (case rq_max_cost_class request of None \<Rightarrow> [] | Some c \<Rightarrow> cost_value c) @ ''.'')
       @ check (\<not> over_limit (pf_max_context_tokens profile) context_tokens) CONTEXT_LIMIT_EXCEEDED
           (''Estimated context '' @ int_text context_tokens @ '' exceeds limit ''
              @ (case pf_max_context_tokens profile of None \<Rightarrow> [] | Some l \<Rightarrow> int_text l) @ ''.'')
       @ check (case rq_max_output_tokens request of None \<Rightarrow> True
                | Some n \<Rightarrow> \<not> over_limit (pf_max_output_tokens profile) n) CONTEXT_LIMIT_EXCEEDED
           (''Requested output '' @ (case rq_max_output_tokens request of None \<Rightarrow> [] | Some n \<Rightarrow> int_text n)
              @ '' exceeds limit '' @ (case pf_max_output_tokens profile of None \<Rightarrow> [] | Some l \<Rightarrow> int_text l) @ ''.'')
       @ check (rq_minimum_quality request \<le> pf_quality_score profile) CAPABILITY_UNAVAILABLE
           (''Quality '' @ int_text (pf_quality_score profile) @ '' is below minimum ''
              @ int_text (rq_minimum_quality request) @ ''.'')
       @ check (cost_within (rq_max_estimated_cost request) estimated_cost) BUDGET_EXCEEDED
           (''Estimated cost '' @ (case estimated_cost of None \<Rightarrow> [] | Some c \<Rightarrow> fixed_text 8 c)
              @ '' exceeds request budget.''))"

section \<open>The router\<close>

text \<open>\<open>{provider.id: provider for provider in providers if provider.id is not None}\<close> keeps the
  last provider of an id.\<close>

definition provider_by_id :: "model_provider list \<Rightarrow> string \<Rightarrow> model_provider option" where
  "provider_by_id providers i = find (\<lambda>p. pv_id p = Some i) (rev providers)"

definition profile_rejections ::
  "model_request \<Rightarrow> model_provider list \<Rightarrow> model_profile \<Rightarrow> routing_rejection list" where
  "profile_rejections request providers profile =
     (case provider_by_id providers (pf_provider_id profile) of
        None \<Rightarrow> [\<lparr>rr_provider_id = Some (pf_provider_id profile), rr_model_profile_id = pf_id profile,
           rr_reason = PROVIDER_UNAVAILABLE,
           rr_message = ''Provider '' @ pf_provider_id profile @ '' is not registered.''\<rparr>]
      | Some provider \<Rightarrow> validate_profile_for_request request provider profile)"

definition eligible_profiles ::
  "model_request \<Rightarrow> model_provider list \<Rightarrow> model_profile list \<Rightarrow> (model_profile \<times> model_provider) list" where
  "eligible_profiles request providers profiles =
     concat (map (\<lambda>profile.
       case provider_by_id providers (pf_provider_id profile) of
         None \<Rightarrow> []
       | Some provider \<Rightarrow>
           if validate_profile_for_request request provider profile = []
           then [(profile, provider)] else []) profiles)"

definition selection_key ::
  "model_request \<Rightarrow> model_profile \<times> model_provider \<Rightarrow> nat \<times> nat \<times> int \<times> nat \<times> nat \<times> string" where
  "selection_key request pair =
     (let (profile, provider) = pair in
      (of_bool (rq_preferred_model request \<notin> {pf_id profile, Some (pf_model_name profile)}),
       of_bool (rq_preferred_provider request \<notin> {pv_id provider, Some (pv_name provider),
                  Some (provider_type_value (pv_provider_type provider))}),
       (if HIGH_REASONING \<in> set (rq_required_capabilities request) \<or> rq_minimum_quality request \<noteq> 0
        then - pf_quality_score profile else 0),
       cost_rank (pf_cost_class profile), latency_rank (pf_latency_class profile),
       or_else (pf_id profile) (pf_model_name profile)))"

fun take_explicit :: "string list \<Rightarrow> (model_profile \<times> model_provider) list \<Rightarrow> (model_profile \<times> model_provider) list" where
  "take_explicit [] remaining = remaining"
| "take_explicit (requested_id # ids) remaining =
     (case find (\<lambda>pair. pf_id (fst pair) = Some requested_id \<or> pf_model_name (fst pair) = requested_id) remaining of
        None \<Rightarrow> take_explicit ids remaining
      | Some pair \<Rightarrow> pair # take_explicit ids (remove1 pair remaining))"

definition order_eligible ::
  "model_request \<Rightarrow> (model_profile \<times> model_provider) list \<Rightarrow> (model_profile \<times> model_provider) list" where
  "order_eligible request eligible =
     take_explicit (rq_fallback_model_ids request) (sort_key (selection_key request) eligible)"

definition error_priority :: "model_error_code list" where
  "error_priority = [PRIVACY_POLICY_BLOCK, COST_POLICY_BLOCK, BUDGET_EXCEEDED, CONTEXT_LIMIT_EXCEEDED,
     CAPABILITY_UNAVAILABLE, MODEL_DISABLED, PROVIDER_UNAVAILABLE]"

definition dominant_error :: "routing_rejection list \<Rightarrow> model_error_code" where
  "dominant_error rejected =
     (case find (\<lambda>code. code \<in> rr_reason ` set rejected) error_priority of
        None \<Rightarrow> NO_ELIGIBLE_MODEL | Some code \<Rightarrow> code)"

definition nonempty_or :: "string \<Rightarrow> string \<Rightarrow> string" where
  "nonempty_or s d = (if s = [] then d else s)"

definition selection_reasons :: "model_request \<Rightarrow> model_profile \<Rightarrow> string list" where
  "selection_reasons request selected =
     [''Selected '' @ option_text (pf_id selected) @ '' for ''
        @ nonempty_or (join_with '','' (sort (map capability_value (remdups (rq_required_capabilities request))))) ''general''
        @ '' request.'',
      ''Cost class '' @ cost_value (pf_cost_class selected) @ ''; privacy class ''
        @ privacy_value (pf_privacy_class selected) @ ''.'']
     @ (if rq_preferred_model request = Some (pf_model_name selected)
           \<or> rq_preferred_model request = pf_id selected then [''Preferred model honored.'']
        else if truthy (rq_preferred_model request)
        then [''Preferred model unavailable or disallowed; routed to eligible alternative.''] else [])"

definition present :: "'a option list \<Rightarrow> 'a list" where
  "present xs = concat (map (\<lambda>x. case x of None \<Rightarrow> [] | Some v \<Rightarrow> [v]) xs)"

definition route :: "model_request \<Rightarrow> model_provider list \<Rightarrow> model_profile list \<Rightarrow> routing_decision" where
  "route request providers profiles =
     (let rejected = concat (map (profile_rejections request providers) profiles) in
      case order_eligible request (eligible_profiles request providers profiles) of
        [] \<Rightarrow> (let code = dominant_error rejected in
          \<lparr>rd_request_id = rq_request_id request, rd_selected_profile_id = None, rd_fallback_profile_ids = [],
           rd_reasons = [''No eligible model: '' @ model_error_value code @ ''.''], rd_rejected = rejected,
           rd_error_code = Some code\<rparr>)
      | (selected, _) # others \<Rightarrow>
          \<lparr>rd_request_id = rq_request_id request, rd_selected_profile_id = pf_id selected,
           rd_fallback_profile_ids = present (map (\<lambda>p. pf_id (fst p)) others),
           rd_reasons = selection_reasons request selected, rd_rejected = rejected, rd_error_code = None\<rparr>)"

section \<open>Facts of the policies\<close>

text \<open>What a request demands of a profile and of its provider, read off the policy documents.\<close>

definition permitted :: "model_request \<Rightarrow> model_provider \<Rightarrow> model_profile \<Rightarrow> bool" where
  "permitted request provider profile \<longleftrightarrow>
     pv_status provider = provider_status.ACTIVE \<and> pf_status profile = model_profile_status.ACTIVE
     \<and> (\<forall>c \<in> set (rq_required_capabilities request).
          c \<in> set (pf_capabilities profile) \<or> c = PRIVATE_INFERENCE \<and> pv_supports_local provider)
     \<and> (rq_structured_output_schema request \<noteq> None \<longrightarrow> STRUCTURED_OUTPUT \<in> set (pf_capabilities profile))
     \<and> privacy_rank (rq_privacy_class request) \<le> privacy_rank (pf_privacy_class profile)
     \<and> (\<forall>m. rq_max_cost_class request = Some m \<longrightarrow> cost_rank (pf_cost_class profile) \<le> cost_rank m)
     \<and> (\<forall>l. pf_max_context_tokens profile = Some l \<longrightarrow> estimate_request_tokens request \<le> l)
     \<and> (\<forall>n l. rq_max_output_tokens request = Some n \<longrightarrow> pf_max_output_tokens profile = Some l \<longrightarrow> n \<le> l)
     \<and> rq_minimum_quality request \<le> pf_quality_score profile
     \<and> (\<forall>b c. rq_max_estimated_cost request = Some b
          \<longrightarrow> estimate_profile_cost profile (estimate_request_tokens request) (rq_max_output_tokens request) = Some c
          \<longrightarrow> c \<le> b)"

lemma check_policy_Nil [simp]: "check_policy p f ok r m = [] \<longleftrightarrow> ok"
  by (simp add: check_policy_def)

lemma validate_profile_Nil_iff:
  "validate_profile_for_request rq pv pf = [] \<longleftrightarrow> permitted rq pv pf"
proof -
  have caps: "capabilities_satisfied (pf_capabilities pf) (required_capabilities rq) (pv_supports_local pv) \<longleftrightarrow>
      (\<forall>c \<in> set (rq_required_capabilities rq). c \<in> set (pf_capabilities pf) \<or> c = PRIVATE_INFERENCE \<and> pv_supports_local pv)
      \<and> (rq_structured_output_schema rq \<noteq> None \<longrightarrow> STRUCTURED_OUTPUT \<in> set (pf_capabilities pf))"
    by (auto simp: capabilities_satisfied_def required_capabilities_def list_all_iff)
  have cost: "cost_allows c m \<longleftrightarrow> (\<forall>k. m = Some k \<longrightarrow> cost_rank c \<le> cost_rank k)" for c m
    by (simp add: cost_allows_def split: option.split)
  have lim: "\<not> over_limit l n \<longleftrightarrow> (\<forall>k. l = Some k \<longrightarrow> n \<le> k)" for l n
    by (auto simp: over_limit_def split: option.split)
  have within: "cost_within a b \<longleftrightarrow> (\<forall>k c. a = Some k \<longrightarrow> b = Some c \<longrightarrow> c \<le> k)" for a b
    by (auto simp: cost_within_def split: option.split)
  have out: "(case m of None \<Rightarrow> True | Some n \<Rightarrow> \<forall>k. l = Some k \<longrightarrow> n \<le> k)
      \<longleftrightarrow> (\<forall>n k. m = Some n \<longrightarrow> l = Some k \<longrightarrow> n \<le> k)" for m l :: "int option"
    by (auto split: option.split)
  show ?thesis
    unfolding validate_profile_for_request_def Let_def append_is_Nil_conv check_policy_Nil
      caps cost lim within out privacy_allows_def permitted_def by blast
qed

section \<open>Facts of the router\<close>

lemma find_Some_mem: "find P xs = Some x \<Longrightarrow> x \<in> set xs \<and> P x"
  by (auto simp: find_Some_iff)

lemma mset_take_explicit: "mset (take_explicit ids xs) = mset xs"
proof (induction ids xs rule: take_explicit.induct)
  case (2 i ids xs)
  have put: "p \<in> set xs \<Longrightarrow> add_mset p (mset (remove1 p xs)) = mset xs" for p
    by (simp add: insert_DiffM)
  from 2 show ?case
    by (auto split: option.split dest!: find_Some_mem simp del: mset_remove1 simp: put)
qed simp

lemma mset_order_eligible: "mset (order_eligible rq xs) = mset xs"
  by (simp add: order_eligible_def mset_take_explicit)

lemma set_order_eligible [simp]: "set (order_eligible rq xs) = set xs"
  by (metis mset_order_eligible set_mset_mset)

lemma set_eligible_profiles:
  "set (eligible_profiles rq pvs pfs) = {(pf, pv). pf \<in> set pfs
     \<and> provider_by_id pvs (pf_provider_id pf) = Some pv \<and> permitted rq pv pf}"
  by (auto simp: eligible_profiles_def validate_profile_Nil_iff split: option.splits if_splits)

lemma route_error_iff:
  "rd_error_code (route rq pvs pfs) = None \<longleftrightarrow> eligible_profiles rq pvs pfs \<noteq> []"
proof -
  have "order_eligible rq xs = [] \<longleftrightarrow> xs = []" for xs
    by (metis set_empty set_order_eligible)
  then show ?thesis
    by (simp add: route_def Let_def split: list.split) (metis list.distinct(1))
qed

text \<open>Every id that a decision names is that of a permitted profile.\<close>

lemma route_ids:
  assumes "i \<in> set_option (rd_selected_profile_id (route rq pvs pfs)) \<union> set (rd_fallback_profile_ids (route rq pvs pfs))"
  shows "\<exists>pf pv. pf \<in> set pfs \<and> pf_id pf = Some i
    \<and> provider_by_id pvs (pf_provider_id pf) = Some pv \<and> permitted rq pv pf"
proof -
  have mem: "(pf, pv) \<in> set (order_eligible rq (eligible_profiles rq pvs pfs)) \<Longrightarrow>
      pf \<in> set pfs \<and> provider_by_id pvs (pf_provider_id pf) = Some pv \<and> permitted rq pv pf" for pf pv
    by (simp add: set_eligible_profiles)
  have "\<exists>p \<in> set (order_eligible rq (eligible_profiles rq pvs pfs)). pf_id (fst p) = Some i"
  proof (cases "order_eligible rq (eligible_profiles rq pvs pfs)")
    case (Cons p ps)
    then show ?thesis
      using assms by (cases p) (auto simp: route_def Let_def present_def split: option.splits, force)
  qed (use assms in \<open>simp add: route_def Let_def\<close>)
  with mem show ?thesis by force
qed

subsection \<open>Examples\<close>

definition ex_provider :: "string \<Rightarrow> model_provider" where
  "ex_provider i = \<lparr>pv_id = Some i, pv_name = i, pv_provider_type = LOCAL,
     pv_status = provider_status.ACTIVE, pv_supports_local = True, pv_default_timeout = None,
     pv_secret_reference_name = None, pv_metadata = [], pv_created_at = 0, pv_updated_at = 0\<rparr>"

definition ex_profile :: "string \<Rightarrow> privacy_class \<Rightarrow> int \<Rightarrow> model_profile" where
  "ex_profile i pc q = \<lparr>pf_id = Some i, pf_provider_id = ''V'', pf_model_name = i, pf_display_name = i,
     pf_status = model_profile_status.ACTIVE, pf_capabilities = [TEXT_GENERATION], pf_privacy_class = pc,
     pf_cost_class = FREE, pf_latency_class = latency_class.LOW, pf_quality_score = q,
     pf_supports_structured_output = False, pf_supports_tool_use = False, pf_supports_large_context = False,
     pf_supports_code = False, pf_supports_reasoning = False, pf_max_context_tokens = None,
     pf_max_output_tokens = None, pf_input_cost_per_million = None, pf_output_cost_per_million = None,
     pf_metadata = [], pf_created_at = 0, pf_updated_at = 0\<rparr>"

definition ex_request :: "privacy_class \<Rightarrow> model_request" where
  "ex_request pc = \<lparr>rq_request_id = ''R'', rq_task_id = None, rq_run_id = None, rq_project_id = None,
     rq_purpose = ''p'', rq_required_capabilities = [TEXT_GENERATION], rq_privacy_class = pc,
     rq_minimum_quality = 1, rq_max_cost_class = None, rq_max_estimated_cost = None, rq_max_attempts = None,
     rq_preferred_provider = None, rq_preferred_model = None, rq_fallback_model_ids = [],
     rq_input_messages = [], rq_structured_output_schema = None, rq_max_output_tokens = None,
     rq_timeout = None, rq_fallback_allowed = True, rq_metadata = [], rq_created_at = 0\<rparr>"

lemma ex_model_selectors [simp]:
  "pf_id (ex_profile i pc q) = Some i" "pf_provider_id (ex_profile i pc q) = ''V''"
  "pf_privacy_class (ex_profile i pc q) = pc" "pv_id (ex_provider i) = Some i"
  "rq_fallback_model_ids (ex_request pc) = []" "rq_max_attempts (ex_request pc) = None"
  "rq_fallback_allowed (ex_request pc) = True"
  by (simp_all add: ex_profile_def ex_provider_def ex_request_def)

lemmas ex_model_defs = ex_provider_def ex_profile_def ex_request_def

lemma ex_permitted:
  "permitted (ex_request pc) (ex_provider ''V'') (ex_profile i pc' q) \<longleftrightarrow>
     privacy_rank pc \<le> privacy_rank pc' \<and> 1 \<le> q"
  by (auto simp: permitted_def ex_model_defs estimate_profile_cost_def Let_def)

lemma ex_eligible:
  "eligible_profiles (ex_request INTERNAL) [ex_provider ''V''] [ex_profile ''A'' INTERNAL 5, ex_profile ''B'' PUBLIC 9]
     = [(ex_profile ''A'' INTERNAL 5, ex_provider ''V'')]"
proof -
  have "provider_by_id [ex_provider ''V''] (pf_provider_id (ex_profile i pc q)) = Some (ex_provider ''V'')" for i pc q
    by (simp add: provider_by_id_def ex_profile_def ex_provider_def)
  then show ?thesis
    by (simp add: eligible_profiles_def validate_profile_Nil_iff ex_permitted)
qed

section \<open>Properties\<close>

text \<open>Routing respects every policy: the selected profile and every fallback of a decision is a
  registered profile whose provider and profile are ACTIVE, which has the required
  capabilities, may process data of the request's privacy class, and stays within the cost
  class, the context and output limits, the minimum quality and the cost budget.\<close>

theorem route_selects_permitted:
  assumes "i \<in> set_option (rd_selected_profile_id (route rq pvs pfs))
      \<union> set (rd_fallback_profile_ids (route rq pvs pfs))"
  shows "\<exists>pf pv. pf \<in> set pfs \<and> pf_id pf = Some i
    \<and> provider_by_id pvs (pf_provider_id pf) = Some pv \<and> permitted rq pv pf"
  using assms by (rule route_ids)

theorem route_selects_permitted_witness:
  "\<exists>pf pv. pf \<in> set [ex_profile ''A'' INTERNAL 5, ex_profile ''B'' PUBLIC 9] \<and> pf_id pf = Some ''A''
    \<and> provider_by_id [ex_provider ''V''] (pf_provider_id pf) = Some pv \<and> permitted (ex_request INTERNAL) pv pf"
  by (rule route_selects_permitted) (simp add: route_def Let_def order_eligible_def ex_eligible)

text \<open>Preference: without explicit fallback ids the router selects, among the permitted profiles,
  one of least key (preferred model, preferred provider, quality where reasoning or a minimum
  quality is asked for, cost, latency, id); it names an error exactly when no profile is
  permitted.\<close>

theorem route_prefers_least_key:
  assumes "rq_fallback_model_ids rq = []" and "pf \<in> set pfs"
    and "provider_by_id pvs (pf_provider_id pf) = Some pv" and "permitted rq pv pf"
  shows "\<exists>qf qv. rd_error_code (route rq pvs pfs) = None
    \<and> rd_selected_profile_id (route rq pvs pfs) = pf_id qf \<and> qf \<in> set pfs \<and> permitted rq qv qf
    \<and> selection_key rq (qf, qv) \<le> selection_key rq (pf, pv)"
proof -
  let ?e = "eligible_profiles rq pvs pfs"
  have mem: "(pf, pv) \<in> set ?e"
    using assms(2-4) by (simp add: set_eligible_profiles)
  have order: "order_eligible rq ?e = sort_key (selection_key rq) ?e"
    using assms(1) by (simp add: order_eligible_def)
  obtain q qs where q: "sort_key (selection_key rq) ?e = q # qs"
    using mem by (metis empty_iff list.exhaust list.set(1) set_sort)
  have "selection_key rq q \<le> selection_key rq (pf, pv)"
    by (rule sort_key_hd_least [OF q mem])
  moreover have "q \<in> set ?e"
    using q by (metis list.set_intros(1) set_sort)
  ultimately show ?thesis
    using q order by (cases q) (auto simp: route_def set_eligible_profiles)
qed

theorem route_prefers_least_key_witness:
  "\<exists>qf qv. rd_error_code (route (ex_request PUBLIC) [ex_provider ''V'']
        [ex_profile ''A'' INTERNAL 5, ex_profile ''B'' PUBLIC 9]) = None
    \<and> rd_selected_profile_id (route (ex_request PUBLIC) [ex_provider ''V'']
        [ex_profile ''A'' INTERNAL 5, ex_profile ''B'' PUBLIC 9]) = pf_id qf
    \<and> qf \<in> set [ex_profile ''A'' INTERNAL 5, ex_profile ''B'' PUBLIC 9] \<and> permitted (ex_request PUBLIC) qv qf
    \<and> selection_key (ex_request PUBLIC) (qf, qv)
        \<le> selection_key (ex_request PUBLIC) (ex_profile ''B'' PUBLIC 9, ex_provider ''V'')"
  by (rule route_prefers_least_key)
    (simp_all add: ex_permitted, simp_all add: ex_model_defs provider_by_id_def)

text \<open>Explicit fallback ids come first: when the first of them names a permitted profile, a profile
  of that id or name is selected, whatever model and provider the request prefers.\<close>

theorem explicit_fallback_overrides_preference:
  assumes "rq_fallback_model_ids rq = f # fs" and "pf \<in> set pfs"
    and "provider_by_id pvs (pf_provider_id pf) = Some pv" and "permitted rq pv pf"
    and "pf_id pf = Some f \<or> pf_model_name pf = f"
  shows "\<exists>qf::model_profile. rd_selected_profile_id (route rq pvs pfs) = pf_id qf
    \<and> (pf_id qf = Some f \<or> pf_model_name qf = f)"
proof -
  let ?xs = "sort_key (selection_key rq) (eligible_profiles rq pvs pfs)"
  let ?P = "\<lambda>pair. pf_id (fst pair) = Some f \<or> pf_model_name (fst pair) = f"
  have "(pf, pv) \<in> set ?xs"
    using assms(2-4) by (simp add: set_eligible_profiles)
  then obtain q where q: "find ?P ?xs = Some q"
    using assms(5) by (cases "find ?P ?xs") (auto simp: find_None_iff)
  have "order_eligible rq (eligible_profiles rq pvs pfs) = q # take_explicit fs (remove1 q ?xs)"
    using assms(1) q by (simp add: order_eligible_def)
  with find_Some_mem [OF q] show ?thesis
    by - (rule exI [of _ "fst q"], cases q, simp add: route_def)
qed

theorem explicit_fallback_overrides_preference_witness:
  "\<exists>qf::model_profile. rd_selected_profile_id (route (ex_request PUBLIC\<lparr>rq_fallback_model_ids := [''A''], rq_preferred_model := Some ''B''\<rparr>)
        [ex_provider ''V''] [ex_profile ''A'' INTERNAL 5, ex_profile ''B'' PUBLIC 9]) = pf_id qf
    \<and> (pf_id qf = Some ''A'' \<or> pf_model_name qf = ''A'')"
  by (rule explicit_fallback_overrides_preference [of _ _ "[]" "ex_profile ''A'' INTERNAL 5" _ _ "ex_provider ''V''"])
    (simp_all add: ex_model_defs provider_by_id_def permitted_def estimate_profile_cost_def Let_def estimate_request_tokens_def jget_def)

end
