(* ===== verification/Gateway.thy ===== *)
theory Gateway
  imports Models
begin

text \<open>
  The model gateway of \<^verbatim>\<open>lucius/models/gateway.py\<close>: registration of providers and profiles,
  routing over the stored ones, and execution with fallback, every attempt being stored and
  audited (\<^verbatim>\<open>metrics.py\<close>). A provider adapter is code outside the gateway: it is a parameter
  whose answers may depend on the number of the attempt, and every way it can fail is a value.
\<close>

section \<open>Schemas\<close>

record provider_generation =
  pg_content :: "string option"
  pg_structured_data :: "json_object option"
  pg_input_tokens :: "int option"
  pg_output_tokens :: "int option"
  pg_total_tokens :: "int option"
  pg_estimated_cost :: "rat option"
  pg_cost_source :: model_cost_source
  pg_latency_ms :: "int option"
  pg_finish_reason :: "string option"
  pg_metadata :: json_object

record model_response =
  rs_request_id :: string
  rs_execution_id :: "string option"
  rs_provider_id :: "string option"
  rs_model_profile_id :: "string option"
  rs_model_name :: "string option"
  rs_status :: model_response_status
  rs_content :: "string option"
  rs_structured_data :: "json_object option"
  rs_input_tokens :: "int option"
  rs_output_tokens :: "int option"
  rs_total_tokens :: "int option"
  rs_estimated_cost :: "rat option"
  rs_cost_source :: model_cost_source
  rs_latency_ms :: "int option"
  rs_finish_reason :: "string option"
  rs_error_code :: "model_error_code option"
  rs_error_message :: "string option"
  rs_fallback_used :: bool
  rs_attempt_number :: nat
  rs_routing_decision :: "routing_decision option"
  rs_created_at :: timestamp

text \<open>The exceptions that the attempt distinguishes, and an adapter.\<close>

datatype provider_exc =
    ProviderFailure model_error_code string
  | InvalidData string
  | GatewayFailure model_error_code string
  | OtherFailure string

record adapter =
  ad_available :: "nat \<Rightarrow> provider_exc + bool"
  ad_generate :: "nat \<Rightarrow> model_request \<Rightarrow> model_profile \<Rightarrow> provider_exc + provider_generation"

definition retryable_model_errors :: "model_error_code list" where
  "retryable_model_errors = [PROVIDER_UNAVAILABLE, TIMEOUT, RATE_LIMIT, TRANSIENT_ERROR,
     INVALID_RESPONSE, STRUCTURED_OUTPUT_INVALID, PROVIDER_ERROR]"

definition non_fallback_model_errors :: "model_error_code list" where
  "non_fallback_model_errors = [PRIVACY_POLICY_BLOCK, AUTHORITY_BLOCK, UNSAFE_REQUEST, BUDGET_EXCEEDED,
     COST_POLICY_BLOCK]"

primrec response_status_value :: "model_response_status \<Rightarrow> string" where
  "response_status_value model_response_status.SUCCEEDED = ''SUCCEEDED''"
| "response_status_value model_response_status.FAILED = ''FAILED''"

primrec cost_source_value :: "model_cost_source \<Rightarrow> string" where
  "cost_source_value REPORTED = ''REPORTED''"
| "cost_source_value ESTIMATED = ''ESTIMATED''"
| "cost_source_value model_cost_source.UNKNOWN = ''UNKNOWN''"

section \<open>Secrets in metadata\<close>

definition secret_key_markers :: "string list" where
  "secret_key_markers = [''secret'', ''token'', ''api_key'', ''apikey'', ''password'', ''credential'', ''key'']"

definition is_secret_key :: "string \<Rightarrow> bool" where
  "is_secret_key key = list_ex (\<lambda>marker. contains marker (py_lower key)) secret_key_markers"

primrec sanitize_metadata :: "json \<Rightarrow> json" where
  "sanitize_metadata JNull = JNull"
| "sanitize_metadata (JBool b) = JBool b"
| "sanitize_metadata (JInt n) = JInt n"
| "sanitize_metadata (JFloat r) = JFloat r"
| "sanitize_metadata (JStr s) = JStr s"
| "sanitize_metadata (JList vs) = JList (map sanitize_metadata vs)"
| "sanitize_metadata (JObj d) =
     JObj (filter (\<lambda>(k, v). \<not> is_secret_key k) (map (map_prod id sanitize_metadata) d))"

definition sanitize_object :: "json_object \<Rightarrow> json_object" where
  "sanitize_object d = (case sanitize_metadata (JObj d) of JObj d' \<Rightarrow> d' | _ \<Rightarrow> [])"

section \<open>Registration\<close>

definition provider_from_row :: "provider_row \<Rightarrow> model_provider" where
  "provider_from_row row = \<lparr>pv_id = Some (mp_id row), pv_name = mp_name row,
     pv_provider_type = mp_provider_type row, pv_status = mp_status row,
     pv_supports_local = mp_supports_local row, pv_default_timeout = mp_default_timeout row,
     pv_secret_reference_name = mp_secret_reference_name row, pv_metadata = mp_metadata row,
     pv_created_at = mp_created_at row, pv_updated_at = mp_updated_at row\<rparr>"

definition profile_from_row :: "profile_row \<Rightarrow> model_profile" where
  "profile_from_row row = \<lparr>pf_id = Some (mf_id row), pf_provider_id = mf_provider_id row,
     pf_model_name = mf_model_name row, pf_display_name = mf_display_name row, pf_status = mf_status row,
     pf_capabilities = mf_capabilities row, pf_privacy_class = mf_privacy_class row,
     pf_cost_class = mf_cost_class row, pf_latency_class = mf_latency_class row,
     pf_quality_score = mf_quality_score row,
     pf_supports_structured_output = mf_supports_structured_output row,
     pf_supports_tool_use = mf_supports_tool_use row,
     pf_supports_large_context = mf_supports_large_context row, pf_supports_code = mf_supports_code row,
     pf_supports_reasoning = mf_supports_reasoning row, pf_max_context_tokens = mf_max_context_tokens row,
     pf_max_output_tokens = mf_max_output_tokens row,
     pf_input_cost_per_million = mf_input_cost_per_million row,
     pf_output_cost_per_million = mf_output_cost_per_million row, pf_metadata = mf_metadata row,
     pf_created_at = mf_created_at row, pf_updated_at = mf_updated_at row\<rparr>"

text \<open>The row that a registration writes: a stored row keeps its creation time.\<close>

definition provider_row_of :: "string \<Rightarrow> timestamp \<Rightarrow> timestamp \<Rightarrow> model_provider \<Rightarrow> provider_row" where
  "provider_row_of i created now p = \<lparr>mp_id = i, mp_name = pv_name p,
     mp_provider_type = pv_provider_type p, mp_status = pv_status p,
     mp_supports_local = pv_supports_local p, mp_default_timeout = pv_default_timeout p,
     mp_secret_reference_name = pv_secret_reference_name p, mp_metadata = sanitize_object (pv_metadata p),
     mp_created_at = created, mp_updated_at = now\<rparr>"

text \<open>The name of a provider is unique, and so is the model name under a provider: the flush of a
  second one fails and its transaction is rolled back.\<close>

definition register_provider :: "model_provider \<Rightarrow> string \<Rightarrow> db \<Rightarrow> provider_row res \<times> db" where
  "register_provider provider actor s =
     (let (i, s1) = (case pv_id provider of
            None \<Rightarrow> (fresh_id ''model_provider'' s, bump_id ''model_provider'' s) | Some i \<Rightarrow> (i, s));
          created = (case get_provider i s1 of None \<Rightarrow> pv_created_at provider | Some row \<Rightarrow> mp_created_at row);
          row = provider_row_of i created (utc_now s1) provider
      in if list_ex (\<lambda>r. mp_name r = pv_name provider \<and> mp_id r \<noteq> i) (model_providers s1)
         then (Inl (IntegrityError ''model_providers.name''), s)
         else (Inr row, audit_record ''MODEL_PROVIDER_REGISTERED'' actor None None None None L0
           ''register_model_provider'' ''SUCCESS''
           [(''provider_id'', JStr i), (''provider_type'', JStr (provider_type_value (pv_provider_type provider))),
            (''status'', JStr (provider_status_value (pv_status provider)))]
           (put_provider row s1)))"

definition profile_row_of :: "string \<Rightarrow> timestamp \<Rightarrow> timestamp \<Rightarrow> model_profile \<Rightarrow> profile_row" where
  "profile_row_of i created now p = \<lparr>mf_id = i, mf_provider_id = pf_provider_id p,
     mf_model_name = pf_model_name p, mf_display_name = pf_display_name p, mf_status = pf_status p,
     mf_capabilities = sort_key capability_value (remdups (pf_capabilities p)),
     mf_privacy_class = pf_privacy_class p, mf_cost_class = pf_cost_class p,
     mf_latency_class = pf_latency_class p, mf_quality_score = pf_quality_score p,
     mf_supports_structured_output = pf_supports_structured_output p,
     mf_supports_tool_use = pf_supports_tool_use p, mf_supports_large_context = pf_supports_large_context p,
     mf_supports_code = pf_supports_code p, mf_supports_reasoning = pf_supports_reasoning p,
     mf_max_context_tokens = pf_max_context_tokens p, mf_max_output_tokens = pf_max_output_tokens p,
     mf_input_cost_per_million = pf_input_cost_per_million p,
     mf_output_cost_per_million = pf_output_cost_per_million p, mf_metadata = sanitize_object (pf_metadata p),
     mf_created_at = created, mf_updated_at = now\<rparr>"

definition register_profile :: "model_profile \<Rightarrow> string \<Rightarrow> db \<Rightarrow> profile_row res \<times> db" where
  "register_profile profile actor s =
     try_res (check_that (get_provider (pf_provider_id profile) s \<noteq> None)
       (ModelGatewayError PROVIDER_UNAVAILABLE (''Unknown provider: '' @ pf_provider_id profile))) s (\<lambda>_.
     let (i, s1) = (case pf_id profile of
           None \<Rightarrow> (fresh_id ''model_profile'' s, bump_id ''model_profile'' s) | Some i \<Rightarrow> (i, s));
         created = (case get_profile i s1 of None \<Rightarrow> pf_created_at profile | Some row \<Rightarrow> mf_created_at row);
         row = profile_row_of i created (utc_now s1) profile
     in if list_ex (\<lambda>r. mf_provider_id r = pf_provider_id profile \<and> mf_model_name r = pf_model_name profile
           \<and> mf_id r \<noteq> i) (model_profiles s1)
        then (Inl (IntegrityError ''uq_model_profile_provider_model''), s)
        else (Inr row, audit_record ''MODEL_PROFILE_REGISTERED'' actor None None None None L0
          ''register_model_profile'' ''SUCCESS''
          [(''profile_id'', JStr i), (''provider_id'', JStr (pf_provider_id profile)),
           (''status'', JStr (profile_status_value (pf_status profile)))]
          (put_profile row s1)))"

section \<open>Routing over the store\<close>

definition load_providers :: "db \<Rightarrow> model_provider list" where
  "load_providers s = map provider_from_row (sort_key mp_id (model_providers s))"

definition load_profiles :: "db \<Rightarrow> model_profile list" where
  "load_profiles s = map profile_from_row (sort_key mf_id (model_profiles s))"

definition list_available_models :: "db \<Rightarrow> model_profile list" where
  "list_available_models s = filter (\<lambda>p. pf_status p = model_profile_status.ACTIVE
     \<and> list_ex (\<lambda>v. pv_id v = Some (pf_provider_id p) \<and> pv_status v = provider_status.ACTIVE) (load_providers s))
     (load_profiles s)"

definition route_request :: "model_request \<Rightarrow> db \<Rightarrow> routing_decision" where
  "route_request request s = route request (load_providers s) (load_profiles s)"

section \<open>Storing an attempt\<close>

definition rejection_json :: "routing_rejection \<Rightarrow> json" where
  "rejection_json r = JObj [(''provider_id'', jtext (rr_provider_id r)),
     (''model_profile_id'', jtext (rr_model_profile_id r)), (''reason'', JStr (model_error_value (rr_reason r))),
     (''message'', JStr (rr_message r))]"

definition error_json :: "model_error_code option \<Rightarrow> json" where
  "error_json c = jtext (map_option model_error_value c)"

definition decision_json :: "routing_decision \<Rightarrow> json_object" where
  "decision_json d = [(''request_id'', JStr (rd_request_id d)),
     (''selected_profile_id'', jtext (rd_selected_profile_id d)),
     (''fallback_profile_ids'', jtexts (rd_fallback_profile_ids d)), (''reasons'', jtexts (rd_reasons d)),
     (''rejected'', JList (map rejection_json (rd_rejected d))), (''error_code'', error_json (rd_error_code d))]"

definition audit_request ::
  "string \<Rightarrow> string \<Rightarrow> model_request \<Rightarrow> string \<Rightarrow> string \<Rightarrow> json_object \<Rightarrow> db \<Rightarrow> db" where
  "audit_request event_type actor rq action result metadata =
     audit_record event_type actor (rq_project_id rq) None (rq_task_id rq) (rq_run_id rq) L0 action result metadata"

definition execution_from_response ::
  "string \<Rightarrow> model_request \<Rightarrow> model_response \<Rightarrow> routing_decision \<Rightarrow> timestamp \<Rightarrow> execution_row" where
  "execution_from_response i rq rs rd now = \<lparr>me_id = i, me_request_id = rq_request_id rq,
     me_project_id = rq_project_id rq, me_task_id = rq_task_id rq, me_run_id = rq_run_id rq,
     me_provider_id = rs_provider_id rs, me_provider = rs_provider_id rs,
     me_model_profile_id = rs_model_profile_id rs, me_model = rs_model_name rs, me_status = rs_status rs,
     me_capabilities = sort_key capability_value (remdups (rq_required_capabilities rq)),
     me_privacy_class = rq_privacy_class rq, me_routing_decision = decision_json rd,
     me_latency_ms = rs_latency_ms rs, me_input_tokens = rs_input_tokens rs,
     me_output_tokens = rs_output_tokens rs, me_total_tokens = rs_total_tokens rs,
     me_estimated_cost = rs_estimated_cost rs, me_cost_source = rs_cost_source rs,
     me_fallback_used = rs_fallback_used rs, me_attempt_number = rs_attempt_number rs,
     me_error_code = rs_error_code rs, me_created_at = now\<rparr>"

definition response_metadata :: "model_request \<Rightarrow> string \<Rightarrow> model_response \<Rightarrow> json_object" where
  "response_metadata rq i rs = [(''request_id'', JStr (rq_request_id rq)), (''execution_id'', JStr i),
     (''provider_id'', jtext (rs_provider_id rs)), (''model_profile_id'', jtext (rs_model_profile_id rs)),
     (''model_name'', jtext (rs_model_name rs)), (''status'', JStr (response_status_value (rs_status rs))),
     (''latency_ms'', jint (rs_latency_ms rs)), (''input_tokens'', jint (rs_input_tokens rs)),
     (''output_tokens'', jint (rs_output_tokens rs)), (''estimated_cost'', jfloat (rs_estimated_cost rs)),
     (''cost_source'', JStr (cost_source_value (rs_cost_source rs))),
     (''fallback_used'', JBool (rs_fallback_used rs)), (''attempt_number'', JInt (int (rs_attempt_number rs))),
     (''error_code'', error_json (rs_error_code rs))]"

definition persist_response ::
  "model_request \<Rightarrow> model_response \<Rightarrow> routing_decision \<Rightarrow> string \<Rightarrow> db \<Rightarrow> model_response \<times> db" where
  "persist_response rq rs rd actor s =
     (let i = fresh_id ''model_execution'' s; s1 = bump_id ''model_execution'' s;
          rs' = rs\<lparr>rs_execution_id := Some i\<rparr>;
          s2 = put_execution (execution_from_response i rq rs' rd (utc_now s1)) s1;
          (event_type, result) =
            (if rs_status rs' = model_response_status.SUCCEEDED then (''MODEL_EXECUTION_SUCCEEDED'', ''SUCCESS'')
             else (if rs_error_code rs' = Some STRUCTURED_OUTPUT_INVALID then ''MODEL_RESPONSE_INVALID''
                   else ''MODEL_EXECUTION_FAILED'', ''FAILURE''))
      in (rs', audit_request event_type actor rq ''execute_model_request'' result (response_metadata rq i rs') s2))"

definition failure_response ::
  "model_request \<Rightarrow> routing_decision \<Rightarrow> model_error_code \<Rightarrow> string \<Rightarrow> model_profile option \<Rightarrow> nat \<Rightarrow> bool \<Rightarrow>
   timestamp \<Rightarrow> model_response" where
  "failure_response rq rd code message profile attempt fallback_used now =
     \<lparr>rs_request_id = rq_request_id rq, rs_execution_id = None,
      rs_provider_id = map_option pf_provider_id profile,
      rs_model_profile_id = Option.bind profile pf_id, rs_model_name = map_option pf_model_name profile,
      rs_status = model_response_status.FAILED, rs_content = None, rs_structured_data = None,
      rs_input_tokens = None, rs_output_tokens = None, rs_total_tokens = None, rs_estimated_cost = None,
      rs_cost_source = model_cost_source.UNKNOWN, rs_latency_ms = None, rs_finish_reason = None,
      rs_error_code = Some code, rs_error_message = Some message, rs_fallback_used = fallback_used,
      rs_attempt_number = attempt, rs_routing_decision = Some rd, rs_created_at = now\<rparr>"

definition success_response ::
  "model_request \<Rightarrow> routing_decision \<Rightarrow> model_profile \<Rightarrow> provider_generation \<Rightarrow> json_object option \<Rightarrow> nat \<Rightarrow>
   bool \<Rightarrow> timestamp \<Rightarrow> model_response" where
  "success_response rq rd profile g structured_data attempt fallback_used now =
     \<lparr>rs_request_id = rq_request_id rq, rs_execution_id = None, rs_provider_id = Some (pf_provider_id profile),
      rs_model_profile_id = pf_id profile, rs_model_name = Some (pf_model_name profile),
      rs_status = model_response_status.SUCCEEDED, rs_content = pg_content g,
      rs_structured_data = structured_data, rs_input_tokens = pg_input_tokens g,
      rs_output_tokens = pg_output_tokens g, rs_total_tokens = pg_total_tokens g,
      rs_estimated_cost = pg_estimated_cost g, rs_cost_source = pg_cost_source g,
      rs_latency_ms = pg_latency_ms g, rs_finish_reason = pg_finish_reason g, rs_error_code = None,
      rs_error_message = None, rs_fallback_used = fallback_used, rs_attempt_number = attempt,
      rs_routing_decision = Some rd, rs_created_at = now\<rparr>"

section \<open>Execution\<close>

definition validate_structured_response ::
  "model_request \<Rightarrow> provider_generation \<Rightarrow> provider_exc + json_object option" where
  "validate_structured_response rq g =
     (case rq_structured_output_schema rq of
        None \<Rightarrow> Inr (pg_structured_data g)
      | Some schema \<Rightarrow>
          (case pg_structured_data g of
             None \<Rightarrow> Inl (GatewayFailure STRUCTURED_OUTPUT_INVALID ''Provider returned no structured data.'')
           | Some d \<Rightarrow>
               (case schema of
                  ModelClass validate \<Rightarrow>
                    (case validate d of Inl e \<Rightarrow> Inl (InvalidData e) | Inr v \<Rightarrow> Inr (Some v))
                | OtherSchema _ \<Rightarrow> Inr (Some d))))"

definition call_adapter ::
  "adapter \<Rightarrow> nat \<Rightarrow> model_request \<Rightarrow> model_profile \<Rightarrow> provider_exc + (provider_generation \<times> json_object option)" where
  "call_adapter a attempt rq profile =
     (case ad_available a attempt of
        Inl e \<Rightarrow> Inl e
      | Inr available \<Rightarrow>
          if \<not> available then Inl (ProviderFailure PROVIDER_UNAVAILABLE ''Provider adapter is unavailable.'')
          else (case ad_generate a attempt rq profile of
              Inl e \<Rightarrow> Inl e
            | Inr g \<Rightarrow> (case validate_structured_response rq g of Inl e \<Rightarrow> Inl e | Inr d \<Rightarrow> Inr (g, d))))"

fun failure_of :: "provider_exc \<Rightarrow> model_error_code \<times> string" where
  "failure_of (ProviderFailure code message) = (code, message)"
| "failure_of (InvalidData message) = (STRUCTURED_OUTPUT_INVALID, message)"
| "failure_of (GatewayFailure code message) = (code, message)"
| "failure_of (OtherFailure message) = (PROVIDER_ERROR, message)"

definition attempt_execution ::
  "adapter \<Rightarrow> model_request \<Rightarrow> routing_decision \<Rightarrow> model_profile \<Rightarrow> nat \<Rightarrow> string \<Rightarrow> db \<Rightarrow> model_response \<times> db" where
  "attempt_execution a rq rd profile attempt actor s =
     (let s1 = audit_request ''MODEL_EXECUTION_STARTED'' actor rq ''execute_model_request'' ''STARTED''
            [(''request_id'', JStr (rq_request_id rq)), (''profile_id'', jtext (pf_id profile)),
             (''attempt_number'', JInt (int attempt))] s;
          rs = (case call_adapter a attempt rq profile of
              Inl e \<Rightarrow> failure_response rq rd (fst (failure_of e)) (snd (failure_of e)) (Some profile) attempt
                (1 < attempt) (utc_now s1)
            | Inr (g, d) \<Rightarrow> success_response rq rd profile g d attempt (1 < attempt) (utc_now s1))
      in persist_response rq rs rd actor s1)"

definition stops :: "model_request \<Rightarrow> model_response \<Rightarrow> bool" where
  "stops rq rs =
     (rs_status rs = model_response_status.SUCCEEDED
      \<or> rs_error_code rs \<in> Some ` set non_fallback_model_errors
      \<or> \<not> rq_fallback_allowed rq \<or> rs_error_code rs \<notin> Some ` set retryable_model_errors)"

text \<open>The loop over the profile ids, from attempt number \<open>n\<close> on; \<open>None\<close> is the loop over no id.\<close>

fun run_attempts ::
  "(string \<Rightarrow> adapter option) \<Rightarrow> model_request \<Rightarrow> routing_decision \<Rightarrow> string \<Rightarrow> nat \<Rightarrow> string list \<Rightarrow>
   db \<Rightarrow> model_response option \<times> db" where
  "run_attempts adapters rq rd actor n [] s = (None, s)"
| "run_attempts adapters rq rd actor n (i # ids) s =
     (case get_profile i s of
        None \<Rightarrow>
          (let (rs, s1) = persist_response rq (failure_response rq rd MODEL_NOT_FOUND
                 (''Model profile '' @ i @ '' disappeared before execution.'') None n (1 < n) (utc_now s)) rd actor s
           in (Some rs, s1))
      | Some row \<Rightarrow>
          (let profile = profile_from_row row;
               (rs, s1) =
                 (case (get_provider (pf_provider_id profile) s, adapters (pf_provider_id profile)) of
                    (Some _, Some a) \<Rightarrow> attempt_execution a rq rd profile n actor s
                  | _ \<Rightarrow> persist_response rq (failure_response rq rd PROVIDER_UNAVAILABLE
                      (''No adapter registered for provider '' @ pf_provider_id profile @ ''.'') (Some profile) n
                      (1 < n) (utc_now s)) rd actor s)
           in if stops rq rs \<or> ids = [] then (Some rs, s1)
              else run_attempts adapters rq rd actor (Suc n) ids
                (audit_request ''MODEL_FALLBACK_USED'' actor rq ''fallback_model_request'' ''SUCCESS''
                  [(''request_id'', JStr (rq_request_id rq)), (''from_profile_id'', JStr i),
                   (''next_profile_id'', JStr (hd ids)), (''error_code'', error_json (rs_error_code rs))] s1)))"

definition record_policy_block ::
  "model_request \<Rightarrow> routing_decision \<Rightarrow> string \<Rightarrow> db \<Rightarrow> model_response \<times> db" where
  "record_policy_block rq rd actor s =
     (let code = (case rd_error_code rd of None \<Rightarrow> NO_ELIGIBLE_MODEL | Some c \<Rightarrow> c);
          event_type = (if code \<in> set non_fallback_model_errors then ''MODEL_POLICY_BLOCK'' else ''MODEL_EXECUTION_FAILED'');
          s1 = audit_request event_type actor rq ''route_model_request'' ''BLOCKED''
            [(''request_id'', JStr (rq_request_id rq)), (''error_code'', JStr (model_error_value code)),
             (''rejected'', JList (map rejection_json (rd_rejected rd)))] s;
          message = (case rd_reasons rd of [] \<Rightarrow> model_error_value code | r # _ \<Rightarrow> r)
      in persist_response rq (failure_response rq rd code message None 1 False (utc_now s1)) rd actor s1)"

definition record_request_created :: "model_request \<Rightarrow> string \<Rightarrow> db \<Rightarrow> db" where
  "record_request_created rq actor =
     audit_request ''MODEL_REQUEST_CREATED'' actor rq ''create_model_request'' ''SUCCESS''
       [(''request_id'', JStr (rq_request_id rq)), (''purpose'', JStr (rq_purpose rq)),
        (''required_capabilities'', jtexts (sort (map capability_value (remdups (rq_required_capabilities rq))))),
        (''privacy_class'', JStr (privacy_value (rq_privacy_class rq))),
        (''max_cost_class'', jtext (map_option cost_value (rq_max_cost_class rq))),
        (''fallback_allowed'', JBool (rq_fallback_allowed rq))]"

text \<open>\<open>profile_ids[: max(1, max_attempts)]\<close>, where an absent or zero \<open>max_attempts\<close> is the number of
  ids.\<close>

definition attempt_ids :: "model_request \<Rightarrow> string \<Rightarrow> string list \<Rightarrow> string list" where
  "attempt_ids rq selected fallback =
     (let ids = selected # (if rq_fallback_allowed rq then fallback else []);
          max_attempts = (case rq_max_attempts rq of
              None \<Rightarrow> int (length ids) | Some m \<Rightarrow> if m = 0 then int (length ids) else m)
      in take (nat (max 1 max_attempts)) ids)"

definition execute_with_fallback ::
  "(string \<Rightarrow> adapter option) \<Rightarrow> model_request \<Rightarrow> string \<Rightarrow> db \<Rightarrow> model_response \<times> db" where
  "execute_with_fallback adapters rq actor s =
     (let s1 = record_request_created rq actor s;
          rd = route_request rq s1
      in case (rd_error_code rd, rd_selected_profile_id rd) of
           (None, Some selected) \<Rightarrow>
             (let s2 = audit_request ''MODEL_ROUTED'' actor rq ''route_model_request'' ''SUCCESS''
                    [(''request_id'', JStr (rq_request_id rq)), (''selected_profile_id'', JStr selected),
                     (''fallback_profile_ids'', jtexts (rd_fallback_profile_ids rd)),
                     (''reasons'', jtexts (rd_reasons rd))] s1
              in case run_attempts adapters rq rd actor 1
                   (attempt_ids rq selected (rd_fallback_profile_ids rd)) s2 of
                   (Some rs, s3) \<Rightarrow> (rs, s3)
                 | (None, s3) \<Rightarrow> record_policy_block rq (rd\<lparr>rd_error_code := Some BUDGET_EXCEEDED\<rparr>) actor s3)
         | _ \<Rightarrow> record_policy_block rq rd actor s1)"

section \<open>What an execution stores\<close>

lemma audit_request_frame [simp]:
  "model_executions (audit_request e a rq ac re md s) = model_executions s"
  "model_profiles (audit_request e a rq ac re md s) = model_profiles s"
  "model_providers (audit_request e a rq ac re md s) = model_providers s"
  by (simp_all add: audit_request_def)

text \<open>The second store is the first with these executions appended and the models unchanged.\<close>

definition attempted :: "db \<Rightarrow> db \<Rightarrow> execution_row list \<Rightarrow> bool" where
  "attempted s t xs \<longleftrightarrow> model_executions t = model_executions s @ xs
     \<and> model_profiles t = model_profiles s \<and> model_providers t = model_providers s"

lemma attempted_audit [simp]:
  "attempted (audit_request e a rq ac re md s) t xs \<longleftrightarrow> attempted s t xs"
  by (simp add: attempted_def)

lemma attempted_trans: "attempted s t xs \<Longrightarrow> attempted t u ys \<Longrightarrow> attempted s u (xs @ ys)"
  by (simp add: attempted_def)

text \<open>The row agrees with the response that is returned for it.\<close>

definition row_of :: "model_request \<Rightarrow> model_response \<Rightarrow> execution_row \<Rightarrow> bool" where
  "row_of rq rs row \<longleftrightarrow> rs_execution_id rs = Some (me_id row) \<and> me_status row = rs_status rs
     \<and> me_error_code row = rs_error_code rs \<and> me_model_profile_id row = rs_model_profile_id rs
     \<and> me_attempt_number row = rs_attempt_number rs \<and> me_request_id row = rq_request_id rq
     \<and> me_privacy_class row = rq_privacy_class rq"

lemma persist_response_effect:
  assumes "persist_response rq rs rd a s = (rs', t)"
  shows "\<exists>row. attempted s t [row] \<and> row_of rq rs' row \<and> rs_status rs' = rs_status rs
    \<and> rs_error_code rs' = rs_error_code rs \<and> rs_model_profile_id rs' = rs_model_profile_id rs
    \<and> rs_attempt_number rs' = rs_attempt_number rs"
  using assms
  by (auto simp: persist_response_def Let_def attempted_def row_of_def execution_from_response_def
      put_execution_def tput_fresh split: if_splits)

lemma attempt_execution_effect:
  assumes "attempt_execution ad rq rd pf n a s = (rs, t)"
  shows "\<exists>row. attempted s t [row] \<and> row_of rq rs row \<and> rs_model_profile_id rs = pf_id pf
    \<and> rs_attempt_number rs = n"
proof -
  obtain rs0 where "persist_response rq rs0 rd a (audit_request ''MODEL_EXECUTION_STARTED'' a rq
      ''execute_model_request'' ''STARTED'' [(''request_id'', JStr (rq_request_id rq)),
        (''profile_id'', jtext (pf_id pf)), (''attempt_number'', JInt (int n))] s) = (rs, t)"
    and "rs_model_profile_id rs0 = pf_id pf" "rs_attempt_number rs0 = n"
    using assms
    by (auto simp: attempt_execution_def Let_def failure_response_def success_response_def
        split: sum.splits prod.splits)
  from persist_response_effect [OF this(1)] this(2,3) show ?thesis by auto
qed

text \<open>A failed attempt after which the loop goes on.\<close>

definition falls_back :: "execution_row \<Rightarrow> bool" where
  "falls_back x \<longleftrightarrow> me_status x = model_response_status.FAILED
     \<and> me_error_code x \<in> Some ` set retryable_model_errors
     \<and> me_error_code x \<notin> Some ` set non_fallback_model_errors"

lemma not_stops:
  "\<not> stops rq rs \<Longrightarrow> row_of rq rs row \<Longrightarrow> falls_back row \<and> rq_fallback_allowed rq"
  by (cases "rs_status rs") (auto simp: stops_def row_of_def falls_back_def)

text \<open>What a run of the loop from attempt number \<open>n\<close> over some ids may store.\<close>

definition loop_trace ::
  "model_request \<Rightarrow> nat \<Rightarrow> string list \<Rightarrow> db \<Rightarrow> model_response \<Rightarrow> db \<Rightarrow> execution_row list \<Rightarrow> bool" where
  "loop_trace rq n ids s rs t xs \<longleftrightarrow> attempted s t xs \<and> xs \<noteq> [] \<and> length xs \<le> length ids
     \<and> row_of rq rs (last xs) \<and> list_all falls_back (butlast xs)
     \<and> (1 < length xs \<longrightarrow> rq_fallback_allowed rq)
     \<and> map me_attempt_number xs = [n..<n + length xs]
     \<and> (\<forall>x \<in> set xs. me_privacy_class x = rq_privacy_class rq
          \<and> (\<forall>p. me_model_profile_id x = Some p \<longrightarrow> p \<in> set ids))"

lemma loop_trace_one:
  assumes "attempted s t [row]" "row_of rq rs row" "rs_attempt_number rs = n"
    "\<And>p. rs_model_profile_id rs = Some p \<Longrightarrow> p = i"
  shows "loop_trace rq n (i # ids) s rs t [row]"
  using assms by (auto simp: loop_trace_def row_of_def)

lemma loop_trace_more:
  assumes "attempted s u [row]" "row_of rq rs' row" "\<not> stops rq rs'" "rs_attempt_number rs' = n"
    "\<And>p. rs_model_profile_id rs' = Some p \<Longrightarrow> p = i" "loop_trace rq (Suc n) ids u rs t xs"
  shows "loop_trace rq n (i # ids) s rs t (row # xs)"
proof -
  have "attempted s t (row # xs)"
    using attempted_trans [OF assms(1), of t xs] assms(6) by (simp add: loop_trace_def)
  moreover have "map me_attempt_number (row # xs) = [n..<n + length (row # xs)]"
    using assms(2,4,6) by (simp add: loop_trace_def row_of_def upt_conv_Cons del: upt_Suc)
  ultimately show ?thesis
    using assms(2-6) not_stops [OF assms(3,2)]
    by (auto simp: loop_trace_def row_of_def simp del: upt_Suc)
qed

lemma run_attempts_trace:
  assumes "ids \<noteq> []"
  shows "\<exists>rs t xs. run_attempts ad rq rd a n ids s = (Some rs, t) \<and> loop_trace rq n ids s rs t xs"
  using assms
proof (induction ids arbitrary: n s)
  case (Cons i ids)
  show ?case
  proof (cases "get_profile i s")
    case None
    obtain rs t where p: "persist_response rq (failure_response rq rd MODEL_NOT_FOUND
        (''Model profile '' @ i @ '' disappeared before execution.'') None n (1 < n) (utc_now s)) rd a s = (rs, t)"
      by fastforce
    from persist_response_effect [OF p] obtain row where "attempted s t [row]" "row_of rq rs row"
      "rs_model_profile_id rs = None" "rs_attempt_number rs = n"
      by (auto simp: failure_response_def)
    then have "loop_trace rq n (i # ids) s rs t [row]" by (auto intro: loop_trace_one)
    with None p show ?thesis by auto
  next
    case (Some row0)
    let ?pf = "profile_from_row row0"
    let ?step = "case (get_provider (pf_provider_id ?pf) s, ad (pf_provider_id ?pf)) of
        (Some _, Some f) \<Rightarrow> attempt_execution f rq rd ?pf n a s
      | _ \<Rightarrow> persist_response rq (failure_response rq rd PROVIDER_UNAVAILABLE
          (''No adapter registered for provider '' @ pf_provider_id ?pf @ ''.'') (Some ?pf) n (1 < n) (utc_now s)) rd a s"
    obtain rs u where st: "?step = (rs, u)" by fastforce
    have id: "pf_id ?pf = Some i"
      using profile_table.get_key [OF Some] by (simp add: profile_from_row_def)
    have fail: "rs_model_profile_id (failure_response rq rd c m (Some ?pf) n b k) = Some i"
      "rs_attempt_number (failure_response rq rd c m (Some ?pf) n b k) = n" for c m b k
      by (simp_all add: failure_response_def id)
    have "\<exists>row. attempted s u [row] \<and> row_of rq rs row \<and> rs_model_profile_id rs = Some i
        \<and> rs_attempt_number rs = n"
    proof (cases "get_provider (pf_provider_id ?pf) s = None \<or> ad (pf_provider_id ?pf) = None")
      case True
      then have "persist_response rq (failure_response rq rd PROVIDER_UNAVAILABLE
          (''No adapter registered for provider '' @ pf_provider_id ?pf @ ''.'') (Some ?pf) n (1 < n) (utc_now s)) rd a s = (rs, u)"
        using st by (auto split: option.splits)
      from persist_response_effect [OF this] fail show ?thesis by auto
    next
      case False
      then obtain f where "attempt_execution f rq rd ?pf n a s = (rs, u)"
        using st by auto
      from attempt_execution_effect [OF this] id show ?thesis by auto
    qed
    then obtain row where row: "attempted s u [row]" "row_of rq rs row" "rs_model_profile_id rs = Some i"
      "rs_attempt_number rs = n" by blast
    show ?thesis
    proof (cases "stops rq rs \<or> ids = []")
      case True
      have "loop_trace rq n (i # ids) s rs u [row]"
        by (rule loop_trace_one [OF row(1,2,4)]) (use row(3) in simp)
      with True Some st show ?thesis
        by (auto simp del: run_attempts.simps(1) simp: Let_def)
    next
      case False
      let ?v = "audit_request ''MODEL_FALLBACK_USED'' a rq ''fallback_model_request'' ''SUCCESS''
          [(''request_id'', JStr (rq_request_id rq)), (''from_profile_id'', JStr i),
           (''next_profile_id'', JStr (hd ids)), (''error_code'', error_json (rs_error_code rs))] u"
      obtain rs' t xs where more: "run_attempts ad rq rd a (Suc n) ids ?v = (Some rs', t)"
        "loop_trace rq (Suc n) ids u rs' t xs"
        using Cons.IH [of "Suc n" ?v] False by (auto simp: loop_trace_def)
      have "loop_trace rq n (i # ids) s rs' t (row # xs)"
        by (rule loop_trace_more [OF row(1,2) _ row(4) _ more(2)]) (use row(3) False in simp_all)
      moreover have "run_attempts ad rq rd a n (i # ids) s = (Some rs', t)"
        using Some st False more(1) by (simp add: Let_def)
      ultimately show ?thesis by blast
    qed
  qed
qed simp

lemma record_policy_block_effect:
  "\<exists>rs t row. record_policy_block rq rd a s = (rs, t) \<and> attempted s t [row] \<and> row_of rq rs row
     \<and> me_model_profile_id row = None"
proof -
  have "\<exists>rs0 u. record_policy_block rq rd a s = persist_response rq rs0 rd a u
      \<and> rs_model_profile_id rs0 = None \<and> (\<forall>v xs. attempted u v xs \<longrightarrow> attempted s v xs)"
    unfolding record_policy_block_def Let_def
    by (intro exI conjI, rule refl) (simp_all add: failure_response_def)
  then obtain rs0 u where q: "record_policy_block rq rd a s = persist_response rq rs0 rd a u"
    "rs_model_profile_id rs0 = None" "\<And>v xs. attempted u v xs \<Longrightarrow> attempted s v xs"
    by blast
  obtain rs t where p: "persist_response rq rs0 rd a u = (rs, t)" by fastforce
  from persist_response_effect [OF p] obtain row where "attempted u t [row]" "row_of rq rs row"
    "rs_model_profile_id rs = None"
    using q(2) by auto
  with q p show ?thesis
    by (intro exI [of _ rs] exI [of _ t] exI [of _ row]) (simp add: row_of_def)
qed

lemma length_eligible: "length (eligible_profiles rq pvs pfs) \<le> length pfs"
  by (induction pfs) (auto simp: eligible_profiles_def split: option.split)

lemma length_present: "length (present xs) \<le> length xs"
  by (induction xs) (auto simp: present_def split: option.split)

lemma length_route_ids:
  assumes "rd_selected_profile_id (route rq pvs pfs) = Some i"
  shows "length (rd_fallback_profile_ids (route rq pvs pfs)) < length pfs"
proof -
  let ?o = "order_eligible rq (eligible_profiles rq pvs pfs)"
  have "length ?o \<le> length pfs"
    using length_eligible [of rq pvs pfs] by (metis mset_order_eligible size_mset)
  moreover obtain q qs where "?o = q # qs"
    using assms by (cases ?o) (simp_all add: route_def Let_def)
  ultimately show ?thesis
    using length_present [of "map (\<lambda>p. pf_id (fst p)) qs"] by (cases q) (simp add: route_def)
qed

lemma attempt_ids_facts:
  "attempt_ids rq i is \<noteq> []" "set (attempt_ids rq i is) \<subseteq> insert i (set is)"
  "length (attempt_ids rq i is) \<le> Suc (length is)"
  "rq_max_attempts rq = Some m \<Longrightarrow> 0 < m \<Longrightarrow> length (attempt_ids rq i is) \<le> nat m"
proof -
  show "set (attempt_ids rq i is) \<subseteq> insert i (set is)"
    by (auto simp: attempt_ids_def Let_def dest: in_set_takeD split: if_splits)
qed (auto simp: attempt_ids_def Let_def split: option.splits)

text \<open>An execution as a whole: it stores at least one attempt, and the ids it attempts are those of
  the routing decision.\<close>

definition decided :: "model_request \<Rightarrow> db \<Rightarrow> string \<Rightarrow> bool" where
  "decided rq s i \<longleftrightarrow> rd_selected_profile_id (route_request rq s) = Some i
     \<or> i \<in> set (rd_fallback_profile_ids (route_request rq s))"

lemma route_request_created [simp]: "route_request rq (record_request_created rq a s) = route_request rq s"
  by (simp add: route_request_def load_providers_def load_profiles_def record_request_created_def)

lemma execute_trace:
  "\<exists>rs t xs. execute_with_fallback ad rq a s = (rs, t) \<and> attempted s t xs \<and> xs \<noteq> []
     \<and> row_of rq rs (last xs) \<and> list_all falls_back (butlast xs)
     \<and> (1 < length xs \<longrightarrow> rq_fallback_allowed rq) \<and> length xs \<le> max 1 (length (model_profiles s))
     \<and> (\<forall>m. rq_max_attempts rq = Some m \<longrightarrow> 0 < m \<longrightarrow> length xs \<le> nat m)
     \<and> (\<forall>x \<in> set xs. me_privacy_class x = rq_privacy_class rq
          \<and> (\<forall>p. me_model_profile_id x = Some p \<longrightarrow> decided rq s p))"
proof (cases "rd_error_code (route_request rq s) = None \<and> rd_selected_profile_id (route_request rq s) \<noteq> None")
  case False
  then have e: "execute_with_fallback ad rq a s
      = record_policy_block rq (route_request rq s) a (record_request_created rq a s)"
    by (auto simp: execute_with_fallback_def Let_def split: option.split)
  obtain rs t row where p: "record_policy_block rq (route_request rq s) a (record_request_created rq a s) = (rs, t)"
    "attempted s t [row]" "row_of rq rs row" "me_model_profile_id row = None"
    using record_policy_block_effect [of rq "route_request rq s" a "record_request_created rq a s"]
    by (auto simp: record_request_created_def)
  then show ?thesis
    unfolding e by (intro exI [of _ rs] exI [of _ t] exI [of _ "[row]"]) (auto simp: row_of_def)
next
  case True
  then obtain i where i: "rd_selected_profile_id (route_request rq s) = Some i" by auto
  let ?fs = "rd_fallback_profile_ids (route_request rq s)"
  let ?u = "audit_request ''MODEL_ROUTED'' a rq ''route_model_request'' ''SUCCESS''
      [(''request_id'', JStr (rq_request_id rq)), (''selected_profile_id'', JStr i),
       (''fallback_profile_ids'', jtexts ?fs), (''reasons'', jtexts (rd_reasons (route_request rq s)))]
      (record_request_created rq a s)"
  obtain rs t xs where r: "run_attempts ad rq (route_request rq s) a 1 (attempt_ids rq i ?fs) ?u = (Some rs, t)"
    "loop_trace rq 1 (attempt_ids rq i ?fs) ?u rs t xs"
    using run_attempts_trace [OF attempt_ids_facts(1) [of rq i ?fs]] by blast
  have e: "execute_with_fallback ad rq a s = (rs, t)"
    using True i r(1) by (simp add: execute_with_fallback_def Let_def)
  have "length ?fs < length (model_profiles s)"
    using length_route_ids [of rq "load_providers s" "load_profiles s" i] i
    by (simp add: route_request_def load_profiles_def)
  then have "length xs \<le> length (model_profiles s)"
    using r(2) attempt_ids_facts(3) [of rq i ?fs] by (auto simp: loop_trace_def)
  moreover have "length xs \<le> nat m" if "rq_max_attempts rq = Some m" "0 < m" for m
    using r(2) attempt_ids_facts(4) [OF that, of i ?fs] by (auto simp: loop_trace_def)
  moreover have "decided rq s p" if "x \<in> set xs" "me_model_profile_id x = Some p" for x p
    using r(2) that attempt_ids_facts(2) [of rq i ?fs] i by (auto simp: loop_trace_def decided_def)
  moreover have "attempted s t xs"
    using r(2) by (simp add: loop_trace_def record_request_created_def)
  ultimately show ?thesis
    using e r(2) by (auto simp: loop_trace_def)
qed

lemma execute_traceE:
  obtains xs where "model_executions (snd (execute_with_fallback ad rq a s)) = model_executions s @ xs"
    "xs \<noteq> []" "row_of rq (fst (execute_with_fallback ad rq a s)) (last xs)" "list_all falls_back (butlast xs)"
    "1 < length xs \<longrightarrow> rq_fallback_allowed rq" "length xs \<le> max 1 (length (model_profiles s))"
    "\<forall>m. rq_max_attempts rq = Some m \<longrightarrow> 0 < m \<longrightarrow> length xs \<le> nat m"
    "\<forall>x \<in> set xs. me_privacy_class x = rq_privacy_class rq
       \<and> (\<forall>p. me_model_profile_id x = Some p \<longrightarrow> decided rq s p)"
  using execute_trace [of ad rq a s] by (auto simp: attempted_def)

section \<open>Facts of sanitizing\<close>

text \<open>The keys of the objects at every depth of a value.\<close>

primrec json_keys :: "json \<Rightarrow> string set" where
  "json_keys JNull = {}"
| "json_keys (JBool b) = {}"
| "json_keys (JInt n) = {}"
| "json_keys (JFloat r) = {}"
| "json_keys (JStr t) = {}"
| "json_keys (JList vs) = \<Union> (set (map json_keys vs))"
| "json_keys (JObj d) = fst ` set d \<union> \<Union> (snd ` set (map (map_prod id json_keys) d))"

lemma sanitize_keys: "k \<in> json_keys (sanitize_metadata v) \<Longrightarrow> \<not> is_secret_key k"
proof (induction v)
  case (JObj d)
  then show ?case by (force simp: map_prod_def split: prod.splits)
qed auto

lemma json_keys_member:
  "p \<in> set d \<Longrightarrow> fst p \<in> json_keys (JObj d)" "p \<in> set d \<Longrightarrow> json_keys (snd p) \<subseteq> json_keys (JObj d)"
  by (cases p; force)+

lemma sanitize_clean: "(\<And>k. k \<in> json_keys v \<Longrightarrow> \<not> is_secret_key k) \<Longrightarrow> sanitize_metadata v = v"
proof (induction v)
  case (JList vs)
  then show ?case by (auto intro!: map_idI)
next
  case (JObj d)
  have "map_prod id sanitize_metadata p = p" if p: "p \<in> set d" for p
  proof -
    have "sanitize_metadata (snd p) = snd p"
      by (rule JObj.IH [of p]) (use p JObj.prems json_keys_member(2) [OF p] in \<open>auto simp: snds.simps\<close>)
    then show ?thesis by (cases p) simp
  qed
  then have "map (map_prod id sanitize_metadata) d = d"
    by (rule map_idI)
  moreover have "filter (\<lambda>(k, v). \<not> is_secret_key k) d = d"
    by (rule filter_True) (simp add: case_prod_beta JObj.prems json_keys_member(1) del: json_keys.simps)
  ultimately show ?case by simp
qed auto

section \<open>Examples\<close>

definition ex_provider_row :: provider_row where
  "ex_provider_row = provider_row_of ''V'' 0 0 (ex_provider ''V'')"

definition ex_gateway :: "model_profile list \<Rightarrow> db" where
  "ex_gateway ps = empty_db\<lparr>model_providers := [ex_provider_row],
     model_profiles := map (\<lambda>p. profile_row_of (the (pf_id p)) 0 0 p) ps\<rparr>"

text \<open>An adapter that answers on every attempt after the first.\<close>

definition ex_adapter :: adapter where
  "ex_adapter = \<lparr>ad_available = (\<lambda>n. Inr True), ad_generate = (\<lambda>n rq pf.
     if n \<le> 1 then Inl (ProviderFailure RATE_LIMIT ''busy'')
     else Inr \<lparr>pg_content = Some ''hello'', pg_structured_data = None, pg_input_tokens = None,
       pg_output_tokens = None, pg_total_tokens = None, pg_estimated_cost = None,
       pg_cost_source = model_cost_source.UNKNOWN, pg_latency_ms = None, pg_finish_reason = None, pg_metadata = []\<rparr>)\<rparr>"

section \<open>Properties\<close>

text \<open>C34. Executions are bounded and traced: every execution stores at least one attempt and at most as
  many as there are stored profiles, and at most \<open>max_attempts\<close>; the stored rows are appended, the
  last one is the returned response, every earlier one is a failure with a retryable code that is
  not a policy block, and a second attempt happens only where fallback is allowed.\<close>

theorem execute_is_bounded:
  "\<exists>xs. model_executions (snd (execute_with_fallback ad rq a s)) = model_executions s @ xs \<and> xs \<noteq> []
     \<and> length xs \<le> max 1 (length (model_profiles s))
     \<and> (\<forall>m. rq_max_attempts rq = Some m \<longrightarrow> 0 < m \<longrightarrow> length xs \<le> nat m)
     \<and> (1 < length xs \<longrightarrow> rq_fallback_allowed rq)
     \<and> row_of rq (fst (execute_with_fallback ad rq a s)) (last xs) \<and> list_all falls_back (butlast xs)"
  by (rule execute_traceE [of ad rq a s]) blast

theorem execute_is_bounded_witness:
  "\<exists>xs. model_executions (snd (execute_with_fallback (\<lambda>i. Some ex_adapter)
         ((ex_request PUBLIC)\<lparr>rq_max_attempts := Some 1\<rparr>) ''SYSTEM''
         (ex_gateway [ex_profile ''A'' INTERNAL 5, ex_profile ''B'' PUBLIC 9]))) = xs \<and> length xs = 1"
proof -
  let ?rq = "(ex_request PUBLIC)\<lparr>rq_max_attempts := Some 1\<rparr>"
  let ?s = "ex_gateway [ex_profile ''A'' INTERNAL 5, ex_profile ''B'' PUBLIC 9]"
  have "model_executions ?s = []" and "rq_max_attempts ?rq = Some 1"
    by (simp_all add: ex_gateway_def empty_db_def ex_request_def)
  with execute_is_bounded [of "\<lambda>i. Some ex_adapter" ?rq "''SYSTEM''" ?s] show ?thesis
    by (auto simp: Suc_le_eq le_Suc_eq)
qed

lemma executed_permitted:
  assumes "x \<in> set (model_executions (snd (execute_with_fallback ad rq a s)))"
    and "x \<notin> set (model_executions s)" and "me_model_profile_id x = Some p"
  shows "\<exists>row \<in> set (model_profiles s). \<exists>prow \<in> set (model_providers s). mf_id row = p
    \<and> mp_id prow = mf_provider_id row \<and> permitted rq (provider_from_row prow) (profile_from_row row)
    \<and> privacy_rank (me_privacy_class x) \<le> privacy_rank (mf_privacy_class row)"
proof -
  obtain xs where xs: "model_executions (snd (execute_with_fallback ad rq a s)) = model_executions s @ xs"
    "\<forall>x \<in> set xs. me_privacy_class x = rq_privacy_class rq
       \<and> (\<forall>p. me_model_profile_id x = Some p \<longrightarrow> decided rq s p)"
    by (rule execute_traceE)
  from assms xs have x: "decided rq s p" "me_privacy_class x = rq_privacy_class rq" by auto
  from x(1) route_ids [of p rq "load_providers s" "load_profiles s"] obtain pf pv where
    pf: "pf \<in> set (load_profiles s)" "pf_id pf = Some p"
      "provider_by_id (load_providers s) (pf_provider_id pf) = Some pv" "permitted rq pv pf"
    by (auto simp: decided_def route_request_def)
  from pf(1) obtain row where row: "row \<in> set (model_profiles s)" "pf = profile_from_row row"
    by (auto simp: load_profiles_def)
  from find_Some_mem [OF pf(3) [unfolded provider_by_id_def]] obtain prow where
    prow: "prow \<in> set (model_providers s)" "pv = provider_from_row prow" "pv_id pv = Some (pf_provider_id pf)"
    by (auto simp: load_providers_def)
  have "mf_id row = p" "mp_id prow = mf_provider_id row"
    using pf(2) row(2) prow(2,3) by (simp_all add: profile_from_row_def provider_from_row_def)
  moreover have "privacy_rank (me_privacy_class x) \<le> privacy_rank (mf_privacy_class row)"
    using pf(4) row(2) x(2) by (simp add: permitted_def profile_from_row_def)
  ultimately show ?thesis
    using row prow pf(4) by blast
qed

text \<open>C33. No request reaches a model its policies exclude: each stored attempt that names a profile
  names a stored one which, with a stored ACTIVE provider, meets every policy of the request, its
  privacy class among them.\<close>

theorem execute_uses_permitted_models:
  assumes "x \<in> set (model_executions (snd (execute_with_fallback ad rq a s)))"
    and "x \<notin> set (model_executions s)" and "me_model_profile_id x = Some p"
  shows "\<exists>row \<in> set (model_profiles s). \<exists>prow \<in> set (model_providers s). mf_id row = p
    \<and> mp_id prow = mf_provider_id row \<and> permitted rq (provider_from_row prow) (profile_from_row row)
    \<and> privacy_rank (me_privacy_class x) \<le> privacy_rank (mf_privacy_class row)"
  using assms by (rule executed_permitted)

lemma ex_gateway_models:
  "load_providers (ex_gateway ps) = [ex_provider ''V'']" "get_provider ''V'' (ex_gateway ps) = Some ex_provider_row"
  "model_executions (ex_gateway ps) = []"
  by (simp_all add: load_providers_def ex_gateway_def ex_provider_row_def provider_from_row_def
      provider_row_of_def ex_provider_def sanitize_object_def get_provider_def empty_db_def)

theorem execute_uses_permitted_models_witness:
  "\<exists>x p. x \<in> set (model_executions (snd (execute_with_fallback (\<lambda>i. Some ex_adapter) (ex_request INTERNAL) ''SYSTEM''
          (ex_gateway [ex_profile ''A'' INTERNAL 5, ex_profile ''B'' PUBLIC 9]))))
     \<and> me_model_profile_id x = Some p \<and> (\<exists>row \<in> set (model_profiles (ex_gateway [ex_profile ''A'' INTERNAL 5, ex_profile ''B'' PUBLIC 9])).
         mf_id row = p \<and> privacy_rank (me_privacy_class x) \<le> privacy_rank (mf_privacy_class row))"
proof -
  let ?s = "ex_gateway [ex_profile ''A'' INTERNAL 5, ex_profile ''B'' PUBLIC 9]"
  let ?e = "execute_with_fallback (\<lambda>i. Some ex_adapter) (ex_request INTERNAL) ''SYSTEM'' ?s"
  have profiles: "load_profiles ?s = [ex_profile ''A'' INTERNAL 5, ex_profile ''B'' PUBLIC 9]"
    by (simp add: load_profiles_def ex_gateway_def profile_from_row_def profile_row_of_def ex_profile_def
        sanitize_object_def)
  let ?rd = "route_request (ex_request INTERNAL) ?s"
  have route: "rd_error_code ?rd = None" "rd_selected_profile_id ?rd = Some ''A''"
    "rd_fallback_profile_ids ?rd = []"
    unfolding route_request_def profiles ex_gateway_models(1)
    by (simp_all add: route_def Let_def order_eligible_def ex_eligible present_def)
  have ids: "attempt_ids (ex_request INTERNAL) ''A'' [] = [''A'']"
    by (simp add: attempt_ids_def)
  let ?row = "profile_row_of ''A'' 0 0 (ex_profile ''A'' INTERNAL 5)"
  have row: "get_profile ''A'' ?s = Some ?row"
    by (simp add: get_profile_def ex_gateway_def profile_row_of_def)
  have pf: "pf_provider_id (profile_from_row ?row) = ''V''" "pf_id (profile_from_row ?row) = Some ''A''"
    by (simp_all add: profile_from_row_def profile_row_of_def)
  let ?u = "audit_request ''MODEL_ROUTED'' ''SYSTEM'' (ex_request INTERNAL) ''route_model_request'' ''SUCCESS''
      [(''request_id'', JStr (rq_request_id (ex_request INTERNAL))), (''selected_profile_id'', JStr ''A''),
       (''fallback_profile_ids'', jtexts []), (''reasons'', jtexts (rd_reasons ?rd))]
      (record_request_created (ex_request INTERNAL) ''SYSTEM'' ?s)"
  have get: "get_profile i ?u = get_profile i ?s" "get_provider i ?u = get_provider i ?s" for i
    by (simp_all add: get_profile_def get_provider_def record_request_created_def)
  obtain rs t where att: "attempt_execution ex_adapter (ex_request INTERNAL) ?rd (profile_from_row ?row) 1 ''SYSTEM'' ?u = (rs, t)"
    by fastforce
  have "run_attempts (\<lambda>i. Some ex_adapter) (ex_request INTERNAL) ?rd ''SYSTEM'' 1 [''A''] ?u = (Some rs, t)"
    using att by (simp add: get row pf ex_gateway_models Let_def)
  then have e: "?e = (rs, t)"
    by (simp add: execute_with_fallback_def Let_def route ids)
  from attempt_execution_effect [OF att] obtain x where x: "attempted ?u t [x]" "row_of (ex_request INTERNAL) rs x"
    "rs_model_profile_id rs = Some ''A''"
    using pf by auto
  then have "x \<in> set (model_executions (snd ?e))" "me_model_profile_id x = Some ''A''"
    using e by (auto simp: attempted_def row_of_def)
  moreover from this have "\<exists>row \<in> set (model_profiles ?s). \<exists>prow \<in> set (model_providers ?s). mf_id row = ''A''
      \<and> mp_id prow = mf_provider_id row
      \<and> permitted (ex_request INTERNAL) (provider_from_row prow) (profile_from_row row)
      \<and> privacy_rank (me_privacy_class x) \<le> privacy_rank (mf_privacy_class row)"
    by (intro execute_uses_permitted_models) (auto simp: ex_gateway_models)
  ultimately show ?thesis by blast
qed

text \<open>Secrets are not stored: what a registration stores as metadata has no key, at any depth, that
  contains a secret marker in any letter case, and metadata without such keys is stored as it is.\<close>

theorem registered_metadata_has_no_secrets:
  "\<not> (\<exists>k \<in> json_keys (sanitize_metadata v). is_secret_key k)
   \<and> sanitize_metadata (sanitize_metadata v) = sanitize_metadata v
   \<and> (\<not> (\<exists>k \<in> json_keys v. is_secret_key k) \<longrightarrow> sanitize_metadata v = v)"
  using sanitize_keys [of _ v] sanitize_clean [of "sanitize_metadata v"] sanitize_clean [of v] by blast

theorem registered_metadata_has_no_secrets_witness:
  "sanitize_metadata (JObj [(''url'', JStr ''u''), (''options'', JObj [(''limit'', JInt 1)])])
     = JObj [(''url'', JStr ''u''), (''options'', JObj [(''limit'', JInt 1)])]
   \<and> \<not> (\<exists>k \<in> json_keys (sanitize_metadata (JObj [(''API_Key'', JStr ''x'')])). is_secret_key k)"
proof -
  let ?v = "JObj [(''url'', JStr ''u''), (''options'', JObj [(''limit'', JInt 1)])]"
  have "\<not> (\<exists>k \<in> json_keys ?v. is_secret_key k)"
    by (simp add: is_secret_key_def secret_key_markers_def py_lower_def lower_char_def)
  then show ?thesis
    using registered_metadata_has_no_secrets [of ?v]
      registered_metadata_has_no_secrets [of "JObj [(''API_Key'', JStr ''x'')]"] by blast
qed

end
