(* ===== verification/Texts.thy ===== *)
theory Texts
  imports Prelude
begin

text \<open>
  Operations of Python's strings and paths that the text-handling components share:
  splitting, stripping, line splitting, the length in UTF-8 and its truncation, and
  \<open>PurePosixPath\<close> as its parts, name and suffix. Characters are code points below 256.
\<close>

section \<open>Splitting and stripping\<close>

text \<open>\<open>s.split(c)\<close>, empty pieces included.\<close>

fun split_on :: "char \<Rightarrow> string \<Rightarrow> string list" where
  "split_on c [] = [[]]"
| "split_on c (x # xs) = (if x = c then [] # split_on c xs
     else (x # hd (split_on c xs)) # tl (split_on c xs))"

lemma split_on_not_Nil [simp]: "split_on c s \<noteq> []"
  by (cases s) auto

lemma split_on_Cons [simp]: "hd (split_on c s) # tl (split_on c s) = split_on c s"
  by simp

text \<open>Joining the pieces gives the text back, and no piece holds the separator.\<close>

lemma join_with_Cons: "xs \<noteq> [] \<Longrightarrow> join_with sep (x # xs) = x @ sep @ join_with sep xs"
  by (cases xs) auto

lemma join_with_hd: "join_with sep ((a # x) # xs) = a # join_with sep (x # xs)"
  by (cases xs) auto

lemma join_split [simp]: "join_with [c] (split_on c s) = s"
  by (induction s) (auto simp: join_with_Cons join_with_hd)

lemma split_on_no_sep: "p \<in> set (split_on c s) \<Longrightarrow> c \<notin> set p"
proof (induction s arbitrary: p)
  case (Cons x xs)
  have "hd (split_on c xs) \<in> set (split_on c xs)" by simp
  with Cons show ?case
    by (auto split: if_splits dest: list.set_sel(2) [rotated])
qed simp

lemma tl_mem: "q \<in> set (tl xs) \<Longrightarrow> q \<in> set xs"
  by (cases xs) auto

lemma split_on_chars: "p \<in> set (split_on c s) \<Longrightarrow> set p \<subseteq> set s"
proof (induction s arbitrary: p)
  case (Cons x xs)
  have "set (hd (split_on c xs)) \<subseteq> set xs"
    by (rule Cons.IH) simp
  moreover have "set q \<subseteq> set xs" if "q \<in> set (tl (split_on c xs))" for q
    using Cons.IH tl_mem that by fast
  moreover have "set q \<subseteq> set xs" if "q \<in> set (split_on c xs)" for q
    using Cons.IH that by fast
  ultimately show ?case
    using Cons.prems by (auto split: if_splits; blast)
qed simp

text \<open>\<open>s.strip(chars)\<close>.\<close>

definition strip_chars :: "char set \<Rightarrow> string \<Rightarrow> string" where
  "strip_chars cs s = rev (dropWhile (\<lambda>c. c \<in> cs) (rev (dropWhile (\<lambda>c. c \<in> cs) s)))"

lemma strip_chars_subset: "set (strip_chars cs s) \<subseteq> set s"
  by (auto simp: strip_chars_def dest!: set_dropWhileD)

definition py_lstrip :: "string \<Rightarrow> string" where
  "py_lstrip s = dropWhile is_space s"

definition ends_with :: "string \<Rightarrow> string \<Rightarrow> bool" where
  "ends_with p s = starts_with (rev p) (rev s)"

text \<open>\<open>s.splitlines()\<close>: a line ends at a line boundary, \<open>\r\n\<close> being one of them, and the
  empty rest after the last boundary is no line.\<close>

definition is_line_end :: "char \<Rightarrow> bool" where
  "is_line_end c = (let n = (of_char c :: nat) in 10 \<le> n \<and> n \<le> 13 \<or> 28 \<le> n \<and> n \<le> 30 \<or> n = 133)"

fun splitlines_from :: "string \<Rightarrow> string \<Rightarrow> string list" where
  "splitlines_from acc [] = (if acc = [] then [] else [rev acc])"
| "splitlines_from acc (c # d # cs) =
     (if c = CHR 0x0D \<and> d = CHR 0x0A then rev acc # splitlines_from [] cs
      else if is_line_end c then rev acc # splitlines_from [] (d # cs)
      else splitlines_from (c # acc) (d # cs))"
| "splitlines_from acc [c] = (if is_line_end c then [rev acc] else [rev (c # acc)])"

definition splitlines :: "string \<Rightarrow> string list" where
  "splitlines s = splitlines_from [] s"

section \<open>Case folding\<close>

lemma lower_char_idem [simp]: "lower_char (lower_char c) = lower_char c"
  by (auto simp: lower_char_def Let_def)

lemma py_lower_idem [simp]: "py_lower (py_lower s) = py_lower s"
  by (simp add: py_lower_def)

lemma py_lower_Nil_iff [simp]: "py_lower s = [] \<longleftrightarrow> s = []"
  by (simp add: py_lower_def)

lemma lower_fixed: "list_all (\<lambda>c. lower_char c = c) s \<Longrightarrow> py_lower s = s"
  by (induction s) (auto simp: py_lower_def)

lemma py_lower_fixed_iff: "py_lower s = s \<longleftrightarrow> list_all (\<lambda>c. lower_char c = c) s"
  by (induction s) (auto simp: py_lower_def)

section \<open>UTF-8\<close>

text \<open>\<open>len(s.encode("utf-8"))\<close>, and \<open>s.encode("utf-8")[:n].decode("utf-8", errors="ignore")\<close>:
  the cut drops a character it splits.\<close>

definition utf8_width :: "char \<Rightarrow> nat" where
  "utf8_width c = (if (of_char c :: nat) < 128 then 1 else 2)"

definition utf8_bytes :: "string \<Rightarrow> string" where
  "utf8_bytes s = concat (map (\<lambda>c. let n = (of_char c :: nat) in
     if n < 128 then [c] else [char_of (192 + n div 64), char_of (128 + n mod 64)]) s)"

definition utf8_len :: "string \<Rightarrow> nat" where
  "utf8_len s = sum_list (map utf8_width s)"

fun utf8_take :: "nat \<Rightarrow> string \<Rightarrow> string" where
  "utf8_take n [] = []"
| "utf8_take n (c # cs) = (if utf8_width c \<le> n then c # utf8_take (n - utf8_width c) cs else [])"

text \<open>A negative bound of a slice counts from the end.\<close>

definition slice_bound :: "int \<Rightarrow> nat \<Rightarrow> nat" where
  "slice_bound b len = (if b < 0 then nat (int len + b) else nat b)"

definition utf8_slice :: "int \<Rightarrow> string \<Rightarrow> string" where
  "utf8_slice b s = utf8_take (slice_bound b (utf8_len s)) s"

lemma utf8_len_simps [simp]: "utf8_len [] = 0" "utf8_len (c # cs) = utf8_width c + utf8_len cs"
  by (simp_all add: utf8_len_def)

lemma length_utf8_bytes: "length (utf8_bytes s) = utf8_len s"
  by (induction s) (auto simp: utf8_bytes_def utf8_width_def Let_def)

lemma utf8_take_len: "utf8_len (utf8_take n s) \<le> n"
  by (induction n s rule: utf8_take.induct) auto

lemma utf8_take_all: "utf8_len s \<le> n \<Longrightarrow> utf8_take n s = s"
  by (induction n s rule: utf8_take.induct) auto

section \<open>Substrings\<close>

lemma starts_with_iff: "starts_with p s \<longleftrightarrow> (\<exists>t. s = p @ t)"
  by (induction p s rule: starts_with.induct) auto

lemma contains_iff: "contains p s \<longleftrightarrow> (\<exists>a b. s = a @ p @ b)"
proof (induction s)
  case (Cons c cs)
  show ?case
  proof
    assume "contains p (c # cs)"
    then consider t where "c # cs = p @ t" | a b where "cs = a @ p @ b"
      using Cons.IH by (auto simp: starts_with_iff)
    then show "\<exists>a b. c # cs = a @ p @ b"
    proof cases
      case 1
      then have "c # cs = [] @ p @ t" by simp
      then show ?thesis by blast
    next
      case 2
      then have "c # cs = (c # a) @ p @ b" by simp
      then show ?thesis by blast
    qed
  next
    assume "\<exists>a b. c # cs = a @ p @ b"
    then obtain a b where ab: "c # cs = a @ p @ b" by blast
    show "contains p (c # cs)"
    proof (cases a)
      case Nil
      with ab have "starts_with p (c # cs)" by (auto simp: starts_with_iff)
      then show ?thesis by simp
    next
      case (Cons x xs)
      with ab have "cs = xs @ p @ b" by simp
      with Cons.IH show ?thesis by auto
    qed
  qed
qed auto

lemma contains_inside: "contains p q \<Longrightarrow> contains p (a @ q @ b)"
proof -
  assume "contains p q"
  then obtain x y where "q = x @ p @ y" by (auto simp: contains_iff)
  then have "a @ q @ b = (a @ x) @ p @ (y @ b)" by simp
  then show ?thesis unfolding contains_iff by blast
qed

lemma contains_trans: "contains p q \<Longrightarrow> contains q s \<Longrightarrow> contains p s"
  unfolding contains_iff [of q s] by (auto intro: contains_inside)

lemma contains_refl [simp]: "contains s s"
  by (metis append_Nil append_Nil2 contains_iff)

lemma contains_lower: "contains p q \<Longrightarrow> contains (py_lower p) (py_lower q)"
  by (auto simp: contains_iff py_lower_def) metis

lemma contains_concat: "p \<in> set ps \<Longrightarrow> contains p (concat ps)"
  by (auto simp: contains_iff dest!: split_list) metis

lemma contains_join: "p \<in> set ps \<Longrightarrow> contains p (join_with sep ps)"
proof (induction sep ps rule: join_with.induct)
  case (3 sep x y xs)
  show ?case
  proof (cases "p = x")
    case True
    then show ?thesis
      using contains_inside [of p p "[]"] by simp
  next
    case False
    with 3 have "contains p (join_with sep (y # xs))" by simp
    from contains_inside [OF this, of "x @ sep" "[]"] show ?thesis by simp
  qed
qed auto

lemma contains_split: "p \<in> set (split_on c s) \<Longrightarrow> contains p s"
  using contains_join [of p "split_on c s" "[c]"] by simp

lemma contains_strip: "contains (strip_chars cs s) s"
proof -
  let ?t = "dropWhile (\<lambda>c. c \<in> cs) s"
  have "?t = strip_chars cs s @ rev (takeWhile (\<lambda>c. c \<in> cs) (rev ?t))"
    unfolding strip_chars_def by (metis rev_append rev_rev_ident takeWhile_dropWhile_id)
  then have "s = takeWhile (\<lambda>c. c \<in> cs) s @ strip_chars cs s @ rev (takeWhile (\<lambda>c. c \<in> cs) (rev ?t))"
    by (metis takeWhile_dropWhile_id)
  then show ?thesis unfolding contains_iff by blast
qed

section \<open>Paths\<close>

text \<open>\<open>PurePosixPath(p)\<close>: the root, which is \<open>//\<close> for exactly two leading slashes, and the
  components that are neither empty nor a dot.\<close>

definition path_root :: "string \<Rightarrow> string list" where
  "path_root p = (if starts_with ''//'' p \<and> \<not> starts_with ''///'' p then [''//'']
     else if starts_with ''/'' p then [''/''] else [])"

definition path_tail :: "string \<Rightarrow> string list" where
  "path_tail p = filter (\<lambda>x. x \<noteq> [] \<and> x \<noteq> ''.'') (split_on (CHR ''/'') p)"

definition path_parts :: "string \<Rightarrow> string list" where
  "path_parts p = path_root p @ path_tail p"

definition path_name :: "string \<Rightarrow> string" where
  "path_name p = (if path_tail p = [] then [] else last (path_tail p))"

text \<open>The part of the name from its last dot, when the dot is neither its first nor its last
  character.\<close>

definition path_suffix :: "string \<Rightarrow> string" where
  "path_suffix p = (let n = path_name p; ext = takeWhile (\<lambda>c. c \<noteq> CHR ''.'') (rev n)
     in if length ext + 1 < length n \<and> ext \<noteq> [] then CHR ''.'' # rev ext else [])"

lemma path_name_no_slash: "CHR ''/'' \<notin> set (path_name p)"
proof (cases "path_tail p = []")
  case False
  then have "last (path_tail p) \<in> set (split_on (CHR ''/'') p)"
    using last_in_set [OF False] by (simp add: path_tail_def)
  with False show ?thesis by (simp add: path_name_def split_on_no_sep)
qed (simp add: path_name_def)

end
