(* ===== verification/Query.thy ===== *)
theory Query
  imports Texts
begin

text \<open>
  Query terms of \<^verbatim>\<open>lucius/retrieval/query.py\<close>: the tokens of a text, which the ranking of
  sources and of memories compares, and the terms of a task.
\<close>

section \<open>Tokens\<close>

definition stop_words :: "string list" where
  "stop_words = [''a'', ''an'', ''and'', ''are'', ''as'', ''at'', ''be'', ''by'', ''for'', ''from'', ''in'',
     ''into'', ''is'', ''it'', ''of'', ''on'', ''or'', ''the'', ''to'', ''while'', ''with'']"

definition is_upper :: "char \<Rightarrow> bool" where
  "is_upper c = (let n = (of_char c :: nat) in 65 \<le> n \<and> n \<le> 90)"

definition is_alnum :: "char \<Rightarrow> bool" where
  "is_alnum c = (let n = (of_char c :: nat) in
     48 \<le> n \<and> n \<le> 57 \<or> 65 \<le> n \<and> n \<le> 90 \<or> 97 \<le> n \<and> n \<le> 122)"

definition is_token_char :: "char \<Rightarrow> bool" where
  "is_token_char c = (is_alnum c \<or> c \<in> {CHR ''_'', CHR ''.'', CHR ''/'', CHR ''-''})"

text \<open>\<open>TOKEN_RE.findall(text)\<close>: the leftmost longest matches of
  \<open>[A-Za-z0-9][A-Za-z0-9_./-]*\<close>.\<close>

function find_tokens :: "string \<Rightarrow> string list" where
  "find_tokens [] = []"
| "find_tokens (c # cs) = (if is_alnum c
     then (c # takeWhile is_token_char cs) # find_tokens (dropWhile is_token_char cs)
     else find_tokens cs)"
  by pat_completeness auto
termination
  by (relation "measure length") (auto simp: less_Suc_eq_le length_dropWhile_le)

text \<open>\<open>CAMEL_RE.split(raw)\<close>: a cut before every capital but a leading one.\<close>

fun camel_split :: "string \<Rightarrow> string list" where
  "camel_split [] = [[]]"
| "camel_split [c] = [[c]]"
| "camel_split (c # d # cs) = (if is_upper d then [c] # camel_split (d # cs)
     else (c # hd (camel_split (d # cs))) # tl (camel_split (d # cs)))"

definition token_strip_chars :: "char set" where
  "token_strip_chars = set ''.,:;()[]{}'' \<union> {CHR 0x27, CHR 0x22, CHR 0x60}"

definition normalized_token :: "string \<Rightarrow> string" where
  "normalized_token raw = py_lower (strip_chars token_strip_chars raw)"

definition kept_parts :: "string list \<Rightarrow> string list" where
  "kept_parts = filter (\<lambda>p. p \<noteq> [] \<and> p \<notin> set stop_words)"

definition raw_tokens :: "string \<Rightarrow> string list" where
  "raw_tokens raw = (let n = normalized_token raw in
     if n = [] \<or> n \<in> set stop_words then []
     else n
       # (if CHR ''_'' \<in> set n then kept_parts (split_on (CHR ''_'') n) else [])
       @ (if CHR ''/'' \<in> set n then kept_parts (split_on (CHR ''/'') n) else [])
       @ (if CHR ''.'' \<in> set n \<and> \<not> starts_with ''.'' n then kept_parts (split_on (CHR ''.'') n) else [])
       @ filter (\<lambda>p. p \<notin> set stop_words)
           (map py_lower (filter (\<lambda>p. 1 < length p) (camel_split raw))))"

definition tokenize_terms :: "string \<Rightarrow> string list" where
  "tokenize_terms t = dict_fromkeys (concat (map raw_tokens (find_tokens t)))"

text \<open>The pieces of a task are its title, its objective, the contract's objective, the statements
  of the acceptance criteria and the explicit terms, in this order.\<close>

definition derive_query_terms ::
  "string \<Rightarrow> string \<Rightarrow> string \<Rightarrow> string list \<Rightarrow> string list option \<Rightarrow> string list" where
  "derive_query_terms task_title task_objective contract_objective statements explicit_terms =
     (let pieces = [task_title, task_objective, contract_objective] @ statements
        @ (case explicit_terms of None \<Rightarrow> [] | Some ts \<Rightarrow> ts)
      in append_new [] (concat (map tokenize_terms pieces)))"

section \<open>What a token is\<close>

lemma camel_split_not_Nil [simp]: "camel_split s \<noteq> []"
  by (induction s rule: camel_split.induct) auto

lemma camel_split_chars: "p \<in> set (camel_split s) \<Longrightarrow> set p \<subseteq> set s"
proof (induction s arbitrary: p rule: camel_split.induct)
  case (3 c d cs)
  let ?r = "camel_split (d # cs)"
  have parts: "set q \<subseteq> set (d # cs)" if "q \<in> set ?r" for q
    using "3.IH" that by (cases "is_upper d") blast+
  have "set (hd ?r) \<subseteq> set (d # cs)"
    by (rule parts) simp
  moreover have "set q \<subseteq> set (d # cs)" if "q \<in> set (tl ?r)" for q
    using parts [OF tl_mem [OF that]] .
  ultimately show ?case
    using "3.prems" parts [of p] by (cases "is_upper d") fastforce+
qed auto

lemma concat_hd_tl: "xs \<noteq> [] \<Longrightarrow> hd xs @ concat (tl xs) = concat xs"
  by (cases xs) auto

lemma camel_split_concat: "concat (camel_split s) = s"
  by (induction s rule: camel_split.induct) (auto simp: concat_hd_tl)

lemma find_tokens_chars: "r \<in> set (find_tokens s) \<Longrightarrow> r \<noteq> [] \<and> (\<forall>c \<in> set r. is_token_char c)"
proof (induction s rule: find_tokens.induct)
  case (2 c cs)
  show ?case
  proof (cases "is_alnum c")
    case True
    then have "r = c # takeWhile is_token_char cs \<or> r \<in> set (find_tokens (dropWhile is_token_char cs))"
      using 2(3) by simp
    moreover have "\<forall>x \<in> set (c # takeWhile is_token_char cs). is_token_char x"
      using True set_takeWhileD [of _ is_token_char cs] by (simp add: is_token_char_def)
    ultimately show ?thesis
      using 2(1) [OF True] by blast
  next
    case False
    with 2(3) have "r \<in> set (find_tokens cs)" by simp
    with 2(2) False show ?thesis by blast
  qed
qed simp

lemma contains_suffix: "contains r b \<Longrightarrow> contains r (a @ b)"
  using contains_inside [of r b a "[]"] by simp

lemma find_tokens_contains: "r \<in> set (find_tokens s) \<Longrightarrow> contains r s"
proof (induction s rule: find_tokens.induct)
  case (2 c cs)
  have split: "c # cs = (c # takeWhile is_token_char cs) @ dropWhile is_token_char cs"
    by simp
  show ?case
  proof (cases "is_alnum c")
    case True
    have "contains (c # takeWhile is_token_char cs) (c # cs)"
      unfolding contains_iff using split by (metis append_Nil)
    moreover have "contains r (c # cs)" if "contains r (dropWhile is_token_char cs)"
      by (subst split, rule contains_suffix, rule that)
    ultimately show ?thesis
      using 2(1) 2(3) True by auto
  next
    case False
    with 2(2,3) show ?thesis by auto
  qed
qed simp

lemma lower_token_char: "is_token_char c \<Longrightarrow> is_token_char (lower_char c)"
  by (auto simp: is_token_char_def is_alnum_def lower_char_def Let_def)

lemma lower_char_no_upper: "\<not> is_upper (lower_char c)"
  by (auto simp: is_upper_def lower_char_def Let_def)

definition token_ok :: "string \<Rightarrow> bool" where
  "token_ok t \<longleftrightarrow> t \<noteq> [] \<and> t \<notin> set stop_words
     \<and> list_all (\<lambda>c. is_token_char c \<and> \<not> is_upper c) t"

lemma token_ok_lower: "token_ok t \<Longrightarrow> py_lower t = t"
  by (auto simp: token_ok_def py_lower_fixed_iff list_all_iff is_upper_def lower_char_def Let_def)

lemma lower_chars_ok:
  assumes "\<forall>c \<in> set p. is_token_char c"
  shows "list_all (\<lambda>c. is_token_char c \<and> \<not> is_upper c) (py_lower p)"
  using assms lower_token_char lower_char_no_upper by (auto simp: list_all_iff py_lower_def)

lemma raw_tokens_ok:
  assumes "\<forall>c \<in> set r. is_token_char c" and "t \<in> set (raw_tokens r)"
  shows "token_ok t"
proof -
  let ?n = "normalized_token r"
  have n: "list_all (\<lambda>c. is_token_char c \<and> \<not> is_upper c) ?n"
    unfolding normalized_token_def
    by (rule lower_chars_ok) (use assms(1) strip_chars_subset in blast)
  have part: "token_ok p" if p: "p \<in> set (kept_parts (split_on c ?n))" for c p
  proof -
    have "set p \<subseteq> set ?n"
      using p by (auto simp: kept_parts_def dest: split_on_chars)
    with p n show ?thesis
      by (auto simp: kept_parts_def token_ok_def list_all_iff)
  qed
  have camel: "token_ok (py_lower p)"
    if "p \<in> set (camel_split r)" "1 < length p" "py_lower p \<notin> set stop_words" for p
  proof -
    have "list_all (\<lambda>c. is_token_char c \<and> \<not> is_upper c) (py_lower p)"
      by (rule lower_chars_ok) (use camel_split_chars [OF that(1)] assms(1) in blast)
    with that show ?thesis by (auto simp: token_ok_def)
  qed
  have "t = ?n \<and> ?n \<noteq> [] \<and> ?n \<notin> set stop_words \<or> (\<exists>c. t \<in> set (kept_parts (split_on c ?n)))
      \<or> (\<exists>p. t = py_lower p \<and> p \<in> set (camel_split r) \<and> 1 < length p \<and> py_lower p \<notin> set stop_words)"
    using assms(2) by (auto simp: raw_tokens_def Let_def split: if_splits)
  then show ?thesis
    using n part camel by (auto simp: token_ok_def)
qed

lemma tokenize_ok:
  assumes "t \<in> set (tokenize_terms s)"
  shows "token_ok t"
proof -
  obtain r where "r \<in> set (find_tokens s)" "t \<in> set (raw_tokens r)"
    using assms by (auto simp: tokenize_terms_def)
  then show ?thesis
    using find_tokens_chars raw_tokens_ok by blast
qed

lemma distinct_tokenize [simp]: "distinct (tokenize_terms s)"
  by (simp add: tokenize_terms_def)

lemma set_derive_query_terms:
  "set (derive_query_terms a b c ss es) = (\<Union>x \<in> {a, b, c} \<union> set ss \<union> (case es of None \<Rightarrow> {} | Some ts \<Rightarrow> set ts).
     set (tokenize_terms x))"
  by (auto simp: derive_query_terms_def Let_def split: option.splits)

lemma raw_tokens_contained:
  assumes "t \<in> set (raw_tokens r)"
  shows "contains t (py_lower r)"
proof -
  let ?n = "normalized_token r"
  have n: "contains ?n (py_lower r)"
    unfolding normalized_token_def by (rule contains_lower) (rule contains_strip)
  have part: "contains p (py_lower r)" if "p \<in> set (kept_parts (split_on c ?n))" for c p
    using contains_trans [OF contains_split n, of p c] that by (simp add: kept_parts_def)
  have camel: "contains (py_lower p) (py_lower r)" if "p \<in> set (camel_split r)" for p
    using contains_lower [OF contains_concat [OF that]] by (simp add: camel_split_concat)
  show ?thesis
    using assms n part camel by (auto simp: raw_tokens_def Let_def split: if_splits)
qed

text \<open>Tokens: the tokens of a text are different from one another; each is non-empty, in lower
  case, no stop word and a part of the text; and every run of token characters of the text
  is a token itself unless stripping leaves nothing or a stop word.\<close>

theorem tokenize_terms_exact:
  "distinct (tokenize_terms s)
   \<and> list_all (\<lambda>t. token_ok t \<and> py_lower t = t \<and> contains t (py_lower s)) (tokenize_terms s)
   \<and> list_all (\<lambda>r. normalized_token r \<in> insert [] (set stop_words) \<union> set (tokenize_terms s)) (find_tokens s)"
proof (intro conjI)
  show "list_all (\<lambda>t. token_ok t \<and> py_lower t = t \<and> contains t (py_lower s)) (tokenize_terms s)"
    unfolding list_all_iff
  proof
    fix t assume t: "t \<in> set (tokenize_terms s)"
    then obtain r where r: "r \<in> set (find_tokens s)" "t \<in> set (raw_tokens r)"
      by (auto simp: tokenize_terms_def)
    have "contains t (py_lower s)"
      using contains_trans [OF raw_tokens_contained [OF r(2)] contains_lower [OF find_tokens_contains [OF r(1)]]] .
    with tokenize_ok [OF t] show "token_ok t \<and> py_lower t = t \<and> contains t (py_lower s)"
      by (simp add: token_ok_lower)
  qed
  show "list_all (\<lambda>r. normalized_token r \<in> insert [] (set stop_words) \<union> set (tokenize_terms s)) (find_tokens s)"
    by (fastforce simp: list_all_iff tokenize_terms_def raw_tokens_def Let_def)
qed simp

text \<open>The cut at capitals works on the raw run, from which no trailing dot was stripped: the last
  word of a sentence is a token a second time with its dot.\<close>

lemma sentence_end_tokens:
  "tokenize_terms ''Fix it.'' = [''fix'']" "tokenize_terms ''Fix the Cache.'' = [''fix'', ''cache'', ''cache.'']"
  by code_simp+

end
