(* ===== verification/Inspection.thy ===== *)
theory Inspection
  imports Domain Texts
begin

text \<open>
  The classification of paths and of technologies of \<^verbatim>\<open>lucius/repositories/inspection.py\<close>.
  Parsing of TOML and JSON texts is a parameter (\<open>None\<close> where the parser
  raises or gives no object), as is the
  reading of a file. The evidence of a technology is the sorted list of its paths.
\<close>

section \<open>Excluded and sensitive paths\<close>

definition default_exclusions :: "string list" where
  "default_exclusions = [''.git'', ''node_modules'', ''.venv'', ''venv'', ''dist'', ''build'', ''coverage'',
     ''__pycache__'', ''.cache'', ''vendor'']"

definition sensitive_exact :: "string list" where
  "sensitive_exact = [''.env'', ''credentials'']"

text \<open>The four patterns: \<open>.\<close> matches no newline, so \<open>pattern.match\<close> looks at the first line.
  The first one is case sensitive and asks for a character after the dot.\<close>

definition first_line :: "string \<Rightarrow> string" where
  "first_line s = takeWhile (\<lambda>c. c \<noteq> CHR 0x0A) s"

definition sensitive_patterns :: "string \<Rightarrow> bool" where
  "sensitive_patterns s = (let l = first_line s; low = py_lower l in
     starts_with ''.env.'' l \<and> 5 < length l
     \<or> contains ''privatekey'' low \<or> contains ''private_key'' low \<or> contains ''private-key'' low
     \<or> contains ''credentials'' low \<or> contains ''secret'' low)"

definition is_excluded :: "string \<Rightarrow> bool" where
  "is_excluded path = list_ex (\<lambda>p. p \<in> set default_exclusions) (path_parts path)"

definition is_sensitive_path :: "string \<Rightarrow> bool" where
  "is_sensitive_path path = (let name = path_name path in
     name \<in> set sensitive_exact \<or> sensitive_patterns name \<or> sensitive_patterns path)"

section \<open>Classification\<close>

definition classify_file_type :: "string \<Rightarrow> string" where
  "classify_file_type path = (let suffix = py_lower (path_suffix path) in
     if suffix \<in> {''.md'', ''.rst'', ''.txt''} then ''text''
     else if suffix \<in> {''.png'', ''.jpg'', ''.jpeg'', ''.gif'', ''.webp'', ''.ico'', ''.pdf''} then ''binary''
     else if suffix \<noteq> [] then (if starts_with ''.'' suffix then drop 1 suffix else suffix)
     else ''file'')"

definition language_by_suffix :: "(string \<times> string) list" where
  "language_by_suffix = [(''.py'', ''Python''), (''.js'', ''JavaScript''), (''.jsx'', ''JavaScript''),
     (''.ts'', ''TypeScript''), (''.tsx'', ''TypeScript''), (''.rs'', ''Rust''), (''.go'', ''Go''),
     (''.md'', ''Markdown''), (''.rst'', ''reStructuredText''), (''.toml'', ''TOML''), (''.json'', ''JSON''),
     (''.yml'', ''YAML''), (''.yaml'', ''YAML'')]"

definition detect_language :: "string \<Rightarrow> string option" where
  "detect_language path = (if path_name path = ''Dockerfile'' then Some ''Dockerfile''
     else map_of language_by_suffix (py_lower (path_suffix path)))"

definition classify_document :: "string \<Rightarrow> string option" where
  "classify_document path =
     (let lower_name = py_lower (path_name path); lower_path = py_lower path;
          text_suffix = py_lower (path_suffix path) \<in> {''.md'', ''.rst''}
      in if starts_with ''readme'' lower_name then Some ''README''
         else if starts_with ''changelog'' lower_name then Some ''CHANGELOG''
         else if starts_with ''contributing'' lower_name then Some ''OTHER''
         else if contains ''adr'' lower_name \<or> contains ''/adr/'' lower_path then Some ''ADR''
         else if contains ''architecture'' lower_path then Some ''ARCHITECTURE''
         else if contains ''phase'' lower_path \<and> text_suffix then Some ''PHASE_REPORT''
         else if contains ''decision'' lower_path then Some ''DECISION_REGISTER''
         else if contains ''runbook'' lower_path then Some ''RUNBOOK''
         else if starts_with ''docs/'' lower_path \<or> text_suffix then Some ''OTHER''
         else None)"

definition classify_test :: "string \<Rightarrow> string option" where
  "classify_test path =
     (let lower = py_lower path; name = py_lower (path_name path)
      in if list_ex (\<lambda>p. p \<in> {''tests'', ''test'', ''spec'', ''__tests__''}) (path_parts path) then Some ''TEST_SOURCE''
         else if contains ''.test.'' name \<or> contains ''.spec.'' name then Some ''TEST_SOURCE''
         else if name = ''pytest.ini'' \<or> name = ''pyproject.toml'' then Some ''TEST_CONFIG''
         else if contains ''jest'' name \<or> contains ''vitest'' name then Some ''TEST_CONFIG''
         else if contains ''tests/'' lower then Some ''TEST_SOURCE''
         else None)"

definition classify_config :: "string \<Rightarrow> string option" where
  "classify_config path =
     (let name = path_name path; lower = py_lower path
      in if name \<in> {''pyproject.toml'', ''package.json'', ''tsconfig.json'', ''alembic.ini'', ''Dockerfile'', ''Makefile''}
         then Some name
         else if name = ''.env.example'' then Some ''ENV_EXAMPLE''
         else if starts_with ''docker-compose'' name then Some ''CONTAINERS''
         else if starts_with ''.github/workflows/'' lower then Some ''GITHUB_WORKFLOW''
         else None)"

definition is_entrypoint :: "string \<Rightarrow> bool" where
  "is_entrypoint path = (path_name path \<in> {''main.py'', ''app.py'', ''server.py'', ''index.js'', ''index.ts'',
     ''main.ts'', ''main.js''})"

text \<open>A \<open>DocumentationRecord\<close>, \<open>TestRecord\<close> or \<open>ConfigurationRecord\<close>: a path and its kind.
  No kind is the empty string.\<close>

record path_record =
  pr_path :: string
  pr_kind :: string

definition records_from_paths :: "(string \<Rightarrow> string option) \<Rightarrow> string list \<Rightarrow> path_record list" where
  "records_from_paths classify paths = List.map_filter
     (\<lambda>p. map_option (\<lambda>k. \<lparr>pr_path = p, pr_kind = k\<rparr>) (classify p)) paths"

definition docs_from_paths :: "string list \<Rightarrow> path_record list" where
  "docs_from_paths = records_from_paths classify_document"

definition tests_from_paths :: "string list \<Rightarrow> path_record list" where
  "tests_from_paths = records_from_paths classify_test"

definition configs_from_paths :: "string list \<Rightarrow> path_record list" where
  "configs_from_paths = records_from_paths classify_config"

section \<open>Technologies\<close>

text \<open>Python's \<open>or\<close> on a JSON value, \<open>for x in v\<close> over one, and attribute access on a dict;
  \<open>None\<close> is a raise, which \<open>detect_technologies\<close> swallows.\<close>

primrec json_falsy :: "json \<Rightarrow> bool" where
  "json_falsy JNull = True"
| "json_falsy (JBool b) = (\<not> b)"
| "json_falsy (JInt n) = (n = 0)"
| "json_falsy (JFloat q) = (q = 0)"
| "json_falsy (JStr s) = (s = [])"
| "json_falsy (JList xs) = (xs = [])"
| "json_falsy (JObj d) = (d = [])"

fun json_items :: "json \<Rightarrow> json list option" where
  "json_items (JList xs) = Some xs"
| "json_items (JStr s) = Some (map (\<lambda>c. JStr [c]) s)"
| "json_items (JObj d) = Some (map (JStr \<circ> fst) d)"
| "json_items v = None"

fun json_dict :: "json \<Rightarrow> json_object option" where
  "json_dict (JObj d) = Some d"
| "json_dict v = None"

definition get_or :: "string \<Rightarrow> json \<Rightarrow> json_object \<Rightarrow> json" where
  "get_or k v d = (case jget k d of None \<Rightarrow> v | Some x \<Rightarrow> x)"

definition items_or_empty :: "json \<Rightarrow> json list option" where
  "items_or_empty v = (if json_falsy v then Some [] else json_items v)"

definition keys_or_empty :: "json \<Rightarrow> json list option" where
  "keys_or_empty v = (if json_falsy v then Some []
     else map_option (map (JStr \<circ> fst)) (json_dict v))"

definition nested :: "string \<Rightarrow> json option \<Rightarrow> json option" where
  "nested k v = Option.bind (Option.bind v json_dict) (\<lambda>d. Some (get_or k (JObj []) d))"

fun all_some :: "'a option list \<Rightarrow> 'a list option" where
  "all_some [] = Some []"
| "all_some (x # xs) = Option.bind x (\<lambda>y. map_option (Cons y) (all_some xs))"

definition flatten_dependencies :: "json_object \<Rightarrow> json list option" where
  "flatten_dependencies data =
     Option.bind (nested ''project'' (Some (JObj data))) (\<lambda>pj.
     Option.bind (json_dict pj) (\<lambda>project.
     Option.bind (items_or_empty (get_or ''dependencies'' (JList []) project)) (\<lambda>deps.
     Option.bind (let o' = get_or ''optional-dependencies'' (JObj []) project
                  in if json_falsy o' then Some [] else json_dict o') (\<lambda>optional.
     Option.bind (all_some (map (items_or_empty \<circ> snd) optional)) (\<lambda>opts.
     Option.bind (nested ''poetry'' (nested ''tool'' (Some (JObj data)))) (\<lambda>poetry.
     Option.bind (Option.bind (nested ''dependencies'' (Some poetry)) keys_or_empty) (\<lambda>pd.
     Option.bind (Option.bind (nested ''dependencies'' (nested ''dev'' (nested ''group'' (Some poetry)))) keys_or_empty)
       (\<lambda>dev. Some (deps @ concat opts @ pd @ dev)))))))))"

fun json_str :: "json \<Rightarrow> string option" where
  "json_str (JStr s) = Some s"
| "json_str v = None"

definition requirement_name :: "string \<Rightarrow> string" where
  "requirement_name dep = py_lower (takeWhile (\<lambda>c. c \<notin> set ''<>=~! ['') dep)"

definition python_frameworks :: "(string \<times> string) list" where
  "python_frameworks = [(''sqlalchemy'', ''SQLAlchemy''), (''alembic'', ''Alembic''), (''pytest'', ''Pytest''),
     (''fastapi'', ''FastAPI''), (''django'', ''Django''), (''pydantic'', ''Pydantic'')]"

definition node_frameworks :: "(string \<times> string) list" where
  "node_frameworks = [(''react'', ''React''), (''next'', ''Next.js''), (''vite'', ''Vite''), (''vitest'', ''Vitest''),
     (''jest'', ''Jest''), (''typescript'', ''TypeScript'')]"

definition frameworks_in :: "(string \<times> string) list \<Rightarrow> string list \<Rightarrow> string list" where
  "frameworks_in table names = map snd (filter (\<lambda>(p, t). p \<in> set names) table)"

definition detect_python_frameworks :: "json list \<Rightarrow> string list option" where
  "detect_python_frameworks deps = map_option (\<lambda>ds. frameworks_in python_frameworks (map requirement_name ds))
     (all_some (map json_str deps))"

definition detect_node_frameworks :: "string list \<Rightarrow> string list" where
  "detect_node_frameworks deps = frameworks_in node_frameworks (map py_lower deps)"

definition package_dependencies :: "json_object \<Rightarrow> string list option" where
  "package_dependencies data = map_option (\<lambda>ds. map fst (concat ds))
     (all_some (map (\<lambda>k. json_dict (get_or k (JObj []) data))
        [''dependencies'', ''devDependencies'', ''peerDependencies'']))"

text \<open>The technologies one path is evidence of.\<close>

definition technologies_of_path ::
  "(string \<Rightarrow> json_object option) \<Rightarrow> (string \<Rightarrow> json_object option) \<Rightarrow> (string \<Rightarrow> string res) \<Rightarrow>
   string \<Rightarrow> string list"
where
  "technologies_of_path toml_loads json_loads read_text path =
     (let name = path_name path; content = (case read_text path of Inl e \<Rightarrow> None | Inr t \<Rightarrow> Some t);
          found = (\<lambda>x. case x of None \<Rightarrow> [] | Some ts \<Rightarrow> ts)
      in if name = ''pyproject.toml''
         then [''Python'', ''Pytest''] @ found (Option.bind (Option.bind (Option.bind content toml_loads)
                flatten_dependencies) detect_python_frameworks)
         else if name = ''requirements.txt''
         then [''Python''] @ found (Option.bind content (\<lambda>t. detect_python_frameworks (map JStr (splitlines t))))
         else if name = ''package.json''
         then [''Node/JS/TS''] @ found (map_option detect_node_frameworks
                (Option.bind (Option.bind content json_loads) package_dependencies))
         else if name = ''tsconfig.json'' then [''TypeScript'']
         else if name = ''Cargo.toml'' then [''Rust'']
         else if name = ''go.mod'' then [''Go'']
         else if name = ''Dockerfile'' then [''Docker'']
         else if starts_with ''docker-compose'' name then [''Containers'']
         else if name = ''alembic.ini'' \<or> starts_with ''alembic/'' (py_lower path) then [''Alembic'']
         else [])"

text \<open>A \<open>TechnologyEvidence\<close>, whose status is always DETECTED.\<close>

record technology =
  tech_name :: string
  tech_evidence :: "string list"

definition detect_technologies ::
  "(string \<Rightarrow> json_object option) \<Rightarrow> (string \<Rightarrow> json_object option) \<Rightarrow> string list \<Rightarrow>
   (string \<Rightarrow> string res) \<Rightarrow> technology list"
where
  "detect_technologies toml_loads json_loads paths read_text =
     (let tech = technologies_of_path toml_loads json_loads read_text
      in map (\<lambda>n. \<lparr>tech_name = n, tech_evidence = sorted_set (filter (\<lambda>p. n \<in> set (tech p)) paths)\<rparr>)
           (sorted_set (concat (map tech paths))))"

section \<open>Facts about paths\<close>

lemma sensitive_name_sensitive:
  "path_name p \<in> set sensitive_exact \<or> sensitive_patterns (path_name p) \<Longrightarrow> is_sensitive_path p"
  by (auto simp: is_sensitive_path_def Let_def)

lemma path_record_kinds: "r \<in> set (records_from_paths c ps) \<longleftrightarrow> pr_path r \<in> set ps \<and> c (pr_path r) = Some (pr_kind r)"
  by (cases r) (auto simp: records_from_paths_def List.map_filter_def image_iff)

end
