(* ===== verification/Repository.thy ===== *)
theory Repository
  imports Inspection Store
begin

text \<open>
  The read-only repository adapter of \<^verbatim>\<open>lucius/repositories/local_git.py\<close> and
  \<^verbatim>\<open>hashing.py\<close>. What the adapter asks of its surroundings is the record \<open>host\<close>:
  path resolution and existence, the bytes and the decoded text of a file, the git
  executable, SHA-256, and the JSON and TOML libraries. Paths are texts; the cached root of an
  adapter is recomputed, which is the same for a host that does not change. Bytes are characters.
\<close>

section \<open>Hosts, contexts and results\<close>

record git_result =
  git_returncode :: int
  git_stdout :: string
  git_stderr :: string

record host =
  host_resolve :: "string \<Rightarrow> string"
  host_exists :: "string \<Rightarrow> bool"
  host_is_file :: "string \<Rightarrow> bool"
  host_bytes :: "string \<Rightarrow> string"
  host_text :: "string \<Rightarrow> string option"
  host_git :: "string \<Rightarrow> string list \<Rightarrow> git_result"
  host_sha256 :: "string \<Rightarrow> string"
  host_json_dumps :: "json \<Rightarrow> string"
  host_toml_loads :: "string \<Rightarrow> json_object option"
  host_json_loads :: "string \<Rightarrow> json_object option"

record workspace_context =
  ws_id :: string
  ws_allowed_roots :: "string list"
  ws_repository_id :: "string option"
  ws_access_mode :: repository_access_mode
  ws_authority_level :: authority_level
  ws_planning_mode :: string
  ws_repository_ref :: "string option"

record git_state =
  gs_root :: string
  gs_branch :: "string option"
  gs_commit_sha :: string
  gs_detached_head :: bool
  gs_is_dirty :: bool
  gs_modified :: "string list"
  gs_added :: "string list"
  gs_deleted :: "string list"
  gs_renamed :: "string list"
  gs_untracked :: "string list"
  gs_conflicted :: "string list"
  gs_remotes :: "(string \<times> string list) list"
  gs_warnings :: "json_object list"

record file_record =
  fr_path :: string
  fr_size_bytes :: nat
  fr_file_type :: string
  fr_language :: "string option"
  fr_content_hash :: "string option"
  fr_git_status :: string
  fr_is_documentation :: bool
  fr_is_test :: bool
  fr_is_config :: bool
  fr_is_entrypoint :: bool
  fr_is_sensitive :: bool
  fr_is_binary :: bool

record snapshot_result =
  sr_snapshot_id :: "string option"
  sr_repository_id :: "string option"
  sr_status :: string
  sr_reused_existing_snapshot :: bool
  sr_mode :: snapshot_mode
  sr_git_state :: git_state
  sr_file_count :: nat
  sr_document_count :: nat
  sr_test_count :: nat
  sr_config_count :: nat
  sr_manifest_hash :: string
  sr_technologies :: "technology list"
  sr_documentation_map :: "path_record list"
  sr_test_map :: "path_record list"
  sr_configuration_map :: "path_record list"
  sr_warnings :: "json_object list"
  sr_files :: "file_record list"

section \<open>Hashing\<close>

definition stable_json_hash :: "host \<Rightarrow> json \<Rightarrow> string" where
  "stable_json_hash h payload = host_sha256 h (utf8_bytes (host_json_dumps h payload))"

definition hash_file :: "host \<Rightarrow> string \<Rightarrow> string" where
  "hash_file h path = host_sha256 h (host_bytes h path)"

text \<open>\<open>sample.decode("utf-8")\<close>: the bytes are well-formed UTF-8, without overlong forms,
  surrogates or code points above \<open>0x10FFFF\<close>.\<close>

definition byte_in :: "nat \<Rightarrow> nat \<Rightarrow> char \<Rightarrow> bool" where
  "byte_in lo hi c = (lo \<le> (of_char c :: nat) \<and> (of_char c :: nat) \<le> hi)"

abbreviation "continuation \<equiv> byte_in 128 191"

fun utf8_valid :: "string \<Rightarrow> bool" where
  "utf8_valid [] = True"
| "utf8_valid [a] = byte_in 0 127 a"
| "utf8_valid [a, b] = (byte_in 0 127 a \<and> byte_in 0 127 b \<or> byte_in 194 223 a \<and> continuation b)"
| "utf8_valid [a, b, c] =
     (byte_in 0 127 a \<and> utf8_valid [b, c]
      \<or> byte_in 194 223 a \<and> continuation b \<and> byte_in 0 127 c
      \<or> (byte_in 224 224 a \<and> byte_in 160 191 b \<or> byte_in 225 236 a \<and> continuation b
         \<or> byte_in 237 237 a \<and> byte_in 128 159 b \<or> byte_in 238 239 a \<and> continuation b) \<and> continuation c)"
| "utf8_valid (a # b # c # d # s) =
     (if byte_in 0 127 a then utf8_valid (b # c # d # s)
      else if byte_in 194 223 a then continuation b \<and> utf8_valid (c # d # s)
      else if byte_in 224 239 a then
        (byte_in 224 224 a \<and> byte_in 160 191 b \<or> byte_in 225 236 a \<and> continuation b
         \<or> byte_in 237 237 a \<and> byte_in 128 159 b \<or> byte_in 238 239 a \<and> continuation b)
        \<and> continuation c \<and> utf8_valid (d # s)
      else (byte_in 240 240 a \<and> byte_in 144 191 b \<or> byte_in 241 243 a \<and> continuation b
         \<or> byte_in 244 244 a \<and> byte_in 128 143 b) \<and> continuation c \<and> continuation d \<and> utf8_valid s)"

definition looks_binary :: "nat \<Rightarrow> string \<Rightarrow> bool" where
  "looks_binary sample_size content = (let sample = take sample_size content in
     if CHR 0x00 \<in> set sample then True else if sample = [] then False else \<not> utf8_valid sample)"

definition manifest_entry :: "file_record \<Rightarrow> json" where
  "manifest_entry f = JObj [(''path'', JStr (fr_path f)), (''size_bytes'', JInt (int (fr_size_bytes f))),
     (''content_hash'', jtext (fr_content_hash f)), (''git_status'', JStr (fr_git_status f)),
     (''is_sensitive'', JBool (fr_is_sensitive f)), (''is_binary'', JBool (fr_is_binary f))]"

definition manifest_identity :: "host \<Rightarrow> file_record list \<Rightarrow> string" where
  "manifest_identity h files = stable_json_hash h (JList (map manifest_entry (sort_key fr_path files)))"

section \<open>Texts of git's output\<close>

text \<open>\<open>s.split()\<close>.\<close>

lemma word_shorter:
  assumes "dropWhile is_space s \<noteq> []"
  shows "length (dropWhile (\<lambda>c. \<not> is_space c) (dropWhile is_space s)) < length s"
proof -
  obtain c cs where c: "dropWhile is_space s = c # cs"
    using assms by (cases "dropWhile is_space s") auto
  then have "\<not> is_space c"
    using hd_dropWhile [of is_space s] by simp
  then show ?thesis
    using c length_dropWhile_le [of is_space s] length_dropWhile_le [of "\<lambda>c. \<not> is_space c" cs] by simp
qed

function py_words :: "string \<Rightarrow> string list" where
  "py_words s = (if dropWhile is_space s = [] then []
     else takeWhile (\<lambda>c. \<not> is_space c) (dropWhile is_space s)
       # py_words (dropWhile (\<lambda>c. \<not> is_space c) (dropWhile is_space s)))"
  by pat_completeness auto
termination
  by (relation "measure length") (use word_shorter in auto)

declare py_words.simps [simp del]

fun remotes_add :: "string \<Rightarrow> string \<Rightarrow> (string \<times> string list) list \<Rightarrow> (string \<times> string list) list" where
  "remotes_add n u [] = [(n, [u])]"
| "remotes_add n u ((m, us) # r) = (if n = m then (m, append_new us [u]) # r else (m, us) # remotes_add n u r)"

definition parse_remotes :: "string \<Rightarrow> (string \<times> string list) list" where
  "parse_remotes output = fold (\<lambda>line r. case py_words line of (n # u # _) \<Rightarrow> remotes_add n u r | _ \<Rightarrow> r)
     (splitlines output) []"

definition porcelain_path :: "string \<Rightarrow> string" where
  "porcelain_path line = (if 2 < length line \<and> line ! 2 = CHR '' '' then drop 3 line
     else py_lstrip (drop 2 line))"

text \<open>\<open>s.split(sep, 1)[1]\<close> of a text that contains \<open>sep\<close>.\<close>

fun after_first :: "string \<Rightarrow> string \<Rightarrow> string" where
  "after_first sep [] = []"
| "after_first sep (c # cs) = (if starts_with sep (c # cs) then drop (length sep) (c # cs) else after_first sep cs)"

definition renamed_path :: "string \<Rightarrow> string" where
  "renamed_path p = (if contains '' -> '' p then after_first '' -> '' p else p)"

definition conflict_codes :: "string list" where
  "conflict_codes = [''DD'', ''AU'', ''UD'', ''UA'', ''DU'', ''AA'', ''UU'']"

text \<open>The sorted paths of the status lines whose two-letter code satisfies a test.\<close>

definition status_paths :: "(string \<Rightarrow> bool) \<Rightarrow> string list \<Rightarrow> string list" where
  "status_paths test lines = sorted_set (map (\<lambda>l. renamed_path (porcelain_path l)) (filter (\<lambda>l. test (take 2 l)) lines))"

definition is_conflict :: "string \<Rightarrow> bool" where
  "is_conflict code = (code \<in> set conflict_codes \<or> CHR ''U'' \<in> set code)"

section \<open>The adapter\<close>

record local_git =
  lg_location :: string
  lg_context :: workspace_context
  lg_max_text_file_size :: nat

definition default_max_text_file_size :: nat where
  "default_max_text_file_size = 2 * 1024 * 1024"

definition open_adapter :: "string \<Rightarrow> workspace_context \<Rightarrow> local_git res" where
  "open_adapter location ctx =
     (if ws_access_mode ctx \<noteq> READ_ONLY
      then Inl (RepositoryError PERMISSION_DENIED ''Phase 1 only supports READ_ONLY repository access'')
      else Inr \<lparr>lg_location = location, lg_context = ctx, lg_max_text_file_size = default_max_text_file_size\<rparr>)"

text \<open>\<open>str(Path(p))\<close> and \<open>as_posix\<close>, \<open>root / Path(*parts)\<close>, \<open>path.relative_to(root)\<close>.\<close>

definition path_posix :: "string \<Rightarrow> string" where
  "path_posix p = (if path_root p = [] \<and> path_tail p = [] then ''.''
     else concat (path_root p) @ join_with ''/'' (path_tail p))"

definition path_join :: "string \<Rightarrow> string list \<Rightarrow> string" where
  "path_join base parts = (if parts = [] then base
     else if ends_with ''/'' base then base @ join_with ''/'' parts
     else base @ ''/'' @ join_with ''/'' parts)"

definition is_relative_to :: "string \<Rightarrow> string \<Rightarrow> bool" where
  "is_relative_to path base = (take (length (path_parts base)) (path_parts path) = path_parts base)"

definition relative_path :: "string \<Rightarrow> string \<Rightarrow> string" where
  "relative_path base path = (let rest = drop (length (path_parts base)) (path_parts path)
     in if rest = [] then ''.'' else join_with ''/'' rest)"

definition ensure_allowed :: "host \<Rightarrow> local_git \<Rightarrow> string \<Rightarrow> unit res" where
  "ensure_allowed h ad path =
     (if list_ex (\<lambda>r. is_relative_to path (host_resolve h r)) (ws_allowed_roots (lg_context ad)) then Inr ()
      else Inl (RepositoryError REPOSITORY_OUTSIDE_WORKSPACE path))"

definition ensure_inside :: "string \<Rightarrow> string \<Rightarrow> repository_error_code \<Rightarrow> unit res" where
  "ensure_inside path base code = (if is_relative_to path base then Inr () else Inl (RepositoryError code path))"

definition git_text :: "host \<Rightarrow> string \<Rightarrow> string list \<Rightarrow> string res" where
  "git_text h cwd args = (let r = host_git h cwd args; stderr = py_strip (git_stderr r) in
     if git_returncode r = 0 then Inr (git_stdout r)
     else if contains ''not a git repository'' (py_lower stderr) then Inl (RepositoryError NOT_A_GIT_REPOSITORY stderr)
     else Inl (RepositoryError GIT_COMMAND_FAILED (if stderr = [] then ''git command failed'' else stderr)))"

definition validate_root :: "host \<Rightarrow> local_git \<Rightarrow> string res" where
  "validate_root h ad =
     (if \<not> host_exists h (lg_location ad) then Inl (RepositoryError REPOSITORY_NOT_FOUND (path_posix (lg_location ad)))
      else let resolved = host_resolve h (lg_location ad) in
        bind_res (ensure_allowed h ad resolved) (\<lambda>_.
        bind_res (git_text h resolved [''rev-parse'', ''--show-toplevel'']) (\<lambda>out.
        let root_text = py_strip out in
        if root_text = [] then Inl (RepositoryError NOT_A_GIT_REPOSITORY resolved)
        else let root = host_resolve h root_text in
          bind_res (ensure_allowed h ad root) (\<lambda>_. Inr root))))"

definition git_z :: "host \<Rightarrow> string \<Rightarrow> string list \<Rightarrow> string list res" where
  "git_z h cwd args = bind_res (git_text h cwd (args @ [''-z'']))
     (\<lambda>out. Inr (filter (\<lambda>x. x \<noteq> []) (split_on (CHR 0x00) out)))"

definition repository_state_warnings :: "host \<Rightarrow> string \<Rightarrow> bool \<Rightarrow> string list \<Rightarrow> json_object list" where
  "repository_state_warnings h cwd detached conflicted =
     (if detached then [[(''code'', JStr ''DETACHED_HEAD''),
        (''message'', JStr ''Repository is in detached HEAD state.'')]] else [])
     @ (if conflicted \<noteq> [] then [[(''code'', JStr ''MERGE_CONFLICT''), (''paths'', jtexts conflicted)]] else [])
     @ concat (map (\<lambda>(name, code). let r = host_git h cwd [''rev-parse'', ''--git-path'', name] in
         if git_returncode r = 0 \<and> host_exists h (py_strip (git_stdout r)) then [[(''code'', JStr code)]] else [])
       [(''rebase-merge'', ''REBASE_IN_PROGRESS''), (''rebase-apply'', ''REBASE_IN_PROGRESS''),
        (''CHERRY_PICK_HEAD'', ''CHERRY_PICK_IN_PROGRESS'')])"

definition get_git_state :: "host \<Rightarrow> local_git \<Rightarrow> git_state res" where
  "get_git_state h ad = bind_res (validate_root h ad) (\<lambda>root.
     case ws_repository_ref (lg_context ad) of
       Some (c # cs) \<Rightarrow>
         bind_res (git_text h root [''rev-parse'', (c # cs) @ ''^{commit}'']) (\<lambda>sha_out.
         let sha = py_strip sha_out; b = host_git h root [''name-rev'', ''--name-only'', ''--no-undefined'', sha] in
         bind_res (git_text h root [''remote'', ''-v'']) (\<lambda>remotes. Inr
           \<lparr>gs_root = root, gs_branch = Some (if git_returncode b = 0 then py_strip (git_stdout b) else c # cs),
            gs_commit_sha = sha, gs_detached_head = False, gs_is_dirty = False, gs_modified = [], gs_added = [],
            gs_deleted = [], gs_renamed = [], gs_untracked = [], gs_conflicted = [],
            gs_remotes = parse_remotes remotes,
            gs_warnings = [[(''code'', JStr ''HISTORICAL_STATE''), (''ref'', JStr (c # cs))]]\<rparr>))
     | _ \<Rightarrow>
         bind_res (git_text h root [''rev-parse'', ''HEAD'']) (\<lambda>sha_out.
         let b = host_git h root [''symbolic-ref'', ''--quiet'', ''--short'', ''HEAD''];
             branch = (if git_returncode b = 0 then Some (py_strip (git_stdout b)) else None) in
         bind_res (git_text h root [''status'', ''--porcelain'']) (\<lambda>status.
         let lines = filter (\<lambda>l. l \<noteq> []) (splitlines status);
             modified = status_paths (\<lambda>c. CHR ''M'' \<in> set c) lines;
             added = status_paths (\<lambda>c. CHR ''A'' \<in> set c) lines;
             deleted = status_paths (\<lambda>c. CHR ''D'' \<in> set c) lines;
             renamed = status_paths (\<lambda>c. CHR ''R'' \<in> set c) lines;
             untracked = status_paths (\<lambda>c. c = ''??'') lines;
             conflicted = status_paths is_conflict lines in
         bind_res (git_text h root [''remote'', ''-v'']) (\<lambda>remotes. Inr
           \<lparr>gs_root = root, gs_branch = branch, gs_commit_sha = py_strip sha_out,
            gs_detached_head = (branch = None),
            gs_is_dirty = list_ex (\<lambda>xs. xs \<noteq> []) [modified, added, deleted, renamed, untracked, conflicted],
            gs_modified = modified, gs_added = added, gs_deleted = deleted, gs_renamed = renamed,
            gs_untracked = untracked, gs_conflicted = conflicted, gs_remotes = parse_remotes remotes,
            gs_warnings = repository_state_warnings h root (branch = None) conflicted\<rparr>))))"

definition list_files :: "host \<Rightarrow> local_git \<Rightarrow> bool \<Rightarrow> string list res" where
  "list_files h ad include_untracked = bind_res (validate_root h ad) (\<lambda>root.
     case ws_repository_ref (lg_context ad) of
       Some (c # cs) \<Rightarrow>
         bind_res (git_text h root [''ls-tree'', ''-r'', ''--name-only'', ''-z'', c # cs]) (\<lambda>out.
           Inr (sort (filter (\<lambda>p. p \<noteq> [] \<and> \<not> is_excluded p) (split_on (CHR 0x00) out))))
     | _ \<Rightarrow>
         bind_res (git_z h root [''ls-files'']) (\<lambda>tracked.
         bind_res (if include_untracked then git_z h root [''ls-files'', ''--others'', ''--exclude-standard'']
                   else Inr []) (\<lambda>others.
           Inr (sorted_set (filter (\<lambda>p. p \<noteq> [] \<and> \<not> is_excluded p) (tracked @ others))))))"

definition validate_relative_path :: "string \<Rightarrow> string res" where
  "validate_relative_path p = (if path_root p \<noteq> [] \<or> ''..'' \<in> set (path_parts p)
     then Inl (RepositoryError UNSAFE_PATH p) else Inr (path_posix p))"

definition resolve_repo_file :: "host \<Rightarrow> local_git \<Rightarrow> string \<Rightarrow> (string \<times> string) res" where
  "resolve_repo_file h ad p =
     bind_res (validate_relative_path p) (\<lambda>pure.
     bind_res (validate_root h ad) (\<lambda>root.
     let candidate = host_resolve h (path_join root (path_parts pure)) in
     bind_res (ensure_inside candidate root UNSAFE_PATH) (\<lambda>_.
     if \<not> host_exists h candidate \<or> \<not> host_is_file h candidate
     then Inl (RepositoryError REPOSITORY_NOT_FOUND p)
     else bind_res (ensure_allowed h ad candidate) (\<lambda>_. Inr (root, candidate)))))"

definition read_file :: "host \<Rightarrow> local_git \<Rightarrow> string \<Rightarrow> string res" where
  "read_file h ad p =
     (case ws_repository_ref (lg_context ad) of
        Some (c # cs) \<Rightarrow>
          bind_res (validate_relative_path p) (\<lambda>rel.
          if is_sensitive_path rel
          then Inl (RepositoryError PERMISSION_DENIED (''Sensitive file content is not readable: '' @ rel))
          else bind_res (validate_root h ad) (\<lambda>root.
            let r = host_git h root [''show'', (c # cs) @ '':'' @ rel] in
            if git_returncode r \<noteq> 0 then Inl (RepositoryError REPOSITORY_NOT_FOUND rel)
            else if lg_max_text_file_size ad < utf8_len (git_stdout r) then Inl (RepositoryError FILE_TOO_LARGE rel)
            else Inr (git_stdout r)))
      | _ \<Rightarrow>
          bind_res (resolve_repo_file h ad p) (\<lambda>(root, path).
          let rel = relative_path root path in
          if is_sensitive_path rel
          then Inl (RepositoryError PERMISSION_DENIED (''Sensitive file content is not readable: '' @ rel))
          else if lg_max_text_file_size ad < length (host_bytes h path) then Inl (RepositoryError FILE_TOO_LARGE rel)
          else if looks_binary 8192 (host_bytes h path) then Inl (RepositoryError BINARY_FILE rel)
          else some_or (host_text h path) (ValueError ''invalid UTF-8'')))"

definition git_status_for :: "string \<Rightarrow> git_state \<Rightarrow> string" where
  "git_status_for p st =
     (if p \<in> set (gs_untracked st) then ''untracked''
      else if p \<in> set (gs_conflicted st) then ''conflicted''
      else if p \<in> set (gs_modified st) then ''modified''
      else if p \<in> set (gs_added st) then ''added''
      else if p \<in> set (gs_deleted st) then ''deleted''
      else if p \<in> set (gs_renamed st) then ''renamed''
      else ''tracked'')"

definition record_of ::
  "string \<Rightarrow> nat \<Rightarrow> string option \<Rightarrow> string \<Rightarrow> bool \<Rightarrow> file_record"
where
  "record_of rel size_bytes content_hash git_status is_binary =
     \<lparr>fr_path = rel, fr_size_bytes = size_bytes, fr_file_type = classify_file_type rel, fr_language = detect_language rel,
      fr_content_hash = content_hash, fr_git_status = git_status,
      fr_is_documentation = (classify_document rel \<noteq> None), fr_is_test = (classify_test rel \<noteq> None),
      fr_is_config = (classify_config rel \<noteq> None), fr_is_entrypoint = is_entrypoint rel,
      fr_is_sensitive = is_sensitive_path rel, fr_is_binary = is_binary\<rparr>"

definition historical_file_record :: "host \<Rightarrow> local_git \<Rightarrow> string \<Rightarrow> string \<Rightarrow> snapshot_mode \<Rightarrow> file_record res" where
  "historical_file_record h ad ref p mode =
     bind_res (validate_relative_path p) (\<lambda>rel.
     bind_res (validate_root h ad) (\<lambda>root.
     let r = host_git h root [''show'', ref @ '':'' @ rel]; out = git_stdout r;
         is_binary = CHR 0x00 \<in> set (utf8_take 8192 out) in
     if git_returncode r \<noteq> 0 then Inl (RepositoryError REPOSITORY_NOT_FOUND rel)
     else Inr (record_of rel (utf8_len out)
       (if \<not> is_sensitive_path rel \<and> mode \<noteq> FAST \<and> utf8_len out \<le> lg_max_text_file_size ad \<and> \<not> is_binary
        then Some (host_sha256 h (utf8_bytes out)) else None) ''tracked'' is_binary)))"

definition file_record_of :: "host \<Rightarrow> local_git \<Rightarrow> string \<Rightarrow> snapshot_mode \<Rightarrow> git_state \<Rightarrow> file_record res" where
  "file_record_of h ad p mode st =
     (case ws_repository_ref (lg_context ad) of
        Some (c # cs) \<Rightarrow> historical_file_record h ad (c # cs) p mode
      | _ \<Rightarrow>
          bind_res (resolve_repo_file h ad p) (\<lambda>(root, path).
          let rel = relative_path root path; content = host_bytes h path; size = length content;
              inspected = (\<not> is_sensitive_path rel \<and> size \<le> lg_max_text_file_size ad);
              is_binary = (if inspected then looks_binary 8192 content else classify_file_type rel = ''binary'');
              content_hash = (if inspected \<and> mode \<noteq> FAST \<and> \<not> is_binary then Some (hash_file h path) else None)
          in Inr (record_of rel size content_hash (git_status_for rel st) is_binary)))"

definition build_snapshot :: "host \<Rightarrow> local_git \<Rightarrow> snapshot_mode \<Rightarrow> snapshot_result res" where
  "build_snapshot h ad mode0 =
     (let mode = (if mode0 = DEEP then STANDARD else mode0) in
      bind_res (get_git_state h ad) (\<lambda>st.
      bind_res (list_files h ad True) (\<lambda>files.
      bind_res (map_res (\<lambda>p. file_record_of h ad p mode st) files) (\<lambda>records. Inr
        \<lparr>sr_snapshot_id = None, sr_repository_id = None, sr_status = ''CREATED'',
         sr_reused_existing_snapshot = False, sr_mode = mode, sr_git_state = st,
         sr_file_count = length records, sr_document_count = length (docs_from_paths files),
         sr_test_count = length (tests_from_paths files), sr_config_count = length (configs_from_paths files),
         sr_manifest_hash = manifest_identity h records,
         sr_technologies = (if mode = FAST then []
           else detect_technologies (host_toml_loads h) (host_json_loads h) files (read_file h ad)),
         sr_documentation_map = docs_from_paths files, sr_test_map = tests_from_paths files,
         sr_configuration_map = configs_from_paths files,
         sr_warnings = gs_warnings st @ (if gs_is_dirty st then [[(''code'', JStr ''DIRTY_REPOSITORY''),
           (''message'', JStr ''Snapshot includes uncommitted repository state.'')]] else []),
         sr_files = records\<rparr>))))"

definition get_identity :: "host \<Rightarrow> local_git \<Rightarrow> (string \<times> string option \<times> string option) res" where
  "get_identity h ad =
     bind_res (validate_root h ad) (\<lambda>root.
     bind_res (git_text h root [''remote'', ''-v'']) (\<lambda>out.
     bind_res (get_git_state h ad) (\<lambda>st.
       Inr (root, (case map_of (parse_remotes out) ''origin'' of Some (u # us) \<Rightarrow> Some u | _ \<Rightarrow> None), gs_branch st))))"

section \<open>What the adapter gives away\<close>

lemma bind_res_prod [simp]: "bind_res r (\<lambda>(a, b). k a b) = Inr y \<longleftrightarrow> (\<exists>a b. r = Inr (a, b) \<and> k a b = Inr y)"
  by (auto simp: bind_res_def split: sum.splits)

text \<open>The working-tree mode of an adapter, where no commit is named.\<close>

definition working_tree :: "local_git \<Rightarrow> bool" where
  "working_tree ad = (\<not> truthy (ws_repository_ref (lg_context ad)))"

lemma working_tree_case:
  "(case ws_repository_ref (lg_context ad) of Some (c # cs) \<Rightarrow> f c cs | _ \<Rightarrow> x)
     = (if working_tree ad then x else f (hd (the (ws_repository_ref (lg_context ad))))
          (tl (the (ws_repository_ref (lg_context ad)))))"
  by (auto simp: working_tree_def truthy_def split: option.splits list.splits)

text \<open>A path is inside the workspace when it lies under an allowed root.\<close>

definition allowed_path :: "host \<Rightarrow> local_git \<Rightarrow> string \<Rightarrow> bool" where
  "allowed_path h ad path =
     list_ex (\<lambda>r. is_relative_to path (host_resolve h r)) (ws_allowed_roots (lg_context ad))"

lemma ensure_allowed_Inr [simp]: "ensure_allowed h ad path = Inr u \<longleftrightarrow> allowed_path h ad path"
  by (simp add: ensure_allowed_def allowed_path_def)

lemma ensure_inside_Inr [simp]: "ensure_inside path base c = Inr u \<longleftrightarrow> is_relative_to path base"
  by (simp add: ensure_inside_def)

lemma validate_root_allowed: "validate_root h ad = Inr base \<Longrightarrow> allowed_path h ad base"
  by (auto simp: validate_root_def Let_def split: if_splits)

lemma resolve_repo_file_Inr:
  assumes "resolve_repo_file h ad p = Inr (base, path)"
  shows "validate_root h ad = Inr base \<and> is_relative_to path base \<and> allowed_path h ad path
    \<and> host_exists h path \<and> host_is_file h path \<and> path_root p = [] \<and> ''..'' \<notin> set (path_parts p)"
  using assms by (auto simp: resolve_repo_file_def Let_def validate_relative_path_def split: if_splits)

subsection \<open>A text that counts as binary\<close>

lemma utf8_valid_ascii: "byte_in 0 127 a \<Longrightarrow> utf8_valid (a # s) = utf8_valid s"
  by (cases s rule: utf8_valid.cases) (auto simp: byte_in_def)

lemma utf8_valid_replicate: "byte_in 0 127 a \<Longrightarrow> utf8_valid (replicate n a @ s) = utf8_valid s"
  by (induction n) (simp_all add: utf8_valid_ascii)

definition ex_host :: host where
  "ex_host = \<lparr>host_resolve = (\<lambda>p. p), host_exists = (\<lambda>p. True), host_is_file = (\<lambda>p. True),
     host_bytes = (\<lambda>p. ''x = 1''), host_text = (\<lambda>p. Some ''x = 1''),
     host_git = (\<lambda>cwd args. \<lparr>git_returncode = 0,
       git_stdout = (if ''--show-toplevel'' \<in> set args then ''/r'' else if args = [''ls-files'', ''-z''] then ''a.py'' else []),
       git_stderr = []\<rparr>),
     host_sha256 = (\<lambda>b. ''00''), host_json_dumps = (\<lambda>v. ''{}''), host_toml_loads = (\<lambda>t. None),
     host_json_loads = (\<lambda>t. None)\<rparr>"

definition ex_context :: workspace_context where
  "ex_context = \<lparr>ws_id = ''W'', ws_allowed_roots = [''/r''], ws_repository_id = None, ws_access_mode = READ_ONLY,
     ws_authority_level = L0, ws_planning_mode = ''CURRENT_STATE_PLANNING'', ws_repository_ref = None\<rparr>"

definition ex_adapter :: local_git where
  "ex_adapter = \<lparr>lg_location = ''/r'', lg_context = ex_context,
     lg_max_text_file_size = default_max_text_file_size\<rparr>"

lemma ex_host_simps [simp]:
  "host_resolve ex_host p = p" "host_exists ex_host p" "host_is_file ex_host p"
  "host_bytes ex_host p = ''x = 1''" "host_text ex_host p = Some ''x = 1''" "host_sha256 ex_host b = ''00''"
  "ws_allowed_roots (lg_context ex_adapter) = [''/r'']" "lg_max_text_file_size ex_adapter = 2097152"
  "host_git ex_host cwd args = \<lparr>git_returncode = 0,
     git_stdout = (if ''--show-toplevel'' \<in> set args then ''/r'' else if args = [''ls-files'', ''-z''] then ''a.py'' else []),
     git_stderr = []\<rparr>"
  by (simp_all add: ex_host_def ex_adapter_def ex_context_def default_max_text_file_size_def)

lemma ex_working_tree: "working_tree ex_adapter"
  by (simp add: working_tree_def ex_adapter_def ex_context_def truthy_def)

lemma ex_root: "validate_root ex_host ex_adapter = Inr ''/r''"
  by (simp add: validate_root_def ex_host_def ex_adapter_def ex_context_def ensure_allowed_def git_text_def
      is_relative_to_def path_parts_def path_root_def path_tail_def py_strip_def is_space_def)

lemma ex_file:
  assumes "path_root p = []" and "''..'' \<notin> set (path_parts p)" and "path_parts (path_posix p) \<noteq> []"
    and "is_relative_to (''/r/'' @ join_with ''/'' (path_parts (path_posix p))) ''/r''"
  shows "resolve_repo_file ex_host ex_adapter p = Inr (''/r'', ''/r/'' @ join_with ''/'' (path_parts (path_posix p)))"
  using assms ex_root
  by (simp add: resolve_repo_file_def validate_relative_path_def path_join_def ends_with_def ensure_inside_def
      ensure_allowed_def Let_def)

lemmas ex_path_defs = path_posix_def path_parts_def path_root_def path_tail_def is_relative_to_def
  relative_path_def path_name_def path_suffix_def



lemma file_record_of_safe:
  assumes "file_record_of h ad p mode st = Inr f"
  shows "fr_is_sensitive f = is_sensitive_path (fr_path f)
    \<and> (fr_content_hash f \<noteq> None \<longrightarrow> \<not> fr_is_sensitive f \<and> \<not> fr_is_binary f \<and> mode \<noteq> FAST
        \<and> fr_size_bytes f \<le> lg_max_text_file_size ad)"
  using assms unfolding file_record_of_def working_tree_case
  by (auto simp: Let_def historical_file_record_def record_of_def split: if_splits)

text \<open>What a snapshot keeps: a record says of its path whether it is sensitive, and only a path
  that is neither sensitive nor binary nor too large has a hash of its content.\<close>

theorem snapshot_hashes_no_secret:
  assumes "build_snapshot h ad mode = Inr r" and "f \<in> set (sr_files r)"
  shows "fr_is_sensitive f = is_sensitive_path (fr_path f)
    \<and> (fr_content_hash f \<noteq> None \<longrightarrow> \<not> fr_is_sensitive f \<and> \<not> fr_is_binary f \<and> sr_mode r \<noteq> FAST
        \<and> fr_size_bytes f \<le> lg_max_text_file_size ad)"
proof -
  obtain st files where fs: "map_res (\<lambda>p. file_record_of h ad p (sr_mode r) st) files = Inr (sr_files r)"
    using assms(1) by (auto simp: build_snapshot_def Let_def)
  with assms(2) obtain p where "file_record_of h ad p (sr_mode r) st = Inr f"
    by (auto simp: map_res_Inr_iff list_all2_conv_all_nth in_set_conv_nth)
  then show ?thesis by (rule file_record_of_safe)
qed

lemma ex_git_state: "\<exists>st. get_git_state ex_host ex_adapter = Inr st"
  using ex_root ex_working_tree unfolding get_git_state_def working_tree_case
  by (simp add: git_text_def Let_def)

lemma ex_files: "list_files ex_host ex_adapter True = Inr [''a.py'']"
  using ex_root ex_working_tree unfolding list_files_def working_tree_case
  by (simp add: git_text_def git_z_def Let_def sorted_set_def is_excluded_def default_exclusions_def ex_path_defs)

lemma ex_record:
  "\<exists>f. file_record_of ex_host ex_adapter ''a.py'' STANDARD st = Inr f \<and> fr_content_hash f = Some ''00''"
proof -
  have f: "resolve_repo_file ex_host ex_adapter ''a.py'' = Inr (''/r'', ''/r/a.py'')"
    using ex_file [of "''a.py''"] by (simp add: ex_path_defs)
  have "\<not> is_sensitive_path ''a.py''"
    by (simp add: ex_path_defs is_sensitive_path_def sensitive_exact_def sensitive_patterns_def first_line_def
        py_lower_def lower_char_def Let_def)
  moreover have "relative_path ''/r'' ''/r/a.py'' = ''a.py''"
    by (simp add: ex_path_defs)
  moreover have "\<not> looks_binary 8192 ''x = 1''"
    by (simp add: looks_binary_def utf8_valid_ascii byte_in_def)
  ultimately show ?thesis
    unfolding file_record_of_def working_tree_case using f ex_working_tree
    by (simp add: record_of_def Let_def hash_file_def)
qed

theorem snapshot_hashes_no_secret_witness:
  "\<exists>r. build_snapshot ex_host ex_adapter DEEP = Inr r \<and> map fr_content_hash (sr_files r) = [Some ''00'']
    \<and> list_all (\<lambda>f. \<not> fr_is_sensitive f \<and> \<not> fr_is_binary f) (sr_files r)"
proof -
  obtain st where st: "get_git_state ex_host ex_adapter = Inr st" using ex_git_state by blast
  obtain f where f: "file_record_of ex_host ex_adapter ''a.py'' STANDARD st = Inr f"
    "fr_content_hash f = Some ''00''"
    using ex_record by blast
  have "\<exists>r. build_snapshot ex_host ex_adapter DEEP = Inr r \<and> sr_files r = [f]"
    using st ex_files f(1) by (simp add: build_snapshot_def)
  then obtain r where r: "build_snapshot ex_host ex_adapter DEEP = Inr r" "sr_files r = [f]" by blast
  have "f \<in> set (sr_files r)" using r(2) by simp
  from snapshot_hashes_no_secret [OF r(1) this] r f(2) show ?thesis by auto
qed

end
