(* ===== verification/Retrieval.thy ===== *)
theory Retrieval
  imports Query Repository Tasks
begin

text \<open>
  Retrieval of sources for a task: \<^verbatim>\<open>lucius/retrieval/ranking.py\<close>, \<^verbatim>\<open>discovery.py\<close> and
  \<^verbatim>\<open>service.py\<close>, with the evidence service of \<^verbatim>\<open>lucius/evidence/service.py\<close>. The host of the
  repository adapter is the parameter. A score is a whole number of hundredths.
\<close>

section \<open>Requests, candidates and packages\<close>

record retrieval_request =
  rt_task_id :: string
  rt_task_run_id :: "string option"
  rt_project_id :: string
  rt_repository_ids :: "string list"
  rt_snapshot_ids :: "string list"
  rt_query_terms :: "string list"
  rt_requested_source_types :: "source_type list"
  rt_max_results :: int
  rt_max_total_bytes :: int
  rt_max_snippet_bytes :: int
  rt_include_tests :: bool
  rt_include_documentation :: bool
  rt_include_config :: bool
  rt_created_at :: timestamp

record search_match =
  sm_repository_id :: string
  sm_snapshot_id :: string
  sm_path :: string
  sm_line_start :: "nat option"
  sm_line_end :: "nat option"
  sm_matched_term :: string
  sm_match_type :: string
  sm_snippet :: "string option"
  sm_content_hash :: string

record candidate_source =
  cs_repository_id :: string
  cs_snapshot_id :: string
  cs_path :: string
  cs_source_type :: source_type
  cs_size_bytes :: int
  cs_content_hash :: string
  cs_matches :: "search_match list"

record ranked_source =
  rk_repository_id :: string
  rk_snapshot_id :: string
  rk_source_type :: source_type
  rk_path :: string
  rk_score :: rat
  rk_matched_terms :: "string list"
  rk_match_reasons :: "string list"
  rk_line_start :: "nat option"
  rk_line_end :: "nat option"
  rk_snippet :: "string option"
  rk_content_hash :: string
  rk_size_bytes :: int

record coverage_item =
  cv_key :: string
  cv_status :: string
  cv_evidence_ids :: "string list"
  cv_matched_terms :: "string list"

record context_package =
  cp_id :: string
  cp_task_id :: string
  cp_task_run_id :: "string option"
  cp_project_id :: string
  cp_snapshot_ids :: "string list"
  cp_query_terms :: "string list"
  cp_evidence_ids :: "string list"
  cp_ranked_sources :: "ranked_source list"
  cp_total_sources :: nat
  cp_total_bytes :: nat
  cp_acceptance_coverage :: "coverage_item list"
  cp_term_counts :: "(string \<times> nat) list"
  cp_warnings :: "json_object list"
  cp_created_at :: timestamp

section \<open>Ranking\<close>

definition weights :: "(string \<times> int) list" where
  "weights = [(''exact_path'', 70), (''basename'', 48), (''path_token'', 14), (''technical_identifier'', 24),
     (''content_match'', 2), (''documentation'', 5), (''test'', 8), (''config'', 6)]"

definition weight :: "string \<Rightarrow> int" where
  "weight k = the (map_of weights k)"

primrec source_type_weight :: "source_type \<Rightarrow> int" where
  "source_type_weight CODE = 6"
| "source_type_weight TEST = 5"
| "source_type_weight DOCUMENTATION = 4"
| "source_type_weight CONFIG = 4"
| "source_type_weight GIT = 3"
| "source_type_weight MEMORY = 0"
| "source_type_weight EXTERNAL = 0"

text \<open>What a query term and what a match add: points, a reason and a matched term.\<close>

definition term_points :: "string \<Rightarrow> string \<Rightarrow> (int \<times> string) option" where
  "term_points path0 t =
     (let path = py_lower path0; basename = py_lower (path_name path0); lower = py_lower t
      in if lower = path \<or> lower = basename
         then Some (weight ''exact_path'', ''exact path/name match: '' @ t)
         else if contains lower basename
         then Some (weight ''basename'', ''basename match: '' @ t)
         else if lower \<in> set (map py_lower (path_parts path0)) \<or> contains lower path
         then Some (weight ''path_token'', ''path token match: '' @ t)
         else None)"

definition match_points :: "search_match \<Rightarrow> int \<times> string" where
  "match_points m =
     (if sm_match_type m = ''technical_identifier''
      then (weight ''technical_identifier'', ''technical identifier match: '' @ sm_matched_term m)
      else if sm_match_type m = ''heading''
      then (weight ''documentation'', ''title/heading match: '' @ sm_matched_term m)
      else (weight ''content_match'', ''content match: '' @ sm_matched_term m))"

definition type_points :: "source_type \<Rightarrow> (int \<times> string) list" where
  "type_points ty =
     (if ty = TEST then [(weight ''test'', ''test source relationship'')]
      else if ty = DOCUMENTATION then [(weight ''documentation'', ''documentation relationship'')]
      else if ty = CONFIG then [(weight ''config'', ''configuration relationship'')] else [])"

definition all_points :: "candidate_source \<Rightarrow> retrieval_request \<Rightarrow> (int \<times> string) list" where
  "all_points c rq =
     (source_type_weight (cs_source_type c), ''source type: '' @ source_type_value (cs_source_type c))
     # List.map_filter (term_points (cs_path c)) (rt_query_terms rq)
     @ map match_points (cs_matches c) @ type_points (cs_source_type c)"

definition rank_source :: "candidate_source \<Rightarrow> retrieval_request \<Rightarrow> ranked_source" where
  "rank_source c rq =
     (let points = all_points c rq;
          matched = filter (\<lambda>t. term_points (cs_path c) t \<noteq> None) (rt_query_terms rq)
            @ map sm_matched_term (cs_matches c);
          best = (case cs_matches c of [] \<Rightarrow> None | m # _ \<Rightarrow> Some m)
      in \<lparr>rk_repository_id = cs_repository_id c, rk_snapshot_id = cs_snapshot_id c,
          rk_source_type = cs_source_type c, rk_path = cs_path c,
          rk_score = of_int (sum_list (map fst points)) / 100,
          rk_matched_terms = sorted_set matched, rk_match_reasons = sorted_set (map snd points),
          rk_line_start = Option.bind best sm_line_start, rk_line_end = Option.bind best sm_line_end,
          rk_snippet = Option.bind best sm_snippet, rk_content_hash = cs_content_hash c,
          rk_size_bytes = cs_size_bytes c\<rparr>)"

definition ranking_key :: "ranked_source \<Rightarrow> rat \<times> string \<times> string \<times> string" where
  "ranking_key r = (- rk_score r, rk_path r, rk_repository_id r, rk_snapshot_id r)"

definition rank_candidates :: "candidate_source list \<Rightarrow> retrieval_request \<Rightarrow> ranked_source list" where
  "rank_candidates cs rq = sort_key ranking_key (filter (\<lambda>r. 0 < rk_score r) (map (\<lambda>c. rank_source c rq) cs))"

section \<open>Discovery\<close>

definition source_type_for_path :: "string \<Rightarrow> source_type" where
  "source_type_for_path p = (if classify_test p \<noteq> None then TEST
     else if classify_document p \<noteq> None then DOCUMENTATION
     else if classify_config p \<noteq> None then CONFIG else CODE)"

definition source_type_allowed :: "source_type \<Rightarrow> retrieval_request \<Rightarrow> bool" where
  "source_type_allowed ty rq =
     (if rt_requested_source_types rq \<noteq> [] \<and> ty \<notin> set (rt_requested_source_types rq) then False
      else if ty = TEST \<and> \<not> rt_include_tests rq then False
      else if ty = DOCUMENTATION \<and> \<not> rt_include_documentation rq then False
      else if ty = CONFIG \<and> \<not> rt_include_config rq then False
      else ty \<notin> {MEMORY, EXTERNAL})"

definition bounded_snippet :: "string \<Rightarrow> int \<Rightarrow> string" where
  "bounded_snippet t max_bytes = (if int (utf8_len t) \<le> max_bytes then t else utf8_slice max_bytes t)"

text \<open>\<open>str.isdigit\<close> also holds of the superscripts two, three and one.\<close>

definition py_isdigit :: "char \<Rightarrow> bool" where
  "py_isdigit c = (is_digit c \<or> c \<in> {CHR 0xB2, CHR 0xB3, CHR 0xB9})"

definition is_technical_identifier :: "string \<Rightarrow> bool" where
  "is_technical_identifier t = (CHR ''_'' \<in> set t \<or> CHR ''.'' \<in> set t \<or> CHR ''/'' \<in> set t
     \<or> list_ex py_isdigit t \<or> 14 < length t)"

definition line_matches ::
  "retrieval_request \<Rightarrow> string \<Rightarrow> string \<Rightarrow> string \<Rightarrow> string \<Rightarrow> source_type \<Rightarrow> nat \<times> string \<Rightarrow> search_match list"
where
  "line_matches rq repository_id snapshot_id path content_hash ty = (\<lambda>(n, line).
     let lower_path = py_lower path; basename = py_lower (path_name path); lower_line = py_lower line
     in map (\<lambda>t. \<lparr>sm_repository_id = repository_id, sm_snapshot_id = snapshot_id, sm_path = path,
              sm_line_start = Some n, sm_line_end = Some n, sm_matched_term = t,
              sm_match_type = (if is_technical_identifier t \<and> contains (py_lower t) lower_line
                then ''technical_identifier''
                else if ty = DOCUMENTATION \<and> (starts_with ''#'' (py_lstrip line) \<or> starts_with ''='' (py_lstrip line))
                then ''heading'' else ''content''),
              sm_snippet = Some (bounded_snippet (py_strip line) (rt_max_snippet_bytes rq)),
              sm_content_hash = content_hash\<rparr>)
          (filter (\<lambda>t. contains (py_lower t) lower_line \<or> contains (py_lower t) lower_path
             \<or> contains (py_lower t) basename) (rt_query_terms rq)))"

definition matches_for_text ::
  "retrieval_request \<Rightarrow> string \<Rightarrow> string \<Rightarrow> string \<Rightarrow> string \<Rightarrow> string \<Rightarrow> source_type \<Rightarrow> search_match list"
where
  "matches_for_text rq repository_id snapshot_id path text content_hash ty =
     (let found = concat (map (line_matches rq repository_id snapshot_id path content_hash ty)
            (zip [1..<length (splitlines text) + 1] (splitlines text)));
          lower_path = py_lower path; basename = py_lower (path_name path)
      in take 20 (if found \<noteq> [] then found
         else map (\<lambda>t. \<lparr>sm_repository_id = repository_id, sm_snapshot_id = snapshot_id, sm_path = path,
                sm_line_start = None, sm_line_end = None, sm_matched_term = t, sm_match_type = ''path'',
                sm_snippet = None, sm_content_hash = content_hash\<rparr>)
            (filter (\<lambda>t. contains (py_lower t) lower_path \<or> contains (py_lower t) basename)
              (rt_query_terms rq))))"

definition warning :: "retrieval_warning \<Rightarrow> string \<Rightarrow> string \<Rightarrow> json_object" where
  "warning code k v = [(''code'', JStr (retrieval_warning_value code)), (k, JStr v)]"

fun warning_for_error :: "repository_error_code \<Rightarrow> retrieval_warning" where
  "warning_for_error BINARY_FILE = SOURCE_SKIPPED_BINARY"
| "warning_for_error FILE_TOO_LARGE = SOURCE_SKIPPED_LARGE"
| "warning_for_error PERMISSION_DENIED = SOURCE_SKIPPED_SENSITIVE"
| "warning_for_error _ = SOURCE_MISSING"

text \<open>\<open>record[k]\<close> of a manifest entry, whose member must have the type that the candidate asks
  for.\<close>

definition entry_text :: "string \<Rightarrow> json_object \<Rightarrow> string res" where
  "entry_text k d = (case jget k d of None \<Rightarrow> Inl (KeyError k) | Some (JStr t) \<Rightarrow> Inr t
     | Some _ \<Rightarrow> Inl (ValueError k))"

definition entry_int :: "string \<Rightarrow> json_object \<Rightarrow> int res" where
  "entry_int k d = (case jget k d of None \<Rightarrow> Inl (KeyError k) | Some (JInt n) \<Rightarrow> Inr n
     | Some _ \<Rightarrow> Inl (ValueError k))"

definition entry_flag :: "string \<Rightarrow> json_object \<Rightarrow> bool" where
  "entry_flag k d = (case jget k d of None \<Rightarrow> False | Some v \<Rightarrow> \<not> json_falsy v)"

text \<open>One entry of the manifest: nothing, a warning, or a candidate.\<close>

definition discover_entry ::
  "host \<Rightarrow> local_git \<Rightarrow> retrieval_request \<Rightarrow> string \<Rightarrow> string \<Rightarrow> string \<times> json_object \<Rightarrow>
   (candidate_source list \<times> json_object list) res"
where
  "discover_entry h ad rq repository_id snapshot_id = (\<lambda>(path, d).
     let ty = source_type_for_path path in
     if \<not> source_type_allowed ty rq then Inr ([], [])
     else if entry_flag ''is_sensitive'' d then Inr ([], [warning SOURCE_SKIPPED_SENSITIVE ''path'' path])
     else if entry_flag ''is_binary'' d then Inr ([], [warning SOURCE_SKIPPED_BINARY ''path'' path])
     else if jget ''content_hash'' d \<in> {None, Some JNull} then Inr ([], [warning SOURCE_SKIPPED_LARGE ''path'' path])
     else case read_file h ad path of
       Inl (RepositoryError code msg) \<Rightarrow> Inr ([], [warning (warning_for_error code) ''path'' path])
     | Inl e \<Rightarrow> Inl e
     | Inr text \<Rightarrow>
         bind_res (entry_text ''content_hash'' d) (\<lambda>content_hash.
         bind_res (entry_int ''size_bytes'' d) (\<lambda>size_bytes.
         Inr ([\<lparr>cs_repository_id = repository_id, cs_snapshot_id = snapshot_id, cs_path = path,
            cs_source_type = ty, cs_size_bytes = size_bytes, cs_content_hash = content_hash,
            cs_matches = matches_for_text rq repository_id snapshot_id path text content_hash ty\<rparr>], []))))"

definition discover_candidates ::
  "host \<Rightarrow> local_git \<Rightarrow> retrieval_request \<Rightarrow> string \<Rightarrow> string \<Rightarrow> json_object list \<Rightarrow>
   (candidate_source list \<times> json_object list) res"
where
  "discover_candidates h ad rq repository_id snapshot_id manifest_files =
     bind_res (map_res (\<lambda>d. bind_res (entry_text ''path'' d) (\<lambda>p. Inr (p, d))) manifest_files) (\<lambda>entries.
     bind_res (map_res (discover_entry h ad rq repository_id snapshot_id) (sort_key fst entries)) (\<lambda>found.
     Inr (concat (map fst found), concat (map snd found))))"

section \<open>Evidence\<close>

record evidence_create =
  ec_project_id :: string
  ec_repository_id :: string
  ec_snapshot_id :: string
  ec_task_id :: string
  ec_task_run_id :: "string option"
  ec_source_type :: source_type
  ec_path :: string
  ec_line_start :: "int option"
  ec_line_end :: "int option"
  ec_content_hash :: string
  ec_snippet :: "string option"
  ec_claim :: "string option"
  ec_relevance_score :: rat
  ec_match_reasons :: "string list"

definition evidence_of :: "string \<Rightarrow> timestamp \<Rightarrow> evidence_create \<Rightarrow> evidence_row" where
  "evidence_of i now c = \<lparr>e_id = i, e_project_id = ec_project_id c, e_repository_id = ec_repository_id c,
     e_snapshot_id = ec_snapshot_id c, e_task_id = ec_task_id c, e_task_run_id = ec_task_run_id c,
     e_source_type = ec_source_type c, e_path = ec_path c, e_line_start = ec_line_start c,
     e_line_end = ec_line_end c, e_content_hash = ec_content_hash c, e_snippet = ec_snippet c,
     e_claim = ec_claim c, e_relevance_score = ec_relevance_score c, e_match_reasons = ec_match_reasons c,
     e_captured_at = now\<rparr>"

definition capture :: "evidence_create \<Rightarrow> string \<Rightarrow> db \<Rightarrow> evidence_row \<times> db" where
  "capture c actor s =
     (let s1 = bump_id ''evidence'' s; row = evidence_of (fresh_id ''evidence'' s) (utc_now s1) c
      in (row, audit_record ''EVIDENCE_CAPTURED'' actor (Some (e_project_id row)) (Some (e_repository_id row))
            (Some (e_task_id row)) (e_task_run_id row) L0 ''capture_evidence'' ''SUCCESS''
            [(''evidence_id'', JStr (e_id row)), (''snapshot_id'', JStr (e_snapshot_id row)),
             (''path'', JStr (e_path row)), (''source_type'', JStr (source_type_value (e_source_type row))),
             (''relevance_score'', JFloat (e_relevance_score row))] (put_evidence row s1)))"

definition current_status :: "host \<Rightarrow> registration_row \<Rightarrow> workspace_context \<Rightarrow> evidence_row \<Rightarrow> evidence_status res" where
  "current_status h reg ctx e =
     bind_res (open_adapter (reg_location reg) ctx) (\<lambda>ad.
     case resolve_repo_file h ad (e_path e) of
       Inr (base, path) \<Rightarrow> Inr (if hash_file h path = e_content_hash e then CURRENT else STALE)
     | Inl (RepositoryError code msg) \<Rightarrow>
         Inr (if code \<in> {REPOSITORY_NOT_FOUND, UNSAFE_PATH} then MISSING else STALE)
     | Inl err \<Rightarrow> Inl err)"

definition check_status :: "host \<Rightarrow> string \<Rightarrow> workspace_context \<Rightarrow> db \<Rightarrow> (string \<times> evidence_status \<times> timestamp) res" where
  "check_status h evidence_id ctx s =
     bind_res (some_or (get_evidence evidence_id s) (ValueError (''Unknown evidence reference: '' @ evidence_id))) (\<lambda>e.
     bind_res (case get_registration (e_repository_id e) s of None \<Rightarrow> Inr MISSING
               | Some reg \<Rightarrow> current_status h reg ctx e) (\<lambda>st.
     Inr (e_id e, st, utc_now s)))"

section \<open>The retrieval service\<close>

definition default_source_types :: "source_type list" where
  "default_source_types = [CODE, DOCUMENTATION, TEST, CONFIG, GIT]"

record retrieval_options =
  ro_task_run_id :: "string option"
  ro_explicit_terms :: "string list option"
  ro_requested_source_types :: "source_type list option"
  ro_max_results :: int
  ro_max_total_bytes :: int
  ro_max_snippet_bytes :: int
  ro_include_tests :: bool
  ro_include_documentation :: bool
  ro_include_config :: bool

definition build_request :: "string \<Rightarrow> string list \<Rightarrow> retrieval_options \<Rightarrow> db \<Rightarrow> retrieval_request res" where
  "build_request task_id snapshot_ids o' s =
     bind_res (task_of task_id s) (\<lambda>task.
     bind_res (some_or (active_contract (t_id task) s)
       (ValueError ''Task requires an active TaskContract for retrieval'')) (\<lambda>contract.
     Inr \<lparr>rt_task_id = t_id task, rt_task_run_id = ro_task_run_id o', rt_project_id = t_project_id task,
       rt_repository_ids = dict_fromkeys (c_repository_ids contract), rt_snapshot_ids = dict_fromkeys snapshot_ids,
       rt_query_terms = derive_query_terms (t_title task) (t_objective task) (c_objective contract)
         (map cr_statement (c_acceptance_criteria contract)) (ro_explicit_terms o'),
       rt_requested_source_types = (case ro_requested_source_types o' of Some (t # ts) \<Rightarrow> t # ts
         | _ \<Rightarrow> default_source_types),
       rt_max_results = ro_max_results o', rt_max_total_bytes = ro_max_total_bytes o',
       rt_max_snippet_bytes = ro_max_snippet_bytes o', rt_include_tests = ro_include_tests o',
       rt_include_documentation = ro_include_documentation o', rt_include_config = ro_include_config o',
       rt_created_at = utc_now s\<rparr>))"

definition authorized_snapshot :: "task_row \<Rightarrow> string \<Rightarrow> db \<Rightarrow> snapshot_row res" where
  "authorized_snapshot task snapshot_id s =
     bind_res (some_or (get_snapshot snapshot_id s) (ValueError (''Unknown repository snapshot: '' @ snapshot_id)))
       (\<lambda>snapshot. bind_res (check_that (attached (t_project_id task) (snap_repository_id snapshot) s)
          (ValueError ''Snapshot repository is not attached to the Task project'')) (\<lambda>_. Inr snapshot))"

definition snapshot_is_stale :: "host \<Rightarrow> snapshot_row \<Rightarrow> local_git \<Rightarrow> bool res" where
  "snapshot_is_stale h snapshot ad =
     bind_res (build_snapshot h ad STANDARD) (\<lambda>current.
     let g = sr_git_state current in
     Inr (gs_commit_sha g \<noteq> snap_commit_sha snapshot \<or> gs_branch g \<noteq> snap_branch snapshot
       \<or> sr_manifest_hash current \<noteq> snap_manifest_hash snapshot \<or> gs_is_dirty g \<noteq> snap_is_dirty snapshot))"

definition bool_text :: "bool \<Rightarrow> string" where
  "bool_text b = (if b then ''True'' else ''False'')"

definition git_candidate :: "snapshot_row \<Rightarrow> string \<Rightarrow> retrieval_request \<Rightarrow> candidate_source list" where
  "git_candidate snapshot repository_id rq =
     (if rt_requested_source_types rq \<noteq> [] \<and> GIT \<notin> set (rt_requested_source_types rq) then []
      else let text = ''branch '' @ or_else (snap_branch snapshot) ''DETACHED'' @ '' commit '' @ snap_commit_sha snapshot
                 @ '' dirty '' @ bool_text (snap_is_dirty snapshot);
               ts = filter (\<lambda>t. contains (py_lower t) (py_lower text)
                 \<or> py_lower t \<in> {''git'', ''branch'', ''commit'', ''dirty''}) (rt_query_terms rq)
           in if ts = [] then [] else
             [\<lparr>cs_repository_id = repository_id, cs_snapshot_id = snap_id snapshot, cs_path = ''GIT_STATE'',
               cs_source_type = GIT, cs_size_bytes = int (utf8_len text),
               cs_content_hash = snap_manifest_hash snapshot,
               cs_matches = map (\<lambda>t. \<lparr>sm_repository_id = repository_id, sm_snapshot_id = snap_id snapshot,
                 sm_path = ''GIT_STATE'', sm_line_start = None, sm_line_end = None, sm_matched_term = t,
                 sm_match_type = ''content'', sm_snippet = Some text,
                 sm_content_hash = snap_manifest_hash snapshot\<rparr>) ts\<rparr>])"

definition manifest_files :: "snapshot_row \<Rightarrow> json_object list res" where
  "manifest_files snapshot =
     (case jget ''files'' (snap_manifest snapshot) of None \<Rightarrow> Inr []
      | Some (JList vs) \<Rightarrow> map_res (\<lambda>v. some_or (json_dict v) (TypeError ''manifest entry'')) vs
      | Some _ \<Rightarrow> Inl (TypeError ''manifest files''))"

definition gather_snapshot ::
  "host \<Rightarrow> (string \<Rightarrow> workspace_context option) \<Rightarrow> retrieval_request \<Rightarrow> task_row \<Rightarrow> actor \<Rightarrow> string \<Rightarrow> db \<Rightarrow>
   (candidate_source list \<times> json_object list) res \<times> db"
where
  "gather_snapshot h contexts rq task actor snapshot_id s =
     try_res (authorized_snapshot task snapshot_id s) s (\<lambda>snapshot.
     try_res (some_or (get_registration (snap_repository_id snapshot) s)
       (ValueError (''Repository missing for snapshot: '' @ snapshot_id))) s (\<lambda>reg.
     try_res (some_or (contexts (reg_id reg))
       (ValueError (''Missing WorkspaceContext for repository: '' @ reg_id reg))) s (\<lambda>ctx.
     try_res (open_adapter (reg_location reg) ctx) s (\<lambda>ad.
     try_res (snapshot_is_stale h snapshot ad) s (\<lambda>stale.
     if stale
     then (Inr ([], [warning SNAPSHOT_STALE ''snapshot_id'' (snap_id snapshot)]),
           audit_record ''SNAPSHOT_STALE_DETECTED'' (actor_value actor) (Some (t_project_id task)) (Some (reg_id reg))
             (Some (t_id task)) (rt_task_run_id rq) L0 ''retrieve'' ''WARNING''
             [(''snapshot_id'', JStr (snap_id snapshot))] s)
     else
       try_res (manifest_files snapshot) s (\<lambda>files.
       try_res (discover_candidates h ad rq (reg_id reg) (snap_id snapshot) files) s (\<lambda>(found, warnings).
       (Inr (git_candidate snapshot (reg_id reg) rq @ found,
          (if snap_is_dirty snapshot then [warning REPOSITORY_DIRTY ''snapshot_id'' (snap_id snapshot)] else [])
          @ warnings), s))))))))"

definition budget_warning :: "string \<Rightarrow> json_object" where
  "budget_warning limit = warning CONTEXT_BUDGET_REACHED ''limit'' limit"

definition snippet_len :: "ranked_source \<Rightarrow> nat" where
  "snippet_len r = (case rk_snippet r of None \<Rightarrow> 0 | Some t \<Rightarrow> utf8_len t)"

definition cut_snippet :: "retrieval_request \<Rightarrow> ranked_source \<Rightarrow> ranked_source res" where
  "cut_snippet rq r =
     (if int (snippet_len r) \<le> rt_max_snippet_bytes rq then Inr r
      else case rk_snippet r of None \<Rightarrow> Inl (AttributeError ''encode'')
        | Some t \<Rightarrow> Inr (r\<lparr>rk_snippet := Some (utf8_slice (rt_max_snippet_bytes rq) t)\<rparr>))"

fun budget_from ::
  "retrieval_request \<Rightarrow> nat \<Rightarrow> nat \<Rightarrow> ranked_source list \<Rightarrow> (ranked_source list \<times> json_object list) res"
where
  "budget_from rq n used [] = Inr ([], [])"
| "budget_from rq n used (r # rs) =
     (if rt_max_results rq \<le> int n then Inr ([], [budget_warning ''max_results''])
      else bind_res (cut_snippet rq r) (\<lambda>r'.
        if rt_max_total_bytes rq < int (used + snippet_len r')
        then Inr ([], [budget_warning ''max_total_bytes''])
        else bind_res (budget_from rq (n + 1) (used + snippet_len r') rs) (\<lambda>(sel, ws). Inr (r' # sel, ws))))"

definition apply_budget :: "ranked_source list \<Rightarrow> retrieval_request \<Rightarrow> (ranked_source list \<times> json_object list) res" where
  "apply_budget ranked rq = budget_from rq 0 0 ranked"

definition evidence_for :: "retrieval_request \<Rightarrow> ranked_source \<Rightarrow> evidence_create" where
  "evidence_for rq r = \<lparr>ec_project_id = rt_project_id rq, ec_repository_id = rk_repository_id r,
     ec_snapshot_id = rk_snapshot_id r, ec_task_id = rt_task_id rq, ec_task_run_id = rt_task_run_id rq,
     ec_source_type = rk_source_type r, ec_path = rk_path r, ec_line_start = map_option int (rk_line_start r),
     ec_line_end = map_option int (rk_line_end r), ec_content_hash = rk_content_hash r,
     ec_snippet = rk_snippet r, ec_claim = None, ec_relevance_score = rk_score r,
     ec_match_reasons = rk_match_reasons r\<rparr>"

fun capture_evidence :: "retrieval_request \<Rightarrow> ranked_source list \<Rightarrow> actor \<Rightarrow> db \<Rightarrow> evidence_row list \<times> db" where
  "capture_evidence rq [] actor s = ([], s)"
| "capture_evidence rq (r # rs) actor s =
     (let (row, s1) = capture (evidence_for rq r) (actor_value actor) s;
          (rows, s2) = capture_evidence rq rs actor s1
      in (row # rows, s2))"

definition coverage_words :: "string list" where
  "coverage_words = [''evidence'', ''found'', ''required'', ''requires'', ''does'', ''not'', ''no'', ''exist'', ''exists'']"

definition coverage_item_of :: "ranked_source list \<Rightarrow> string list \<Rightarrow> criterion \<Rightarrow> coverage_item" where
  "coverage_item_of ranked evidence_ids ac =
     (let ac_terms = filter (\<lambda>t. t \<notin> set coverage_words) (derive_query_terms [] [] [] [cr_statement ac] (Some []));
          matched = sorted_set (filter (\<lambda>t. t \<in> set (concat (map rk_matched_terms ranked))) ac_terms)
      in \<lparr>cv_key = cr_id ac, cv_status = (if matched \<noteq> [] then ''EVIDENCE_FOUND'' else ''NO_EVIDENCE_FOUND''),
          cv_evidence_ids = (if matched \<noteq> [] then evidence_ids else []), cv_matched_terms = matched\<rparr>)"

definition coverage_summary ::
  "retrieval_request \<Rightarrow> ranked_source list \<Rightarrow> string list \<Rightarrow> db \<Rightarrow> coverage_item list \<times> (string \<times> nat) list"
where
  "coverage_summary rq ranked evidence_ids s =
     (let terms = concat (map rk_matched_terms ranked)
      in ((case active_contract (rt_task_id rq) s of None \<Rightarrow> []
           | Some c \<Rightarrow> map (coverage_item_of ranked evidence_ids) (c_acceptance_criteria c)),
          map (\<lambda>t. (t, count_list terms t)) (sorted_set terms)))"

text \<open>\<open>int(hexdigest[:12], 16) % 999999 + 1\<close>.\<close>

definition hex_digit :: "char \<Rightarrow> nat" where
  "hex_digit c = (if is_digit c then digit_val c else of_char (lower_char c) - 87)"

definition stable_small_number :: "host \<Rightarrow> json \<Rightarrow> nat" where
  "stable_small_number h payload =
     foldl (\<lambda>a c. a * 16 + hex_digit c) 0 (take 12 (stable_json_hash h payload)) mod 999999 + 1"

definition package_payload :: "retrieval_request \<Rightarrow> ranked_source list \<Rightarrow> json" where
  "package_payload rq ranked = JObj [(''task_id'', JStr (rt_task_id rq)), (''task_run_id'', jtext (rt_task_run_id rq)),
     (''project_id'', JStr (rt_project_id rq)), (''snapshot_ids'', jtexts (rt_snapshot_ids rq)),
     (''query_terms'', jtexts (rt_query_terms rq)), (''evidence_paths'', jtexts (map rk_path ranked))]"

definition build_context_package ::
  "host \<Rightarrow> retrieval_request \<Rightarrow> ranked_source list \<Rightarrow> evidence_row list \<Rightarrow> json_object list \<Rightarrow> db \<Rightarrow> context_package"
where
  "build_context_package h rq ranked rows warnings s =
     (let evidence_ids = map e_id rows; summary = coverage_summary rq ranked evidence_ids s
      in \<lparr>cp_id = public_id ''LCTX'' (stable_small_number h (package_payload rq ranked)),
          cp_task_id = rt_task_id rq, cp_task_run_id = rt_task_run_id rq, cp_project_id = rt_project_id rq,
          cp_snapshot_ids = rt_snapshot_ids rq, cp_query_terms = rt_query_terms rq, cp_evidence_ids = evidence_ids,
          cp_ranked_sources = ranked, cp_total_sources = length ranked,
          cp_total_bytes = sum_list (map snippet_len ranked), cp_acceptance_coverage = fst summary,
          cp_term_counts = snd summary, cp_warnings = warnings, cp_created_at = utc_now s\<rparr>)"

definition audit_retrieval ::
  "string \<Rightarrow> actor \<Rightarrow> task_row \<Rightarrow> retrieval_request \<Rightarrow> string \<Rightarrow> string \<Rightarrow> json_object \<Rightarrow> db \<Rightarrow> db" where
  "audit_retrieval event actor task rq action result metadata =
     audit_record event (actor_value actor) (Some (t_project_id task)) None (Some (t_id task)) (rt_task_run_id rq)
       L0 action result metadata"

definition finish_retrieval ::
  "host \<Rightarrow> retrieval_request \<Rightarrow> task_row \<Rightarrow> actor \<Rightarrow> ranked_source list \<Rightarrow> json_object list \<Rightarrow> db \<Rightarrow> context_package \<times> db"
where
  "finish_retrieval h rq task actor selected warnings s =
     (let (rows, s1) = capture_evidence rq selected actor s;
          package0 = build_context_package h rq selected rows warnings s1;
          package = (if rows \<noteq> [] then package0 else package0\<lparr>cp_warnings := cp_warnings package0
            @ [[(''code'', JStr (retrieval_warning_value NO_RELEVANT_EVIDENCE))]]\<rparr>);
          s2 = audit_retrieval (if rows \<noteq> [] then ''RETRIEVAL_COMPLETED'' else ''RETRIEVAL_EMPTY'') actor task rq
            ''retrieve'' (if rows \<noteq> [] then ''SUCCESS'' else ''EMPTY'')
            [(''evidence_count'', JInt (int (length rows))), (''total_sources'', JInt (int (cp_total_sources package))),
             (''warnings'', JList (map JObj (cp_warnings package)))] s1
      in (package, audit_retrieval ''CONTEXT_PACKAGE_CREATED'' actor task rq ''build_context_package'' ''SUCCESS''
            [(''context_package_id'', JStr (cp_id package)), (''evidence_ids'', jtexts (cp_evidence_ids package))] s2))"

definition retrieve ::
  "host \<Rightarrow> retrieval_request \<Rightarrow> (string \<Rightarrow> workspace_context option) \<Rightarrow> actor \<Rightarrow> db \<Rightarrow> context_package res \<times> db"
where
  "retrieve h rq contexts actor s =
     try_res (task_of (rt_task_id rq) s) s (\<lambda>task.
     try_res (check_that (t_project_id task = rt_project_id rq)
       (ValueError ''RetrievalRequest project does not match Task project'')) s (\<lambda>_.
     try_res (check_that (truthy (rt_task_run_id rq) \<longrightarrow>
         (case get_run (the (rt_task_run_id rq)) s of None \<Rightarrow> False | Some run \<Rightarrow> r_task_id run = t_id task))
       (ValueError ''TaskRun does not belong to retrieval Task'')) s (\<lambda>_.
     then_op (map_op (gather_snapshot h contexts rq task actor) (rt_snapshot_ids rq)
       (audit_retrieval ''RETRIEVAL_STARTED'' actor task rq ''retrieve'' ''STARTED''
          [(''snapshot_ids'', jtexts (rt_snapshot_ids rq)), (''query_terms'', jtexts (rt_query_terms rq))] s))
     (\<lambda>found s1.
     try_res (apply_budget (rank_candidates (concat (map fst found)) rq) rq) s1 (\<lambda>(selected, budget_warnings).
     apfst Inr (finish_retrieval h rq task actor selected (concat (map snd found) @ budget_warnings) s1))))))"

definition retrieve_for_task ::
  "host \<Rightarrow> string \<Rightarrow> string list \<Rightarrow> (string \<Rightarrow> workspace_context option) \<Rightarrow> retrieval_options \<Rightarrow> actor \<Rightarrow> db \<Rightarrow>
   context_package res \<times> db"
where
  "retrieve_for_task h task_id snapshot_ids contexts o' actor s =
     try_res (build_request task_id snapshot_ids o' s) s (\<lambda>rq. retrieve h rq contexts actor s)"

section \<open>What a retrieval gives\<close>

subsection \<open>Budget\<close>

lemma utf8_slice_len:
  assumes "0 \<le> b"
  shows "int (utf8_len (utf8_slice b t)) \<le> b"
  using assms utf8_take_len [of "nat b" t] by (simp add: utf8_slice_def slice_bound_def)

definition cut_of :: "ranked_source \<Rightarrow> ranked_source \<Rightarrow> bool" where
  "cut_of r r' \<longleftrightarrow> (\<exists>x. r' = r\<lparr>rk_snippet := x\<rparr>)"

lemma cut_of_refl [simp]: "cut_of r r"
  unfolding cut_of_def by (rule exI [of _ "rk_snippet r"]) simp

lemma cut_of_fields:
  assumes "cut_of r r'"
  shows "ranking_key r' = ranking_key r" "rk_score r' = rk_score r" "rk_snapshot_id r' = rk_snapshot_id r"
    "rk_repository_id r' = rk_repository_id r" "rk_path r' = rk_path r" "rk_source_type r' = rk_source_type r"
    "rk_content_hash r' = rk_content_hash r"
  using assms by (auto simp: cut_of_def ranking_key_def)

lemma cut_snippet_Inr:
  assumes "cut_snippet rq r = Inr r'"
  shows "cut_of r r' \<and> (0 \<le> rt_max_snippet_bytes rq \<longrightarrow> int (snippet_len r') \<le> rt_max_snippet_bytes rq)"
proof (cases "int (snippet_len r) \<le> rt_max_snippet_bytes rq")
  case True
  with assms show ?thesis by (auto simp: cut_snippet_def)
next
  case False
  with assms obtain t where "r' = r\<lparr>rk_snippet := Some (utf8_slice (rt_max_snippet_bytes rq) t)\<rparr>"
    by (auto simp: cut_snippet_def split: option.splits)
  then show ?thesis by (auto simp: cut_of_def snippet_len_def utf8_slice_len)
qed

lemma budget_from_Inr:
  assumes "budget_from rq n used rs = Inr (sel, ws)"
  shows "list_all2 cut_of (take (length sel) rs) sel \<and> int n + int (length sel) \<le> max (int n) (rt_max_results rq)
    \<and> (sel \<noteq> [] \<longrightarrow> int used + int (sum_list (map snippet_len sel)) \<le> rt_max_total_bytes rq)
    \<and> (0 \<le> rt_max_snippet_bytes rq \<longrightarrow> list_all (\<lambda>r. int (snippet_len r) \<le> rt_max_snippet_bytes rq) sel)"
  using assms
proof (induction rs arbitrary: n used sel ws)
  case (Cons r rs)
  show ?case
  proof (cases "sel = []")
    case False
    have n: "int n < rt_max_results rq"
      using Cons.prems False by (auto split: if_splits)
    then obtain r' where r': "cut_snippet rq r = Inr r'"
      using Cons.prems by auto
    have le: "int (used + snippet_len r') \<le> rt_max_total_bytes rq"
      using Cons.prems False n r' by (auto split: if_splits)
    obtain sel' ws' where sel': "budget_from rq (n + 1) (used + snippet_len r') rs = Inr (sel', ws')" "sel = r' # sel'"
      using Cons.prems n r' le by (auto split: if_splits)
    from Cons.IH [OF sel'(1)] sel'(2) cut_snippet_Inr [OF r'] n le show ?thesis
      by auto
  qed simp
qed simp

lemma apply_budget_Inr:
  assumes "apply_budget rs rq = Inr (sel, ws)"
  shows "list_all2 cut_of (take (length sel) rs) sel" "int (length sel) \<le> max 0 (rt_max_results rq)"
    "int (sum_list (map snippet_len sel)) \<le> max 0 (rt_max_total_bytes rq)"
    "0 \<le> rt_max_snippet_bytes rq \<longrightarrow> list_all (\<lambda>r. int (snippet_len r) \<le> rt_max_snippet_bytes rq) sel"
  using budget_from_Inr [OF assms [unfolded apply_budget_def]] by (auto simp: max_def)

lemma cut_keys:
  assumes "list_all2 cut_of rs sel"
  shows "map ranking_key sel = map ranking_key rs"
  using assms by (induction rule: list_all2_induct) (auto simp: cut_of_fields)

subsection \<open>Evidence\<close>

lemma capture_frame [simp]:
  "snapshots (snd (capture c a s)) = snapshots s" "attachments (snd (capture c a s)) = attachments s"
  by (simp_all add: capture_def Let_def put_evidence_def)

lemma capture_evidence_rows:
  "length (fst (capture_evidence rq rs a s)) = length rs
   \<and> evidence_refs (snd (capture_evidence rq rs a s)) = evidence_refs s @ fst (capture_evidence rq rs a s)
   \<and> list_all2 (\<lambda>r e. \<exists>i now. e = evidence_of i now (evidence_for rq r)) rs (fst (capture_evidence rq rs a s))"
proof (induction rs arbitrary: s)
  case (Cons r rs)
  let ?c = "capture (evidence_for rq r) (actor_value a) s"
  have row: "evidence_refs (snd ?c) = evidence_refs s @ [fst ?c]"
    "\<exists>i now. fst ?c = evidence_of i now (evidence_for rq r)"
    by (auto simp: capture_def Let_def put_evidence_def tput_fresh evidence_of_def)
  show ?case
    using row Cons.IH [of "snd ?c"] by (simp add: split_beta)
qed simp

text \<open>What gathering gives: every candidate belongs to a snapshot of the request whose repository is
  attached to the task's project, and is the git state or a readable, unflagged entry of the
  snapshot's manifest.\<close>

definition manifest_source :: "snapshot_row \<Rightarrow> string \<Rightarrow> string \<Rightarrow> bool" where
  "manifest_source snapshot path hash \<longleftrightarrow> (\<exists>files d. manifest_files snapshot = Inr files \<and> d \<in> set files
     \<and> jget ''path'' d = Some (JStr path) \<and> jget ''content_hash'' d = Some (JStr hash)
     \<and> \<not> entry_flag ''is_sensitive'' d \<and> \<not> entry_flag ''is_binary'' d)"

definition authorized_source :: "task_row \<Rightarrow> retrieval_request \<Rightarrow> db \<Rightarrow> string \<Rightarrow> string \<Rightarrow> string \<Rightarrow> string \<Rightarrow> bool" where
  "authorized_source task rq s repository_id snapshot_id path hash \<longleftrightarrow>
     (\<exists>snapshot. snapshot_id \<in> set (rt_snapshot_ids rq) \<and> get_snapshot snapshot_id s = Some snapshot
        \<and> snap_repository_id snapshot = repository_id \<and> attached (t_project_id task) repository_id s
        \<and> (path = ''GIT_STATE'' \<and> hash = snap_manifest_hash snapshot \<or> manifest_source snapshot path hash))"

lemma gather_frame:
  "snapshots (snd (gather_snapshot h cx rq task a i s)) = snapshots s
   \<and> attachments (snd (gather_snapshot h cx rq task a i s)) = attachments s
   \<and> evidence_refs (snd (gather_snapshot h cx rq task a i s)) = evidence_refs s"
  by (simp add: gather_snapshot_def split: try_res_splits prod.splits)

lemma entry_text_Inr [simp]: "entry_text k d = Inr t \<longleftrightarrow> jget k d = Some (JStr t)"
  by (auto simp: entry_text_def split: option.splits json.splits)

lemma discover_entry_mem:
  assumes "discover_entry h ad rq rid sid (path, d) = Inr (cs, ws)" and "c \<in> set cs"
  shows "cs_repository_id c = rid \<and> cs_snapshot_id c = sid \<and> cs_path c = path
    \<and> jget ''content_hash'' d = Some (JStr (cs_content_hash c))
    \<and> \<not> entry_flag ''is_sensitive'' d \<and> \<not> entry_flag ''is_binary'' d"
  using assms by (auto simp: discover_entry_def Let_def split: if_splits sum.splits exc.splits)

lemma list_all2_mem:
  assumes "list_all2 P xs ys" and "y \<in> set ys"
  shows "\<exists>x. x \<in> set xs \<and> P x y"
  using assms by (induction rule: list_all2_induct) auto

lemma map_res_mem:
  assumes "map_res f xs = Inr ys" and "y \<in> set ys"
  obtains x where "x \<in> set xs" and "f x = Inr y"
proof -
  obtain n where n: "n < length ys" "y = ys ! n" using assms(2) by (auto simp: in_set_conv_nth)
  with assms(1) have "length xs = length ys" "f (xs ! n) = Inr y"
    by (auto simp: map_res_Inr_iff list_all2_conv_all_nth)
  with n that [of "xs ! n"] show thesis by simp
qed

lemma discover_mem:
  assumes "discover_candidates h ad rq rid sid files = Inr (cs, ws)" and "c \<in> set cs"
  shows "cs_repository_id c = rid \<and> cs_snapshot_id c = sid
    \<and> (\<exists>d \<in> set files. jget ''path'' d = Some (JStr (cs_path c)) \<and> jget ''content_hash'' d = Some (JStr (cs_content_hash c))
        \<and> \<not> entry_flag ''is_sensitive'' d \<and> \<not> entry_flag ''is_binary'' d)"
proof -
  obtain entries found where e: "map_res (\<lambda>d. bind_res (entry_text ''path'' d) (\<lambda>p. Inr (p, d))) files = Inr entries"
    "map_res (discover_entry h ad rq rid sid) (sort_key fst entries) = Inr found" "cs = concat (map fst found)"
    using assms(1) by (auto simp: discover_candidates_def)
  then obtain f where f: "f \<in> set found" "c \<in> set (fst f)" using assms(2) by auto
  obtain x where x: "x \<in> set (sort_key fst entries)" "discover_entry h ad rq rid sid x = Inr f"
    by (rule map_res_mem [OF e(2) f(1)])
  then have "x \<in> set entries" by simp
  then obtain d where d: "d \<in> set files" "jget ''path'' d = Some (JStr (fst x))" "snd x = d"
    by (rule map_res_mem [OF e(1)]) auto
  from discover_entry_mem [of h ad rq rid sid "fst x" d "fst f" "snd f" c] x(2) d f(2)
  show ?thesis by (cases x) auto
qed

lemma gather_mem:
  assumes "gather_snapshot h cx rq task a i s = (Inr (cs, ws), t)" and "c \<in> set cs"
    and "i \<in> set (rt_snapshot_ids rq)"
  shows "authorized_source task rq s (cs_repository_id c) (cs_snapshot_id c) (cs_path c) (cs_content_hash c)"
proof -
  obtain snapshot reg ad files found ws' where g: "authorized_snapshot task i s = Inr snapshot"
    "get_registration (snap_repository_id snapshot) s = Some reg" "manifest_files snapshot = Inr files"
    "discover_candidates h ad rq (reg_id reg) (snap_id snapshot) files = Inr (found, ws')"
    "cs = git_candidate snapshot (reg_id reg) rq @ found"
    using assms(1,2) unfolding gather_snapshot_def try_res_Inr_iff
    by (auto split: if_splits prod.splits)
  have snapshot: "get_snapshot i s = Some snapshot" "attached (t_project_id task) (snap_repository_id snapshot) s"
    using g(1) by (auto simp: authorized_snapshot_def)
  have keys: "snap_id snapshot = i" "reg_id reg = snap_repository_id snapshot"
    using snapshot_table.get_key [OF snapshot(1)] registration_table.get_key [OF g(2)] by auto
  from assms(2) g(5) consider "c \<in> set (git_candidate snapshot (reg_id reg) rq)" | "c \<in> set found" by auto
  then show ?thesis
  proof cases
    case 1
    then have "cs_repository_id c = reg_id reg \<and> cs_snapshot_id c = i \<and> cs_path c = ''GIT_STATE''
        \<and> cs_content_hash c = snap_manifest_hash snapshot"
      using keys by (auto simp: git_candidate_def Let_def split: if_splits)
    with snapshot keys assms(3) show ?thesis by (auto simp: authorized_source_def)
  next
    case 2
    with discover_mem [OF g(4) 2] snapshot keys assms(3) g(3) show ?thesis
      by (auto simp: authorized_source_def manifest_source_def)
  qed
qed

lemma apfst_Inr: "apfst Inr z = (Inr p, t) \<longleftrightarrow> z = (p, t)"
  by (cases z) auto

lemma retrieve_Inr:
  assumes "retrieve h rq cx a s = (Inr p, t)"
  obtains task found s0 s1 sel ws where "get_task (rt_task_id rq) s = Some task"
    and "t_project_id task = rt_project_id rq"
    and "s0 = audit_retrieval ''RETRIEVAL_STARTED'' a task rq ''retrieve'' ''STARTED''
      [(''snapshot_ids'', jtexts (rt_snapshot_ids rq)), (''query_terms'', jtexts (rt_query_terms rq))] s"
    and "map_op (gather_snapshot h cx rq task a) (rt_snapshot_ids rq) s0 = (Inr found, s1)"
    and "apply_budget (rank_candidates (concat (map fst found)) rq) rq = Inr (sel, ws)"
    and "finish_retrieval h rq task a sel (concat (map snd found) @ ws) s1 = (p, t)"
  using assms unfolding retrieve_def try_res_Inr_iff then_op_Inr
  by (auto simp: task_of_def apfst_Inr)

lemma gathered_frame:
  assumes "map_op (gather_snapshot h cx rq task a) is s = (r, t)"
  shows "snapshots t = snapshots s \<and> attachments t = attachments s \<and> evidence_refs t = evidence_refs s"
  using map_op_inv [of "is" "\<lambda>x. snapshots x = snapshots s \<and> attachments x = attachments s
      \<and> evidence_refs x = evidence_refs s" "gather_snapshot h cx rq task a" s] assms
  by (simp add: gather_frame)

lemma authorized_source_frame:
  assumes "snapshots s' = snapshots s" and "attachments s' = attachments s"
  shows "authorized_source task rq s' = authorized_source task rq s"
  using assms by (intro ext) (simp add: authorized_source_def get_snapshot_def attached_def)

lemma gathered_authorized:
  assumes "map_op (gather_snapshot h cx rq task a) (rt_snapshot_ids rq) s = (Inr found, t)"
    and "c \<in> set (concat (map fst found))"
  shows "authorized_source task rq s (cs_repository_id c) (cs_snapshot_id c) (cs_path c) (cs_content_hash c)"
proof -
  let ?I = "\<lambda>x. snapshots x = snapshots s \<and> attachments x = attachments s"
  obtain f where f: "f \<in> set found" "c \<in> set (fst f)" using assms(2) by auto
  have "\<exists>i s1 s2. i \<in> set (rt_snapshot_ids rq) \<and> ?I s1 \<and> gather_snapshot h cx rq task a i s1 = (Inr f, s2)"
    by (rule map_op_Inr [OF assms(1) f(1)]) (simp_all add: gather_frame)
  then obtain i s1 s2 where i: "i \<in> set (rt_snapshot_ids rq)" "?I s1"
    "gather_snapshot h cx rq task a i s1 = (Inr (fst f, snd f), s2)" by auto
  from gather_mem [OF i(3) f(2) i(1)] i(2) show ?thesis
    using authorized_source_frame [of s1 s task rq] by simp
qed

lemma finish_retrieval_rows:
  assumes "finish_retrieval h rq task a sel ws s = (p, t)"
  shows "cp_ranked_sources p = sel" "cp_total_sources p = length sel" "cp_total_bytes p = sum_list (map snippet_len sel)"
    "cp_evidence_ids p = map e_id (fst (capture_evidence rq sel a s))"
    "evidence_refs t = evidence_refs s @ fst (capture_evidence rq sel a s)"
  using assms capture_evidence_rows [of rq sel a s]
  by (auto simp: finish_retrieval_def Let_def build_context_package_def audit_retrieval_def split_beta)

lemma selected_from:
  assumes "apply_budget (rank_candidates cs rq) rq = Inr (sel, ws)" and "r \<in> set sel"
  obtains c where "c \<in> set cs" and "cut_of (rank_source c rq) r" and "0 < rk_score (rank_source c rq)"
proof -
  note cut = apply_budget_Inr(1) [OF assms(1)]
  obtain n where n: "n < length sel" "r = sel ! n" using assms(2) by (auto simp: in_set_conv_nth)
  let ?t = "take (length sel) (rank_candidates cs rq)"
  have "length ?t = length sel" and c: "cut_of (?t ! n) r"
    using cut n by (auto simp: list_all2_conv_all_nth)
  then have "?t ! n \<in> set ?t" using n(1) by (metis nth_mem)
  then have "?t ! n \<in> set (rank_candidates cs rq)" by (rule in_set_takeD)
  then obtain d where "d \<in> set cs" "?t ! n = rank_source d rq" "0 < rk_score (rank_source d rq)"
    by (auto simp: rank_candidates_def)
  with c that show thesis by simp
qed

definition ex_snapshot :: snapshot_row where
  "ex_snapshot = \<lparr>snap_id = ''S'', snap_repository_id = ''R'', snap_mode = STANDARD, snap_captured_at = 0,
     snap_branch = Some [], snap_commit_sha = [], snap_is_dirty = False, snap_dirty_summary = [],
     snap_manifest_hash = ''00'', snap_file_count = 1, snap_document_count = 0, snap_test_count = 0,
     snap_technology_profile = [], snap_manifest = [], snap_documentation_map = [], snap_test_map = [],
     snap_configuration_map = [], snap_warnings = []\<rparr>"

definition ex_registration :: registration_row where
  "ex_registration = \<lparr>reg_id = ''R'', reg_project_id = ''P'', reg_name = ''r'', reg_adapter_type = LOCAL_GIT,
     reg_location = ''/r'', reg_canonical_remote = None, reg_default_branch = None, reg_access_mode = READ_ONLY,
     reg_status = ''ACTIVE'', reg_created_at = 0, reg_updated_at = 0\<rparr>"

definition ex_retrieval_store :: db where
  "ex_retrieval_store = empty_db\<lparr>tasks := [ex_task ''A'' task_status.READY], snapshots := [ex_snapshot],
     registrations := [ex_registration], attachments := [\<lparr>att_id = 1, att_project_id = ''P'',
       att_repository_id = ''R'', att_attached_at = 0, att_attached_by = ''SYSTEM''\<rparr>]\<rparr>"

definition ex_retrieval :: retrieval_request where
  "ex_retrieval = \<lparr>rt_task_id = ''A'', rt_task_run_id = None, rt_project_id = ''P'', rt_repository_ids = [''R''],
     rt_snapshot_ids = [''S''], rt_query_terms = [''git''], rt_requested_source_types = default_source_types,
     rt_max_results = 10, rt_max_total_bytes = 24000, rt_max_snippet_bytes = 600, rt_include_tests = True,
     rt_include_documentation = True, rt_include_config = True, rt_created_at = 0\<rparr>"

definition ex_candidate :: candidate_source where
  "ex_candidate = \<lparr>cs_repository_id = ''R'', cs_snapshot_id = ''S'', cs_path = ''GIT_STATE'', cs_source_type = GIT,
     cs_size_bytes = 35, cs_content_hash = ''00'', cs_matches = [\<lparr>sm_repository_id = ''R'', sm_snapshot_id = ''S'',
       sm_path = ''GIT_STATE'', sm_line_start = None, sm_line_end = None, sm_matched_term = ''git'',
       sm_match_type = ''content'', sm_snippet = Some ''branch DETACHED commit  dirty False'',
       sm_content_hash = ''00''\<rparr>]\<rparr>"

lemma ex_rows:
  "get_task ''A'' ex_retrieval_store = Some (ex_task ''A'' task_status.READY)"
  "get_snapshot ''S'' ex_retrieval_store = Some ex_snapshot"
  "get_registration ''R'' ex_retrieval_store = Some ex_registration"
  "attached ''P'' ''R'' ex_retrieval_store" "evidence_refs ex_retrieval_store = []"
  by (simp_all add: get_task_def get_snapshot_def get_registration_def attached_def ex_retrieval_store_def
      empty_db_def ex_task_def ex_snapshot_def ex_registration_def)

lemma ex_not_stale: "snapshot_is_stale ex_host ex_snapshot ex_adapter = Inr False"
proof -
  have "\<exists>st. get_git_state ex_host ex_adapter = Inr st \<and> gs_commit_sha st = [] \<and> gs_branch st = Some []
      \<and> \<not> gs_is_dirty st"
    using ex_root ex_working_tree unfolding get_git_state_def working_tree_case
    by (simp add: git_text_def Let_def py_strip_def splitlines_def status_paths_def sorted_set_def)
  then obtain st where st: "get_git_state ex_host ex_adapter = Inr st" "gs_commit_sha st = []"
    "gs_branch st = Some []" "\<not> gs_is_dirty st" by blast
  obtain f where "file_record_of ex_host ex_adapter ''a.py'' STANDARD st = Inr f"
    using ex_record by blast
  with st show ?thesis
    using ex_files by (simp add: snapshot_is_stale_def build_snapshot_def Let_def ex_snapshot_def
        manifest_identity_def stable_json_hash_def)
qed

lemma ex_gathered:
  assumes "snapshots s = snapshots ex_retrieval_store" "attachments s = attachments ex_retrieval_store"
    "registrations s = registrations ex_retrieval_store"
  shows "gather_snapshot ex_host (\<lambda>i. Some ex_context) ex_retrieval (ex_task ''A'' task_status.READY) SYSTEM ''S'' s
    = (Inr ([ex_candidate], []), s)"
proof -
  have rows: "get_snapshot ''S'' s = Some ex_snapshot" "get_registration ''R'' s = Some ex_registration"
    "attached ''P'' ''R'' s"
    using ex_rows assms by (simp_all add: get_snapshot_def get_registration_def attached_def)
  have keys: "snap_repository_id ex_snapshot = ''R''" "snap_id ex_snapshot = ''S''" "\<not> snap_is_dirty ex_snapshot"
    "snap_manifest ex_snapshot = []" "reg_id ex_registration = ''R''" "reg_location ex_registration = ''/r''"
    by (simp_all add: ex_snapshot_def ex_registration_def)
  have ad: "open_adapter ''/r'' ex_context = Inr ex_adapter"
    by (simp add: open_adapter_def ex_context_def ex_adapter_def)
  have "git_candidate ex_snapshot ''R'' ex_retrieval = [ex_candidate]"
    by (simp add: git_candidate_def Let_def ex_snapshot_def ex_retrieval_def default_source_types_def
        bool_text_def or_else_def py_lower_def lower_char_def utf8_width_def ex_candidate_def)
  then show ?thesis
    using rows keys ex_not_stale ad
    by (simp add: gather_snapshot_def authorized_snapshot_def ex_task_def manifest_files_def jget_def
        discover_candidates_def)
qed

lemma ex_selected: "apply_budget (rank_candidates [ex_candidate] ex_retrieval) ex_retrieval
    = Inr ([rank_source ex_candidate ex_retrieval], [])"
proof -
  have p: "term_points ''GIT_STATE'' ''git'' = Some (48, ''basename match: git'')"
    by code_simp
  have "rk_score (rank_source ex_candidate ex_retrieval) = 53 / 100"
    by (simp add: rank_source_def all_points_def Let_def ex_candidate_def ex_retrieval_def p List.map_filter_def
        match_points_def type_points_def weight_def weights_def)
  moreover have "snippet_len (rank_source ex_candidate ex_retrieval) = 35"
    by (simp add: snippet_len_def rank_source_def Let_def ex_candidate_def utf8_width_def)
  ultimately show ?thesis
    by (simp add: rank_candidates_def apply_budget_def cut_snippet_def ex_retrieval_def)
qed

lemma ex_retrieve: "\<exists>p t. retrieve ex_host ex_retrieval (\<lambda>i. Some ex_context) SYSTEM ex_retrieval_store = (Inr p, t)"
proof -
  have g: "gather_snapshot ex_host (\<lambda>i. Some ex_context) ex_retrieval (ex_task ''A'' task_status.READY) SYSTEM ''S''
      (audit_retrieval e a k r c d md ex_retrieval_store)
      = (Inr ([ex_candidate], []), audit_retrieval e a k r c d md ex_retrieval_store)" for e a k r c d md
    by (rule ex_gathered) (simp_all add: audit_retrieval_def)
  have f: "rt_task_id ex_retrieval = ''A''" "rt_project_id ex_retrieval = ''P''" "rt_task_run_id ex_retrieval = None"
    "rt_snapshot_ids ex_retrieval = [''S'']" "t_project_id (ex_task ''A'' task_status.READY) = ''P''"
    by (simp_all add: ex_retrieval_def ex_task_def)
  show ?thesis
    unfolding retrieve_def
    by (simp add: f g task_of_def ex_rows check_that_def truthy_def ex_selected apfst_Inr)
qed

lemma ex_retrieve_one:
  assumes "retrieve ex_host ex_retrieval (\<lambda>i. Some ex_context) SYSTEM ex_retrieval_store = (Inr p, t)"
  shows "cp_total_sources p = 1 \<and> length (evidence_refs t) = 1"
proof -
  obtain task found s0 s1 sel ws where r: "get_task (rt_task_id ex_retrieval) ex_retrieval_store = Some task"
    "s0 = audit_retrieval ''RETRIEVAL_STARTED'' SYSTEM task ex_retrieval ''retrieve'' ''STARTED''
      [(''snapshot_ids'', jtexts (rt_snapshot_ids ex_retrieval)), (''query_terms'', jtexts (rt_query_terms ex_retrieval))]
      ex_retrieval_store"
    "map_op (gather_snapshot ex_host (\<lambda>i. Some ex_context) ex_retrieval task SYSTEM) (rt_snapshot_ids ex_retrieval) s0
       = (Inr found, s1)"
    "apply_budget (rank_candidates (concat (map fst found)) ex_retrieval) ex_retrieval = Inr (sel, ws)"
    "finish_retrieval ex_host ex_retrieval task SYSTEM sel (concat (map snd found) @ ws) s1 = (p, t)"
    by (rule retrieve_Inr [OF assms])
  have task: "task = ex_task ''A'' task_status.READY" and ids: "rt_snapshot_ids ex_retrieval = [''S'']"
    using r(1) ex_rows(1) by (simp_all add: ex_retrieval_def)
  have "gather_snapshot ex_host (\<lambda>i. Some ex_context) ex_retrieval (ex_task ''A'' task_status.READY) SYSTEM ''S'' s0
      = (Inr ([ex_candidate], []), s0)"
    by (rule ex_gathered) (simp_all add: r(2) audit_retrieval_def)
  with r(3) task ids have "found = [([ex_candidate], [])]" by simp
  with r(4) ex_selected have "length sel = 1" by auto
  then show ?thesis
    using finish_retrieval_rows(2,5) [OF r(5)] capture_evidence_rows [of ex_retrieval sel SYSTEM s1]
      gathered_frame [OF r(3)] ex_rows(5) by (simp add: r(2) audit_retrieval_def)
qed



text \<open>A package keeps to the request's bounds: no more sources than asked for, no more bytes of
  snippets, no snippet longer than allowed; its sources come best first, each with a positive
  score, and each has its own new piece of evidence.\<close>

theorem retrieval_within_budget:
  assumes "retrieve h rq contexts a s = (Inr p, t)"
  shows "int (cp_total_sources p) \<le> max 0 (rt_max_results rq)
    \<and> int (cp_total_bytes p) \<le> max 0 (rt_max_total_bytes rq)
    \<and> (0 \<le> rt_max_snippet_bytes rq \<longrightarrow>
        list_all (\<lambda>r. int (snippet_len r) \<le> rt_max_snippet_bytes rq) (cp_ranked_sources p))
    \<and> sorted (map ranking_key (cp_ranked_sources p)) \<and> list_all (\<lambda>r. 0 < rk_score r) (cp_ranked_sources p)
    \<and> length (evidence_refs t) = length (evidence_refs s) + cp_total_sources p"
proof -
  obtain task found s0 s1 sel ws where r:
    "s0 = audit_retrieval ''RETRIEVAL_STARTED'' a task rq ''retrieve'' ''STARTED''
      [(''snapshot_ids'', jtexts (rt_snapshot_ids rq)), (''query_terms'', jtexts (rt_query_terms rq))] s"
    "map_op (gather_snapshot h contexts rq task a) (rt_snapshot_ids rq) s0 = (Inr found, s1)"
    "apply_budget (rank_candidates (concat (map fst found)) rq) rq = Inr (sel, ws)"
    "finish_retrieval h rq task a sel (concat (map snd found) @ ws) s1 = (p, t)"
    by (rule retrieve_Inr [OF assms])
  let ?ranked = "rank_candidates (concat (map fst found)) rq"
  have "sorted (map ranking_key ?ranked)"
    by (simp add: rank_candidates_def)
  then have "sorted (map ranking_key (take (length sel) ?ranked))"
    by (metis sorted_wrt_take take_map)
  then have keys: "sorted (map ranking_key sel)"
    using cut_keys [OF apply_budget_Inr(1) [OF r(3)]] by simp
  have pos: "list_all (\<lambda>r. 0 < rk_score r) sel"
    unfolding list_all_iff
    by (metis cut_of_fields(2) selected_from [OF r(3)])
  have len: "length (evidence_refs t) = length (evidence_refs s) + length sel"
    using finish_retrieval_rows(5) [OF r(4)] capture_evidence_rows [of rq sel a s1] gathered_frame [OF r(2)]
    by (simp add: r(1) audit_retrieval_def)
  show ?thesis
    using apply_budget_Inr [OF r(3)] keys pos len finish_retrieval_rows [OF r(4)] by simp
qed

theorem retrieval_within_budget_witness:
  "\<exists>p t. retrieve ex_host ex_retrieval (\<lambda>i. Some ex_context) SYSTEM ex_retrieval_store = (Inr p, t)
     \<and> cp_total_sources p = 1 \<and> cp_total_bytes p \<le> 24000 \<and> list_all (\<lambda>r. 0 < rk_score r) (cp_ranked_sources p)"
proof -
  obtain p t where r: "retrieve ex_host ex_retrieval (\<lambda>i. Some ex_context) SYSTEM ex_retrieval_store = (Inr p, t)"
    using ex_retrieve by blast
  with retrieval_within_budget [OF r] ex_retrieve_one [OF r] show ?thesis
    by (auto simp: ex_retrieval_def)
qed

text \<open>A text file whose bytes after the sample are no UTF-8 is not skipped with a warning: the error
  ends the whole discovery.\<close>

lemma undecodable_file_stops_discovery:
  assumes "read_file h ad path = Inl (ValueError m)" and "source_type_allowed (source_type_for_path path) rq"
    and "jget ''content_hash'' d = Some (JStr c)" and "jget ''path'' d = Some (JStr path)"
    and "\<not> entry_flag ''is_sensitive'' d" and "\<not> entry_flag ''is_binary'' d"
  shows "discover_candidates h ad rq rid sid [d] = Inl (ValueError m)"
  using assms by (simp add: discover_candidates_def discover_entry_def entry_text_def bind_res_def)

end
