(* ===== verification/Memory.thy ===== *)
theory Memory
  imports Retrieval
begin

text \<open>
  The memory of the program: \<^verbatim>\<open>lucius/memory/validation.py\<close>, \<^verbatim>\<open>retrieval.py\<close>,
  \<^verbatim>\<open>firewall.py\<close> and \<^verbatim>\<open>service.py\<close>. A score is a whole number. Creation blocks knowledge of a
  client that asks for GLOBAL scope after writing an audit event, so that this failure is not
  without a trace.
\<close>

section \<open>Validation\<close>

definition validate_confidence :: "rat \<Rightarrow> unit res" where
  "validate_confidence q = check_that (\<not> (q < 0 \<or> 1 < q)) (ValueError ''confidence must be between 0.0 and 1.0'')"

definition has_provenance :: "string option \<Rightarrow> string option \<Rightarrow> string option \<Rightarrow> string list \<Rightarrow> bool" where
  "has_provenance reference task_id run_id evidence_ids =
     (truthy reference \<or> truthy task_id \<or> truthy run_id \<or> evidence_ids \<noteq> [])"

record memory_input =
  nm_memory_type :: memory_type
  nm_scope :: knowledge_scope
  nm_statement :: string
  nm_confidence :: rat
  nm_validation_status :: validation_status
  nm_project_id :: "string option"
  nm_organization_id :: "string option"
  nm_workspace_id :: "string option"
  nm_source_type :: "memory_source_type option"
  nm_source_reference :: "string option"
  nm_source_project_id :: "string option"
  nm_source_task_id :: "string option"
  nm_source_run_id :: "string option"
  nm_source_evidence_ids :: "string list"
  nm_context_tags :: "string list"
  nm_technology_tags :: "string list"
  nm_created_by :: actor

definition validate_memory_creation :: "memory_input \<Rightarrow> unit res" where
  "validate_memory_creation x =
     bind_res (validate_confidence (nm_confidence x)) (\<lambda>_.
     if nm_scope x \<in> {knowledge_scope.PROJECT, knowledge_scope.CLIENT} \<and> \<not> truthy (nm_project_id x)
     then Inl (ValueError (scope_value (nm_scope x) @ '' memory requires project_id''))
     else if nm_validation_status x = validation_status.VALIDATED
       \<and> \<not> has_provenance (nm_source_reference x) (nm_source_task_id x) (nm_source_run_id x) (nm_source_evidence_ids x)
     then Inl (ValueError ''VALIDATED memory requires provenance'')
     else if nm_scope x = GLOBAL \<and> nm_validation_status x = validation_status.VALIDATED
       \<and> length (nm_source_evidence_ids x) = 0
     then Inl (ValueError ''VALIDATED GLOBAL memory requires evidence provenance'')
     else Inr ())"

section \<open>The knowledge firewall\<close>

definition authorized_global_promoters :: "actor list" where
  "authorized_global_promoters = [actor.HUMAN, SYSTEM]"

definition classify_source :: "project_row option \<Rightarrow> knowledge_scope \<Rightarrow> firewall_classification" where
  "classify_source project proposed_scope =
     (if (case project of None \<Rightarrow> False | Some p \<Rightarrow> p_type p = project_type.CLIENT) then PRIVATE
      else if proposed_scope = knowledge_scope.CLIENT then PRIVATE
      else if proposed_scope = knowledge_scope.PROJECT then ABSTRACTABLE
      else GLOBAL_SAFE)"

definition default_sanitization :: "firewall_classification \<Rightarrow> knowledge_scope \<Rightarrow> sanitization_status" where
  "default_sanitization classification proposed_scope =
     (if classification = PRIVATE \<and> proposed_scope = GLOBAL then REQUIRED
      else if classification = PRIVATE then REQUIRED else NOT_REQUIRED)"

text \<open>\<open>None\<close> allows; \<open>Some\<close> is the reason of a refusal.\<close>

definition can_promote_candidate :: "candidate_row \<Rightarrow> knowledge_scope \<Rightarrow> actor \<Rightarrow> string option" where
  "can_promote_candidate c target_scope actor =
     (if actor \<notin> set authorized_global_promoters \<and> target_scope = GLOBAL
      then Some ''Autonomous global promotion is blocked.''
      else if l_status c \<noteq> learning_candidate_status.VALIDATED
      then Some ''LearningCandidate must be VALIDATED before promotion.''
      else if l_evidence_ids c = [] \<and> l_source_memory_ids c = [] \<and> l_source_document_refs c = []
      then Some ''Promotion requires provenance.''
      else if target_scope = GLOBAL \<and> l_source_classification c = PRIVATE
      then Some ''PRIVATE source classification cannot be promoted directly to GLOBAL.''
      else if target_scope = GLOBAL \<and> l_sanitization_status c \<notin> {NOT_REQUIRED, SANITIZED}
      then Some ''GLOBAL promotion requires allowed sanitization status.''
      else None)"

section \<open>Creation\<close>

definition audit_memory ::
  "string \<Rightarrow> actor \<Rightarrow> string option \<Rightarrow> string option \<Rightarrow> string option \<Rightarrow> string \<Rightarrow> string \<Rightarrow> json_object \<Rightarrow> db \<Rightarrow> db"
where
  "audit_memory event actor project_id task_id run_id action result metadata =
     audit_record event (actor_value actor) project_id None task_id run_id L0 action result metadata"

definition memory_of :: "string \<Rightarrow> timestamp \<Rightarrow> memory_input \<Rightarrow> memory_row" where
  "memory_of i now x = \<lparr>m_id = i, m_project_id = nm_project_id x, m_organization_id = nm_organization_id x,
     m_workspace_id = nm_workspace_id x, m_memory_type = nm_memory_type x, m_scope = nm_scope x,
     m_statement = py_strip (nm_statement x), m_source_type = nm_source_type x,
     m_source_reference = nm_source_reference x, m_source_project_id = nm_source_project_id x,
     m_source_task_id = nm_source_task_id x, m_source_run_id = nm_source_run_id x,
     m_source_evidence_ids = nm_source_evidence_ids x, m_confidence = nm_confidence x,
     m_validation_status = nm_validation_status x, m_context_tags = nm_context_tags x,
     m_technology_tags = nm_technology_tags x, m_created_at = now, m_updated_at = now,
     m_validated_at = (if nm_validation_status x = validation_status.VALIDATED then Some now else None),
     m_supersedes_id = None, m_superseded_by_id = None, m_supersession_reason = None,
     m_requires_revalidation = False, m_revalidation_reason = None, m_created_by = nm_created_by x,
     m_version = 1\<rparr>"

definition client_to_global :: "memory_input \<Rightarrow> db \<Rightarrow> bool" where
  "client_to_global x s = (nm_scope x = GLOBAL \<and> truthy (nm_project_id x)
     \<and> (case get_project (the (nm_project_id x)) s of None \<Rightarrow> False
        | Some p \<Rightarrow> p_type p = project_type.CLIENT))"

definition create_memory :: "memory_input \<Rightarrow> db \<Rightarrow> memory_row res \<times> db" where
  "create_memory x s =
     try_res (validate_memory_creation x) s (\<lambda>_.
     if client_to_global x s
     then (Inl (ValueError ''CLIENT-derived memory cannot directly become GLOBAL''),
           audit_memory ''KNOWLEDGE_PROMOTION_BLOCKED'' (nm_created_by x) (nm_project_id x) None None ''create_memory''
             ''BLOCKED'' [(''reason'', JStr ''direct CLIENT -> GLOBAL memory blocked'')] s)
     else let s1 = bump_id ''memory'' s; row = memory_of (fresh_id ''memory'' s) (utc_now s1) x
       in (Inr row, audit_memory ''MEMORY_CREATED'' (nm_created_by x) (nm_project_id x) (nm_source_task_id x)
             (nm_source_run_id x) ''create_memory'' ''SUCCESS''
             [(''memory_id'', JStr (m_id row)), (''scope'', JStr (scope_value (m_scope row))),
              (''memory_type'', JStr (memory_type_value (m_memory_type row)))] (put_memory row s1)))"

definition memory_row_of :: "string \<Rightarrow> db \<Rightarrow> memory_row res" where
  "memory_row_of i s = some_or (get_memory i s) (ValueError (''Unknown memory entry: '' @ i))"

section \<open>Ranking and retrieval\<close>

record memory_match =
  mm_memory_id :: string
  mm_score :: int
  mm_statement :: string
  mm_memory_type :: memory_type
  mm_validation_status :: validation_status
  mm_match_reasons :: "string list"

definition default_excluded_statuses :: "validation_status list" where
  "default_excluded_statuses = [SUPERSEDED, DEPRECATED, CONTRADICTED]"

primrec scope_rank :: "knowledge_scope \<Rightarrow> int" where
  "scope_rank knowledge_scope.PROJECT = 50"
| "scope_rank DFG = 35"
| "scope_rank DOMAIN = 30"
| "scope_rank GLOBAL = 20"
| "scope_rank knowledge_scope.CLIENT = 15"
| "scope_rank SESSION = 10"

primrec status_rank :: "validation_status \<Rightarrow> int" where
  "status_rank validation_status.VALIDATED = 30"
| "status_rank CANDIDATE = 12"
| "status_rank OBSERVED = 8"
| "status_rank CONTRADICTED = - 100"
| "status_rank SUPERSEDED = - 50"
| "status_rank DEPRECATED = - 50"

definition memory_term_matches :: "memory_row \<Rightarrow> string \<Rightarrow> bool" where
  "memory_term_matches row t = (let lower = py_lower t in
     lower \<in> set (tokenize_terms (m_statement row))
     \<or> lower \<in> set (map py_lower (m_context_tags row @ m_technology_tags row))
     \<or> contains lower (py_lower (m_statement row)))"

definition memory_points :: "memory_row \<Rightarrow> string option \<Rightarrow> string list \<Rightarrow> (int \<times> string) list" where
  "memory_points row project_id terms =
     [if truthy project_id \<and> m_project_id row = project_id \<and> m_scope row = knowledge_scope.PROJECT
      then (scope_rank knowledge_scope.PROJECT, ''matching project memory'')
      else (scope_rank (m_scope row), ''scope: '' @ scope_value (m_scope row)),
      (status_rank (m_validation_status row), ''validation status: '' @ validation_value (m_validation_status row))]
     @ (if m_superseded_by_id row = None then [(5, ''not superseded'')] else [])
     @ (if has_provenance (m_source_reference row) (m_source_task_id row) (m_source_run_id row)
          (m_source_evidence_ids row) then [(5, ''provenance available'')] else [])
     @ map (\<lambda>t. (10, ''query term match: '' @ t)) (filter (memory_term_matches row) terms)"

definition rank_row :: "string option \<Rightarrow> string list \<Rightarrow> memory_row \<Rightarrow> memory_match" where
  "rank_row project_id terms row = (let points = memory_points row project_id terms in
     \<lparr>mm_memory_id = m_id row, mm_score = sum_list (map fst points), mm_statement = m_statement row,
      mm_memory_type = m_memory_type row, mm_validation_status = m_validation_status row,
      mm_match_reasons = sorted_set (map snd points)\<rparr>)"

definition rank_memory :: "memory_row list \<Rightarrow> string option \<Rightarrow> string list \<Rightarrow> memory_match list" where
  "rank_memory rows project_id terms = sort_key (\<lambda>m. (- mm_score m, mm_memory_id m))
     (filter (\<lambda>m. 0 < mm_score m) (map (rank_row project_id terms) rows))"

record memory_query =
  mq_project_id :: "string option"
  mq_scope :: "knowledge_scope option"
  mq_memory_type :: "memory_type option"
  mq_validation_status :: "validation_status option"
  mq_technology_tags :: "string list"
  mq_context_tags :: "string list"
  mq_query_terms :: "string list"
  mq_include_excluded :: bool

definition asked_for :: "'a option \<Rightarrow> 'a \<Rightarrow> bool" where
  "asked_for x y = (case x of None \<Rightarrow> True | Some z \<Rightarrow> y = z)"

text \<open>The conditions \<open>list_memory\<close> and \<open>retrieve_memory\<close> share.\<close>

definition selected_row :: "memory_query \<Rightarrow> memory_row \<Rightarrow> bool" where
  "selected_row q r = (asked_for (mq_scope q) (m_scope r) \<and> asked_for (mq_memory_type q) (m_memory_type r)
     \<and> asked_for (mq_validation_status q) (m_validation_status r)
     \<and> (mq_include_excluded q \<or> m_validation_status r \<notin> set default_excluded_statuses))"

definition list_memory :: "memory_query \<Rightarrow> db \<Rightarrow> memory_row list" where
  "list_memory q s = sort_key m_id (filter (\<lambda>r.
     (truthy (mq_project_id q) \<longrightarrow> m_project_id r = mq_project_id q) \<and> selected_row q r) (memories s))"

definition in_project_view :: "memory_query \<Rightarrow> memory_row \<Rightarrow> bool" where
  "in_project_view q r =
     (if truthy (mq_project_id q) \<and> mq_scope q = None
      then m_project_id r = mq_project_id q \<or> m_project_id r = None \<and> m_scope r \<in> {DFG, DOMAIN, GLOBAL}
      else if truthy (mq_project_id q) then m_project_id r = mq_project_id q
      else True)"

definition tags_meet :: "string list \<Rightarrow> string list \<Rightarrow> bool" where
  "tags_meet wanted tags = (wanted = [] \<or> list_ex (\<lambda>t. t \<in> set (map py_lower tags)) (map py_lower wanted))"

definition retrieved_rows :: "memory_query \<Rightarrow> db \<Rightarrow> memory_row list" where
  "retrieved_rows q s =
     filter (\<lambda>r. tags_meet (mq_context_tags q) (m_context_tags r))
       (filter (\<lambda>r. tags_meet (mq_technology_tags q) (m_technology_tags r))
         (sort_key m_id (filter (\<lambda>r. in_project_view q r \<and> selected_row q r) (memories s))))"

definition retrieve_memory :: "memory_query \<Rightarrow> db \<Rightarrow> (memory_match list \<times> nat) \<times> db" where
  "retrieve_memory q s =
     (let matches = rank_memory (retrieved_rows q s) (mq_project_id q) (mq_query_terms q)
      in ((matches, length matches), audit_memory ''MEMORY_RETRIEVED'' SYSTEM (mq_project_id q) None None
            ''retrieve_memory'' ''SUCCESS'' [(''count'', JInt (int (length matches))),
            (''query_terms'', jtexts (mq_query_terms q))] s))"

section \<open>The life of an entry\<close>

definition audit_entry :: "string \<Rightarrow> actor \<Rightarrow> memory_row \<Rightarrow> string \<Rightarrow> json_object \<Rightarrow> db \<Rightarrow> db" where
  "audit_entry event actor row action metadata =
     audit_memory event actor (m_project_id row) None None action ''SUCCESS'' ((''memory_id'', JStr (m_id row)) # metadata)"

definition row_provenance :: "memory_row \<Rightarrow> bool" where
  "row_provenance r = has_provenance (m_source_reference r) (m_source_task_id r) (m_source_run_id r)
     (m_source_evidence_ids r)"

definition validate_memory :: "string \<Rightarrow> actor \<Rightarrow> string option \<Rightarrow> db \<Rightarrow> memory_row res \<times> db" where
  "validate_memory i actor notes s =
     try_res (memory_row_of i s) s (\<lambda>row.
     try_res (check_that (row_provenance row) (ValueError ''VALIDATED memory requires provenance'')) s (\<lambda>_.
     let row' = row\<lparr>m_validation_status := validation_status.VALIDATED, m_validated_at := Some (utc_now s),
           m_updated_at := utc_now s\<rparr>
     in (Inr row', audit_entry ''MEMORY_VALIDATED'' actor row' ''validate_memory'' [(''notes'', jtext notes)]
           (put_memory row' s))))"

definition contradict_memory :: "string \<Rightarrow> string \<Rightarrow> actor \<Rightarrow> db \<Rightarrow> memory_row res \<times> db" where
  "contradict_memory i reason actor s =
     try_res (memory_row_of i s) s (\<lambda>row.
     let row' = row\<lparr>m_validation_status := CONTRADICTED, m_revalidation_reason := Some reason,
           m_updated_at := utc_now s\<rparr>
     in (Inr row', audit_entry ''MEMORY_CONTRADICTED'' actor row' ''contradict_memory'' [(''reason'', JStr reason)]
           (put_memory row' s)))"

definition supersede_memory :: "string \<Rightarrow> string \<Rightarrow> string \<Rightarrow> actor \<Rightarrow> db \<Rightarrow> memory_row res \<times> db" where
  "supersede_memory old_id new_id reason actor s =
     try_res (check_that (old_id \<noteq> new_id) (ValueError ''Memory cannot supersede itself'')) s (\<lambda>_.
     try_res (memory_row_of old_id s) s (\<lambda>old.
     try_res (memory_row_of new_id s) s (\<lambda>new.
     try_res (check_that (\<not> (m_superseded_by_id new = Some (m_id old) \<or> m_supersedes_id old = Some (m_id new)))
       (ValueError ''Circular supersession rejected'')) s (\<lambda>_.
     let old' = old\<lparr>m_validation_status := SUPERSEDED, m_superseded_by_id := Some (m_id new),
           m_supersession_reason := Some reason, m_updated_at := utc_now s\<rparr>;
         new' = new\<lparr>m_supersedes_id := Some (m_id old), m_updated_at := utc_now s\<rparr>
     in (Inr old', audit_memory ''MEMORY_SUPERSEDED'' actor
           (if truthy (m_project_id old) then m_project_id old else m_project_id new) None None ''supersede_memory''
           ''SUCCESS'' [(''old_memory_id'', JStr (m_id old)), (''new_memory_id'', JStr (m_id new)),
             (''reason'', JStr reason)] (put_memory new' (put_memory old' s)))))))"

definition deprecate_memory :: "string \<Rightarrow> string \<Rightarrow> actor \<Rightarrow> db \<Rightarrow> memory_row res \<times> db" where
  "deprecate_memory i reason actor s =
     try_res (memory_row_of i s) s (\<lambda>row.
     let row' = row\<lparr>m_validation_status := DEPRECATED, m_revalidation_reason := Some reason,
           m_updated_at := utc_now s\<rparr>
     in (Inr row', audit_entry ''MEMORY_DEPRECATED'' actor row' ''deprecate_memory'' [(''reason'', JStr reason)]
           (put_memory row' s)))"

definition mark_requires_revalidation :: "string \<Rightarrow> string \<Rightarrow> actor \<Rightarrow> db \<Rightarrow> memory_row res \<times> db" where
  "mark_requires_revalidation i reason actor s =
     try_res (memory_row_of i s) s (\<lambda>row.
     let row' = row\<lparr>m_requires_revalidation := True, m_revalidation_reason := Some reason,
           m_updated_at := utc_now s\<rparr>
     in (Inr row', audit_entry ''MEMORY_REVALIDATION_REQUIRED'' actor row' ''mark_requires_revalidation''
           [(''reason'', JStr reason)] (put_memory row' s)))"

definition clear_revalidation_flag :: "string \<Rightarrow> actor \<Rightarrow> db \<Rightarrow> memory_row res \<times> db" where
  "clear_revalidation_flag i actor s =
     try_res (memory_row_of i s) s (\<lambda>row.
     try_res (check_that (m_source_evidence_ids row \<noteq> [] \<or> truthy (m_source_reference row))
       (ValueError ''Cannot clear revalidation without valid evidence or source reference'')) s (\<lambda>_.
     let row' = row\<lparr>m_requires_revalidation := False, m_revalidation_reason := None, m_updated_at := utc_now s\<rparr>
     in (Inr row', audit_entry ''MEMORY_REVALIDATION_CLEARED'' actor row' ''clear_revalidation_flag'' []
           (put_memory row' s))))"

definition evidence_status_of ::
  "host \<Rightarrow> (string \<Rightarrow> workspace_context option) \<Rightarrow> db \<Rightarrow> string \<Rightarrow> evidence_status res" where
  "evidence_status_of h contexts s evidence_id =
     (case get_evidence evidence_id s of None \<Rightarrow> Inr MISSING
      | Some e \<Rightarrow> (case contexts (e_repository_id e) of None \<Rightarrow> Inr MISSING
          | Some ctx \<Rightarrow> bind_res (check_status h evidence_id ctx s) (\<lambda>r. Inr (fst (snd r)))))"

definition propagate_evidence_staleness ::
  "host \<Rightarrow> string \<Rightarrow> (string \<Rightarrow> workspace_context option) \<Rightarrow> db \<Rightarrow> memory_row res \<times> db" where
  "propagate_evidence_staleness h i contexts s =
     try_res (memory_row_of i s) s (\<lambda>row.
     if m_source_evidence_ids row = [] then (Inr row, s)
     else try_res (map_res (evidence_status_of h contexts s) (m_source_evidence_ids row)) s (\<lambda>statuses.
       let lost = (\<lambda>st. st \<in> {STALE, MISSING})
       in if list_all lost statuses
          then mark_requires_revalidation (m_id row) ''All evidence sources are stale or missing'' SYSTEM s
          else if list_ex lost statuses
          then mark_requires_revalidation (m_id row)
            ''At least one evidence source is stale or missing; other evidence remains'' SYSTEM s
          else (Inr row, s)))"

section \<open>What a retrieval of memories sees\<close>

definition match_key :: "memory_match \<Rightarrow> int \<times> string" where
  "match_key m = (- mm_score m, mm_memory_id m)"

lemma rank_memory_key: "rank_memory rows p ts = sort_key match_key (filter (\<lambda>m. 0 < mm_score m) (map (rank_row p ts) rows))"
  by (simp add: rank_memory_def match_key_def [abs_def])

text \<open>C38. A retrieval for a project sees its own entries and, when no scope is asked for, the shared
  ones, which belong to no project and have DFG, DOMAIN or GLOBAL scope; no entry of another project.
  Of those it returns exactly the ones that pass the filters, have an asked-for tag and a positive
  score, best first, and it does not return superseded, deprecated or contradicted ones unless told to.\<close>

theorem retrieval_isolates_projects:
  assumes "mq_project_id q = Some p" and "p \<noteq> []"
  shows "set (fst (fst (retrieve_memory q s))) = rank_row (Some p) (mq_query_terms q) ` {r \<in> set (memories s).
        (m_project_id r = Some p
          \<or> mq_scope q = None \<and> m_project_id r = None \<and> m_scope r \<in> {DFG, DOMAIN, GLOBAL})
        \<and> selected_row q r \<and> tags_meet (mq_technology_tags q) (m_technology_tags r)
        \<and> tags_meet (mq_context_tags q) (m_context_tags r)
        \<and> 0 < mm_score (rank_row (Some p) (mq_query_terms q) r)}
    \<and> sorted (map match_key (fst (fst (retrieve_memory q s))))"
proof
  have "in_project_view q r \<longleftrightarrow> m_project_id r = Some p
      \<or> mq_scope q = None \<and> m_project_id r = None \<and> m_scope r \<in> {DFG, DOMAIN, GLOBAL}" for r
    using assms by (auto simp: in_project_view_def truthy_def)
  then show "set (fst (fst (retrieve_memory q s))) = rank_row (Some p) (mq_query_terms q) ` {r \<in> set (memories s).
        (m_project_id r = Some p
          \<or> mq_scope q = None \<and> m_project_id r = None \<and> m_scope r \<in> {DFG, DOMAIN, GLOBAL})
        \<and> selected_row q r \<and> tags_meet (mq_technology_tags q) (m_technology_tags r)
        \<and> tags_meet (mq_context_tags q) (m_context_tags r)
        \<and> 0 < mm_score (rank_row (Some p) (mq_query_terms q) r)}"
    using assms(1) by (auto simp: retrieve_memory_def Let_def rank_memory_def retrieved_rows_def)
qed (simp add: retrieve_memory_def Let_def rank_memory_key)

definition ex_input :: "knowledge_scope \<Rightarrow> string option \<Rightarrow> memory_input" where
  "ex_input sc p = \<lparr>nm_memory_type = SEMANTIC, nm_scope = sc, nm_statement = ''fact'', nm_confidence = 1 / 2,
     nm_validation_status = validation_status.VALIDATED, nm_project_id = p, nm_organization_id = None,
     nm_workspace_id = None, nm_source_type = None, nm_source_reference = Some ''r'', nm_source_project_id = None,
     nm_source_task_id = None, nm_source_run_id = None, nm_source_evidence_ids = [''E''], nm_context_tags = [],
     nm_technology_tags = [], nm_created_by = SYSTEM\<rparr>"

definition ex_memory_query :: memory_query where
  "ex_memory_query = \<lparr>mq_project_id = Some ''P'', mq_scope = None, mq_memory_type = None,
     mq_validation_status = None, mq_technology_tags = [], mq_context_tags = [], mq_query_terms = [],
     mq_include_excluded = False\<rparr>"

theorem retrieval_isolates_projects_witness:
  "map mm_memory_id (fst (fst (retrieve_memory ex_memory_query (empty_db\<lparr>memories := [
     memory_of ''A'' 0 (ex_input knowledge_scope.PROJECT (Some ''P'')),
     memory_of ''B'' 0 (ex_input knowledge_scope.PROJECT (Some ''Q''))]\<rparr>)))) = [''A'']"
proof -
  let ?a = "memory_of ''A'' 0 (ex_input knowledge_scope.PROJECT (Some ''P''))"
  let ?b = "memory_of ''B'' 0 (ex_input knowledge_scope.PROJECT (Some ''Q''))"
  let ?s = "empty_db\<lparr>memories := [?a, ?b]\<rparr>"
  let ?m = "fst (fst (retrieve_memory ex_memory_query ?s))"
  have q: "mq_project_id ex_memory_query = Some ''P''" "(''P'' :: string) \<noteq> []"
    by (simp_all add: ex_memory_query_def)
  have score: "0 < mm_score (rank_row (Some ''P'') [] ?a)"
    by (simp add: rank_row_def memory_points_def memory_of_def ex_input_def Let_def truthy_def has_provenance_def)
  have "set ?m = {rank_row (Some ''P'') [] ?a}"
    using retrieval_isolates_projects [OF q, of ?s] score
    by (auto simp: ex_memory_query_def memory_of_def ex_input_def selected_row_def asked_for_def
        tags_meet_def default_excluded_statuses_def)
  moreover have "length ?m \<le> 1"
    by (simp add: retrieve_memory_def Let_def rank_memory_def retrieved_rows_def in_project_view_def
        ex_memory_query_def memory_of_def ex_input_def truthy_def)
  ultimately have "?m = [rank_row (Some ''P'') [] ?a]"
    by (cases ?m) (auto simp: le_Suc_eq)
  then show ?thesis
    by (simp add: rank_row_def memory_of_def Let_def)
qed

end
