(* ===== verification/Learning.thy ===== *)
theory Learning
  imports Memory
begin

text \<open>
  Learning candidates and their promotion: \<^verbatim>\<open>lucius/learning/service.py\<close>, and the captures of
  task experience and failures of \<^verbatim>\<open>lucius/memory/service.py\<close>, which create a candidate too.
  The machine \<open>knowledge_step\<close> has one rule per operation of both services.
\<close>

section \<open>Candidates\<close>

record candidate_input =
  nc_candidate_type :: learning_candidate_type
  nc_statement :: string
  nc_confidence :: rat
  nc_project_id :: "string option"
  nc_task_id :: "string option"
  nc_run_id :: "string option"
  nc_evidence_ids :: "string list"
  nc_source_memory_ids :: "string list"
  nc_source_document_refs :: "string list"
  nc_proposed_scope :: knowledge_scope
  nc_sanitization_status :: "sanitization_status option"
  nc_actor :: actor

definition candidate_of :: "string \<Rightarrow> timestamp \<Rightarrow> project_row option \<Rightarrow> candidate_input \<Rightarrow> candidate_row" where
  "candidate_of i now project x =
     (let classification = classify_source project (nc_proposed_scope x)
      in \<lparr>l_id = i, l_project_id = nc_project_id x, l_run_id = nc_run_id x, l_task_id = nc_task_id x,
          l_candidate_type = nc_candidate_type x, l_statement = py_strip (nc_statement x),
          l_evidence_ids = nc_evidence_ids x, l_source_memory_ids = nc_source_memory_ids x,
          l_source_document_refs = nc_source_document_refs x, l_confidence = nc_confidence x,
          l_status = learning_candidate_status.PENDING, l_proposed_scope = nc_proposed_scope x,
          l_sanitization_status = (case nc_sanitization_status x of
              None \<Rightarrow> default_sanitization classification (nc_proposed_scope x) | Some z \<Rightarrow> z),
          l_source_classification = classification, l_created_at = now, l_updated_at = now,
          l_validated_at = None, l_rejected_at = None, l_validation_notes = None, l_rejection_reason = None,
          l_actor = nc_actor x\<rparr>)"

definition create_candidate :: "candidate_input \<Rightarrow> db \<Rightarrow> candidate_row res \<times> db" where
  "create_candidate x s =
     try_res (validate_confidence (nc_confidence x)) s (\<lambda>_.
     try_res (check_that (\<not> (nc_evidence_ids x = [] \<and> nc_source_memory_ids x = []
         \<and> nc_source_document_refs x = [] \<and> nc_candidate_type x \<noteq> KNOWLEDGE_CORRECTION))
       (ValueError ''LearningCandidate requires source/provenance'')) s (\<lambda>_.
     let project = (if truthy (nc_project_id x) then get_project (the (nc_project_id x)) s else None);
         s1 = bump_id ''learning'' s; row = candidate_of (fresh_id ''learning'' s) (utc_now s1) project x
     in (Inr row, audit_memory ''LEARNING_CANDIDATE_CREATED'' (nc_actor x) (nc_project_id x) (nc_task_id x)
           (nc_run_id x) ''create_learning_candidate'' ''SUCCESS''
           [(''candidate_id'', JStr (l_id row)), (''candidate_type'', JStr (candidate_type_value (l_candidate_type row))),
            (''proposed_scope'', JStr (scope_value (l_proposed_scope row)))] (put_candidate row s1))))"

definition create_from_documentation ::
  "string \<Rightarrow> string \<Rightarrow> string \<Rightarrow> learning_candidate_type \<Rightarrow> knowledge_scope \<Rightarrow> string list \<Rightarrow> actor \<Rightarrow> db \<Rightarrow>
   candidate_row res \<times> db"
where
  "create_from_documentation project_id source_document_ref statement candidate_type proposed_scope evidence_ids actor s =
     create_candidate \<lparr>nc_candidate_type = candidate_type, nc_statement = statement, nc_confidence = 1 / 2,
       nc_project_id = Some project_id, nc_task_id = None, nc_run_id = None, nc_evidence_ids = evidence_ids,
       nc_source_memory_ids = [], nc_source_document_refs = [source_document_ref],
       nc_proposed_scope = proposed_scope, nc_sanitization_status = None, nc_actor = actor\<rparr> s"

definition create_human_correction ::
  "string option \<Rightarrow> string \<Rightarrow> string \<Rightarrow> string list \<Rightarrow> string list \<Rightarrow> knowledge_scope \<Rightarrow> actor \<Rightarrow> db \<Rightarrow>
   candidate_row res \<times> db"
where
  "create_human_correction project_id statement reason source_memory_ids evidence_ids proposed_scope actor s =
     then_op (create_candidate \<lparr>nc_candidate_type = KNOWLEDGE_CORRECTION, nc_statement = statement,
       nc_confidence = 1 / 2, nc_project_id = project_id, nc_task_id = None, nc_run_id = None,
       nc_evidence_ids = evidence_ids, nc_source_memory_ids = source_memory_ids, nc_source_document_refs = [],
       nc_proposed_scope = proposed_scope, nc_sanitization_status = None, nc_actor = actor\<rparr> s)
     (\<lambda>c s1. (Inr c, audit_memory ''HUMAN_CORRECTION_CAPTURED'' actor project_id None None
        ''create_human_correction'' ''SUCCESS'' [(''candidate_id'', JStr (l_id c)), (''reason'', JStr reason)] s1))"

definition candidate_row_of :: "string \<Rightarrow> db \<Rightarrow> candidate_row res" where
  "candidate_row_of i s = some_or (get_candidate i s) (ValueError (''Unknown learning candidate: '' @ i))"

definition audit_candidate ::
  "string \<Rightarrow> actor \<Rightarrow> candidate_row \<Rightarrow> string \<Rightarrow> string \<Rightarrow> json_object \<Rightarrow> db \<Rightarrow> db" where
  "audit_candidate event actor c action result metadata =
     audit_memory event actor (l_project_id c) (l_task_id c) (l_run_id c) action result
       ((''candidate_id'', JStr (l_id c)) # metadata)"

definition validate_candidate :: "string \<Rightarrow> string option \<Rightarrow> actor \<Rightarrow> db \<Rightarrow> candidate_row res \<times> db" where
  "validate_candidate i notes actor s =
     try_res (candidate_row_of i s) s (\<lambda>c.
     let c' = c\<lparr>l_status := learning_candidate_status.VALIDATED, l_validated_at := Some (utc_now s),
           l_validation_notes := notes, l_updated_at := utc_now s\<rparr>
     in (Inr c', audit_candidate ''LEARNING_CANDIDATE_VALIDATED'' actor c' ''validate_learning_candidate'' ''SUCCESS''
           [(''notes'', jtext notes)] (put_candidate c' s)))"

definition reject_candidate :: "string \<Rightarrow> string \<Rightarrow> actor \<Rightarrow> db \<Rightarrow> candidate_row res \<times> db" where
  "reject_candidate i reason actor s =
     try_res (candidate_row_of i s) s (\<lambda>c.
     let c' = c\<lparr>l_status := learning_candidate_status.REJECTED, l_rejected_at := Some (utc_now s),
           l_rejection_reason := Some reason, l_updated_at := utc_now s\<rparr>
     in (Inr c', audit_candidate ''LEARNING_CANDIDATE_REJECTED'' actor c' ''reject_learning_candidate'' ''SUCCESS''
           [(''reason'', JStr reason)] (put_candidate c' s)))"

definition mark_needs_more_evidence :: "string \<Rightarrow> string \<Rightarrow> actor \<Rightarrow> db \<Rightarrow> candidate_row res \<times> db" where
  "mark_needs_more_evidence i reason actor s =
     try_res (candidate_row_of i s) s (\<lambda>c.
     let c' = c\<lparr>l_status := NEEDS_MORE_EVIDENCE, l_rejection_reason := Some reason, l_updated_at := utc_now s\<rparr>
     in (Inr c', audit_candidate ''LEARNING_CANDIDATE_NEEDS_MORE_EVIDENCE'' actor c' ''mark_needs_more_evidence''
           ''SUCCESS'' [(''reason'', JStr reason)] (put_candidate c' s)))"

definition promotion_input :: "candidate_row \<Rightarrow> knowledge_scope \<Rightarrow> actor \<Rightarrow> memory_input" where
  "promotion_input c target_scope actor = \<lparr>nm_memory_type = SEMANTIC, nm_scope = target_scope,
     nm_statement = l_statement c, nm_confidence = l_confidence c,
     nm_validation_status = validation_status.VALIDATED,
     nm_project_id = (if target_scope = GLOBAL then None else l_project_id c), nm_organization_id = None,
     nm_workspace_id = None, nm_source_type = Some EVIDENCE_REFERENCE, nm_source_reference = Some (l_id c),
     nm_source_project_id = None, nm_source_task_id = l_task_id c, nm_source_run_id = l_run_id c,
     nm_source_evidence_ids = l_evidence_ids c, nm_context_tags = [''promoted''], nm_technology_tags = [],
     nm_created_by = actor\<rparr>"

definition promote_candidate :: "string \<Rightarrow> knowledge_scope \<Rightarrow> actor \<Rightarrow> db \<Rightarrow> memory_row res \<times> db" where
  "promote_candidate i target_scope actor s =
     try_res (candidate_row_of i s) s (\<lambda>c.
     case can_promote_candidate c target_scope actor of
       Some reason \<Rightarrow> (Inl (ValueError reason),
         audit_candidate ''KNOWLEDGE_PROMOTION_BLOCKED'' actor c ''promote_candidate'' ''BLOCKED''
           [(''target_scope'', JStr (scope_value target_scope)), (''reason'', JStr reason)] s)
     | None \<Rightarrow>
         then_op (create_memory (promotion_input c target_scope actor) s) (\<lambda>m s1.
           (Inr m, audit_candidate ''KNOWLEDGE_PROMOTED'' actor c ''promote_candidate'' ''SUCCESS''
             [(''memory_id'', JStr (m_id m)), (''target_scope'', JStr (scope_value target_scope))] s1)))"

section \<open>Captures\<close>

record experience =
  ex_memory :: memory_row
  ex_learning_candidates :: "candidate_row list"
  ex_outcome :: string

definition task_project_id :: "string option \<Rightarrow> db \<Rightarrow> string option" where
  "task_project_id task_id s = (if \<not> truthy task_id then None
     else map_option t_project_id (get_task (the task_id) s))"

definition captured_memory ::
  "knowledge_scope \<Rightarrow> string option \<Rightarrow> string \<Rightarrow> rat \<Rightarrow> memory_source_type \<Rightarrow> string option \<Rightarrow> string option \<Rightarrow>
   string list \<Rightarrow> string \<Rightarrow> actor \<Rightarrow> memory_input"
where
  "captured_memory scope project_id statement confidence source_type task_id run_id evidence_ids tag actor =
     \<lparr>nm_memory_type = EPISODIC, nm_scope = scope, nm_statement = statement, nm_confidence = confidence,
      nm_validation_status = OBSERVED, nm_project_id = project_id, nm_organization_id = None,
      nm_workspace_id = None, nm_source_type = Some source_type, nm_source_reference = None,
      nm_source_project_id = None, nm_source_task_id = task_id, nm_source_run_id = run_id,
      nm_source_evidence_ids = evidence_ids, nm_context_tags = [tag], nm_technology_tags = [],
      nm_created_by = actor\<rparr>"

definition captured_candidate ::
  "learning_candidate_type \<Rightarrow> string \<Rightarrow> string option \<Rightarrow> string option \<Rightarrow> string option \<Rightarrow> string list \<Rightarrow> string list \<Rightarrow>
   knowledge_scope \<Rightarrow> actor \<Rightarrow> candidate_input"
where
  "captured_candidate candidate_type statement project_id task_id run_id evidence_ids docs scope actor =
     \<lparr>nc_candidate_type = candidate_type, nc_statement = statement, nc_confidence = 1 / 2,
      nc_project_id = project_id, nc_task_id = task_id, nc_run_id = run_id, nc_evidence_ids = evidence_ids,
      nc_source_memory_ids = [], nc_source_document_refs = docs, nc_proposed_scope = scope,
      nc_sanitization_status = None, nc_actor = actor\<rparr>"

definition capture_task_experience ::
  "string \<Rightarrow> string \<Rightarrow> string \<Rightarrow> string option \<Rightarrow> string list \<Rightarrow> string list \<Rightarrow> actor \<Rightarrow> bool \<Rightarrow> db \<Rightarrow> experience res \<times> db"
where
  "capture_task_experience task_id run_id outcome summary evidence_ids documentation_refs actor create_it s =
     try_res (check_that (case get_run run_id s of None \<Rightarrow> False | Some run \<Rightarrow> r_task_id run = task_id)
       (ValueError ''TaskRun does not belong to task'')) s (\<lambda>_.
     let statement = py_strip (''Task '' @ task_id @ '' outcome: '' @ outcome @ ''. '' @ or_else summary []) in
     then_op (create_memory (captured_memory knowledge_scope.PROJECT (task_project_id (Some task_id) s) statement
       (7 / 10) TASK_RUN (Some task_id) (Some run_id) evidence_ids ''task_experience'' actor) s) (\<lambda>m s1.
     if create_it
     then then_op (create_candidate (captured_candidate PATTERN statement (m_project_id m) (Some task_id)
            (Some run_id) evidence_ids documentation_refs knowledge_scope.PROJECT actor) s1) (\<lambda>c s2.
          (Inr \<lparr>ex_memory = m, ex_learning_candidates = [c], ex_outcome = ''LEARNING_CANDIDATE_CREATED''\<rparr>, s2))
     else (Inr \<lparr>ex_memory = m, ex_learning_candidates = [], ex_outcome = ''NO_LEARNING_CANDIDATE''\<rparr>, s1)))"

record failure_experience =
  fe_what_failed :: string
  fe_context :: string
  fe_error_summary :: string
  fe_attempted_approaches :: "string list"
  fe_root_cause :: "string option"
  fe_final_fix :: "string option"
  fe_test_result :: "string option"
  fe_regression_result :: "string option"
  fe_task_id :: "string option"
  fe_run_id :: "string option"
  fe_evidence_ids :: "string list"

definition capture_failure_memory :: "failure_experience \<Rightarrow> actor \<Rightarrow> db \<Rightarrow> experience res \<times> db" where
  "capture_failure_memory f actor s =
     (let project_id = task_project_id (fe_task_id f) s;
          scope = (if truthy project_id then knowledge_scope.PROJECT else SESSION);
          statement = ''Failure: '' @ fe_what_failed f @ ''. Cause: '' @ or_else (fe_root_cause f) ''unknown''
            @ ''. Fix: '' @ or_else (fe_final_fix f) ''unresolved'' @ ''.''
      in then_op (create_memory (captured_memory scope project_id statement (65 / 100) FAILURE_EXPERIENCE
           (fe_task_id f) (fe_run_id f) (fe_evidence_ids f) ''failure'' actor) s) (\<lambda>m s1.
         then_op (create_candidate (captured_candidate FAILURE_PATTERN statement project_id (fe_task_id f)
           (fe_run_id f) (fe_evidence_ids f) [] scope actor) s1) (\<lambda>c s2.
         (Inr \<lparr>ex_memory = m, ex_learning_candidates = [c], ex_outcome = ''FAILURE_PATTERN_CREATED''\<rparr>,
          audit_memory ''FAILURE_MEMORY_CAPTURED'' actor project_id (fe_task_id f) (fe_run_id f)
            ''capture_failure_memory'' ''SUCCESS'' [(''memory_id'', JStr (m_id m)), (''candidate_id'', JStr (l_id c))] s2))))"

section \<open>The machine\<close>

inductive knowledge_step :: "db \<Rightarrow> db \<Rightarrow> bool" where
  creates: "knowledge_step s (snd (create_memory x s))"
| retrieves: "knowledge_step s (snd (retrieve_memory q s))"
| validates: "knowledge_step s (snd (validate_memory i a notes s))"
| contradicts: "knowledge_step s (snd (contradict_memory i r a s))"
| supersedes: "knowledge_step s (snd (supersede_memory i j r a s))"
| deprecates: "knowledge_step s (snd (deprecate_memory i r a s))"
| marks: "knowledge_step s (snd (mark_requires_revalidation i r a s))"
| clears: "knowledge_step s (snd (clear_revalidation_flag i a s))"
| propagates: "knowledge_step s (snd (propagate_evidence_staleness h i cx s))"
| experiences: "knowledge_step s (snd (capture_task_experience i ru oc su es ds a b s))"
| fails: "knowledge_step s (snd (capture_failure_memory f a s))"
| proposes: "knowledge_step s (snd (create_candidate y s))"
| documents: "knowledge_step s (snd (create_from_documentation p d st ty sc es a s))"
| corrects: "knowledge_step s (snd (create_human_correction po st re ms es sc a s))"
| validates_candidate: "knowledge_step s (snd (validate_candidate i notes a s))"
| rejects_candidate: "knowledge_step s (snd (reject_candidate i r a s))"
| asks_more: "knowledge_step s (snd (mark_needs_more_evidence i r a s))"
| promotes: "knowledge_step s (snd (promote_candidate i sc a s))"
| passes: "knowledge_step s (s\<lparr>clock := clock s + d\<rparr>)"

section \<open>What every entry keeps\<close>

definition memory_ok :: "memory_row \<Rightarrow> bool" where
  "memory_ok m \<longleftrightarrow> 0 \<le> m_confidence m \<and> m_confidence m \<le> 1
     \<and> (m_scope m \<in> {knowledge_scope.PROJECT, knowledge_scope.CLIENT} \<longrightarrow> truthy (m_project_id m))
     \<and> (m_validation_status m = validation_status.VALIDATED \<longrightarrow> row_provenance m)"

text \<open>No entry supersedes itself, and no two entries supersede each other.\<close>

definition no_mutual :: "memory_row list \<Rightarrow> bool" where
  "no_mutual ms \<longleftrightarrow> (\<forall>i j m n. tget m_id i ms = Some m \<longrightarrow> tget m_id j ms = Some n
     \<longrightarrow> m_superseded_by_id m = Some j \<longrightarrow> m_superseded_by_id n \<noteq> Some i)"

definition memories_ok :: "memory_row list \<Rightarrow> bool" where
  "memories_ok ms \<longleftrightarrow> (\<forall>i m. tget m_id i ms = Some m \<longrightarrow> memory_ok m) \<and> no_mutual ms"

definition candidate_ok :: "candidate_row \<Rightarrow> bool" where
  "candidate_ok c \<longleftrightarrow> 0 \<le> l_confidence c \<and> l_confidence c \<le> 1
     \<and> (l_evidence_ids c \<noteq> [] \<or> l_source_memory_ids c \<noteq> [] \<or> l_source_document_refs c \<noteq> []
        \<or> l_candidate_type c = KNOWLEDGE_CORRECTION)"

text \<open>Fields that no operation changes.\<close>

definition memory_origin :: "memory_row \<Rightarrow> memory_row \<Rightarrow> bool" where
  "memory_origin m m' \<longleftrightarrow> m_id m' = m_id m \<and> m_project_id m' = m_project_id m \<and> m_scope m' = m_scope m
     \<and> m_statement m' = m_statement m \<and> m_confidence m' = m_confidence m
     \<and> m_source_reference m' = m_source_reference m \<and> m_source_task_id m' = m_source_task_id m
     \<and> m_source_run_id m' = m_source_run_id m \<and> m_source_evidence_ids m' = m_source_evidence_ids m"

definition candidate_origin :: "candidate_row \<Rightarrow> candidate_row \<Rightarrow> bool" where
  "candidate_origin c c' \<longleftrightarrow> l_id c' = l_id c \<and> l_project_id c' = l_project_id c
     \<and> l_source_classification c' = l_source_classification c \<and> l_sanitization_status c' = l_sanitization_status c
     \<and> l_evidence_ids c' = l_evidence_ids c \<and> l_proposed_scope c' = l_proposed_scope c
     \<and> l_statement c' = l_statement c"

text \<open>What a table of entries or candidates may become in one operation.\<close>

inductive memories_edge :: "memory_row list \<Rightarrow> memory_row list \<Rightarrow> bool" where
  same: "memories_edge ms ms"
| new: "m_id m \<notin> m_id ` set ms \<Longrightarrow> memory_ok m \<Longrightarrow> m_superseded_by_id m = None \<Longrightarrow>
    memories_edge ms (tput m_id m ms)"
| edit: "tget m_id i ms = Some m \<Longrightarrow> memory_origin m m' \<Longrightarrow> m_superseded_by_id m' = m_superseded_by_id m \<Longrightarrow>
    (m_validation_status m' = validation_status.VALIDATED \<Longrightarrow>
      m_validation_status m = validation_status.VALIDATED \<or> row_provenance m) \<Longrightarrow>
    memories_edge ms (tput m_id m' ms)"
| replaced: "tget m_id i ms = Some m \<Longrightarrow> tget m_id j ms = Some n \<Longrightarrow> i \<noteq> j \<Longrightarrow> m_superseded_by_id n \<noteq> Some i \<Longrightarrow>
    memory_origin m m' \<Longrightarrow> m_superseded_by_id m' = Some j \<Longrightarrow> m_validation_status m' = SUPERSEDED \<Longrightarrow>
    memories_edge ms (tput m_id m' ms)"

inductive candidates_edge :: "candidate_row list \<Rightarrow> candidate_row list \<Rightarrow> bool" where
  same: "candidates_edge cs cs"
| new: "l_id c \<notin> l_id ` set cs \<Longrightarrow> candidate_ok c \<Longrightarrow> candidates_edge cs (tput l_id c cs)"
| edit: "tget l_id i cs = Some c \<Longrightarrow> candidate_origin c c' \<Longrightarrow> l_confidence c' = l_confidence c \<Longrightarrow>
    l_source_memory_ids c' = l_source_memory_ids c \<Longrightarrow> l_source_document_refs c' = l_source_document_refs c \<Longrightarrow>
    l_candidate_type c' = l_candidate_type c \<Longrightarrow> candidates_edge cs (tput l_id c' cs)"

lemma memory_origin_provenance: "memory_origin m m' \<Longrightarrow> row_provenance m' = row_provenance m"
  by (simp add: memory_origin_def row_provenance_def)

lemma memory_origin_refl [simp]: "memory_origin m m"
  by (simp add: memory_origin_def)

lemma memory_origin_trans: "memory_origin a b \<Longrightarrow> memory_origin b c \<Longrightarrow> memory_origin a c"
  by (simp add: memory_origin_def)

lemma memory_ok_edit:
  assumes "memory_ok m" and "memory_origin m m'"
    and "m_validation_status m' = validation_status.VALIDATED \<Longrightarrow>
      m_validation_status m = validation_status.VALIDATED \<or> row_provenance m"
  shows "memory_ok m'"
  using assms memory_origin_provenance [OF assms(2)] by (auto simp: memory_ok_def memory_origin_def)

text \<open>An edge keeps the entries well formed.\<close>

lemma memories_edge_ok:
  assumes "memories_edge ms ns" and ok: "memories_ok ms"
  shows "memories_ok ns"
  using assms(1)
proof cases
  case same
  with ok show ?thesis by simp
next
  case (new m)
  then have "tget m_id (m_id m) ms = None" by (simp add: tget_None_iff)
  with new ok show ?thesis
    by (auto simp: memories_ok_def no_mutual_def)
next
  case (edit i m m')
  have i: "m_id m = i" "m_id m' = i"
    using tget_Some_mem [OF edit(2)] edit(3) by (auto simp: memory_origin_def)
  have "memory_ok m'"
    using memory_ok_edit [OF _ edit(3,5)] ok edit(2) by (auto simp: memories_ok_def)
  moreover have "no_mutual (tput m_id m' ms)"
    using ok edit(1,2,4) i unfolding memories_ok_def no_mutual_def by (metis option.inject tget_tput)
  ultimately show ?thesis
    using ok edit(1) by (auto simp: memories_ok_def)
next
  case (replaced i m j n m')
  have i: "m_id m = i" "m_id m' = i"
    using tget_Some_mem [OF replaced(2)] replaced(6) by (auto simp: memory_origin_def)
  have "memory_ok m'"
    using memory_ok_edit [OF _ replaced(6)] ok replaced(2,8) by (auto simp: memories_ok_def)
  moreover have "no_mutual (tput m_id m' ms)"
    using ok replaced(1,2,3,4,5,7) i unfolding memories_ok_def no_mutual_def by (metis option.inject tget_tput)
  ultimately show ?thesis
    using ok replaced(1) by (auto simp: memories_ok_def)
qed

section \<open>What the operations write\<close>

text \<open>The state seen through its entries and its candidates.\<close>

definition knowledge_edge :: "db \<Rightarrow> db \<Rightarrow> bool" where
  "knowledge_edge s t \<longleftrightarrow> memories_edge\<^sup>*\<^sup>* (memories s) (memories t) \<and> candidates_edge\<^sup>*\<^sup>* (candidates s) (candidates t)"

lemma knowledge_edge_refl [simp]: "memories t = memories s \<Longrightarrow> candidates t = candidates s \<Longrightarrow> knowledge_edge s t"
  by (simp add: knowledge_edge_def)

lemma knowledge_edge_trans: "knowledge_edge s t \<Longrightarrow> knowledge_edge t u \<Longrightarrow> knowledge_edge s u"
  by (auto simp: knowledge_edge_def intro: rtranclp_trans)

lemma knowledge_edge_memory:
  "memories_edge (memories s) (memories t) \<Longrightarrow> candidates t = candidates s \<Longrightarrow> knowledge_edge s t"
  by (auto simp: knowledge_edge_def)

lemma knowledge_edge_candidate:
  "memories t = memories s \<Longrightarrow> candidates_edge (candidates s) (candidates t) \<Longrightarrow> knowledge_edge s t"
  by (auto simp: knowledge_edge_def)

lemma audit_memory_frame [simp]:
  "memories (audit_memory e a p t r ac re md s) = memories s"
  "candidates (audit_memory e a p t r ac re md s) = candidates s"
  "projects (audit_memory e a p t r ac re md s) = projects s"
  by (simp_all add: audit_memory_def)

lemma audit_wrappers_frame [simp]:
  "memories (audit_entry e a m ac md s) = memories s" "candidates (audit_entry e a m ac md s) = candidates s"
  "memories (audit_candidate e a c ac re md s) = memories s"
  "candidates (audit_candidate e a c ac re md s) = candidates s"
  by (simp_all add: audit_entry_def audit_candidate_def)

lemma put_frames [simp]:
  "memories (put_memory m s) = tput m_id m (memories s)" "candidates (put_memory m s) = candidates s"
  "candidates (put_candidate c s) = tput l_id c (candidates s)" "memories (put_candidate c s) = memories s"
  by (simp_all add: put_memory_def put_candidate_def)

lemma memory_of_ok:
  assumes "validate_memory_creation x = Inr u"
  shows "memory_ok (memory_of i now x)" and "m_superseded_by_id (memory_of i now x) = None"
    and "m_id (memory_of i now x) = i"
  using assms
  by (auto simp: validate_memory_creation_def validate_confidence_def memory_ok_def memory_of_def row_provenance_def
      check_that_def split: if_splits)

lemma create_memory_edge: "knowledge_edge s (snd (create_memory x s))"
proof (cases "validate_memory_creation x")
  case (Inr u)
  note ok = memory_of_ok [OF Inr]
  have "memories_edge (memories s)
      (tput m_id (memory_of (fresh_id ''memory'' s) now x) (memories s))" for now
    by (rule memories_edge.new) (simp_all add: ok)
  with Inr show ?thesis
    by (auto simp: create_memory_def Let_def intro!: knowledge_edge_memory)
qed (simp add: create_memory_def)

lemma edit_edge:
  assumes "get_memory i s = Some m" and "memory_origin m m'" and "m_superseded_by_id m' = m_superseded_by_id m"
    and "m_validation_status m' = validation_status.VALIDATED \<Longrightarrow>
      m_validation_status m = validation_status.VALIDATED \<or> row_provenance m"
  shows "knowledge_edge s (audit_entry e a m' ac md (put_memory m' s))"
  using memories_edge.edit [OF assms(1) [unfolded get_memory_def] assms(2-4)]
  by (auto intro: knowledge_edge_memory)

lemma entry_edges:
  "knowledge_edge s (snd (validate_memory i a notes s))"
  "knowledge_edge s (snd (contradict_memory i r a s))"
  "knowledge_edge s (snd (deprecate_memory i r a s))"
  "knowledge_edge s (snd (mark_requires_revalidation i r a s))"
  "knowledge_edge s (snd (clear_revalidation_flag i a s))"
  by (auto simp: validate_memory_def contradict_memory_def deprecate_memory_def mark_requires_revalidation_def
      clear_revalidation_flag_def memory_row_of_def memory_origin_def Let_def split: try_res_split intro: edit_edge)

lemma supersede_edge: "knowledge_edge s (snd (supersede_memory i j r a s))"
proof (cases "fst (supersede_memory i j r a s)")
  case (Inl e)
  then show ?thesis
    by (auto simp: supersede_memory_def Let_def split: try_res_splits)
next
  case (Inr y)
  then obtain m n where mn: "i \<noteq> j" "get_memory i s = Some m" "get_memory j s = Some n"
    "m_superseded_by_id n \<noteq> Some (m_id m)"
    by (auto simp: supersede_memory_def memory_row_of_def check_that_def split: try_res_split_asm if_splits)
  have keys: "m_id m = i" "m_id n = j"
    using mn(2,3) memory_table.get_key by auto
  let ?old = "m\<lparr>m_validation_status := SUPERSEDED, m_superseded_by_id := Some j, m_supersession_reason := Some r,
    m_updated_at := utc_now s\<rparr>"
  let ?new = "n\<lparr>m_supersedes_id := Some i, m_updated_at := utc_now s\<rparr>"
  have eq: "memories (snd (supersede_memory i j r a s)) = tput m_id ?new (tput m_id ?old (memories s))"
    "candidates (snd (supersede_memory i j r a s)) = candidates s"
    using Inr mn keys by (auto simp: supersede_memory_def memory_row_of_def check_that_def Let_def
        split: if_splits)
  have "memories_edge (memories s) (tput m_id ?old (memories s))"
    using mn keys by (intro memories_edge.replaced [of i _ m j n]) (auto simp: get_memory_def memory_origin_def)
  moreover have "memories_edge (tput m_id ?old (memories s)) (tput m_id ?new (tput m_id ?old (memories s)))"
    using mn keys by (intro memories_edge.edit [of j _ n]) (auto simp: get_memory_def memory_origin_def)
  ultimately show ?thesis
    unfolding knowledge_edge_def eq by (simp add: converse_rtranclp_into_rtranclp)
qed

lemma propagate_edge: "knowledge_edge s (snd (propagate_evidence_staleness h i cx s))"
  by (auto simp: propagate_evidence_staleness_def entry_edges Let_def split: try_res_split)

lemma candidate_of_ok:
  assumes "validate_confidence (nc_confidence x) = Inr u"
    and "\<not> (nc_evidence_ids x = [] \<and> nc_source_memory_ids x = [] \<and> nc_source_document_refs x = []
      \<and> nc_candidate_type x \<noteq> KNOWLEDGE_CORRECTION)"
  shows "candidate_ok (candidate_of i now p x)" and "l_id (candidate_of i now p x) = i"
  using assms by (auto simp: candidate_ok_def candidate_of_def Let_def validate_confidence_def check_that_def
      split: if_splits)

lemma create_candidate_edge: "knowledge_edge s (snd (create_candidate x s))"
proof (cases "fst (create_candidate x s)")
  case (Inl e)
  then show ?thesis
    by (auto simp: create_candidate_def Let_def split: try_res_splits)
next
  case (Inr y)
  then have ok: "validate_confidence (nc_confidence x) = Inr ()"
    "\<not> (nc_evidence_ids x = [] \<and> nc_source_memory_ids x = [] \<and> nc_source_document_refs x = []
      \<and> nc_candidate_type x \<noteq> KNOWLEDGE_CORRECTION)"
    by (auto simp: create_candidate_def check_that_def split: try_res_split_asm if_splits)
  have "candidates_edge (candidates s) (tput l_id (candidate_of (fresh_id ''learning'' s) now p x) (candidates s))"
    for now p
    by (rule candidates_edge.new) (simp_all add: candidate_of_ok [OF ok])
  with ok show ?thesis
    by (auto simp: create_candidate_def Let_def check_that_def intro!: knowledge_edge_candidate)
qed

lemma edit_candidate_edge:
  assumes "get_candidate i s = Some c" and "candidate_origin c c'" and "l_confidence c' = l_confidence c"
    and "l_source_memory_ids c' = l_source_memory_ids c" and "l_source_document_refs c' = l_source_document_refs c"
    and "l_candidate_type c' = l_candidate_type c"
  shows "knowledge_edge s (audit_candidate e a c' ac re md (put_candidate c' s))"
  using candidates_edge.edit [OF assms(1) [unfolded get_candidate_def] assms(2-6)]
  by (auto intro: knowledge_edge_candidate)

lemma candidate_edges:
  "knowledge_edge s (snd (validate_candidate i notes a s))"
  "knowledge_edge s (snd (reject_candidate i r a s))"
  "knowledge_edge s (snd (mark_needs_more_evidence i r a s))"
  by (auto simp: validate_candidate_def reject_candidate_def mark_needs_more_evidence_def candidate_row_of_def
      candidate_origin_def Let_def split: try_res_split intro: edit_candidate_edge)

lemma then_op_edge:
  assumes "knowledge_edge s (snd p)" and "\<And>x t. knowledge_edge t (snd (k x t))"
  shows "knowledge_edge s (snd (then_op p k))"
  using assms by (auto simp: snd_then_op split: sum.splits intro: knowledge_edge_trans)

lemma promote_edge: "knowledge_edge s (snd (promote_candidate i sc a s))"
  unfolding promote_candidate_def
  by (auto split: try_res_split option.splits intro!: then_op_edge create_memory_edge)

lemma compound_edges:
  "knowledge_edge s (snd (capture_task_experience i ru oc su es ds a b s))"
  "knowledge_edge s (snd (capture_failure_memory f a s))"
  "knowledge_edge s (snd (create_from_documentation p d st ty sc es a s))"
  "knowledge_edge s (snd (create_human_correction po st re ms es sc a s))"
  unfolding capture_task_experience_def capture_failure_memory_def create_from_documentation_def
    create_human_correction_def Let_def
  by (auto split: try_res_split intro!: then_op_edge create_memory_edge create_candidate_edge)

lemma knowledge_step_edge: "knowledge_step s t \<Longrightarrow> knowledge_edge s t"
  by (induction rule: knowledge_step.induct)
    (simp_all add: create_memory_edge entry_edges supersede_edge propagate_edge create_candidate_edge candidate_edges
      promote_edge compound_edges retrieve_memory_def Let_def)

lemma memories_edges_ok: "memories_edge\<^sup>*\<^sup>* ms ns \<Longrightarrow> memories_ok ms \<Longrightarrow> memories_ok ns"
  by (induction rule: rtranclp_induct) (auto intro: memories_edge_ok)

interpretation knowledge: invariant_machine knowledge_step "\<lambda>s. memories_ok (memories s)"
  by unfold_locales (use knowledge_step_edge memories_edges_ok in \<open>auto simp: knowledge_edge_def\<close>)

lemma candidate_origin_trans: "candidate_origin a b \<Longrightarrow> candidate_origin b c \<Longrightarrow> candidate_origin a c"
  by (simp add: candidate_origin_def)

lemma candidates_edge_origin:
  assumes "candidates_edge cs ds" and "tget l_id i cs = Some c"
  shows "\<exists>c'. tget l_id i ds = Some c' \<and> candidate_origin c c'"
  using assms
proof cases
  case (new d)
  then have "l_id d \<noteq> i" using tget_Some_mem [OF assms(2)] by auto
  with new assms(2) show ?thesis by (auto simp: candidate_origin_def)
next
  case (edit j d d')
  have "l_id d' = j" using tget_Some_mem [OF edit(2)] edit(3) by (auto simp: candidate_origin_def)
  with edit assms(2) show ?thesis by (auto simp: candidate_origin_def)
qed (auto simp: candidate_origin_def)

lemma candidates_edges_origin:
  assumes "candidates_edge\<^sup>*\<^sup>* cs ds" and "tget l_id i cs = Some c"
  shows "\<exists>c'. tget l_id i ds = Some c' \<and> candidate_origin c c'"
  using assms
proof (induction rule: rtranclp_induct)
  case (step ds es)
  then obtain c' where c': "tget l_id i ds = Some c'" "candidate_origin c c'" by blast
  with candidates_edge_origin [OF step.hyps(2) c'(1)] show ?case
    using candidate_origin_trans by blast
qed (auto simp: candidate_origin_def)

interpretation candidate_life: lifecycle_machine knowledge_step get_candidate candidate_origin
  by unfold_locales (use knowledge_step_edge candidates_edges_origin in
      \<open>fastforce simp: knowledge_edge_def get_candidate_def\<close>)

lemma candidate_run_origin:
  assumes "knowledge_step\<^sup>*\<^sup>* s t" and "get_candidate i s = Some c"
  obtains c' where "get_candidate i t = Some c'" and "candidate_origin c c'"
proof -
  obtain c' where c': "get_candidate i t = Some c'" "candidate_origin\<^sup>*\<^sup>* c c'"
    using candidate_life.run_edges [OF assms] by blast
  from c'(2) have "candidate_origin c c'"
    by (induction rule: rtranclp_induct) (auto simp: candidate_origin_def)
  with c'(1) that show thesis by blast
qed

section \<open>Properties\<close>

text \<open>C37. Entries stay well formed: in every run of the memory and learning services that starts
  without entries, the confidence of every entry lies between 0 and 1, an entry of PROJECT or CLIENT
  scope names its project, a VALIDATED entry has provenance, and no two entries supersede
  each other.\<close>

theorem memories_stay_well_formed:
  assumes "knowledge_step\<^sup>*\<^sup>* s t" and "memories s = []" and "get_memory i t = Some m"
  shows "memory_ok m \<and> (\<forall>j n. get_memory j t = Some n \<longrightarrow> m_superseded_by_id m = Some j
    \<longrightarrow> m_superseded_by_id n \<noteq> Some i)"
proof -
  have "memories_ok (memories s)"
    using assms(2) by (simp add: memories_ok_def no_mutual_def)
  with knowledge.run_inv [OF assms(1)] have "memories_ok (memories t)" by simp
  with assms(3) show ?thesis
    unfolding memories_ok_def no_mutual_def get_memory_def by blast
qed

definition promotable :: "candidate_row \<Rightarrow> knowledge_scope \<Rightarrow> actor \<Rightarrow> bool" where
  "promotable c scope a \<longleftrightarrow> l_status c = learning_candidate_status.VALIDATED
     \<and> (l_evidence_ids c \<noteq> [] \<or> l_source_memory_ids c \<noteq> [] \<or> l_source_document_refs c \<noteq> [])
     \<and> 0 \<le> l_confidence c \<and> l_confidence c \<le> 1
     \<and> (scope \<in> {knowledge_scope.PROJECT, knowledge_scope.CLIENT} \<longrightarrow> truthy (l_project_id c))
     \<and> (scope = GLOBAL \<longrightarrow> a \<in> {actor.HUMAN, SYSTEM} \<and> l_source_classification c \<noteq> PRIVATE
          \<and> l_sanitization_status c \<in> {NOT_REQUIRED, SANITIZED} \<and> l_evidence_ids c \<noteq> [])"

lemma promotion_valid:
  assumes "can_promote_candidate c scope a = None" and "l_id c \<noteq> []"
  shows "(\<exists>u. validate_memory_creation (promotion_input c scope a) = Inr u) \<longleftrightarrow> promotable c scope a"
    and "\<not> client_to_global (promotion_input c scope a) s"
  using assms
  by (auto simp: can_promote_candidate_def promotable_def validate_memory_creation_def validate_confidence_def
      promotion_input_def has_provenance_def truthy_def check_that_def authorized_global_promoters_def
      client_to_global_def split: if_splits)

lemma promotable_can: "promotable c scope a \<Longrightarrow> can_promote_candidate c scope a = None"
  by (auto simp: can_promote_candidate_def promotable_def authorized_global_promoters_def)


text \<open>C36. Knowledge of a client is never promoted to GLOBAL: a candidate created for a client's
  project stays PRIVATE in every run of the services, and every later promotion of it to GLOBAL
  fails and writes no entry, whatever validations came before.\<close>

theorem client_knowledge_never_global:
  assumes "create_candidate x s = (Inr c, s1)" and "get_project p s = Some project"
    and "p_type project = project_type.CLIENT" and "nc_project_id x = Some p" and "p \<noteq> []"
    and "knowledge_step\<^sup>*\<^sup>* s1 t"
  shows "(\<exists>e. fst (promote_candidate (l_id c) GLOBAL a t) = Inl e)
    \<and> memories (snd (promote_candidate (l_id c) GLOBAL a t)) = memories t"
proof -
  have c: "get_candidate (l_id c) s1 = Some c" "l_source_classification c = PRIVATE"
    using assms(1-5) by (auto simp: create_candidate_def Let_def candidate_of_def classify_source_def truthy_def
        get_candidate_def)
  obtain c' where c': "get_candidate (l_id c) t = Some c'" "candidate_origin c c'"
    by (rule candidate_run_origin [OF assms(6) c(1)])
  then have "can_promote_candidate c' GLOBAL a \<noteq> None"
    using c(2) by (auto simp: can_promote_candidate_def candidate_origin_def)
  with c'(1) show ?thesis
    by (auto simp: promote_candidate_def candidate_row_of_def)
qed

section \<open>Examples and what the checks let through\<close>

lemma ex_input_created:
  "fst (create_memory (ex_input knowledge_scope.PROJECT (Some ''P'')) s)
     = Inr (memory_of (fresh_id ''memory'' s) (utc_now (bump_id ''memory'' s)) (ex_input knowledge_scope.PROJECT (Some ''P'')))"
  "memories (snd (create_memory (ex_input knowledge_scope.PROJECT (Some ''P'')) s))
     = memories s @ [memory_of (fresh_id ''memory'' s) (utc_now (bump_id ''memory'' s))
         (ex_input knowledge_scope.PROJECT (Some ''P''))]"
  by (simp_all add: create_memory_def validate_memory_creation_def validate_confidence_def ex_input_def truthy_def
      check_that_def has_provenance_def client_to_global_def Let_def memory_of_def tput_fresh)

theorem memories_stay_well_formed_witness:
  "\<exists>t i m. knowledge_step\<^sup>*\<^sup>* empty_db t \<and> get_memory i t = Some m \<and> memory_ok m"
proof -
  let ?t = "snd (create_memory (ex_input knowledge_scope.PROJECT (Some ''P'')) empty_db)"
  have run: "knowledge_step\<^sup>*\<^sup>* empty_db ?t"
    by (rule r_into_rtranclp) (rule knowledge_step.creates)
  have e: "memories empty_db = []" by (simp add: empty_db_def)
  have m: "get_memory (fresh_id ''memory'' empty_db) ?t = Some (memory_of (fresh_id ''memory'' empty_db)
      (utc_now (bump_id ''memory'' empty_db)) (ex_input knowledge_scope.PROJECT (Some ''P'')))"
    using ex_input_created(2) [of empty_db] e by (simp add: get_memory_def memory_of_def)
  from memories_stay_well_formed [OF run e m] run m show ?thesis by blast
qed

definition ex_candidate_row :: "firewall_classification \<Rightarrow> candidate_row" where
  "ex_candidate_row cl = \<lparr>l_id = ''L'', l_project_id = None, l_run_id = None, l_task_id = None,
     l_candidate_type = PATTERN, l_statement = ''fact'', l_evidence_ids = [''E''], l_source_memory_ids = [],
     l_source_document_refs = [], l_confidence = 1 / 2, l_status = learning_candidate_status.VALIDATED,
     l_proposed_scope = knowledge_scope.CLIENT, l_sanitization_status = SANITIZED, l_source_classification = cl,
     l_created_at = 0, l_updated_at = 0, l_validated_at = None, l_rejected_at = None, l_validation_notes = None,
     l_rejection_reason = None, l_actor = SYSTEM\<rparr>"

definition ex_learning_store :: "firewall_classification \<Rightarrow> db" where
  "ex_learning_store cl = empty_db\<lparr>candidates := [ex_candidate_row cl]\<rparr>"

lemma ex_learning_candidate: "get_candidate ''L'' (ex_learning_store cl) = Some (ex_candidate_row cl)"
  by (simp add: get_candidate_def ex_learning_store_def ex_candidate_row_def)


definition ex_client_store :: db where
  "ex_client_store = empty_db\<lparr>projects := [ex_project\<lparr>p_type := project_type.CLIENT\<rparr>]\<rparr>"

definition ex_client_input :: candidate_input where
  "ex_client_input = captured_candidate PATTERN ''fact'' (Some ''P'') None None [''E''] [] GLOBAL SYSTEM"

theorem client_knowledge_never_global_witness:
  "\<exists>c s1. create_candidate ex_client_input ex_client_store = (Inr c, s1)
     \<and> (\<exists>e. fst (promote_candidate (l_id c) GLOBAL actor.HUMAN (snd (validate_candidate (l_id c) None actor.HUMAN s1))) = Inl e)"
proof -
  obtain c s1 where c: "create_candidate ex_client_input ex_client_store = (Inr c, s1)"
    by (auto simp: create_candidate_def ex_client_input_def captured_candidate_def validate_confidence_def
        check_that_def Let_def)
  have p: "get_project ''P'' ex_client_store = Some (ex_project\<lparr>p_type := project_type.CLIENT\<rparr>)"
    by (simp add: get_project_def ex_client_store_def ex_project_def)
  have run: "knowledge_step\<^sup>*\<^sup>* s1 (snd (validate_candidate (l_id c) None actor.HUMAN s1))"
    by (rule r_into_rtranclp) (rule knowledge_step.validates_candidate)
  from client_knowledge_never_global [OF c p _ _ _ run, of actor.HUMAN] c show ?thesis
    by (simp add: ex_client_input_def captured_candidate_def)
qed

text \<open>The firewall guards GLOBAL only: knowledge classified PRIVATE that belongs to no project is
  promoted to DOMAIN by any actor, and a retrieval for any project sees it.\<close>

lemma private_knowledge_becomes_shared:
  "\<exists>m. fst (promote_candidate ''L'' DOMAIN LUCIUS (ex_learning_store PRIVATE)) = Inr m
     \<and> memories (snd (promote_candidate ''L'' DOMAIN LUCIUS (ex_learning_store PRIVATE))) = [m]
     \<and> m_project_id m = None \<and> m_scope m = DOMAIN"
  by (simp add: promote_candidate_def candidate_row_of_def can_promote_candidate_def
      authorized_global_promoters_def ex_candidate_row_def create_memory_def validate_memory_creation_def
      validate_confidence_def promotion_input_def check_that_def has_provenance_def truthy_def client_to_global_def
      Let_def memory_of_def ex_learning_store_def empty_db_def get_candidate_def)

text \<open>Three entries may supersede each other in a circle: the check looks one entry far.\<close>

definition ex_three :: db where
  "ex_three = empty_db\<lparr>memories := map (\<lambda>i. memory_of i 0 (ex_input knowledge_scope.PROJECT (Some ''P'')))
     [''A'', ''B'', ''C'']\<rparr>"

lemma supersede_writes:
  assumes "i \<noteq> j" and "tget m_id i (memories s) = Some m" and "tget m_id j (memories s) = Some n"
    and "m_superseded_by_id n \<noteq> Some i" and "m_supersedes_id m \<noteq> Some j"
  shows "memories (snd (supersede_memory i j r a s)) = tput m_id (n\<lparr>m_supersedes_id := Some i, m_updated_at := utc_now s\<rparr>)
    (tput m_id (m\<lparr>m_validation_status := SUPERSEDED, m_superseded_by_id := Some j, m_supersession_reason := Some r,
       m_updated_at := utc_now s\<rparr>) (memories s))"
proof -
  have "m_id m = i" "m_id n = j"
    using assms(2,3) tget_Some_mem by fastforce+
  with assms show ?thesis
    by (simp add: supersede_memory_def memory_row_of_def get_memory_def check_that_def Let_def)
qed

lemma supersession_circle:
  "\<exists>t. knowledge_step\<^sup>*\<^sup>* ex_three t \<and> map m_validation_status (memories t) = [SUPERSEDED, SUPERSEDED, SUPERSEDED]
     \<and> map m_superseded_by_id (memories t) = [Some ''B'', Some ''C'', Some ''A'']"
proof -
  let ?row = "\<lambda>i. memory_of i 0 (ex_input knowledge_scope.PROJECT (Some ''P''))"
  define s1 where "s1 = snd (supersede_memory ''A'' ''B'' ''r'' SYSTEM ex_three)"
  define s2 where "s2 = snd (supersede_memory ''B'' ''C'' ''r'' SYSTEM s1)"
  define s3 where "s3 = snd (supersede_memory ''C'' ''A'' ''r'' SYSTEM s2)"
  have fields: "m_id (?row i) = i" "m_superseded_by_id (?row i) = None" "m_supersedes_id (?row i) = None" for i
    by (simp_all add: memory_of_def)
  have m0: "memories ex_three = [?row ''A'', ?row ''B'', ?row ''C'']"
    by (simp add: ex_three_def)
  have m1: "memories s1 = [(?row ''A'')\<lparr>m_validation_status := SUPERSEDED, m_superseded_by_id := Some ''B'',
      m_supersession_reason := Some ''r'', m_updated_at := utc_now ex_three\<rparr>,
      (?row ''B'')\<lparr>m_supersedes_id := Some ''A'', m_updated_at := utc_now ex_three\<rparr>, ?row ''C'']"
    unfolding s1_def
    by (subst supersede_writes [where m = "?row ''A''" and n = "?row ''B''"]) (simp_all add: m0 fields)
  obtain a b c where m2: "memories s2 = [a, b, c]" "m_id a = ''A''" "m_id b = ''B''" "m_id c = ''C''"
    "m_superseded_by_id a = Some ''B''" "m_superseded_by_id b = Some ''C''" "m_superseded_by_id c = None"
    "m_supersedes_id c = Some ''B''" "m_validation_status a = SUPERSEDED" "m_validation_status b = SUPERSEDED"
    unfolding s2_def
    by (subst (asm) supersede_writes [where m = "memories s1 ! 1" and n = "memories s1 ! 2"])
      (simp_all add: m1 fields)
  have "memories s3 = [a\<lparr>m_supersedes_id := Some ''C'', m_updated_at := utc_now s2\<rparr>, b,
      c\<lparr>m_validation_status := SUPERSEDED, m_superseded_by_id := Some ''A'', m_supersession_reason := Some ''r'',
        m_updated_at := utc_now s2\<rparr>]"
    unfolding s3_def
    by (subst supersede_writes [where m = c and n = a]) (simp_all add: m2)
  moreover have "knowledge_step\<^sup>*\<^sup>* ex_three s3"
    unfolding s3_def s2_def s1_def
    by (meson knowledge_step.supersedes rtranclp.rtrancl_into_rtrancl rtranclp.rtrancl_refl)
  ultimately show ?thesis
    using m2 by (intro exI [of _ s3]) simp
qed

text \<open>A failure without evidence leaves its entry behind although the capture raises.\<close>

lemma failure_capture_not_atomic:
  assumes "fe_evidence_ids f = []" and "task_project_id (fe_task_id f) s = None"
  shows "fst (capture_failure_memory f a s) = Inl (ValueError ''LearningCandidate requires source/provenance'')
    \<and> length (memories (snd (capture_failure_memory f a s))) = length (memories s) + 1"
  using assms
  by (simp add: capture_failure_memory_def Let_def truthy_def create_memory_def captured_memory_def
      validate_memory_creation_def validate_confidence_def check_that_def client_to_global_def create_candidate_def
      captured_candidate_def memory_of_def tput_fresh)

text \<open>Validation afterwards does not ask for the evidence that creation asks of a VALIDATED entry of
  GLOBAL scope.\<close>

lemma global_entry_validated_without_evidence:
  "\<exists>m. fst (validate_memory ''A'' SYSTEM None (empty_db\<lparr>memories :=
       [memory_of ''A'' 0 ((ex_input GLOBAL None)\<lparr>nm_validation_status := OBSERVED, nm_source_evidence_ids := []\<rparr>)]\<rparr>)) = Inr m
     \<and> m_scope m = GLOBAL \<and> m_validation_status m = validation_status.VALIDATED \<and> m_source_evidence_ids m = []"
  by (simp add: validate_memory_def memory_row_of_def get_memory_def memory_of_def ex_input_def row_provenance_def
      has_provenance_def truthy_def check_that_def Let_def)

end
