(* ===== verification/Dispatcher.thy ===== *)
theory Dispatcher
  imports Queue_Steps Tasks
begin

text \<open>
  The dispatcher of \<^verbatim>\<open>lucius/runtime/dispatcher.py\<close>: one cycle looks at the backlogs of
  all workflows, or of those it is given, evaluates every item as a candidate, and hands the
  least eligible one to the runtime, deferring a project that was served twice in a row.
  Times are instants, as in \<^theory_text>\<open>Store\<close>, and members of an item that only the dispatcher
  reads (\<open>ready_at\<close>, \<open>created_at\<close>, \<open>required_capabilities\<close>) are among its other members.
\<close>

section \<open>Ranks and states\<close>

definition dispatch_blocked_states :: "queue_state list" where
  "dispatch_blocked_states = [WAITING_HUMAN, WAITING_EXTERNAL, WAITING_RESOURCE,
     WAITING_RESOURCE_SHORT, WAITING_RESOURCE_LONG, WAITING_DEPENDENCY, WAITING_SCHEDULE,
     BLOCKED_DEPENDENCY, BLOCKED_AUTHORITY, BLOCKED_DECISION, RETRY_LATER]"

definition dispatch_state_rank :: "queue_state \<Rightarrow> nat" where
  "dispatch_state_rank q = (if q = READY_TO_RESUME then 0 else if q = queue_state.READY then 1 else 9)"

definition consecutive_project_limit :: nat where
  "consecutive_project_limit = 2"

text \<open>\<open>str(x)\<close> of a member that is a scalar; a structured one has no text here, and is never
  the name of a priority.\<close>

definition scalar_text :: "json \<Rightarrow> string" where
  "scalar_text v = (case v of JStr t \<Rightarrow> t | JInt n \<Rightarrow> int_text n | JNull \<Rightarrow> ''None''
     | JBool b \<Rightarrow> (if b then ''True'' else ''False'') | _ \<Rightarrow> [])"

definition truthy_member :: "string \<Rightarrow> json_object \<Rightarrow> json option" where
  "truthy_member k d = (case jget k d of None \<Rightarrow> None
     | Some v \<Rightarrow> if v = JNull \<or> v = JBool False \<or> v = JInt 0 \<or> v = JFloat 0 \<or> v = JStr [] \<or> v = JList []
         \<or> v = JObj [] then None else Some v)"

text \<open>\<open>_safe_state\<close>: an absent, null or unknown state is None.\<close>

definition safe_state :: "queue_item \<Rightarrow> queue_state option" where
  "safe_state item = (case qi_state item of Text t \<Rightarrow> queue_state_of t | _ \<Rightarrow> None)"

section \<open>Candidates\<close>

record dispatch_candidate =
  dc_project_id :: string
  dc_workflow_id :: string
  dc_task_id :: "string option"
  dc_repository_id :: "string option"
  dc_item_id :: string
  dc_logical_task_id :: string
  dc_priority :: string
  dc_project_priority :: string
  dc_state :: queue_state
  dc_dependency_state :: string
  dc_blocker_state :: string
  dc_retry_state :: string
  dc_resume_state :: string
  dc_created_order :: int
  dc_ready_timestamp :: json
  dc_created_at :: json
  dc_required_capabilities :: "string list"
  dc_plan_id :: "string option"
  dc_plan_freeze_id :: "string option"
  dc_item_version :: int
  dc_scheduling_metadata :: json_object
  dc_tie_break_fields :: json_object

type_synonym dispatch_key = "nat \<times> nat \<times> nat \<times> nat \<times> int \<times> string \<times> string \<times> string"

record dispatch_evaluation =
  de_candidate :: dispatch_candidate
  de_eligible :: bool
  de_reasons :: "string list"
  de_scheduling_key :: dispatch_key

record dispatch_selection =
  ds_cycle_id :: string
  ds_selected :: "dispatch_candidate option"
  ds_started :: bool
  ds_started_previous_state :: "string option"
  ds_started_new_state :: "string option"
  ds_started_previous_version :: "int option"
  ds_started_new_version :: "int option"
  ds_reason :: string
  ds_eligible_candidates :: "dispatch_evaluation list"
  ds_excluded_candidates :: "dispatch_evaluation list"
  ds_blocked_candidates :: "dispatch_evaluation list"
  ds_fairness_applied :: bool
  ds_deterministic_tie_break_reason :: "string option"

record workflow_bundle =
  bu_workflow :: workflow_row
  bu_project :: "project_row option"
  bu_repository :: "registration_row option"
  bu_task :: "task_row option"

definition project_priority_of :: "project_row option \<Rightarrow> string" where
  "project_priority_of project =
     (let policy = (case project of None \<Rightarrow> [] | Some p \<Rightarrow> p_documentation_policy p)
      in py_upper (case truthy_member ''priority'' policy of
           Some v \<Rightarrow> scalar_text v
         | None \<Rightarrow> (case truthy_member ''scheduling_priority'' policy of
             Some v \<Rightarrow> scalar_text v | None \<Rightarrow> ''NORMAL'')))"

text \<open>\<open>item.get("updated_at") or item.get("ready_at") or item.get("created_at")\<close>.\<close>

definition ready_timestamp_of :: "queue_item \<Rightarrow> json" where
  "ready_timestamp_of item =
     (case qi_updated_at item of
        Some t \<Rightarrow> JInt t
      | None \<Rightarrow> (case truthy_member ''ready_at'' (qi_extra item) of
          Some v \<Rightarrow> v
        | None \<Rightarrow> (case jget ''created_at'' (qi_extra item) of None \<Rightarrow> JNull | Some v \<Rightarrow> v)))"

definition required_capabilities_of :: "queue_item \<Rightarrow> string list" where
  "required_capabilities_of item =
     (case jget ''required_capabilities'' (qi_extra item) of
        None \<Rightarrow> [''code_modification''] | Some (JList vs) \<Rightarrow> map scalar_text vs | Some _ \<Rightarrow> [])"

definition raw_or :: "raw_field \<Rightarrow> string \<Rightarrow> string" where
  "raw_or f d = (case f of Text t \<Rightarrow> if t = [] then d else t | _ \<Rightarrow> d)"

definition candidate_from_item :: "workflow_row \<Rightarrow> queue_item \<Rightarrow> project_row option \<Rightarrow> dispatch_candidate" where
  "candidate_from_item w item project =
     (let state = (case safe_state item of None \<Rightarrow> queue_state.FAILED | Some q \<Rightarrow> q)
      in \<lparr>dc_project_id = or_else (wf_project_id w) [], dc_workflow_id = wf_id w,
        dc_task_id = wf_task_id w, dc_repository_id = wf_repository_id w,
        dc_item_id = item_id_of item,
        dc_logical_task_id = or_else (qi_logical_task_id item) (or_else (qi_task_id item) (item_id_of item)),
        dc_priority = py_upper (raw_or (qi_priority item) ''NORMAL''),
        dc_project_priority = project_priority_of project, dc_state = state,
        dc_dependency_state = ''UNKNOWN'',
        dc_blocker_state = (if state \<in> set dispatch_blocked_states then ''BLOCKED'' else ''NONE''),
        dc_retry_state = (if state = RETRY_LATER then ''BACKOFF'' else ''READY''),
        dc_resume_state = (if state = READY_TO_RESUME then ''RESUME'' else ''NEW''),
        dc_created_order = qi_created_order item,
        dc_ready_timestamp = ready_timestamp_of item,
        dc_created_at = (case jget ''created_at'' (qi_extra item) of None \<Rightarrow> JNull | Some v \<Rightarrow> v),
        dc_required_capabilities = required_capabilities_of item,
        dc_plan_id = wf_plan_id w, dc_plan_freeze_id = wf_plan_freeze_id w,
        dc_item_version = qi_version item,
        dc_scheduling_metadata = [(''workflow_state'', JStr (workflow_state_value (wf_workflow_state w))),
          (''authority_tier'', JStr (wf_authority_tier w)), (''is_resumed'', JBool (state = READY_TO_RESUME))],
        dc_tie_break_fields = [(''project_id'', jtext (wf_project_id w)), (''workflow_id'', JStr (wf_id w)),
          (''item_id'', JStr (item_id_of item)), (''created_order'', JInt (qi_created_order item))]\<rparr>)"

definition candidate_key :: "dispatch_candidate \<Rightarrow> string option \<Rightarrow> dispatch_key" where
  "candidate_key c deferred =
     (priority_rank (dc_priority c),
      (if truthy deferred \<and> Some (dc_project_id c) = deferred \<and> dc_priority c \<noteq> ''CRITICAL'' then 1 else 0),
      priority_rank (dc_project_priority c), dispatch_state_rank (dc_state c), dc_created_order c,
      dc_project_id c, dc_workflow_id c, dc_item_id c)"

section \<open>Eligibility\<close>

definition plan_authorizes_workflow :: "workflow_row \<Rightarrow> db \<Rightarrow> bool" where
  "plan_authorizes_workflow w s =
     (case (get_plan (option_text (wf_plan_id w)) s, get_freeze (option_text (wf_plan_freeze_id w)) s) of
        (Some plan, Some freeze) \<Rightarrow>
          if Some (pl_project_id plan) \<noteq> wf_project_id w \<or> Some (fz_project_id freeze) \<noteq> wf_project_id w then False
          else if truthy (wf_task_id w)
            \<and> (Some (pl_task_id plan) \<noteq> wf_task_id w \<or> Some (fz_task_id freeze) \<noteq> wf_task_id w) then False
          else fz_plan_id freeze = pl_id plan
      | _ \<Rightarrow> False)"

definition when_reason :: "bool \<Rightarrow> string \<Rightarrow> string list" where
  "when_reason b r = (if b then [r] else [])"

definition completed_items :: "workflow_row \<Rightarrow> string list" where
  "completed_items w = map item_id_of (filter (\<lambda>i. safe_state i = Some queue_state.COMPLETED) (wf_task_backlog w))"

definition attached_repository :: "workflow_row \<Rightarrow> db \<Rightarrow> bool" where
  "attached_repository w s = list_ex (\<lambda>a. Some (att_project_id a) = wf_project_id w
     \<and> Some (att_repository_id a) = wf_repository_id w) (attachments s)"

definition project_reasons :: "workflow_bundle \<Rightarrow> string list" where
  "project_reasons b =
     (case bu_project b of None \<Rightarrow> [''PROJECT_MISSING'']
      | Some p \<Rightarrow> when_reason (p_status p \<noteq> project_status.ACTIVE)
          (''PROJECT_DISABLED:'' @ project_status_value (p_status p)))"

definition task_reasons :: "workflow_bundle \<Rightarrow> string list" where
  "task_reasons b =
     (case bu_task b of None \<Rightarrow> [''TASK_MISSING'']
      | Some t \<Rightarrow> if Some (t_project_id t) \<noteq> wf_project_id (bu_workflow b) then [''TASK_PROJECT_MISMATCH'']
          else when_reason (t_status t \<noteq> task_status.READY) (''TASK_NOT_READY:'' @ task_status_value (t_status t)))"

definition repository_reasons :: "workflow_bundle \<Rightarrow> string list" where
  "repository_reasons b =
     (case bu_repository b of None \<Rightarrow> [''REPOSITORY_MISSING'']
      | Some r \<Rightarrow> if Some (reg_project_id r) \<noteq> wf_project_id (bu_workflow b) then [''REPOSITORY_PROJECT_MISMATCH'']
          else when_reason (reg_status r \<noteq> ''ACTIVE'') (''REPOSITORY_INACTIVE:'' @ reg_status r))"

definition state_reasons :: "queue_state option \<Rightarrow> string list" where
  "state_reasons q =
     (case q of None \<Rightarrow> [''QUEUE_STATE_MALFORMED_OR_MISSING'']
      | Some st \<Rightarrow> if st \<in> {queue_state.READY, READY_TO_RESUME} then []
          else if st \<in> set dispatch_blocked_states then [''BLOCKER_UNRESOLVED:'' @ queue_state_value st]
          else if st = queue_state.RUNNING then [''RUNNING_ITEM_ACTIVE'']
          else [''QUEUE_STATE_NOT_EXECUTABLE:'' @ queue_state_value st])"

definition eligibility_reasons :: "workflow_bundle \<Rightarrow> queue_item \<Rightarrow> db \<Rightarrow> string list" where
  "eligibility_reasons b item s =
     (let w = bu_workflow b; state = safe_state item in dict_fromkeys
       (project_reasons b
        @ when_reason (wf_workflow_state w \<notin> set execution_eligible_states)
            (''WORKFLOW_TERMINAL_OR_INELIGIBLE:'' @ workflow_state_value (wf_workflow_state w))
        @ task_reasons b
        @ when_reason (wf_project_id w = None) ''WORKFLOW_PROJECT_MISSING''
        @ repository_reasons b
        @ when_reason (truthy (wf_repository_id w) \<and> \<not> attached_repository w s) ''REPOSITORY_UNATTACHED''
        @ (if wf_plan_id w = None \<or> wf_plan_freeze_id w = None then [''FROZEN_PLAN_MISSING'']
           else when_reason (\<not> plan_authorizes_workflow w s) ''PLAN_FREEZE_PROJECT_OR_TASK_MISMATCH'')
        @ state_reasons state
        @ when_reason (\<not> list_all (\<lambda>d. d \<in> set (completed_items w)) (qi_dependencies item)) ''DEPENDENCIES_UNRESOLVED''
        @ when_reason (state = Some RETRY_LATER) ''RETRY_BACKOFF_ACTIVE''
        @ when_reason (state = Some READY_TO_RESUME \<and> \<not> truthy (qi_current_block_checkpoint_id item))
            ''RESUME_PREREQUISITE_MISSING''))"

definition evaluation_of :: "workflow_bundle \<Rightarrow> db \<Rightarrow> queue_item \<Rightarrow> dispatch_evaluation" where
  "evaluation_of b s item =
     (let reasons = eligibility_reasons b item s;
          c = (candidate_from_item (bu_workflow b) item (bu_project b))
            \<lparr>dc_dependency_state := (if ''DEPENDENCIES_UNRESOLVED'' \<in> set reasons then ''UNRESOLVED'' else ''COMPLETE'')\<rparr>
      in \<lparr>de_candidate = c, de_eligible = (reasons = []),
        de_reasons = (if reasons = [] then [''ELIGIBLE''] else reasons),
        de_scheduling_key = candidate_key c None\<rparr>)"

definition evaluations :: "db \<Rightarrow> workflow_bundle \<Rightarrow> dispatch_evaluation list" where
  "evaluations s b = map (evaluation_of b s) (wf_task_backlog (bu_workflow b))"

text \<open>A falsy id is not looked up.\<close>

definition get_if :: "(string \<Rightarrow> db \<Rightarrow> 'a option) \<Rightarrow> string option \<Rightarrow> db \<Rightarrow> 'a option" where
  "get_if get i s = (if truthy i then get (the i) s else None)"

definition bundle_of :: "db \<Rightarrow> workflow_row \<Rightarrow> workflow_bundle" where
  "bundle_of s w = \<lparr>bu_workflow = w, bu_project = get_if get_project (wf_project_id w) s,
     bu_repository = get_if get_registration (wf_repository_id w) s, bu_task = get_if get_task (wf_task_id w) s\<rparr>"

text \<open>The order of the query: by project and id, an absent project first; and the text of a list
  of ids in the message.\<close>

definition dispatch_order :: "workflow_row \<Rightarrow> nat \<times> string \<times> string" where
  "dispatch_order w = (case wf_project_id w of None \<Rightarrow> (0, [], wf_id w) | Some p \<Rightarrow> (1, p, wf_id w))"

definition repr_list :: "string list \<Rightarrow> string" where
  "repr_list ts = ''['' @ join_with '', '' (map (\<lambda>t. CHR 0x27 # t @ [CHR 0x27]) ts) @ '']''"

definition workflow_bundles :: "string list option \<Rightarrow> db \<Rightarrow> workflow_bundle list res" where
  "workflow_bundles workflow_ids s =
     (let ids = list_or workflow_ids [];
          found = filter (\<lambda>w. ids = [] \<or> wf_id w \<in> set ids) (sort_key dispatch_order (workflows s))
      in if ids \<noteq> [] \<and> length found \<noteq> card (set ids)
         then Inl (QueueStateError (''Unknown persistent workflows: ''
                @ repr_list (sorted_set (filter (\<lambda>i. i \<notin> set (map wf_id found)) ids))))
         else Inr (map (bundle_of s) (filter (\<lambda>w. wf_task_backlog w \<noteq> []) found)))"

section \<open>Order and fairness\<close>

definition recent_started_projects :: "nat \<Rightarrow> db \<Rightarrow> string list" where
  "recent_started_projects limit s =
     concat (map (\<lambda>e. if truthy (ev_project_id e) then [the (ev_project_id e)] else [])
       (take limit (rev (sort_key (\<lambda>e. (ev_timestamp e, ev_id e))
          (filter (\<lambda>e. ev_type e = ''MULTI_PROJECT_DISPATCH_CANDIDATE_HANDED_TO_RUNTIME'') (events s))))))"

definition exhausted_project :: "db \<Rightarrow> string option" where
  "exhausted_project s =
     (let recent = recent_started_projects consecutive_project_limit s
      in if length recent = consecutive_project_limit \<and> card (set recent) = 1 then Some (hd recent) else None)"

text \<open>Whether another project than the exhausted one has an eligible candidate.\<close>

definition has_alternatives :: "db \<Rightarrow> dispatch_evaluation list \<Rightarrow> bool" where
  "has_alternatives s eligible = list_ex (\<lambda>e. Some (dc_project_id (de_candidate e)) \<noteq> exhausted_project s) eligible"

definition deferred_project :: "db \<Rightarrow> dispatch_evaluation list \<Rightarrow> string option" where
  "deferred_project s eligible = (if has_alternatives s eligible then exhausted_project s else None)"

definition ranked_evaluation :: "db \<Rightarrow> dispatch_evaluation list \<Rightarrow> dispatch_evaluation \<Rightarrow> dispatch_evaluation" where
  "ranked_evaluation s eligible e =
     (let c = de_candidate e; metadata = dc_scheduling_metadata c;
          metadata' = (case deferred_project s eligible of
              None \<Rightarrow> metadata
            | Some p \<Rightarrow>
                if dc_project_id c = p
                then jset ''fairness_deferred_after_consecutive_dispatches'' (JInt (int consecutive_project_limit)) metadata
                else jset ''fairness_boost'' (JStr (''project '' @ p @ '' reached consecutive dispatch limit'')) metadata)
      in e\<lparr>de_candidate := c\<lparr>dc_scheduling_metadata := metadata'\<rparr>,
           de_scheduling_key := candidate_key c (deferred_project s eligible)\<rparr>)"

definition ordered_candidates :: "db \<Rightarrow> dispatch_evaluation list \<Rightarrow> dispatch_evaluation list" where
  "ordered_candidates s eligible = sort_key de_scheduling_key (map (ranked_evaluation s eligible) eligible)"

definition dispatch_reason :: "dispatch_candidate \<Rightarrow> nat \<Rightarrow> string" where
  "dispatch_reason c n =
     ''project='' @ dc_project_id c @ '' workflow='' @ dc_workflow_id c @ '' item='' @ dc_item_id c
     @ '' priority='' @ dc_priority c @ '' project_priority='' @ dc_project_priority c
     @ '' state='' @ queue_state_value (dc_state c)
     @ '' tie_break=priority, fairness, project_priority, resume, created_order, project_id, workflow_id, item_id ''
     @ ''eligible_count='' @ dec n"

section \<open>A dispatch cycle\<close>

definition audit_dispatch ::
  "actor \<Rightarrow> string \<Rightarrow> string \<Rightarrow> string \<Rightarrow> dispatch_candidate option \<Rightarrow> json_object \<Rightarrow> db \<Rightarrow> db" where
  "audit_dispatch actor event_type action result selected metadata =
     audit_record event_type (actor_value actor) (map_option dc_project_id selected)
       (Option.bind selected dc_repository_id) (Option.bind selected dc_task_id) None L1 action result metadata"

definition selection_of :: "string \<Rightarrow> string \<Rightarrow> dispatch_selection" where
  "selection_of cycle_id reason = \<lparr>ds_cycle_id = cycle_id, ds_selected = None, ds_started = False,
     ds_started_previous_state = None, ds_started_new_state = None, ds_started_previous_version = None,
     ds_started_new_version = None, ds_reason = reason, ds_eligible_candidates = [],
     ds_excluded_candidates = [], ds_blocked_candidates = [], ds_fairness_applied = False,
     ds_deterministic_tie_break_reason = None\<rparr>"

definition key_json :: "dispatch_key \<Rightarrow> json" where
  "key_json k = (case k of (a, b, c, d, order, p, w, i) \<Rightarrow>
     JList [JInt (int a), JInt (int b), JInt (int c), JInt (int d), JInt order, JStr p, JStr w, JStr i])"

definition candidate_json :: "dispatch_candidate \<Rightarrow> json" where
  "candidate_json c = JObj [(''project_id'', JStr (dc_project_id c)), (''workflow_id'', JStr (dc_workflow_id c)),
     (''task_id'', jtext (dc_task_id c)), (''repository_id'', jtext (dc_repository_id c)),
     (''item_id'', JStr (dc_item_id c)), (''logical_task_id'', JStr (dc_logical_task_id c)),
     (''priority'', JStr (dc_priority c)), (''project_priority'', JStr (dc_project_priority c)),
     (''state'', JStr (queue_state_value (dc_state c))), (''dependency_state'', JStr (dc_dependency_state c)),
     (''blocker_state'', JStr (dc_blocker_state c)), (''retry_state'', JStr (dc_retry_state c)),
     (''resume_state'', JStr (dc_resume_state c)), (''created_order'', JInt (dc_created_order c)),
     (''ready_timestamp'', dc_ready_timestamp c), (''created_at'', dc_created_at c),
     (''required_capabilities'', jtexts (dc_required_capabilities c)), (''plan_id'', jtext (dc_plan_id c)),
     (''plan_freeze_id'', jtext (dc_plan_freeze_id c)), (''item_version'', JInt (dc_item_version c)),
     (''scheduling_metadata'', JObj (dc_scheduling_metadata c)), (''tie_break_fields'', JObj (dc_tie_break_fields c))]"

definition evaluation_json :: "dispatch_evaluation \<Rightarrow> json" where
  "evaluation_json e = JObj [(''candidate'', candidate_json (de_candidate e)), (''eligible'', JBool (de_eligible e)),
     (''reasons'', jtexts (de_reasons e)), (''scheduling_key'', key_json (de_scheduling_key e))]"

definition compact_eval :: "dispatch_evaluation \<Rightarrow> json" where
  "compact_eval e = (let c = de_candidate e in JObj [
     (''candidate'', JObj [(''project_id'', JStr (dc_project_id c)), (''workflow_id'', JStr (dc_workflow_id c)),
        (''item_id'', JStr (dc_item_id c)), (''state'', JStr (queue_state_value (dc_state c))),
        (''priority'', JStr (dc_priority c))]),
     (''eligible'', JBool (de_eligible e)), (''reasons'', jtexts (de_reasons e))])"

definition compact_cand :: "dispatch_candidate \<Rightarrow> json" where
  "compact_cand c = JObj [(''project_id'', JStr (dc_project_id c)), (''workflow_id'', JStr (dc_workflow_id c)),
     (''item_id'', JStr (dc_item_id c)), (''logical_task_id'', JStr (dc_logical_task_id c)),
     (''task_id'', jtext (dc_task_id c)), (''repository_id'', jtext (dc_repository_id c)),
     (''state'', JStr (queue_state_value (dc_state c))), (''priority'', JStr (dc_priority c)),
     (''blocker_state'', JStr (dc_blocker_state c))]"

text \<open>\<open>model_dump\<close> of a selection, its candidate and its evaluations rendered by the arguments.\<close>

definition selection_json ::
  "(dispatch_candidate \<Rightarrow> json) \<Rightarrow> (dispatch_evaluation list \<Rightarrow> json) \<Rightarrow> dispatch_selection \<Rightarrow> json_object" where
  "selection_json cand evals d = [(''cycle_id'', JStr (ds_cycle_id d)),
     (''selected'', case ds_selected d of None \<Rightarrow> JNull | Some c \<Rightarrow> cand c), (''started'', JBool (ds_started d)),
     (''started_previous_state'', jtext (ds_started_previous_state d)),
     (''started_new_state'', jtext (ds_started_new_state d)),
     (''started_previous_version'', jint (ds_started_previous_version d)),
     (''started_new_version'', jint (ds_started_new_version d)), (''reason'', JStr (ds_reason d)),
     (''eligible_candidates'', evals (ds_eligible_candidates d)),
     (''excluded_candidates'', evals (ds_excluded_candidates d)),
     (''blocked_candidates'', evals (ds_blocked_candidates d)),
     (''fairness_applied'', JBool (ds_fairness_applied d)),
     (''deterministic_tie_break_reason'', jtext (ds_deterministic_tie_break_reason d))]"

definition selection_counts :: "dispatch_selection \<Rightarrow> json_object" where
  "selection_counts d = [(''eligible_count'', JInt (int (length (ds_eligible_candidates d)))),
     (''excluded_count'', JInt (int (length (ds_excluded_candidates d)))),
     (''blocked_count'', JInt (int (length (ds_blocked_candidates d))))]"

definition audit_selection :: "actor \<Rightarrow> dispatch_selection \<Rightarrow> string \<Rightarrow> db \<Rightarrow> db" where
  "audit_selection actor d result s =
     (let counts = selection_counts d;
          metadata = selection_json compact_cand (\<lambda>es. JList (map compact_eval (take 3 es))) d @ counts;
          summary_meta = [(''cycle_id'', JStr (ds_cycle_id d)), (''reason'', JStr (ds_reason d))] @ counts
            @ [(''fairness_applied'', JBool (ds_fairness_applied d))]
      in case ds_selected d of
        None \<Rightarrow> audit_dispatch actor ''MULTI_PROJECT_DISPATCH_NO_ELIGIBLE_WORK''
          ''select_multi_project_dispatch_candidate'' result None summary_meta s
      | Some c \<Rightarrow>
          audit_dispatch actor ''MULTI_PROJECT_DISPATCH_CANDIDATE_SELECTED''
            ''select_multi_project_dispatch_candidate'' result (Some c) metadata
          (audit_dispatch actor ''MULTI_PROJECT_DISPATCH_SCHEDULING_POLICY_APPLIED''
            ''apply_deterministic_multi_project_policy'' (ds_reason d) (Some c)
            [(''cycle_id'', JStr (ds_cycle_id d)), (''reason'', JStr (ds_reason d)),
             (''fairness_applied'', JBool (ds_fairness_applied d))]
          (audit_dispatch actor ''MULTI_PROJECT_DISPATCH_ELIGIBLE_CANDIDATE_SET''
            ''record_eligible_dispatch_candidates'' (dec (length (ds_eligible_candidates d))) None
            [(''cycle_id'', JStr (ds_cycle_id d)),
             (''eligible_count'', JInt (int (length (ds_eligible_candidates d))))] s)))"

text \<open>What a cycle decides from the evaluations of the bundles: the selection and the result that
  its audit event reports.\<close>

definition running_evaluations :: "db \<Rightarrow> workflow_bundle list \<Rightarrow> dispatch_evaluation list" where
  "running_evaluations s bundles =
     filter (\<lambda>e. dc_state (de_candidate e) = queue_state.RUNNING) (concat (map (evaluations s) bundles))"

definition eligible_evaluations :: "db \<Rightarrow> workflow_bundle list \<Rightarrow> dispatch_evaluation list" where
  "eligible_evaluations s bundles = filter de_eligible (concat (map (evaluations s) bundles))"

definition blocked_evaluations :: "db \<Rightarrow> workflow_bundle list \<Rightarrow> dispatch_evaluation list" where
  "blocked_evaluations s bundles =
     filter (\<lambda>e. dc_state (de_candidate e) \<in> set dispatch_blocked_states
       \<or> ''DEPENDENCIES_UNRESOLVED'' \<in> set (de_reasons e)) (concat (map (evaluations s) bundles))"

definition excluded_evaluations :: "db \<Rightarrow> workflow_bundle list \<Rightarrow> dispatch_evaluation list" where
  "excluded_evaluations s bundles =
     filter (\<lambda>e. \<not> de_eligible e \<and> e \<notin> set (blocked_evaluations s bundles)) (concat (map (evaluations s) bundles))"

definition decide_dispatch :: "string \<Rightarrow> db \<Rightarrow> workflow_bundle list \<Rightarrow> dispatch_selection \<times> string" where
  "decide_dispatch cycle_id s bundles =
     (let running = running_evaluations s bundles; eligible = eligible_evaluations s bundles;
          blocked = blocked_evaluations s bundles; excluded = excluded_evaluations s bundles
      in if running \<noteq> []
         then ((selection_of cycle_id ''RUNNING_ITEM_ACTIVE_NO_PREEMPTION'')\<lparr>ds_blocked_candidates := running\<rparr>,
               ''NO_PREEMPTION'')
         else case ordered_candidates s eligible of
           [] \<Rightarrow> ((selection_of cycle_id ''NO_ELIGIBLE_MULTI_PROJECT_WORK'')
                  \<lparr>ds_excluded_candidates := excluded, ds_blocked_candidates := blocked\<rparr>, ''NO_ELIGIBLE_WORK'')
         | first # rest \<Rightarrow>
             (let reason = dispatch_reason (de_candidate first) (Suc (length rest))
              in ((selection_of cycle_id reason)
                  \<lparr>ds_selected := Some (de_candidate first), ds_eligible_candidates := first # rest,
                   ds_excluded_candidates := excluded, ds_blocked_candidates := blocked,
                   ds_fairness_applied := (jget ''fairness_boost'' (dc_scheduling_metadata (de_candidate first)) \<noteq> None),
                   ds_deterministic_tie_break_reason := Some reason\<rparr>, ''SELECTED'')))"

definition cycle_opened :: "actor \<Rightarrow> string list option \<Rightarrow> string \<Rightarrow> workflow_bundle list \<Rightarrow> db \<Rightarrow> db" where
  "cycle_opened actor workflow_ids cycle_id bundles s =
     audit_dispatch actor ''MULTI_PROJECT_DISPATCH_PROJECTS_INSPECTED'' ''inspect_dispatchable_projects''
       (dec (length bundles)) None
       [(''cycle_id'', JStr cycle_id), (''project_count'', JInt (int (length bundles)))]
     (audit_dispatch actor ''MULTI_PROJECT_DISPATCH_CYCLE_STARTED'' ''start_multi_project_dispatch_cycle''
       cycle_id None
       [(''cycle_id'', JStr cycle_id),
        (''workflow_ids'', case workflow_ids of None \<Rightarrow> JNull | Some ids \<Rightarrow> jtexts ids),
        (''single_active_execution'', JBool True)] s)"

definition cycle_evaluated :: "actor \<Rightarrow> string \<Rightarrow> workflow_bundle list \<Rightarrow> db \<Rightarrow> db" where
  "cycle_evaluated actor cycle_id bundles s =
     (let eligible = length (eligible_evaluations s bundles)
      in audit_dispatch actor ''MULTI_PROJECT_DISPATCH_CANDIDATE_ELIGIBILITY_EVALUATED''
        ''evaluate_dispatch_candidate'' (''ELIGIBLE_'' @ dec eligible) None
        [(''cycle_id'', JStr cycle_id),
         (''total_candidates'', JInt (int (length (concat (map (evaluations s) bundles))))),
         (''eligible_count'', JInt (int eligible)),
         (''blocked_count'', JInt (int (length (blocked_evaluations s bundles)))),
         (''excluded_count'', JInt (int (length (excluded_evaluations s bundles))))] s)"

definition dispatch_select :: "string list option \<Rightarrow> actor \<Rightarrow> db \<Rightarrow> dispatch_selection res \<times> db" where
  "dispatch_select workflow_ids actor s =
     (let cycle_id = fresh_id ''audit'' s; s0 = bump_id ''audit'' s
      in try_res (workflow_bundles workflow_ids s0) s0 (\<lambda>bundles.
         let s1 = cycle_opened actor workflow_ids cycle_id bundles s0;
             s2 = (if running_evaluations s1 bundles \<noteq> [] then s1 else cycle_evaluated actor cycle_id bundles s1)
         in case decide_dispatch cycle_id s2 bundles of (d, result) \<Rightarrow>
              (Inr d, audit_selection actor d result s2)))"

text \<open>The item that the runtime gets: the state, the version and the generation move, the time of
  the last update does not.\<close>

definition dispatched_item :: "db \<Rightarrow> queue_item \<Rightarrow> queue_item" where
  "dispatched_item s item = item\<lparr>qi_state := Text (queue_state_value queue_state.RUNNING),
     qi_version := qi_version item + 1, qi_started_at := Some (utc_now s),
     qi_run_generation := qi_run_generation item + 1\<rparr>"

definition started_selection :: "queue_item \<Rightarrow> dispatch_selection \<Rightarrow> dispatch_selection" where
  "started_selection item d = d\<lparr>ds_started := True,
     ds_started_previous_state := Some (case qi_state item of Text t \<Rightarrow> t | _ \<Rightarrow> ''None''),
     ds_started_new_state := Some ''RUNNING'', ds_started_previous_version := Some (qi_version item),
     ds_started_new_version := Some (qi_version item + 1)\<rparr>"

definition hand_to_runtime ::
  "actor \<Rightarrow> dispatch_selection \<Rightarrow> dispatch_candidate \<Rightarrow> db \<Rightarrow> dispatch_selection res \<times> db" where
  "hand_to_runtime actor d c s =
     try_res (some_or (get_workflow (dc_workflow_id c) s) (QueueStateError
        (''Selected workflow no longer exists or is empty: '' @ dc_workflow_id c))) s (\<lambda>w.
     try_res (check_that (wf_task_backlog w \<noteq> []) (QueueStateError
        (''Selected workflow no longer exists or is empty: '' @ dc_workflow_id c))) s (\<lambda>_.
     try_res (some_or (tget item_id_of (dc_item_id c) (wf_task_backlog w)) (QueueStateError
        (''Selected queue item no longer exists in workflow: '' @ dc_item_id c))) s (\<lambda>item.
     let w' = (with_item s (dispatched_item s item) w)\<lparr>wf_active_task_id := Some (dc_item_id c)\<rparr>;
         d' = started_selection item d
     in (Inr d', audit_dispatch actor ''MULTI_PROJECT_DISPATCH_CANDIDATE_HANDED_TO_RUNTIME''
           ''hand_dispatch_candidate_to_runtime'' ''SUCCESS'' (Some c)
           (selection_json candidate_json (\<lambda>es. JList (map evaluation_json es)) d') (put_workflow w' s)))))"

definition dispatch_start :: "string list option \<Rightarrow> actor \<Rightarrow> db \<Rightarrow> dispatch_selection res \<times> db" where
  "dispatch_start workflow_ids actor s =
     then_op (dispatch_select workflow_ids actor s) (\<lambda>d s'.
       case ds_selected d of None \<Rightarrow> (Inr d, s') | Some c \<Rightarrow> hand_to_runtime actor d c s')"

section \<open>What the cycle reads\<close>

text \<open>An item that may be dispatched, read off the rows: its project is active, its workflow may
  execute, its task is ready, its repository is active and attached to the project, a freeze of
  the workflow's plan authorises that project and task, and the item is ready, or resumable with a
  block checkpoint, with every dependency completed in its backlog.\<close>

definition context_dispatchable :: "db \<Rightarrow> workflow_row \<Rightarrow> bool" where
  "context_dispatchable s w \<longleftrightarrow>
     (\<exists>p pr t tk r rg i plan f freeze.
        wf_project_id w = Some p \<and> p \<noteq> [] \<and> get_project p s = Some pr \<and> p_status pr = project_status.ACTIVE
      \<and> wf_task_id w = Some t \<and> t \<noteq> [] \<and> get_task t s = Some tk \<and> t_project_id tk = p
      \<and> t_status tk = task_status.READY
      \<and> wf_repository_id w = Some r \<and> r \<noteq> [] \<and> get_registration r s = Some rg \<and> reg_project_id rg = p
      \<and> reg_status rg = ''ACTIVE'' \<and> (\<exists>a \<in> set (attachments s). att_project_id a = p \<and> att_repository_id a = r)
      \<and> wf_plan_id w = Some i \<and> get_plan i s = Some plan \<and> pl_project_id plan = p \<and> pl_task_id plan = t
      \<and> wf_plan_freeze_id w = Some f \<and> get_freeze f s = Some freeze \<and> fz_project_id freeze = p
      \<and> fz_task_id freeze = t \<and> fz_plan_id freeze = i)
     \<and> wf_workflow_state w \<in> set execution_eligible_states"

definition item_dispatchable :: "workflow_row \<Rightarrow> queue_item \<Rightarrow> bool" where
  "item_dispatchable w x \<longleftrightarrow>
     (raw_state x = Some queue_state.READY
       \<or> raw_state x = Some READY_TO_RESUME \<and> truthy (qi_current_block_checkpoint_id x))
     \<and> (\<forall>d \<in> set (qi_dependencies x). \<exists>y \<in> set (wf_task_backlog w).
          item_id_of y = d \<and> raw_state y = Some queue_state.COMPLETED)"

lemma safe_state_raw [simp]: "safe_state = raw_state"
  by (rule ext) (simp add: safe_state_def raw_state_def)

lemma when_reason_Nil [simp]: "when_reason b r = [] \<longleftrightarrow> \<not> b"
  by (simp add: when_reason_def)

lemma get_if_Some [simp]: "get_if get i s = Some r \<longleftrightarrow> (\<exists>k. i = Some k \<and> k \<noteq> [] \<and> get k s = Some r)"
  by (auto simp: get_if_def truthy_def split: option.splits)

lemma project_reasons_Nil:
  "project_reasons b = [] \<longleftrightarrow> (\<exists>p. bu_project b = Some p \<and> p_status p = project_status.ACTIVE)"
  by (auto simp: project_reasons_def split: option.split)

lemma task_reasons_Nil:
  "task_reasons b = [] \<longleftrightarrow> (\<exists>t. bu_task b = Some t \<and> Some (t_project_id t) = wf_project_id (bu_workflow b)
     \<and> t_status t = task_status.READY)"
  by (auto simp: task_reasons_def split: option.split)

lemma repository_reasons_Nil:
  "repository_reasons b = [] \<longleftrightarrow> (\<exists>r. bu_repository b = Some r
     \<and> Some (reg_project_id r) = wf_project_id (bu_workflow b) \<and> reg_status r = ''ACTIVE'')"
  by (auto simp: repository_reasons_def split: option.split)

lemma state_reasons_Nil:
  "state_reasons q = [] \<longleftrightarrow> q = Some queue_state.READY \<or> q = Some READY_TO_RESUME"
  by (auto simp: state_reasons_def split: option.split)

lemma plan_authorizes_iff:
  assumes "wf_project_id w = Some p" "wf_task_id w = Some t" "t \<noteq> []" "wf_plan_id w = Some i"
    "wf_plan_freeze_id w = Some f"
  shows "plan_authorizes_workflow w s \<longleftrightarrow> (\<exists>plan freeze. get_plan i s = Some plan \<and> pl_project_id plan = p
    \<and> pl_task_id plan = t \<and> get_freeze f s = Some freeze \<and> fz_project_id freeze = p \<and> fz_task_id freeze = t
    \<and> fz_plan_id freeze = i)"
proof -
  have "pl_id plan = i" if "get_plan i s = Some plan" for plan
    using that by (auto simp: get_plan_def dest: tget_Some_mem)
  then show ?thesis
    using assms by (auto simp: plan_authorizes_workflow_def option_text_def truthy_def split: option.split)
qed

lemma attached_repository_iff:
  "wf_project_id w = Some p \<Longrightarrow> wf_repository_id w = Some r \<Longrightarrow>
   attached_repository w s \<longleftrightarrow> (\<exists>a \<in> set (attachments s). att_project_id a = p \<and> att_repository_id a = r)"
  by (auto simp: attached_repository_def list_ex_iff)

lemma completed_items_iff:
  "list_all (\<lambda>d. d \<in> set (completed_items w)) ds \<longleftrightarrow> (\<forall>d \<in> set ds. \<exists>y \<in> set (wf_task_backlog w).
     item_id_of y = d \<and> raw_state y = Some queue_state.COMPLETED)"
  by (fastforce simp: completed_items_def list_all_iff)

lemma reasons_Nil_iff:
  "eligibility_reasons (bundle_of s w) x s = [] \<longleftrightarrow> context_dispatchable s w \<and> item_dispatchable w x"
proof (cases "wf_project_id w = None \<or> wf_task_id w = None \<or> wf_repository_id w = None
    \<or> wf_plan_id w = None \<or> wf_plan_freeze_id w = None")
  case True
  then show ?thesis
    by (auto simp: eligibility_reasons_def Let_def project_reasons_Nil task_reasons_Nil repository_reasons_Nil
        bundle_of_def context_dispatchable_def)
next
  case False
  then obtain p t r i f where w: "wf_project_id w = Some p" "wf_task_id w = Some t" "wf_repository_id w = Some r"
    "wf_plan_id w = Some i" "wf_plan_freeze_id w = Some f" by auto
  have "eligibility_reasons (bundle_of s w) x s = [] \<longleftrightarrow>
      (p \<noteq> [] \<and> (\<exists>pr. get_project p s = Some pr \<and> p_status pr = project_status.ACTIVE))
      \<and> wf_workflow_state w \<in> set execution_eligible_states
      \<and> (t \<noteq> [] \<and> (\<exists>tk. get_task t s = Some tk \<and> t_project_id tk = p \<and> t_status tk = task_status.READY))
      \<and> (r \<noteq> [] \<and> (\<exists>rg. get_registration r s = Some rg \<and> reg_project_id rg = p \<and> reg_status rg = ''ACTIVE''))
      \<and> attached_repository w s \<and> plan_authorizes_workflow w s \<and> item_dispatchable w x"
    using w by (auto simp: eligibility_reasons_def Let_def project_reasons_Nil task_reasons_Nil repository_reasons_Nil
        bundle_of_def state_reasons_Nil item_dispatchable_def completed_items_iff truthy_def)
  also have "\<dots> \<longleftrightarrow> context_dispatchable s w \<and> item_dispatchable w x"
    using plan_authorizes_iff [OF w(1,2) _ w(4,5), of s] attached_repository_iff [OF w(1,3), of s] w
    unfolding context_dispatchable_def by (cases "t = []") (simp, simp, blast)
  finally show ?thesis .
qed

lemma evaluation_simps [simp]:
  "de_eligible (evaluation_of (bundle_of s w) s x) \<longleftrightarrow> context_dispatchable s w \<and> item_dispatchable w x"
  "dc_project_id (de_candidate (evaluation_of b s x)) = or_else (wf_project_id (bu_workflow b)) []"
  "dc_workflow_id (de_candidate (evaluation_of b s x)) = wf_id (bu_workflow b)"
  "dc_item_id (de_candidate (evaluation_of b s x)) = item_id_of x"
  "dc_state (de_candidate (evaluation_of b s x)) = (case raw_state x of None \<Rightarrow> queue_state.FAILED | Some q \<Rightarrow> q)"
  "dc_priority (de_candidate (evaluation_of b s x)) = py_upper (raw_or (qi_priority x) ''NORMAL'')"
  "dc_item_version (de_candidate (evaluation_of b s x)) = qi_version x"
  using reasons_Nil_iff [of s w x] by (simp_all add: evaluation_of_def Let_def candidate_from_item_def)

lemma bundle_workflow [simp]: "bu_workflow (bundle_of s w) = w"
  by (simp add: bundle_of_def)

lemma workflow_bundles_Inr:
  assumes "workflow_bundles ids s = Inr bs"
  shows "set bs = bundle_of s ` {w \<in> set (workflows s). in_scope ids (wf_id w) \<and> wf_task_backlog w \<noteq> []}"
proof -
  have "list_or ids [] = [] \<or> wf_id w \<in> set (list_or ids []) \<longleftrightarrow> in_scope ids (wf_id w)" for w
    by (auto simp: in_scope_def list_or_def split: option.split)
  moreover have "bs = map (bundle_of s) (filter (\<lambda>w. wf_task_backlog w \<noteq> [])
      (filter (\<lambda>w. list_or ids [] = [] \<or> wf_id w \<in> set (list_or ids [])) (sort_key dispatch_order (workflows s))))"
    using assms by (simp add: workflow_bundles_def Let_def split: if_splits)
  ultimately show ?thesis
    by (simp only: set_map set_filter set_sort) blast
qed

text \<open>The items in the scope of a cycle, with their workflows.\<close>

definition items_in_scope :: "string list option \<Rightarrow> db \<Rightarrow> (workflow_row \<times> queue_item) set" where
  "items_in_scope ids s = {(w, x). w \<in> set (workflows s) \<and> in_scope ids (wf_id w) \<and> x \<in> set (wf_task_backlog w)}"

lemma evaluations_in_scope:
  assumes "workflow_bundles ids s = Inr bs"
  shows "set (concat (map (evaluations s) bs)) = (\<lambda>(w, x). evaluation_of (bundle_of s w) s x) ` items_in_scope ids s"
proof -
  have "set (concat (map (evaluations s) bs)) =
      (\<Union>w \<in> {w \<in> set (workflows s). in_scope ids (wf_id w) \<and> wf_task_backlog w \<noteq> []}.
         evaluation_of (bundle_of s w) s ` set (wf_task_backlog w))"
    using workflow_bundles_Inr [OF assms] by (simp add: evaluations_def)
  also have "\<dots> = (\<lambda>(w, x). evaluation_of (bundle_of s w) s x) ` items_in_scope ids s"
    unfolding items_in_scope_def by fastforce
  finally show ?thesis .
qed

subsection \<open>What the audit trail leaves alone\<close>

definition same_inputs :: "db \<Rightarrow> db \<Rightarrow> bool" where
  "same_inputs s t \<longleftrightarrow> projects t = projects s \<and> registrations t = registrations s \<and> tasks t = tasks s
     \<and> attachments t = attachments s \<and> plans t = plans s \<and> freezes t = freezes s \<and> workflows t = workflows s
     \<and> (\<forall>n. recent_started_projects n t = recent_started_projects n s)"

lemma same_inputs_eqs:
  assumes "same_inputs s t"
  shows "bundle_of t = bundle_of s" "evaluation_of b t = evaluation_of b s"
    "exhausted_project t = exhausted_project s" "workflow_bundles ids t = workflow_bundles ids s"
    "get_workflow i t = get_workflow i s" "evaluations t = evaluations s" "workflows t = workflows s"
proof -
  note d = assms [unfolded same_inputs_def]
  show b: "bundle_of t = bundle_of s"
    by (rule ext) (simp add: bundle_of_def get_if_def store_defs d)
  have "eligibility_reasons b x t = eligibility_reasons b x s" for b x
  proof -
    have "attached_repository w t = attached_repository w s" "plan_authorizes_workflow w t = plan_authorizes_workflow w s" for w
      by (simp_all only: attached_repository_def plan_authorizes_workflow_def get_plan_def get_freeze_def d)
    then show ?thesis by (simp only: eligibility_reasons_def)
  qed
  then show e: "evaluation_of b t = evaluation_of b s" for b
    by (intro ext) (simp only: evaluation_of_def)
  show "exhausted_project t = exhausted_project s" by (simp add: exhausted_project_def d)
  show "workflow_bundles ids t = workflow_bundles ids s"
    unfolding workflow_bundles_def b using d by presburger
  show "get_workflow i t = get_workflow i s" by (simp add: get_workflow_def d)
  show "evaluations t = evaluations s" by (rule ext) (simp add: evaluations_def e)
  show "workflows t = workflows s" by (simp add: d)
qed

lemma same_inputs_refl: "same_inputs s s"
  by (simp add: same_inputs_def)

lemma same_inputs_trans: "same_inputs s t \<Longrightarrow> same_inputs t u \<Longrightarrow> same_inputs s u"
  by (simp add: same_inputs_def)

lemma same_inputs_bump: "same_inputs s t \<Longrightarrow> same_inputs s (bump_id e t)"
  by (simp add: same_inputs_def recent_started_projects_def)

lemma same_inputs_audit:
  "same_inputs s t \<Longrightarrow> ev \<noteq> ''MULTI_PROJECT_DISPATCH_CANDIDATE_HANDED_TO_RUNTIME'' \<Longrightarrow>
   same_inputs s (audit_dispatch a ev ac re sel md t)"
  by (simp add: same_inputs_def recent_started_projects_def audit_dispatch_def)
    (simp add: audit_record_def Let_def)

lemmas same_inputs_intros = same_inputs_refl same_inputs_bump same_inputs_audit

lemma same_inputs_cycle:
  "same_inputs s t \<Longrightarrow> same_inputs s (cycle_opened a ids i bs t)"
  "same_inputs s t \<Longrightarrow> same_inputs s (cycle_evaluated a i bs t)"
  "same_inputs s t \<Longrightarrow> same_inputs s (audit_selection a d r t)"
  by (auto simp: cycle_opened_def cycle_evaluated_def audit_selection_def Let_def
      intro!: same_inputs_audit split: option.split)

section \<open>The selection\<close>

lemma ranked_simps [simp]:
  "de_scheduling_key (ranked_evaluation s el e) = candidate_key (de_candidate e) (deferred_project s el)"
  "dc_project_id (de_candidate (ranked_evaluation s el e)) = dc_project_id (de_candidate e)"
  "dc_workflow_id (de_candidate (ranked_evaluation s el e)) = dc_workflow_id (de_candidate e)"
  "dc_item_id (de_candidate (ranked_evaluation s el e)) = dc_item_id (de_candidate e)"
  "dc_priority (de_candidate (ranked_evaluation s el e)) = dc_priority (de_candidate e)"
  "dc_item_version (de_candidate (ranked_evaluation s el e)) = dc_item_version (de_candidate e)"
  by (simp_all add: ranked_evaluation_def Let_def)

lemma decide_Some:
  assumes "decide_dispatch i s bs = (d, r)" and "ds_selected d = Some c"
  defines "el \<equiv> eligible_evaluations s bs"
  shows "running_evaluations s bs = [] \<and> (\<exists>e \<in> set el. c = de_candidate (ranked_evaluation s el e)
    \<and> (\<forall>e' \<in> set el. candidate_key (de_candidate e) (deferred_project s el)
         \<le> candidate_key (de_candidate e') (deferred_project s el)))"
proof -
  have run: "running_evaluations s bs = []"
    using assms(1,2) by (auto simp: decide_dispatch_def Let_def selection_of_def split: if_splits)
  then obtain first rest where o: "ordered_candidates s el = first # rest" "c = de_candidate first"
    using assms(1,2) unfolding el_def
    by (auto simp: decide_dispatch_def Let_def selection_of_def split: list.splits)
  have "first \<in> set (map (ranked_evaluation s el) el)"
    using o(1) unfolding ordered_candidates_def by (metis list.set_intros(1) set_sort)
  then obtain e where e: "e \<in> set el" "first = ranked_evaluation s el e" by auto
  have "de_scheduling_key first \<le> de_scheduling_key (ranked_evaluation s el e')" if "e' \<in> set el" for e'
    by (rule sort_key_hd_least [OF o(1) [unfolded ordered_candidates_def]]) (use that in simp)
  with e have "\<forall>e' \<in> set el. candidate_key (de_candidate e) (deferred_project s el)
      \<le> candidate_key (de_candidate e') (deferred_project s el)"
    by simp
  with run e o(2) show ?thesis by blast
qed

lemma decide_None:
  assumes "decide_dispatch i s bs = (d, r)" and "ds_selected d = None"
  shows "running_evaluations s bs \<noteq> [] \<or> eligible_evaluations s bs = []"
  using assms sort_key_Nil_iff [of de_scheduling_key]
  by (auto simp: decide_dispatch_def Let_def selection_of_def ordered_candidates_def split: if_splits list.splits)

definition dispatchable :: "db \<Rightarrow> workflow_row \<Rightarrow> queue_item \<Rightarrow> bool" where
  "dispatchable s w x \<longleftrightarrow> context_dispatchable s w \<and> item_dispatchable w x"

text \<open>The rank of an item when a project is deferred, and the project that the cycle defers: the
  one that the last two handed-over candidates belong to, if another project has a dispatchable
  item.\<close>

definition dispatch_rank :: "string option \<Rightarrow> db \<Rightarrow> workflow_row \<Rightarrow> queue_item \<Rightarrow> dispatch_key" where
  "dispatch_rank deferred s w x =
     candidate_key (candidate_from_item w x (get_if get_project (wf_project_id w) s)) deferred"

definition served_out :: "string list option \<Rightarrow> db \<Rightarrow> string option" where
  "served_out ids s = (if \<exists>(w, x) \<in> items_in_scope ids s. dispatchable s w x
       \<and> wf_project_id w \<noteq> exhausted_project s then exhausted_project s else None)"

lemma context_project: "context_dispatchable s w \<Longrightarrow> wf_project_id w = Some (or_else (wf_project_id w) []) "
  by (auto simp: context_dispatchable_def or_else_def)

lemma evaluation_key: "candidate_key (de_candidate (evaluation_of (bundle_of s w) s x)) p = dispatch_rank p s w x"
  by (simp add: evaluation_of_def dispatch_rank_def Let_def candidate_key_def bundle_of_def)

lemma eligible_in_scope:
  assumes "workflow_bundles ids s = Inr bs"
  shows "set (eligible_evaluations s bs)
    = (\<lambda>(w, x). evaluation_of (bundle_of s w) s x) ` {(w, x) \<in> items_in_scope ids s. dispatchable s w x}"
  unfolding eligible_evaluations_def set_filter evaluations_in_scope [OF assms]
  by (auto simp: dispatchable_def)

lemma running_in_scope:
  assumes "workflow_bundles ids s = Inr bs"
  shows "running_evaluations s bs = [] \<longleftrightarrow> (\<forall>(w, x) \<in> items_in_scope ids s. \<not> raw_running x)"
proof -
  have "dc_state (de_candidate (evaluation_of (bundle_of s w) s x)) = queue_state.RUNNING \<longleftrightarrow> raw_running x" for w x
    by (simp add: raw_running_def split: option.split)
  then show ?thesis
    unfolding running_evaluations_def filter_empty_conv evaluations_in_scope [OF assms] by auto
qed

lemma deferred_in_scope:
  assumes "workflow_bundles ids s = Inr bs"
  shows "deferred_project s (eligible_evaluations s bs) = served_out ids s"
proof -
  have "has_alternatives s (eligible_evaluations s bs) \<longleftrightarrow>
      (\<exists>(w, x) \<in> items_in_scope ids s. dispatchable s w x \<and> wf_project_id w \<noteq> exhausted_project s)"
    unfolding has_alternatives_def list_ex_iff eligible_in_scope [OF assms]
    using context_project by (fastforce simp: dispatchable_def)
  then show ?thesis by (simp add: deferred_project_def served_out_def)
qed

lemma dispatch_select_Inr:
  assumes "dispatch_select ids a s = (Inr d, t)"
  obtains bs r s' where "workflow_bundles ids s = Inr bs" "same_inputs s s'" "same_inputs s t"
    "decide_dispatch (fresh_id ''audit'' s) s' bs = (d, r)"
proof -
  let ?s0 = "bump_id ''audit'' s"
  have same: "same_inputs s ?s0" by (intro same_inputs_bump same_inputs_refl)
  obtain bs where bs: "workflow_bundles ids ?s0 = Inr bs"
    using assms by (cases "workflow_bundles ids ?s0") (auto simp: dispatch_select_def Let_def)
  define s1 where "s1 = cycle_opened a ids (fresh_id ''audit'' s) bs ?s0"
  define s2 where "s2 = (if running_evaluations s1 bs \<noteq> [] then s1 else cycle_evaluated a (fresh_id ''audit'' s) bs s1)"
  obtain r where r: "decide_dispatch (fresh_id ''audit'' s) s2 bs = (d, r)" "t = audit_selection a d r s2"
  proof -
    have "dispatch_select ids a s = (case decide_dispatch (fresh_id ''audit'' s) s2 bs of
        (d, r) \<Rightarrow> (Inr d, audit_selection a d r s2))"
      unfolding dispatch_select_def Let_def bs try_res_simps s2_def s1_def by (rule refl)
    with assms that show thesis
      by (cases "decide_dispatch (fresh_id ''audit'' s) s2 bs") simp
  qed
  have "same_inputs s s2"
    unfolding s2_def s1_def using same by (simp add: same_inputs_cycle)
  with that [of bs s2 r] r same_inputs_cycle(3) same_inputs_eqs(4) [OF same] bs show thesis by metis
qed

lemma dispatch_select_Some:
  assumes "dispatch_select ids a s = (Inr d, t)" and "ds_selected d = Some c"
  shows "(\<forall>(w, x) \<in> items_in_scope ids s. \<not> raw_running x)
    \<and> (\<exists>(w, x) \<in> items_in_scope ids s. dispatchable s w x \<and> dc_workflow_id c = wf_id w
        \<and> dc_item_id c = item_id_of x \<and> dc_item_version c = qi_version x \<and> Some (dc_project_id c) = wf_project_id w
        \<and> dc_priority c = py_upper (raw_or (qi_priority x) ''NORMAL'')
        \<and> (\<forall>(v, y) \<in> items_in_scope ids s. dispatchable s v y \<longrightarrow>
             dispatch_rank (served_out ids s) s w x \<le> dispatch_rank (served_out ids s) s v y))"
proof -
  obtain bs r s' where bs: "workflow_bundles ids s = Inr bs" and same: "same_inputs s s'"
    and d: "decide_dispatch (fresh_id ''audit'' s) s' bs = (d, r)"
    using dispatch_select_Inr [OF assms(1)] by metis
  define el where "el = eligible_evaluations s bs"
  have el': "eligible_evaluations s' bs = el"
    by (simp add: el_def eligible_evaluations_def same_inputs_eqs [OF same])
  have def': "deferred_project s' el = served_out ids s"
    unfolding deferred_in_scope [OF bs, symmetric] el_def deferred_project_def has_alternatives_def
      same_inputs_eqs [OF same] by (rule refl)
  obtain e where e: "running_evaluations s' bs = []" "e \<in> set el" "c = de_candidate (ranked_evaluation s' el e)"
    "\<forall>e' \<in> set el. candidate_key (de_candidate e) (served_out ids s) \<le> candidate_key (de_candidate e') (served_out ids s)"
    using decide_Some [OF d assms(2)] unfolding el' def' by blast
  from e(2) obtain w x where x: "(w, x) \<in> items_in_scope ids s" "dispatchable s w x"
    "e = evaluation_of (bundle_of s w) s x"
    unfolding el_def eligible_in_scope [OF bs] by auto
  have "\<forall>(v, y) \<in> items_in_scope ids s. dispatchable s v y \<longrightarrow>
      dispatch_rank (served_out ids s) s w x \<le> dispatch_rank (served_out ids s) s v y"
    using e(4) unfolding el_def eligible_in_scope [OF bs] x(3) by (auto simp: evaluation_key)
  moreover have "running_evaluations s bs = []"
    using e(1) by (simp add: running_evaluations_def same_inputs_eqs [OF same])
  then have "\<forall>(w, x) \<in> items_in_scope ids s. \<not> raw_running x"
    by (simp only: running_in_scope [OF bs])
  moreover have "dc_workflow_id c = wf_id w \<and> dc_item_id c = item_id_of x \<and> dc_item_version c = qi_version x
      \<and> Some (dc_project_id c) = wf_project_id w \<and> dc_priority c = py_upper (raw_or (qi_priority x) ''NORMAL'')"
    using e(3) x(2,3) context_project [of s w] by (simp add: dispatchable_def)
  ultimately show ?thesis
    using x(1,2) by (intro conjI) (assumption, blast)
qed

lemma dispatch_select_None:
  assumes "dispatch_select ids a s = (Inr d, t)" and "ds_selected d = None"
  shows "(\<exists>(w, x) \<in> items_in_scope ids s. raw_running x) \<or> (\<forall>(w, x) \<in> items_in_scope ids s. \<not> dispatchable s w x)"
proof -
  obtain bs r s' where bs: "workflow_bundles ids s = Inr bs" and same: "same_inputs s s'"
    and d: "decide_dispatch (fresh_id ''audit'' s) s' bs = (d, r)"
    using dispatch_select_Inr [OF assms(1)] by metis
  have "running_evaluations s bs \<noteq> [] \<or> eligible_evaluations s bs = []"
    using decide_None [OF d assms(2)]
    by (simp add: running_evaluations_def eligible_evaluations_def same_inputs_eqs [OF same])
  then show ?thesis
  proof
    assume "eligible_evaluations s bs = []"
    then have "{(w, x) \<in> items_in_scope ids s. dispatchable s w x} = {}"
      using eligible_in_scope [OF bs] by simp
    then show ?thesis by blast
  qed (use running_in_scope [OF bs] in blast)
qed

section \<open>Handing the candidate over\<close>

text \<open>Ids as the store keeps them: workflows under their primary key, and the items of a backlog
  under their ids, which the queue checks and the dispatcher relies on.\<close>

definition keyed_workflows :: "db \<Rightarrow> bool" where
  "keyed_workflows s \<longleftrightarrow> distinct (map wf_id (workflows s))"

definition keyed_backlogs :: "db \<Rightarrow> bool" where
  "keyed_backlogs s \<longleftrightarrow> (\<forall>w \<in> set (workflows s). distinct (map item_id_of (wf_task_backlog w)))"

lemma dispatched_simps [simp]:
  "item_id_of (dispatched_item s x) = item_id_of x" "qi_version (dispatched_item s x) = qi_version x + 1"
  "state_if_valid (dispatched_item s x) = Some queue_state.RUNNING"
  "raw_running (dispatched_item s x)"
  by (simp_all add: dispatched_item_def item_id_of_def raw_running_iff state_if_valid_def state_text_def
      flip: queue_state_value.simps(2))

lemma audit_dispatch_frame [simp]:
  "workflows (audit_dispatch a ev ac re sel md s) = workflows s"
  "clock (audit_dispatch a ev ac re sel md s) = clock s"
  by (simp_all add: audit_dispatch_def)

lemma scope_stored:
  assumes "(w, x) \<in> items_in_scope ids s" and "keyed_workflows s"
  shows "get_workflow (wf_id w) s = Some w"
  using assms tget_distinct [of wf_id "workflows s" w]
  by (simp add: items_in_scope_def get_workflow_def keyed_workflows_def)

lemma scope_found:
  assumes "(w, x) \<in> items_in_scope ids s"
  obtains y where "tget item_id_of (item_id_of x) (wf_task_backlog w) = Some y" "wf_task_backlog w \<noteq> []"
proof -
  have "x \<in> set (wf_task_backlog w)" using assms by (simp add: items_in_scope_def)
  then have "tget item_id_of (item_id_of x) (wf_task_backlog w) \<noteq> None" "wf_task_backlog w \<noteq> []"
    by (auto simp: tget_None_iff)
  with that show thesis by blast
qed

lemma hand_to_runtime_cases:
  assumes "hand_to_runtime a d c s = (r, t)" and "ds_selected d = Some c"
  shows "t = s \<or> (\<exists>d'. r = Inr d' \<and> ds_selected d' = Some c)"
  using assms by (auto simp: hand_to_runtime_def Let_def started_selection_def split: try_res_splits)

lemma cycle_clock [simp]:
  "clock (cycle_opened a ids i bs s) = clock s" "clock (cycle_evaluated a i bs s) = clock s"
  "clock (audit_selection a d r s) = clock s"
  by (simp_all add: cycle_opened_def cycle_evaluated_def audit_selection_def Let_def split: option.split)

lemma dispatch_select_clock: "dispatch_select ids a s = (r, t) \<Longrightarrow> clock t = clock s"
  by (auto simp: dispatch_select_def Let_def split: prod.splits try_res_splits if_splits)

lemma dispatch_start_shape:
  assumes "dispatch_start ids a s = (Inr d', t)" "ds_selected d' = Some c" "keyed_workflows s"
  obtains w x y where "(w, x) \<in> items_in_scope ids s" "dispatchable s w x"
    "tget item_id_of (item_id_of x) (wf_task_backlog w) = Some y"
    "\<forall>(v, z) \<in> items_in_scope ids s. \<not> raw_running z"
    "workflows t = tput wf_id ((with_item s (dispatched_item s y) w)\<lparr>wf_active_task_id := Some (item_id_of y)\<rparr>) (workflows s)"
    "ds_started d'" "ds_started_previous_version d' = Some (qi_version y)"
    "ds_started_new_version d' = Some (qi_version y + 1)"
    "dc_workflow_id c = wf_id w" "dc_item_id c = item_id_of x" "Some (dc_project_id c) = wf_project_id w"
proof -
  obtain d s' where d: "dispatch_select ids a s = (Inr d, s')"
    "(case ds_selected d of None \<Rightarrow> (Inr d, s') | Some c \<Rightarrow> hand_to_runtime a d c s') = (Inr d', t)"
    using assms(1) by (auto simp: dispatch_start_def then_op_Inr)
  then obtain c0 where c0: "ds_selected d = Some c0" "hand_to_runtime a d c0 s' = (Inr d', t)"
    using assms(2) by (cases "ds_selected d") auto
  have c: "c0 = c"
    using c0 assms(2) by (auto simp: hand_to_runtime_def Let_def started_selection_def)
  obtain w x where x: "(w, x) \<in> items_in_scope ids s" "dispatchable s w x" "dc_workflow_id c = wf_id w"
    "dc_item_id c = item_id_of x" "Some (dc_project_id c) = wf_project_id w"
    "\<forall>(w, x) \<in> items_in_scope ids s. \<not> raw_running x"
    using dispatch_select_Some [OF d(1) c0(1)] c by blast
  obtain y where y: "tget item_id_of (item_id_of x) (wf_task_backlog w) = Some y" "wf_task_backlog w \<noteq> []"
    using scope_found [OF x(1)] by metis
  have same: "same_inputs s s'" using dispatch_select_Inr [OF d(1)] by metis
  have w: "get_workflow (wf_id w) s' = Some w"
    using scope_stored [OF x(1) assms(3)] same_inputs_eqs(5) [OF same] by simp
  have clk: "dispatched_item s' y = dispatched_item s y" "with_item s' z w = with_item s z w" for z
    using dispatch_select_clock [OF d(1)] by (simp_all add: dispatched_item_def with_item_def utc_now_def)
  have k: "item_id_of y = item_id_of x" using y(1) by (auto dest: tget_Some_mem)
  have t: "t = audit_dispatch a ''MULTI_PROJECT_DISPATCH_CANDIDATE_HANDED_TO_RUNTIME''
      ''hand_dispatch_candidate_to_runtime'' ''SUCCESS'' (Some c)
      (selection_json candidate_json (\<lambda>es. JList (map evaluation_json es)) d')
      (put_workflow ((with_item s' (dispatched_item s' y) w)\<lparr>wf_active_task_id := Some (dc_item_id c)\<rparr>) s')"
    and d': "d' = started_selection y d"
    using c0(2) w y x(3,4) unfolding c by (auto simp: hand_to_runtime_def Let_def)
  have "workflows t = tput wf_id ((with_item s (dispatched_item s y) w)\<lparr>wf_active_task_id := Some (item_id_of y)\<rparr>) (workflows s)"
    unfolding t by (simp add: put_workflow_def clk x(4) k same_inputs_eqs(7) [OF same])
  then show thesis
    using that x y(1) d' by (simp add: started_selection_def)
qed

lemma dispatch_start_unwritten:
  assumes "dispatch_start ids a s = (r, t)"
  shows "workflows t = workflows s \<or> (\<exists>d c. r = Inr d \<and> ds_selected d = Some c)"
proof (cases "dispatch_select ids a s")
  case sel: (Pair r0 s0)
  have "workflows s0 = workflows s"
  proof (cases r0)
    case (Inl e)
    with sel show ?thesis
      by (auto simp: dispatch_select_def Let_def split: prod.splits try_res_splits)
  next
    case (Inr d)
    with sel show ?thesis using dispatch_select_Inr same_inputs_eqs(7) by metis
  qed
  with sel assms show ?thesis
    by (cases r0) (auto simp: dispatch_start_def split: option.splits dest: hand_to_runtime_cases)
qed

lemma dispatch_start_effect:
  assumes "keyed_workflows s" and "keyed_backlogs s"
  shows "workflows (snd (dispatch_start ids a s)) = workflows s \<or> writes_item s (snd (dispatch_start ids a s))"
proof (cases "dispatch_start ids a s")
  case (Pair r t)
  consider (written) d c where "r = Inr d" "ds_selected d = Some c"
    | (not_written) "workflows t = workflows s"
    using dispatch_start_unwritten [OF Pair] by blast
  then show ?thesis
  proof cases
    case written
    with Pair have run: "dispatch_start ids a s = (Inr d, t)" by simp
    obtain w x y where w: "(w, x) \<in> items_in_scope ids s" "dispatchable s w x"
      "tget item_id_of (item_id_of x) (wf_task_backlog w) = Some y"
      "\<forall>(v, z) \<in> items_in_scope ids s. \<not> raw_running z"
      "workflows t = tput wf_id ((with_item s (dispatched_item s y) w)\<lparr>wf_active_task_id := Some (item_id_of y)\<rparr>) (workflows s)"
      using dispatch_start_shape [OF run written(2) assms(1)] by metis
    have "y = x"
      using w(1,3) assms(2) tget_distinct [of item_id_of "wf_task_backlog w" x]
      by (auto simp: items_in_scope_def keyed_backlogs_def)
    with w(2) obtain q where q: "raw_state y = Some q" "q \<in> set eligible_states"
      by (auto simp: dispatchable_def item_dispatchable_def eligible_states_def)
    have "\<forall>z \<in> set (wf_task_backlog w). \<not> raw_running z"
      using w(1,4) by (auto simp: items_in_scope_def)
    then have "writes_item s t"
      by (intro writes_itemI [OF scope_stored [OF w(1) assms(1)] w(3)
            item_edgeI [OF state_if_valid_raw [OF q(1)] edge_start [OF q(2)]] _ _ _ _ w(5)]) simp_all
    with Pair show ?thesis by simp
  qed (simp add: Pair)
qed

lemma bundles_known:
  assumes "keyed_workflows s"
  shows "(\<exists>bs. workflow_bundles ids s = Inr bs) \<longleftrightarrow> (\<forall>i \<in> set (list_or ids []). get_workflow i s \<noteq> None)"
proof (cases "list_or ids [] = []")
  case False
  define found where "found = filter (\<lambda>w. list_or ids [] = [] \<or> wf_id w \<in> set (list_or ids [])) (sort_key dispatch_order (workflows s))"
  have "distinct (map wf_id (sort_key dispatch_order (workflows s)))"
    using assms mset_eq_imp_distinct_iff [of "map wf_id (sort_key dispatch_order (workflows s))" "map wf_id (workflows s)"]
    by (simp add: keyed_workflows_def)
  then have "distinct (map wf_id found)"
    unfolding found_def by (rule distinct_map_filter)
  moreover have ids: "set (map wf_id found) = set (list_or ids []) \<inter> wf_id ` set (workflows s)"
    using False by (auto simp: found_def)
  ultimately have "length found = card (set (list_or ids []) \<inter> wf_id ` set (workflows s))"
    by (metis distinct_card length_map)
  then have "length found = card (set (list_or ids [])) \<longleftrightarrow> set (list_or ids []) \<inter> wf_id ` set (workflows s) = set (list_or ids [])"
    using card_subset_eq [of "set (list_or ids [])" "set (list_or ids []) \<inter> wf_id ` set (workflows s)"] by auto
  also have "\<dots> \<longleftrightarrow> (\<forall>i \<in> set (list_or ids []). get_workflow i s \<noteq> None)"
    by (auto simp: get_workflow_def tget_None_iff)
  finally show ?thesis
    using False by (simp add: workflow_bundles_def Let_def found_def)
qed (simp add: workflow_bundles_def Let_def)

section \<open>Example stores\<close>

definition ex_plan :: "string \<Rightarrow> string \<Rightarrow> string \<Rightarrow> plan_row" where
  "ex_plan i p t = \<lparr>pl_id = i, pl_task_id = t, pl_run_id = None, pl_project_id = p, pl_task_contract_id = ''CA'',
     pl_task_contract_version = 1, pl_version = 1, pl_status = ''VALID'', pl_summary = ''s'', pl_objective = ''o'',
     pl_risk_level = ''LOW'', pl_required_authority_level = L1, pl_repository_snapshot_ids = [], pl_evidence_ids = [],
     pl_memory_ids = [], pl_model_execution_ids = [], pl_assumptions = [], pl_unknowns = [], pl_open_questions = [],
     pl_affected_components = [], pl_affected_files = [], pl_steps = [], pl_acceptance_coverage = [],
     pl_deterministic_acceptance_checks = [], pl_test_strategy = [], pl_documentation_requirements = [],
     pl_rollback_considerations = [], pl_orchestration_contract_required = False, pl_orchestration_contract = [],
     pl_adversarial_probes = [], pl_dependencies = [], pl_risks = [], pl_estimated_scope = None, pl_confidence = None,
     pl_validation_warnings = [], pl_blockers = [], pl_planner_version = ''1'', pl_supersedes_plan_id = None,
     pl_superseded_by_plan_id = None, pl_supersession_reason = None, pl_created_by = ''SYSTEM'', pl_created_at = 0,
     pl_updated_at = 0\<rparr>"

definition ex_freeze :: "string \<Rightarrow> string \<Rightarrow> string \<Rightarrow> string \<Rightarrow> freeze_row" where
  "ex_freeze i plan p t = \<lparr>fz_id = i, fz_plan_id = plan, fz_task_id = t, fz_project_id = p,
     fz_repository_state_id = None, fz_repository_snapshot_ids = [], fz_evidence_ids = [], fz_commit_sha = None,
     fz_planning_mode = ''m'', fz_evaluation_version = ''1'', fz_plan_payload = [], fz_frozen_at = 0,
     fz_frozen_by = ''SYSTEM''\<rparr>"

definition ex_repository :: "string \<Rightarrow> string \<Rightarrow> registration_row" where
  "ex_repository r p = \<lparr>reg_id = r, reg_project_id = p, reg_name = r, reg_adapter_type = LOCAL_GIT,
     reg_location = ''/r'', reg_canonical_remote = None, reg_default_branch = None, reg_access_mode = READ_ONLY,
     reg_status = ''ACTIVE'', reg_created_at = 0, reg_updated_at = 0\<rparr>"

text \<open>A project with its own task, repository, plan, freeze and workflow, all named after it, and two
  projects in one store.\<close>

definition ex_fleet_workflow :: "char \<Rightarrow> queue_item list \<Rightarrow> workflow_row" where
  "ex_fleet_workflow p b = (ex_workflow [p, CHR ''w''] b)\<lparr>wf_project_id := Some [p], wf_task_id := Some [p, CHR ''t''],
     wf_repository_id := Some [p, CHR ''r''], wf_plan_id := Some [p, CHR ''i''], wf_plan_freeze_id := Some [p, CHR ''f'']\<rparr>"

definition ex_handed :: "string \<Rightarrow> string \<Rightarrow> audit_event" where
  "ex_handed i p = \<lparr>ev_id = i, ev_type = ''MULTI_PROJECT_DISPATCH_CANDIDATE_HANDED_TO_RUNTIME'', ev_actor = ''LUCIUS'',
     ev_project_id = Some p, ev_repository_id = None, ev_task_id = None, ev_run_id = None, ev_authority_level = L1,
     ev_action = ''a'', ev_result = ''SUCCESS'', ev_timestamp = 0, ev_metadata = []\<rparr>"

definition ex_fleet :: "queue_item list \<Rightarrow> queue_item list \<Rightarrow> audit_event list \<Rightarrow> db" where
  "ex_fleet b b' evs = empty_db\<lparr>projects := [ex_project, ex_project\<lparr>p_id := ''Q''\<rparr>],
     tasks := [ex_task ''Pt'' task_status.READY, (ex_task ''Qt'' task_status.READY)\<lparr>t_project_id := ''Q''\<rparr>],
     registrations := [ex_repository ''Pr'' ''P'', ex_repository ''Qr'' ''Q''],
     attachments := [\<lparr>att_id = 1, att_project_id = ''P'', att_repository_id = ''Pr'', att_attached_at = 0, att_attached_by = ''SYSTEM''\<rparr>,
       \<lparr>att_id = 2, att_project_id = ''Q'', att_repository_id = ''Qr'', att_attached_at = 0, att_attached_by = ''SYSTEM''\<rparr>],
     plans := [ex_plan ''Pi'' ''P'' ''Pt'', ex_plan ''Qi'' ''Q'' ''Qt''],
     freezes := [ex_freeze ''Pf'' ''Pi'' ''P'' ''Pt'', ex_freeze ''Qf'' ''Qi'' ''Q'' ''Qt''],
     workflows := [ex_fleet_workflow (CHR ''P'') b, ex_fleet_workflow (CHR ''Q'') b'], events := evs\<rparr>"

lemma ex_fleet_simps [simp]:
  "wf_id (ex_fleet_workflow p b) = [p, CHR ''w'']" "wf_project_id (ex_fleet_workflow p b) = Some [p]"
  "wf_task_backlog (ex_fleet_workflow p b) = b"
  "workflows (ex_fleet b b' evs) = [ex_fleet_workflow (CHR ''P'') b, ex_fleet_workflow (CHR ''Q'') b']"
  "events (ex_fleet b b' evs) = evs" "clock (ex_fleet b b' evs) = 0"
  by (simp_all add: ex_fleet_workflow_def ex_fleet_def ex_workflow_def empty_db_def)

lemma ex_fleet_context [simp]:
  "context_dispatchable (ex_fleet b b' evs) (ex_fleet_workflow (CHR ''P'') b)"
  "context_dispatchable (ex_fleet b b' evs) (ex_fleet_workflow (CHR ''Q'') b')"
  by (simp_all add: context_dispatchable_def ex_fleet_workflow_def ex_workflow_def ex_fleet_def store_defs
      ex_project_def ex_task_def ex_repository_def ex_plan_def ex_freeze_def execution_eligible_states_def)

lemma ex_fleet_keyed [simp]: "keyed_workflows (ex_fleet b b' evs)"
  by (simp add: keyed_workflows_def)

lemma ex_fleet_scope:
  "items_in_scope None (ex_fleet b b' evs) = (\<lambda>x. (ex_fleet_workflow (CHR ''P'') b, x)) ` set b
     \<union> (\<lambda>x. (ex_fleet_workflow (CHR ''Q'') b', x)) ` set b'"
  by (auto simp: items_in_scope_def in_scope_def)

lemma ex_item_dispatchable [simp]:
  "item_dispatchable w (ex_item k q ds) \<longleftrightarrow> q = queue_state.READY
     \<and> (\<forall>d \<in> set ds. \<exists>y \<in> set (wf_task_backlog w). item_id_of y = d \<and> raw_state y = Some queue_state.COMPLETED)"
  by (auto simp: item_dispatchable_def truthy_def)

section \<open>Properties\<close>

text \<open>C9. Selection across projects: a dispatch cycle selects nothing exactly when an item in its scope
  is RUNNING or none may be dispatched. Otherwise nothing in the scope is RUNNING and the selected
  candidate is a dispatchable item, with its own project, workflow and version, that is least among
  all dispatchable items under (priority, fairness, project priority, resumption, created order,
  project, workflow, item).\<close>

theorem dispatch_selects_least_dispatchable:
  assumes "dispatch_select ids a s = (Inr d, t)"
  shows "case ds_selected d of
      None \<Rightarrow> (\<exists>(w, x) \<in> items_in_scope ids s. raw_running x)
        \<or> (\<forall>(w, x) \<in> items_in_scope ids s. \<not> dispatchable s w x)
    | Some c \<Rightarrow> (\<forall>(w, x) \<in> items_in_scope ids s. \<not> raw_running x)
        \<and> (\<exists>(w, x) \<in> items_in_scope ids s. dispatchable s w x \<and> dc_workflow_id c = wf_id w
            \<and> dc_item_id c = item_id_of x \<and> dc_item_version c = qi_version x
            \<and> Some (dc_project_id c) = wf_project_id w
            \<and> (\<forall>(v, y) \<in> items_in_scope ids s. dispatchable s v y \<longrightarrow>
                 dispatch_rank (served_out ids s) s w x \<le> dispatch_rank (served_out ids s) s v y))"
proof (cases "ds_selected d")
  case None
  with dispatch_select_None [OF assms] show ?thesis by simp
next
  case (Some c)
  with dispatch_select_Some [OF assms Some] show ?thesis by (simp only: option.case) blast
qed

lemma dispatch_select_known:
  assumes "workflow_bundles ids (bump_id ''audit'' s) = Inr bs"
  shows "\<exists>d t. dispatch_select ids a s = (Inr d, t)"
proof -
  have pair: "\<exists>d t. (case p of (d, r) \<Rightarrow> (Inr d :: dispatch_selection res, g d r)) = (Inr d, t)"
    for p :: "dispatch_selection \<times> string" and g :: "dispatch_selection \<Rightarrow> string \<Rightarrow> db"
    by (cases p) simp
  show ?thesis
    unfolding dispatch_select_def Let_def assms try_res_simps by (rule pair)
qed

lemma ex_fleet_select:
  "\<exists>d t. dispatch_select None LUCIUS (ex_fleet b b' evs) = (Inr d, t)"
proof -
  have "\<exists>bs. workflow_bundles None (bump_id ''audit'' (ex_fleet b b' evs)) = Inr bs"
    by (subst bundles_known) (simp_all add: keyed_workflows_def list_or_def)
  then show ?thesis by (blast intro: dispatch_select_known)
qed

theorem dispatch_selects_least_dispatchable_witness:
  "\<exists>d t c. dispatch_select None LUCIUS (ex_fleet [ex_item ''A'' queue_state.READY [''B'']]
      [ex_item ''B'' queue_state.READY []] []) = (Inr d, t)
    \<and> ds_selected d = Some c \<and> dc_item_id c = ''B'' \<and> dc_project_id c = ''Q''"
proof -
  let ?s = "ex_fleet [ex_item ''A'' queue_state.READY [''B'']] [ex_item ''B'' queue_state.READY []] []"
  obtain d t where d: "dispatch_select None LUCIUS ?s = (Inr d, t)" using ex_fleet_select by blast
  have run: "\<not> raw_running (ex_item k queue_state.READY ds)" for k ds by (simp add: raw_running_def)
  have ok: "dispatchable ?s (ex_fleet_workflow (CHR ''Q'') [ex_item ''B'' queue_state.READY []]) (ex_item ''B'' queue_state.READY [])"
    by (simp add: dispatchable_def)
  have no: "\<not> dispatchable ?s (ex_fleet_workflow (CHR ''P'') [ex_item ''A'' queue_state.READY [''B'']]) (ex_item ''A'' queue_state.READY [''B''])"
    by (simp add: dispatchable_def)
  obtain c where c: "ds_selected d = Some c"
    using dispatch_select_None [OF d] ok run by (auto simp: ex_fleet_scope)
  have "dc_item_id c = ''B'' \<and> Some (dc_project_id c) = Some ''Q''"
    using dispatch_selects_least_dispatchable [OF d] c no by (auto simp: ex_fleet_scope)
  with d c show ?thesis by blast
qed

text \<open>C10. Fairness: when the last two candidates handed to the runtime belong to the same project and
  another project has a dispatchable item of at least the selected priority, the cycle selects an
  item of another project, unless the selected item is CRITICAL.\<close>

theorem dispatch_serves_other_projects:
  assumes "dispatch_select ids a s = (Inr d, t)" and "ds_selected d = Some c"
    and "recent_started_projects consecutive_project_limit s = [p, p]"
    and "(v, y) \<in> items_in_scope ids s" and "dispatchable s v y" and "wf_project_id v \<noteq> Some p"
    and "priority_rank (py_upper (raw_or (qi_priority y) ''NORMAL'')) \<le> priority_rank (dc_priority c)"
  shows "dc_project_id c \<noteq> p \<or> dc_priority c = ''CRITICAL''"
proof (rule ccontr)
  assume neg: "\<not> ?thesis"
  have ex: "exhausted_project s = Some p"
    using assms(3) by (simp add: exhausted_project_def consecutive_project_limit_def)
  obtain w x where w: "dispatchable s w x" "Some (dc_project_id c) = wf_project_id w"
    "dc_priority c = py_upper (raw_or (qi_priority x) ''NORMAL'')"
    "dispatch_rank (served_out ids s) s w x \<le> dispatch_rank (served_out ids s) s v y"
    using dispatch_select_Some [OF assms(1,2)] assms(4,5) by blast
  have out: "served_out ids s = Some p"
    using assms(4-6) ex by (auto simp: served_out_def)
  have p: "p \<noteq> []" "wf_project_id w = Some p"
    using w(1,2) neg by (auto simp: dispatchable_def context_dispatchable_def)
  have v: "or_else (wf_project_id v) [] \<noteq> p"
    using assms(5,6) context_project [of s v] by (auto simp: dispatchable_def)
  have "fst (dispatch_rank (Some p) s w x) = priority_rank (dc_priority c)"
    "fst (snd (dispatch_rank (Some p) s w x)) = 1"
    "fst (dispatch_rank (Some p) s v y) = priority_rank (py_upper (raw_or (qi_priority y) ''NORMAL''))"
    "fst (snd (dispatch_rank (Some p) s v y)) = 0"
    using neg w(3) p v
    by (simp_all add: dispatch_rank_def candidate_key_def candidate_from_item_def Let_def truthy_def or_else_def)
  with w(4) assms(7) show False
    unfolding out by (auto simp: less_eq_prod_def)
qed

theorem dispatch_serves_other_projects_witness:
  "\<exists>d t c. dispatch_select None LUCIUS (ex_fleet [ex_item ''A'' queue_state.READY []]
      [ex_item ''B'' queue_state.READY []] [ex_handed ''E1'' ''P'', ex_handed ''E2'' ''P'']) = (Inr d, t)
    \<and> ds_selected d = Some c \<and> dc_project_id c \<noteq> ''P''"
proof -
  let ?s = "ex_fleet [ex_item ''A'' queue_state.READY []] [ex_item ''B'' queue_state.READY []]
     [ex_handed ''E1'' ''P'', ex_handed ''E2'' ''P'']"
  let ?y = "ex_item ''B'' queue_state.READY []" and ?v = "ex_fleet_workflow (CHR ''Q'') [ex_item ''B'' queue_state.READY []]"
  obtain d t where d: "dispatch_select None LUCIUS ?s = (Inr d, t)" using ex_fleet_select by blast
  have run: "\<not> raw_running (ex_item k queue_state.READY ds)" for k ds by (simp add: raw_running_def)
  have ok: "dispatchable ?s ?v ?y" by (simp add: dispatchable_def)
  obtain c where c: "ds_selected d = Some c"
    using dispatch_select_None [OF d] ok run by (auto simp: ex_fleet_scope)
  have recent: "recent_started_projects consecutive_project_limit ?s = [''P'', ''P'']"
    by (simp add: recent_started_projects_def consecutive_project_limit_def ex_handed_def truthy_def
        numeral_2_eq_2 insort_key_left_comm)
  have prio: "raw_or (qi_priority (ex_item k queue_state.READY [])) ''NORMAL'' = ''NORMAL''" for k
    by (simp add: ex_item_def raw_or_def)
  have "dc_priority c = py_upper ''NORMAL''"
    using dispatch_select_Some [OF d c] by (auto simp: ex_fleet_scope prio)
  then have "dc_project_id c \<noteq> ''P'' \<or> dc_priority c = ''CRITICAL''" "dc_priority c = ''NORMAL''"
    using dispatch_serves_other_projects [OF d c recent, of ?v ?y] ok
    by (simp_all add: ex_fleet_scope prio upper_valid)
  with d c show ?thesis by auto
qed



text \<open>Errors of a dispatch: with unique workflow ids, a start raises exactly when a workflow that it
  was given does not exist, and then it has written nothing but the audit id it drew; otherwise it
  returns a selection.\<close>

theorem dispatch_start_raises_iff_unknown:
  assumes "keyed_workflows s"
  shows "case dispatch_start ids a s of
      (Inl e, t) \<Rightarrow> (\<exists>i \<in> set (list_or ids []). get_workflow i s = None) \<and> t = bump_id ''audit'' s
    | (Inr d, t) \<Rightarrow> (\<forall>i \<in> set (list_or ids []). get_workflow i s \<noteq> None)"
proof -
  let ?s0 = "bump_id ''audit'' s"
  have known: "(\<exists>bs. workflow_bundles ids ?s0 = Inr bs) \<longleftrightarrow> (\<forall>i \<in> set (list_or ids []). get_workflow i s \<noteq> None)"
    using bundles_known [of ?s0 ids] assms by (simp add: keyed_workflows_def get_workflow_def)
  show ?thesis
  proof (cases "workflow_bundles ids ?s0")
    case (Inl e)
    then show ?thesis
      using known by (simp add: dispatch_start_def dispatch_select_def Let_def)
  next
    case (Inr bs)
    then obtain d s' where d: "dispatch_select ids a s = (Inr d, s')"
      using dispatch_select_known by blast
    have "\<exists>d' t. dispatch_start ids a s = (Inr d', t)"
    proof (cases "ds_selected d")
      case None
      with d show ?thesis by (simp add: dispatch_start_def)
    next
      case (Some c)
      obtain w x where x: "(w, x) \<in> items_in_scope ids s" "dc_workflow_id c = wf_id w" "dc_item_id c = item_id_of x"
        using dispatch_select_Some [OF d Some] by blast
      obtain y where y: "tget item_id_of (item_id_of x) (wf_task_backlog w) = Some y" "wf_task_backlog w \<noteq> []"
        using scope_found [OF x(1)] by metis
      have same: "same_inputs s s'" using dispatch_select_Inr [OF d] by metis
      have "get_workflow (wf_id w) s' = Some w"
        using scope_stored [OF x(1) assms] same_inputs_eqs(5) [OF same] by simp
      with d Some x(2,3) y show ?thesis
        by (simp add: dispatch_start_def hand_to_runtime_def Let_def)
    qed
    with Inr known show ?thesis by auto
  qed
qed

theorem dispatch_start_raises_iff_unknown_witness:
  "\<exists>e. dispatch_start (Some [''Z'']) LUCIUS (ex_fleet [] [] []) = (Inl e, bump_id ''audit'' (ex_fleet [] [] []))"
proof -
  have "get_workflow ''Z'' (ex_fleet [] [] []) = None" by (simp add: get_workflow_def)
  then show ?thesis
    using dispatch_start_raises_iff_unknown [of "ex_fleet [] [] []" "Some [''Z'']" LUCIUS]
    by (auto simp: list_or_def split: prod.splits sum.splits)
qed

text \<open>A backlog with a repeated item id: the cycle selects the ready item, and the start rewrites the
  first item of that id, which was completed.\<close>

lemma dispatch_restarts_completed_item:
  defines "s \<equiv> ex_fleet [ex_item ''A'' queue_state.COMPLETED [], ex_item ''A'' queue_state.READY []] [] []"
  shows "\<exists>d t w. dispatch_start None LUCIUS s = (Inr d, t) \<and> get_workflow ''Pw'' t = Some w
    \<and> map state_text (wf_task_backlog w) = [''RUNNING'', ''READY'']"
proof -
  let ?b = "[ex_item ''A'' queue_state.COMPLETED [], ex_item ''A'' queue_state.READY []]"
  let ?w = "ex_fleet_workflow (CHR ''P'') ?b"
  obtain d0 s0 where d0: "dispatch_select None LUCIUS s = (Inr d0, s0)" using ex_fleet_select s_def by blast
  have ok: "dispatchable s ?w (ex_item ''A'' queue_state.READY [])" "\<not> raw_running (ex_item ''A'' q [])"
    if "q \<noteq> queue_state.RUNNING" for q
    using that by (simp_all add: s_def dispatchable_def raw_running_def)
  obtain c where c: "ds_selected d0 = Some c"
    using dispatch_select_None [OF d0] ok by (auto simp: s_def ex_fleet_scope)
  have id: "dc_workflow_id c = ''Pw''" "dc_item_id c = ''A''"
    using dispatch_select_Some [OF d0 c] by (auto simp: s_def ex_fleet_scope)
  have same: "same_inputs s s0" using dispatch_select_Inr [OF d0] by metis
  have g: "get_workflow ''Pw'' s0 = Some ?w"
    unfolding same_inputs_eqs(5) [OF same] by (simp add: s_def get_workflow_def)
  obtain d t where d: "dispatch_start None LUCIUS s = (Inr d, t)" using d0 c id g
    by (simp add: dispatch_start_def hand_to_runtime_def Let_def)
  moreover have "get_workflow ''Pw'' t = Some ((with_item s0 (dispatched_item s0 (ex_item ''A'' queue_state.COMPLETED [])) ?w)
      \<lparr>wf_active_task_id := Some ''A''\<rparr>)"
    using d d0 c id g by (auto simp: dispatch_start_def hand_to_runtime_def Let_def get_workflow_def put_workflow_def)
  moreover have "map state_text (wf_task_backlog (with_item s0 (dispatched_item s0 (ex_item ''A'' queue_state.COMPLETED [])) ?w))
      = [''RUNNING'', ''READY'']"
    by (simp only: with_item_simps ex_fleet_simps)
      (simp add: state_text_def dispatched_item_def ex_item_def item_id_of_def truthy_def)
  ultimately show ?thesis by auto
qed

end
