(* ===== verification/Runtime_Loop.thy ===== *)
theory Runtime_Loop
  imports Dispatcher Missions
begin

text \<open>
  The native execution loop of \<^verbatim>\<open>lucius/runtime/service.py\<close>: it prepares the plans of
  its workflows, dispatches one item after the other, checks the release conditions immediately
  before the execution, lets the router execute the item, and completes or blocks it with the
  outcome; at its end a workflow whose items are all completed moves its parent task.
  The planning adapter and the execution router are interfaces of the code (a \<open>Protocol\<close>, and
  the only operation of the router that is called here), so the loop takes them as parameters: what
  they return, and the store they leave. \<open>time.monotonic\<close> reads the clock of the store,
  in microseconds. Python's text of a dictionary is a parameter too.
\<close>

section \<open>Results and configuration\<close>

datatype execution_outcome = COMPLETED | BLOCKED | ESCALATED | FAILED

primrec outcome_value :: "execution_outcome \<Rightarrow> string" where
  "outcome_value execution_outcome.COMPLETED = ''COMPLETED''"
| "outcome_value execution_outcome.BLOCKED = ''BLOCKED''"
| "outcome_value execution_outcome.ESCALATED = ''ESCALATED''"
| "outcome_value execution_outcome.FAILED = ''FAILED''"

datatype loop_status = COMPLETED | IDLE | WAITING | BLOCKED | ESCALATED | FAILED

primrec loop_status_value :: "loop_status \<Rightarrow> string" where
  "loop_status_value loop_status.COMPLETED = ''COMPLETED''"
| "loop_status_value IDLE = ''IDLE''"
| "loop_status_value loop_status.WAITING = ''WAITING''"
| "loop_status_value loop_status.BLOCKED = ''BLOCKED''"
| "loop_status_value loop_status.ESCALATED = ''ESCALATED''"
| "loop_status_value loop_status.FAILED = ''FAILED''"

record loop_config =
  lc_workflow_ids :: "string list option"
  lc_max_tasks :: int
  lc_dispatcher_count :: int
  lc_stop_on_block :: bool
  lc_stop_on_escalation :: bool

text \<open>The validators of \<open>RuntimeLoopConfig\<close>.\<close>

definition valid_loop_config :: "loop_config \<Rightarrow> bool" where
  "valid_loop_config cfg = (1 \<le> lc_max_tasks cfg \<and> lc_dispatcher_count cfg = 1)"

record plan_reference =
  pr_workflow_id :: string
  pr_plan_id :: string
  pr_plan_freeze_id :: string
  pr_created_by_runtime :: bool

record execution_context =
  xc_workflow_id :: string
  xc_item_id :: string
  xc_logical_task_id :: string
  xc_project_id :: "string option"
  xc_repository_id :: "string option"
  xc_workflow_task_id :: "string option"
  xc_title :: "string option"
  xc_workflow_objective :: string
  xc_worktree_path :: string
  xc_authority_tier :: string
  xc_plan_id :: "string option"
  xc_plan_freeze_id :: "string option"
  xc_queue_item :: queue_item

record adapter_result =
  ar_outcome :: execution_outcome
  ar_completed_substeps :: "string list"
  ar_evidence :: "json_object list"
  ar_verification :: "json_object list"
  ar_documentation :: "json_object list"
  ar_active_execution_seconds :: rat
  ar_external_capacity_wait_seconds :: rat
  ar_human_wait_seconds :: rat
  ar_blocked_task_seconds :: rat
  ar_latency_ms :: "int option"
  ar_retries :: int
  ar_escalations :: int
  ar_blocking_reason :: "string option"
  ar_blocker_category :: "string option"
  ar_resume_condition :: "string option"
  ar_error :: "string option"
  ar_provider_id :: "string option"
  ar_provider_version :: "string option"
  ar_model_id :: "string option"
  ar_model_version :: "string option"
  ar_routing_decision_id :: "string option"
  ar_failure_class :: "string option"
  ar_provider_error_metadata :: json_object
  ar_fallback_used :: bool
  ar_input_tokens :: "int option"
  ar_output_tokens :: "int option"
  ar_total_tokens :: "int option"
  ar_estimated_cost :: "rat option"

definition adapter_result_of :: "execution_outcome \<Rightarrow> adapter_result" where
  "adapter_result_of outcome = \<lparr>ar_outcome = outcome, ar_completed_substeps = [], ar_evidence = [],
     ar_verification = [], ar_documentation = [], ar_active_execution_seconds = 0,
     ar_external_capacity_wait_seconds = 0, ar_human_wait_seconds = 0, ar_blocked_task_seconds = 0,
     ar_latency_ms = None, ar_retries = 0, ar_escalations = 0, ar_blocking_reason = None,
     ar_blocker_category = None, ar_resume_condition = None, ar_error = None, ar_provider_id = None,
     ar_provider_version = None, ar_model_id = None, ar_model_version = None, ar_routing_decision_id = None,
     ar_failure_class = None, ar_provider_error_metadata = [], ar_fallback_used = False,
     ar_input_tokens = None, ar_output_tokens = None, ar_total_tokens = None, ar_estimated_cost = None\<rparr>"

record task_record =
  tr_workflow_id :: string
  tr_item_id :: string
  tr_project_id :: "string option"
  tr_provider_id :: string
  tr_outcome :: execution_outcome
  tr_completed_substeps :: "string list"
  tr_evidence_count :: nat
  tr_verification_count :: nat
  tr_documentation_count :: nat
  tr_failure_class :: "string option"
  tr_blocker_category :: "string option"

record loop_result =
  lr_status :: loop_status
  lr_selected_tasks :: nat
  lr_completed_tasks :: nat
  lr_blocked_tasks :: nat
  lr_resumed_tasks :: nat
  lr_retries :: int
  lr_escalations :: int
  lr_provider_ids :: "string list"
  lr_project_ids :: "string list"
  lr_project_switches :: nat
  lr_scheduler_decisions :: "dispatch_selection list"
  lr_plan_references :: "plan_reference list"
  lr_task_records :: "task_record list"
  lr_wall_clock_duration_seconds :: rat
  lr_active_execution_time_seconds :: rat
  lr_external_capacity_wait_time_seconds :: rat
  lr_human_wait_time_seconds :: rat
  lr_blocked_task_time_seconds :: rat
  lr_stopped_reason :: "string option"

definition loop_result_of :: "plan_reference list \<Rightarrow> loop_result" where
  "loop_result_of refs = \<lparr>lr_status = IDLE, lr_selected_tasks = 0, lr_completed_tasks = 0, lr_blocked_tasks = 0,
     lr_resumed_tasks = 0, lr_retries = 0, lr_escalations = 0, lr_provider_ids = [], lr_project_ids = [],
     lr_project_switches = 0, lr_scheduler_decisions = [], lr_plan_references = refs, lr_task_records = [],
     lr_wall_clock_duration_seconds = 0, lr_active_execution_time_seconds = 0,
     lr_external_capacity_wait_time_seconds = 0, lr_human_wait_time_seconds = 0,
     lr_blocked_task_time_seconds = 0, lr_stopped_reason = None\<rparr>"

text \<open>The parameters of a loop: the router reports either its result, or the class and the message
  of the exception it raised.\<close>

record runtime_env =
  env_actor :: actor
  env_prepare_plan :: "string \<Rightarrow> db \<Rightarrow> plan_reference res \<times> db"
  env_router_id :: string
  env_router_execute :: "execution_context \<Rightarrow> db \<Rightarrow> (string + adapter_result) \<times> db"
  env_dict_text :: "json_object \<Rightarrow> string"

definition elapsed_seconds :: "timestamp \<Rightarrow> timestamp \<Rightarrow> rat" where
  "elapsed_seconds started now = max 0 (of_int (now - started) / 1000000)"

section \<open>Reconciliation of the parent task\<close>

definition parent_state_of :: "queue_item \<Rightarrow> queue_state option" where
  "parent_state_of item = (case qi_state item of Text t \<Rightarrow> queue_state_of t | _ \<Rightarrow> None)"

definition workflow_successfully_completed :: "workflow_row \<Rightarrow> bool" where
  "workflow_successfully_completed w \<longleftrightarrow>
     wf_active_task_id w = None \<and> wf_task_backlog w \<noteq> []
     \<and> list_all (\<lambda>i. parent_state_of i = Some queue_state.COMPLETED) (wf_task_backlog w)
     \<and> set (map item_id_of (wf_task_backlog w)) = set (wf_completed_task_ids w)
     \<and> wf_pending_task_ids w = []"

definition completed_workflow_task_status :: "string \<Rightarrow> db \<Rightarrow> task_status" where
  "completed_workflow_task_status task_id s =
     (case active_contract task_id s of
        None \<Rightarrow> COMPLETE
      | Some contract \<Rightarrow>
          if \<not> c_documentation_required contract then COMPLETE
          else case completion_of task_id s of
            None \<Rightarrow> DOCUMENTATION_PENDING
          | Some completion \<Rightarrow>
              if \<not> set (c_documentation_targets contract) \<subseteq> set (d_targets_completed completion)
                 \<or> d_evidence_references completion = [] then DOCUMENTATION_PENDING else COMPLETE)"

definition reconciled_task :: "task_status \<Rightarrow> db \<Rightarrow> task_row \<Rightarrow> task_row" where
  "reconciled_task target s task = task\<lparr>t_status := target, t_blocker_code := None, t_blocker_message := None,
     t_blocked_at := None, t_failure_reason := None, t_updated_at := utc_now s\<rparr>"

definition reconciled_workflow :: "db \<Rightarrow> workflow_row \<Rightarrow> workflow_row" where
  "reconciled_workflow s w = w\<lparr>wf_workflow_state := COMPLETED_PENDING_INTEGRATION, wf_active_task_id := None,
     wf_updated_at := utc_now s\<rparr>"

definition reconcile_parent_task :: "actor \<Rightarrow> string \<Rightarrow> db \<Rightarrow> db" where
  "reconcile_parent_task actor workflow_id s =
     (case get_workflow workflow_id s of
        None \<Rightarrow> s
      | Some w \<Rightarrow>
          (case get_if get_task (wf_task_id w) s of
             None \<Rightarrow> s
           | Some task \<Rightarrow>
               if \<not> workflow_successfully_completed w then s
               else let target = completed_workflow_task_status (t_id task) s in
                 if t_status task = target \<and> wf_workflow_state w = COMPLETED_PENDING_INTEGRATION then s
                 else audit_record ''NATIVE_RUNTIME_WORKFLOW_PARENT_TASK_RECONCILED'' (actor_value actor)
                   (wf_project_id w) (wf_repository_id w) (Some (t_id task)) None L0
                   ''reconcile_completed_runtime_workflow'' (task_status_value target)
                   [(''workflow_id'', JStr (wf_id w)),
                    (''previous_task_status'', JStr (task_status_value (t_status task))),
                    (''new_task_status'', JStr (task_status_value target)),
                    (''previous_workflow_state'', JStr (workflow_state_value (wf_workflow_state w))),
                    (''new_workflow_state'', JStr (workflow_state_value COMPLETED_PENDING_INTEGRATION)),
                    (''completed_task_ids'', jtexts (wf_completed_task_ids w)),
                    (''pending_task_ids'', jtexts (wf_pending_task_ids w))]
                   (put_workflow (reconciled_workflow s w) (put_task (reconciled_task target s task) s))))"

section \<open>Preparation of the plans\<close>

definition loop_workflow_ids :: "string list option \<Rightarrow> db \<Rightarrow> string list res" where
  "loop_workflow_ids workflow_ids s =
     (let ids = list_or workflow_ids []; missing = filter (\<lambda>i. get_workflow i s = None) ids
      in if ids = [] then Inr (map wf_id (filter (\<lambda>w. wf_task_backlog w \<noteq> []) (sort_key wf_id (workflows s))))
         else if missing \<noteq> []
         then Inl (ExecutionRuntimeLoopError (''Unknown persistent workflows: '' @ repr_list missing))
         else Inr ids)"

definition prepare_workflow :: "runtime_env \<Rightarrow> string \<Rightarrow> db \<Rightarrow> plan_reference list res \<times> db" where
  "prepare_workflow env i s =
     (let s1 = reconcile_parent_task (env_actor env) i s
      in case get_workflow i s1 of
        None \<Rightarrow> (Inr [], s1)
      | Some w \<Rightarrow>
          if wf_workflow_state w = COMPLETED_PENDING_INTEGRATION
          then (Inr (if truthy (wf_plan_id w) \<and> truthy (wf_plan_freeze_id w)
                     then [\<lparr>pr_workflow_id = wf_id w, pr_plan_id = the (wf_plan_id w),
                            pr_plan_freeze_id = the (wf_plan_freeze_id w), pr_created_by_runtime = False\<rparr>]
                     else []), s1)
          else then_op (env_prepare_plan env (wf_id w) s1) (\<lambda>r s2. (Inr [r], s2)))"

definition prepare_workflow_plans ::
  "runtime_env \<Rightarrow> string list option \<Rightarrow> db \<Rightarrow> plan_reference list res \<times> db" where
  "prepare_workflow_plans env workflow_ids s =
     try_res (loop_workflow_ids workflow_ids s) s (\<lambda>ids.
     then_op (map_op (prepare_workflow env) ids s) (\<lambda>rss s1. (Inr (concat rss), s1)))"

section \<open>The release check before an execution\<close>

definition queue_item_of :: "queue_item list \<Rightarrow> string \<Rightarrow> queue_item res" where
  "queue_item_of items item_id = some_or (tget item_id_of item_id items)
     (ExecutionRuntimeLoopError (''Unknown queue item: '' @ item_id))"

definition execution_context_of :: "string \<Rightarrow> string \<Rightarrow> db \<Rightarrow> execution_context res" where
  "execution_context_of workflow_id item_id s =
     bind_res (some_or (get_workflow workflow_id s)
       (ExecutionRuntimeLoopError (''Unknown persistent workflow: '' @ workflow_id))) (\<lambda>w.
     bind_res (queue_item_of (wf_task_backlog w) item_id) (\<lambda>item.
       Inr \<lparr>xc_workflow_id = wf_id w, xc_item_id = item_id,
         xc_logical_task_id = or_else (qi_logical_task_id item) (or_else (qi_task_id item) item_id),
         xc_project_id = wf_project_id w, xc_repository_id = wf_repository_id w,
         xc_workflow_task_id = wf_task_id w, xc_title = qi_title item,
         xc_workflow_objective = wf_objective w, xc_worktree_path = wf_worktree_path w,
         xc_authority_tier = wf_authority_tier w, xc_plan_id = wf_plan_id w,
         xc_plan_freeze_id = wf_plan_freeze_id w, xc_queue_item = item\<rparr>))"

definition execution_context_for_preflight :: "string \<Rightarrow> db \<Rightarrow> execution_context res" where
  "execution_context_for_preflight workflow_id s =
     bind_res (some_or (get_workflow workflow_id s)
       (ExecutionRuntimeLoopError (''Unknown persistent workflow: '' @ workflow_id))) (\<lambda>w.
     case filter (\<lambda>i. qi_state i \<in> {Text ''READY'', Text ''READY_TO_RESUME''}) (wf_task_backlog w) of
       [item] \<Rightarrow> execution_context_of workflow_id (option_text (qi_item_id item)) s
     | _ \<Rightarrow> Inl (ExecutionRuntimeLoopError
         ''Preflight requires exactly one READY or READY_TO_RESUME queue item.''))"

text \<open>A target that an item names for its mutation: an absent or null one is no target.\<close>

definition mutation_target :: "string \<Rightarrow> queue_item \<Rightarrow> string option" where
  "mutation_target k item = (case jget k (qi_extra item) of None \<Rightarrow> None
     | Some v \<Rightarrow> if v = JNull then None else Some (scalar_text v))"

definition selected_mutation_identity_error :: "execution_context \<Rightarrow> string option" where
  "selected_mutation_identity_error ctx =
     (let item = xc_queue_item ctx;
          strays = (\<lambda>keys allowed. list_ex (\<lambda>k. case mutation_target k item of
            None \<Rightarrow> False | Some t \<Rightarrow> t \<notin> set allowed) keys)
      in if strays [''mutation_item_id'', ''mutates_item_id'', ''execution_item_id'', ''selected_item_id''] [xc_item_id ctx]
         then Some ''Queue item mutation identity does not match the selected item.''
         else if strays [''mutation_task_id'', ''mutates_task_id'']
           ([xc_logical_task_id ctx, xc_item_id ctx] @ (case xc_workflow_task_id ctx of None \<Rightarrow> [] | Some t \<Rightarrow> [t]))
         then Some ''Queue item mutation task identity does not match the selected task.''
         else None)"

definition audit_matches :: "string \<Rightarrow> string list \<Rightarrow> string option \<Rightarrow> audit_event \<Rightarrow> bool" where
  "audit_matches task_id event_types action e = (ev_task_id e = Some task_id \<and> ev_type e \<in> set event_types
     \<and> (action = None \<or> action = Some (ev_action e)))"

definition event_order :: "audit_event \<Rightarrow> timestamp \<times> string" where
  "event_order e = (ev_timestamp e, ev_id e)"

definition latest_task_audit :: "string \<Rightarrow> string list \<Rightarrow> string option \<Rightarrow> db \<Rightarrow> audit_event option" where
  "latest_task_audit task_id event_types action s =
     (case rev (sort_key event_order (filter (audit_matches task_id event_types action) (events s))) of
        [] \<Rightarrow> None | e # _ \<Rightarrow> Some e)"

definition readiness_release_evidence_error :: "string \<Rightarrow> db \<Rightarrow> string option" where
  "readiness_release_evidence_error task_id s =
     (case latest_task_audit task_id [''TASK_READY''] None s of
        None \<Rightarrow> Some (''Task '' @ task_id @ '' has no successful canonical readiness transition.'')
      | Some ready \<Rightarrow>
          if (case latest_task_audit task_id [''POLICY_BLOCK'', ''TASK_BLOCKED''] (Some ''mark_ready'') s of
                None \<Rightarrow> False | Some failed \<Rightarrow> ev_timestamp ready \<le> ev_timestamp failed)
          then Some (''Task '' @ task_id @ '' readiness failure was not superseded by a later TASK_READY event.'')
          else if (case latest_task_audit task_id [''TASK_CONTRACT_CREATED'', ''TASK_CONTRACT_UPDATED''] None s of
                None \<Rightarrow> False | Some change \<Rightarrow> ev_timestamp ready < ev_timestamp change)
          then Some (''Task '' @ task_id @ '' readiness is stale after a contract change.'')
          else None)"

definition plan_freeze_error :: "execution_context \<Rightarrow> contract_row \<Rightarrow> db \<Rightarrow> string option" where
  "plan_freeze_error ctx contract s =
     (if \<not> truthy (xc_plan_id ctx) \<or> \<not> truthy (xc_plan_freeze_id ctx)
      then Some ''Selected workflow has no frozen EngineeringPlan.''
      else case (get_plan (option_text (xc_plan_id ctx)) s, get_freeze (option_text (xc_plan_freeze_id ctx)) s) of
        (Some plan, Some freeze) \<Rightarrow>
          if fz_plan_id freeze \<noteq> pl_id plan
          then Some ''Selected workflow PlanFreeze does not match the EngineeringPlan.''
          else if Some (pl_task_id plan) \<noteq> xc_workflow_task_id ctx \<or> Some (fz_task_id freeze) \<noteq> xc_workflow_task_id ctx
          then Some ''Selected workflow frozen plan does not match the exact selected task.''
          else if Some (pl_project_id plan) \<noteq> xc_project_id ctx \<or> Some (fz_project_id freeze) \<noteq> xc_project_id ctx
          then Some ''Selected workflow frozen plan does not match the execution project.''
          else if pl_task_contract_id plan \<noteq> c_id contract \<or> pl_task_contract_version plan \<noteq> c_version contract
          then Some ''Selected workflow frozen plan is stale relative to the active task contract.''
          else None
      | _ \<Rightarrow> Some ''Selected workflow references an unknown EngineeringPlan or PlanFreeze.'')"

definition blocker_text :: "structured_blocker \<Rightarrow> string" where
  "blocker_text b = blocker_code_value (b_code b) @ '': '' @ b_message b"

definition pre_dispatch_release_error :: "execution_context \<Rightarrow> db \<Rightarrow> string option res" where
  "pre_dispatch_release_error ctx s =
     (case get_workflow (xc_workflow_id ctx) s of
        None \<Rightarrow> Inr (Some (''Unknown persistent workflow: '' @ xc_workflow_id ctx))
      | Some w \<Rightarrow>
     (case get_if get_task (xc_workflow_task_id ctx) s of
        None \<Rightarrow> Inr (Some ''Persistent workflow has no canonical task bound for pre-mutation release.'')
      | Some task \<Rightarrow>
     if Some (t_project_id task) \<noteq> xc_project_id ctx
     then Inr (Some ''Selected workflow task project does not match execution context project.'')
     else if t_status task \<noteq> task_status.READY
     then Inr (Some (''Task '' @ t_id task @ '' is not READY for execution: '' @ task_status_value (t_status task)))
     else (case active_contract (t_id task) s of
        None \<Rightarrow> Inr (Some (''Task '' @ t_id task @ '' has no active contract.''))
      | Some contract \<Rightarrow>
     (case xc_repository_id ctx of
        None \<Rightarrow> Inr (Some ''Selected workflow has no repository bound for execution.'')
      | Some repository_id \<Rightarrow>
     if repository_id \<notin> set (c_repository_ids contract)
     then Inr (Some ''Selected workflow repository is not authorized by the active task contract.'')
     else if get_registration repository_id s = None \<or> \<not> attached (t_project_id task) repository_id s
     then Inr (Some ''Selected workflow repository is not attached to the task project.'')
     else if selected_mutation_identity_error ctx \<noteq> None then Inr (selected_mutation_identity_error ctx)
     else bind_res (validate_contract (t_id task) s) (\<lambda>v.
     if vr_blockers v \<noteq> []
     then Inr (Some (''Current task contract is not valid for execution: ''
       @ join_with ''; '' (map blocker_text (vr_blockers v))))
     else if readiness_release_evidence_error (t_id task) s \<noteq> None
     then Inr (readiness_release_evidence_error (t_id task) s)
     else if plan_freeze_error ctx contract s \<noteq> None then Inr (plan_freeze_error ctx contract s)
     else bind_res (queue_item_of (wf_task_backlog w) (xc_item_id ctx)) (\<lambda>item.
     if qi_state item \<noteq> Text ''RUNNING''
     then Inr (Some ''Selected queue item is no longer RUNNING immediately before dispatch.'')
     else Inr None))))))"

section \<open>Blocking what was not completed\<close>

definition release_block_request :: "string \<Rightarrow> string \<Rightarrow> block_request" where
  "release_block_request reason next_safe_action = \<lparr>bq_blocking_state = WAITING_HUMAN, bq_blocking_reason = reason,
     bq_blocker_category = blocker_code_value AUTHORITY_INSUFFICIENT,
     bq_resume_condition = ''Run canonical readiness/release validation successfully before retrying dispatch.'',
     bq_work_completed = Some [], bq_implementation_head = None, bq_pending_decision_or_dependency = None,
     bq_known_risks = None, bq_relevant_artifacts = Some [], bq_repair_counters = None,
     bq_approval_requirements = None, bq_next_safe_action = next_safe_action,
     bq_stale_state_validation_requirements = None\<rparr>"

definition block_pre_dispatch_failure ::
  "runtime_env \<Rightarrow> execution_context \<Rightarrow> string \<Rightarrow> db \<Rightarrow> block_entry res \<times> db" where
  "block_pre_dispatch_failure env ctx reason s =
     block_running_item (xc_workflow_id ctx) (xc_item_id ctx)
       (release_block_request reason ''Select another eligible work item.'') (env_actor env)
     (audit_record ''NATIVE_RUNTIME_PRE_MUTATION_RELEASE_BLOCKED'' (actor_value (env_actor env)) (xc_project_id ctx)
        (xc_repository_id ctx) (xc_workflow_task_id ctx) None L0 ''validate_pre_mutation_release'' ''BLOCKED''
        [(''workflow_id'', JStr (xc_workflow_id ctx)), (''item_id'', JStr (xc_item_id ctx)),
         (''reason'', JStr reason)] s)"

definition critical_dispatch_reasons :: "string list" where
  "critical_dispatch_reasons = [''PROJECT_MISSING'', ''TASK_MISSING'', ''TASK_PROJECT_MISMATCH'', ''TASK_NOT_READY'',
     ''WORKFLOW_PROJECT_MISSING'', ''REPOSITORY_MISSING'', ''REPOSITORY_PROJECT_MISMATCH'',
     ''REPOSITORY_UNATTACHED'', ''FROZEN_PLAN_MISSING'', ''PLAN_FREEZE_PROJECT_OR_TASK_MISMATCH'',
     ''QUEUE_STATE_MALFORMED_OR_MISSING'']"

text \<open>\<open>reason.split(":", 1)\<close>.\<close>

definition reason_key :: "string \<Rightarrow> string" where
  "reason_key reason = takeWhile (\<lambda>c. c \<noteq> CHR '':'') reason"

definition reason_rest :: "string \<Rightarrow> string" where
  "reason_rest reason = tl (dropWhile (\<lambda>c. c \<noteq> CHR '':'') reason)"

definition first_fail_closed_evaluation :: "dispatch_selection \<Rightarrow> dispatch_evaluation option" where
  "first_fail_closed_evaluation sel =
     find (\<lambda>e. dc_state (de_candidate e) \<notin> {queue_state.COMPLETED, queue_state.FAILED}
       \<and> list_ex (\<lambda>r. reason_key r \<in> set critical_dispatch_reasons) (de_reasons e)) (ds_excluded_candidates sel)"

definition dispatch_fail_closed_reason :: "dispatch_selection \<Rightarrow> string option" where
  "dispatch_fail_closed_reason sel =
     (case first_fail_closed_evaluation sel of
        None \<Rightarrow> None
      | Some e \<Rightarrow>
          (case de_reasons e of
             [] \<Rightarrow> None
           | reason # _ \<Rightarrow> Some (
               if starts_with ''TASK_NOT_READY:'' reason
               then ''Task '' @ option_text (dc_task_id (de_candidate e)) @ '' is not READY for execution: '' @ reason_rest reason
               else if reason = ''FROZEN_PLAN_MISSING''
               then ''Selected workflow has no frozen EngineeringPlan/PlanFreeze references.''
               else if reason = ''TASK_MISSING''
               then ''Persistent workflow has no canonical task bound for pre-mutation release.''
               else if reason = ''REPOSITORY_MISSING'' \<or> reason = ''REPOSITORY_UNATTACHED''
               then ''Selected workflow repository is not attached to the task project.''
               else reason)))"

definition block_dispatch_selection_failure ::
  "runtime_env \<Rightarrow> dispatch_selection \<Rightarrow> string \<Rightarrow> db \<Rightarrow> unit res \<times> db" where
  "block_dispatch_selection_failure env sel reason s =
     (case first_fail_closed_evaluation sel of
        None \<Rightarrow> (Inr (), s)
      | Some e \<Rightarrow> let c = de_candidate e in
          then_op (block_dispatch_selected_item (dc_workflow_id c) (dc_item_id c) (dc_state c) (dc_item_version c)
            (release_block_request reason ''Repair the failed dispatch precondition, then resolve the queue blocker.'')
            (env_actor env) s) (\<lambda>_ s1.
          (Inr (), audit_record ''NATIVE_RUNTIME_PRE_MUTATION_RELEASE_BLOCKED'' (actor_value (env_actor env))
             (Some (dc_project_id c)) (dc_repository_id c) (dc_task_id c) None L0
             ''validate_dispatch_selection_release'' ''BLOCKED''
             [(''workflow_id'', JStr (dc_workflow_id c)), (''item_id'', JStr (dc_item_id c)),
              (''reason'', JStr reason), (''dispatcher_cycle_id'', JStr (ds_cycle_id sel)),
              (''candidate_reasons'', jtexts (de_reasons e))] s1)))"

definition non_completion_request :: "runtime_env \<Rightarrow> adapter_result \<Rightarrow> block_request" where
  "non_completion_request env r = \<lparr>bq_blocking_state =
       (if ar_outcome r \<in> {execution_outcome.ESCALATED, execution_outcome.FAILED} then WAITING_HUMAN else WAITING_EXTERNAL),
     bq_blocking_reason = or_else (ar_blocking_reason r) (or_else (ar_error r) (outcome_value (ar_outcome r))),
     bq_blocker_category = or_else (ar_blocker_category r) (outcome_value (ar_outcome r)),
     bq_resume_condition = or_else (ar_resume_condition r) ''Runtime adapter must provide safe continuation evidence.'',
     bq_work_completed = Some (ar_completed_substeps r), bq_implementation_head = None,
     bq_pending_decision_or_dependency = None, bq_known_risks = None,
     bq_relevant_artifacts = Some (map (env_dict_text env) (ar_evidence r)), bq_repair_counters = None,
     bq_approval_requirements = None, bq_next_safe_action = ''Select another eligible work item.'',
     bq_stale_state_validation_requirements = None\<rparr>"

definition block_for_non_completion ::
  "runtime_env \<Rightarrow> execution_context \<Rightarrow> adapter_result \<Rightarrow> db \<Rightarrow> block_entry res \<times> db" where
  "block_for_non_completion env ctx r s =
     block_running_item (xc_workflow_id ctx) (xc_item_id ctx) (non_completion_request env r) (env_actor env) s"

section \<open>The loop\<close>

definition execute_router_fail_closed :: "runtime_env \<Rightarrow> execution_context \<Rightarrow> db \<Rightarrow> adapter_result \<times> db" where
  "execute_router_fail_closed env ctx s =
     (case env_router_execute env ctx s of
        (Inr r, s1) \<Rightarrow> (r, s1)
      | (Inl e, s1) \<Rightarrow> ((adapter_result_of execution_outcome.FAILED)
          \<lparr>ar_active_execution_seconds := elapsed_seconds (clock s) (clock s1), ar_error := Some e,
           ar_provider_id := Some (env_router_id env), ar_blocker_category := Some ''EXECUTION_ROUTER_EXCEPTION'',
           ar_blocking_reason := Some ''Execution router raised before returning a canonical result.'',
           ar_resume_condition := Some ''Repair the router/provider path and resume from the blocked queue item.''\<rparr>, s1))"

definition add_observability :: "adapter_result \<Rightarrow> loop_result \<Rightarrow> loop_result" where
  "add_observability r l = l\<lparr>
     lr_active_execution_time_seconds := lr_active_execution_time_seconds l + ar_active_execution_seconds r,
     lr_external_capacity_wait_time_seconds := lr_external_capacity_wait_time_seconds l + ar_external_capacity_wait_seconds r,
     lr_human_wait_time_seconds := lr_human_wait_time_seconds l + ar_human_wait_seconds r,
     lr_blocked_task_time_seconds := lr_blocked_task_time_seconds l + ar_blocked_task_seconds r,
     lr_retries := lr_retries l + ar_retries r, lr_escalations := lr_escalations l + ar_escalations r\<rparr>"

definition record_task_execution ::
  "runtime_env \<Rightarrow> execution_context \<Rightarrow> adapter_result \<Rightarrow> string \<Rightarrow> db \<Rightarrow> db" where
  "record_task_execution env ctx r label s =
     audit_record ''NATIVE_RUNTIME_TASK_EXECUTION_RECORDED'' (actor_value (env_actor env)) (xc_project_id ctx)
       (xc_repository_id ctx) (xc_workflow_task_id ctx) None L0 ''execute_runtime_queue_item'' label
       [(''workflow_id'', JStr (xc_workflow_id ctx)), (''item_id'', JStr (xc_item_id ctx)),
        (''provider_id'', JStr (or_else (ar_provider_id r) (env_router_id env))),
        (''provider_version'', jtext (ar_provider_version r)), (''model_id'', jtext (ar_model_id r)),
        (''model_version'', jtext (ar_model_version r)), (''routing_decision_id'', jtext (ar_routing_decision_id r)),
        (''completed_substeps'', jtexts (ar_completed_substeps r)),
        (''evidence'', JList (map JObj (ar_evidence r))), (''verification'', JList (map JObj (ar_verification r))),
        (''documentation'', JList (map JObj (ar_documentation r))),
        (''active_execution_seconds'', JFloat (ar_active_execution_seconds r)),
        (''latency_ms'', jint (ar_latency_ms r)), (''input_tokens'', jint (ar_input_tokens r)),
        (''output_tokens'', jint (ar_output_tokens r)), (''total_tokens'', jint (ar_total_tokens r)),
        (''estimated_cost'', jfloat (ar_estimated_cost r)),
        (''external_capacity_wait_seconds'', JFloat (ar_external_capacity_wait_seconds r)),
        (''human_wait_seconds'', JFloat (ar_human_wait_seconds r)),
        (''blocked_task_seconds'', JFloat (ar_blocked_task_seconds r)), (''retries'', JInt (ar_retries r)),
        (''escalations'', JInt (ar_escalations r)), (''fallback_used'', JBool (ar_fallback_used r)),
        (''provider_error_metadata'', JObj (ar_provider_error_metadata r))] s"

definition task_local_failure_classes :: "string list" where
  "task_local_failure_classes = [''CONTEXT_CAPABILITY_MISMATCH'', ''DETERMINISTIC_MUTATION_VERIFICATION_FAILED'',
     ''DETERMINISTIC_READ_ONLY_VERIFICATION_FAILED'', ''EVIDENCE_REFERENCE_VALIDATION_FAILED'',
     ''MALFORMED_OLLAMA_JSON'', ''MISSING_READ_ONLY_CONTEXT'', ''MISSING_VERIFICATION_HANDOFF'',
     ''MUTATION_SCOPE_VIOLATION'', ''NO_ELIGIBLE_PROVIDER'', ''OLLAMA_OUTPUT_TRUNCATED'',
     ''READ_ONLY_MUTATION_ATTEMPT'', ''SCHEMA_CONSTRAINT_VALIDATION_FAILED'', ''UNSUPPORTED_QUANTITATIVE_CLAIM'']"

definition task_local_failure :: "string option \<Rightarrow> bool" where
  "task_local_failure failure_class = (case failure_class of None \<Rightarrow> False | Some f \<Rightarrow> f \<in> set task_local_failure_classes)"

definition status_for_non_completion :: "adapter_result \<Rightarrow> loop_status" where
  "status_for_non_completion r =
     (if ar_outcome r = execution_outcome.ESCALATED then loop_status.ESCALATED
      else if ar_outcome r = execution_outcome.FAILED
      then (if task_local_failure (ar_failure_class r) then loop_status.BLOCKED else loop_status.FAILED)
      else loop_status.BLOCKED)"

definition should_stop_after_non_completion :: "adapter_result \<Rightarrow> loop_config \<Rightarrow> bool" where
  "should_stop_after_non_completion r cfg =
     (if lc_stop_on_block cfg \<or> ar_outcome r = execution_outcome.ESCALATED then True
      else if ar_outcome r \<noteq> execution_outcome.FAILED then False
      else \<not> task_local_failure (ar_failure_class r))"

definition blocked_interval_seconds :: "queue_item \<Rightarrow> rat" where
  "blocked_interval_seconds item =
     (case (qi_blocked_at item, qi_resolved_at item) of
        (Some b, Some r) \<Rightarrow> if r < b then 0 else elapsed_seconds b r
      | _ \<Rightarrow> 0)"

definition task_record_of :: "runtime_env \<Rightarrow> execution_context \<Rightarrow> adapter_result \<Rightarrow> task_record" where
  "task_record_of env ctx r = \<lparr>tr_workflow_id = xc_workflow_id ctx, tr_item_id = xc_item_id ctx,
     tr_project_id = xc_project_id ctx, tr_provider_id = or_else (ar_provider_id r) (env_router_id env),
     tr_outcome = ar_outcome r, tr_completed_substeps = ar_completed_substeps r,
     tr_evidence_count = length (ar_evidence r), tr_verification_count = length (ar_verification r),
     tr_documentation_count = length (ar_documentation r), tr_failure_class = ar_failure_class r,
     tr_blocker_category = ar_blocker_category r\<rparr>"

text \<open>How one round of the loop ends: it goes on, it leaves the loop, or it raises. The lists of
  the projects and of the providers are kept with their repetitions until the loop has ended.\<close>

datatype loop_flow = Continue | Break | Raise exc

definition count_selection :: "dispatch_selection \<Rightarrow> execution_context \<Rightarrow> loop_result \<Rightarrow> loop_result" where
  "count_selection sel ctx l =
     (let projects = lr_project_ids l @ (if truthy (xc_project_id ctx) then [the (xc_project_id ctx)] else []);
          switched = truthy (xc_project_id ctx) \<and> lr_project_ids l \<noteq> [] \<and> last (lr_project_ids l) \<noteq> the (xc_project_id ctx);
          resumed = (ds_started_previous_state sel = Some ''READY_TO_RESUME'')
      in l\<lparr>lr_selected_tasks := lr_selected_tasks l + 1, lr_project_ids := projects,
           lr_project_switches := lr_project_switches l + (if switched then 1 else 0),
           lr_resumed_tasks := lr_resumed_tasks l + (if resumed then 1 else 0),
           lr_blocked_task_time_seconds := lr_blocked_task_time_seconds l
             + (if resumed then blocked_interval_seconds (xc_queue_item ctx) else 0)\<rparr>)"

definition stop_without_selection ::
  "runtime_env \<Rightarrow> dispatch_selection \<Rightarrow> loop_result \<Rightarrow> db \<Rightarrow> loop_flow \<times> loop_result \<times> db" where
  "stop_without_selection env sel l s =
     (case dispatch_fail_closed_reason sel of
        None \<Rightarrow> (Break, l\<lparr>lr_status := (if lr_selected_tasks l = 0 then IDLE else loop_status.COMPLETED),
                   lr_stopped_reason := Some (ds_reason sel)\<rparr>, s)
      | Some reason \<Rightarrow>
          (case block_dispatch_selection_failure env sel reason s of
             (Inl e, s1) \<Rightarrow> (Raise e, l, s1)
           | (Inr _, s1) \<Rightarrow> (Break, l\<lparr>lr_blocked_tasks := lr_blocked_tasks l + 1, lr_status := loop_status.FAILED,
                              lr_stopped_reason := Some reason\<rparr>, s1)))"

definition stop_unreleased ::
  "runtime_env \<Rightarrow> execution_context \<Rightarrow> string \<Rightarrow> loop_result \<Rightarrow> db \<Rightarrow> loop_flow \<times> loop_result \<times> db" where
  "stop_unreleased env ctx reason l s =
     (case block_pre_dispatch_failure env ctx reason s of
        (Inl e, s1) \<Rightarrow> (Raise e, l, s1)
      | (Inr _, s1) \<Rightarrow> (Break, l\<lparr>lr_blocked_tasks := lr_blocked_tasks l + 1, lr_status := loop_status.FAILED,
                         lr_stopped_reason := Some reason\<rparr>, s1))"

definition finish_completed ::
  "runtime_env \<Rightarrow> execution_context \<Rightarrow> adapter_result \<Rightarrow> loop_result \<Rightarrow> db \<Rightarrow> loop_flow \<times> loop_result \<times> db" where
  "finish_completed env ctx r l s =
     (case complete_item (xc_workflow_id ctx) (xc_item_id ctx) (ar_completed_substeps r) (env_actor env) s of
        (Inl e, s1) \<Rightarrow> (Raise e, l, s1)
      | (Inr _, s1) \<Rightarrow>
          (Continue, l\<lparr>lr_completed_tasks := lr_completed_tasks l + 1, lr_status := loop_status.COMPLETED\<rparr>,
           record_task_execution env ctx r ''COMPLETED''
             (reconcile_parent_task (env_actor env) (xc_workflow_id ctx) s1)))"

definition finish_non_completed ::
  "runtime_env \<Rightarrow> loop_config \<Rightarrow> execution_context \<Rightarrow> adapter_result \<Rightarrow> loop_result \<Rightarrow> db \<Rightarrow>
   loop_flow \<times> loop_result \<times> db" where
  "finish_non_completed env cfg ctx r l s =
     (case block_for_non_completion env ctx r s of
        (Inl e, s1) \<Rightarrow> (Raise e, l, s1)
      | (Inr _, s1) \<Rightarrow>
          let l1 = l\<lparr>lr_blocked_tasks := lr_blocked_tasks l + 1, lr_escalations := lr_escalations l + ar_escalations r,
                     lr_status := status_for_non_completion r\<rparr>;
              s2 = record_task_execution env ctx r (loop_status_value (status_for_non_completion r)) s1
          in if should_stop_after_non_completion r cfg
             then (Break, l1\<lparr>lr_stopped_reason := Some (or_else (ar_blocking_reason r)
                     (or_else (ar_error r) (outcome_value (ar_outcome r))))\<rparr>, s2)
             else (Continue, l1, s2))"

definition execute_released ::
  "runtime_env \<Rightarrow> loop_config \<Rightarrow> execution_context \<Rightarrow> loop_result \<Rightarrow> db \<Rightarrow> loop_flow \<times> loop_result \<times> db" where
  "execute_released env cfg ctx l s =
     (case execute_router_fail_closed env ctx s of (r, s1) \<Rightarrow>
        let l1 = (add_observability r (l\<lparr>lr_provider_ids := lr_provider_ids l
              @ (if truthy (ar_provider_id r) then [the (ar_provider_id r)] else [])\<rparr>))
              \<lparr>lr_task_records := lr_task_records l @ [task_record_of env ctx r]\<rparr>
        in if ar_outcome r = execution_outcome.COMPLETED then finish_completed env ctx r l1 s1
           else finish_non_completed env cfg ctx r l1 s1)"

definition run_selected ::
  "runtime_env \<Rightarrow> loop_config \<Rightarrow> dispatch_selection \<Rightarrow> dispatch_candidate \<Rightarrow> loop_result \<Rightarrow> db \<Rightarrow>
   loop_flow \<times> loop_result \<times> db" where
  "run_selected env cfg sel c l s =
     (case execution_context_of (dc_workflow_id c) (dc_item_id c) s of
        Inl e \<Rightarrow> (Raise e, l, s)
      | Inr ctx \<Rightarrow>
          let l1 = count_selection sel ctx l
          in case pre_dispatch_release_error ctx s of
               Inl e \<Rightarrow> (Raise e, l1, s)
             | Inr (Some reason) \<Rightarrow> stop_unreleased env ctx reason l1 s
             | Inr None \<Rightarrow> execute_released env cfg ctx l1 s)"

definition run_round ::
  "runtime_env \<Rightarrow> loop_config \<Rightarrow> loop_result \<Rightarrow> db \<Rightarrow> loop_flow \<times> loop_result \<times> db" where
  "run_round env cfg l s =
     (case dispatch_start (lc_workflow_ids cfg) (env_actor env) s of
        (Inl e, s1) \<Rightarrow> (Raise e, l, s1)
      | (Inr sel, s1) \<Rightarrow>
          let l1 = l\<lparr>lr_scheduler_decisions := lr_scheduler_decisions l @ [sel]\<rparr>
          in case ds_selected sel of
               None \<Rightarrow> stop_without_selection env sel l1 s1
             | Some c \<Rightarrow> run_selected env cfg sel c l1 s1)"

text \<open>\<open>while result.selected_tasks < config.max_tasks\<close>: a round that goes on has selected one
  more task, so the number of rounds that are left is the number of tasks that are.\<close>

fun run_rounds ::
  "runtime_env \<Rightarrow> loop_config \<Rightarrow> nat \<Rightarrow> loop_result \<Rightarrow> db \<Rightarrow> exc option \<times> loop_result \<times> db" where
  "run_rounds env cfg 0 l s = (None, l, s)"
| "run_rounds env cfg (Suc n) l s =
     (case run_round env cfg l s of
        (Continue, l1, s1) \<Rightarrow> run_rounds env cfg n l1 s1
      | (Break, l1, s1) \<Rightarrow> (None, l1, s1)
      | (Raise e, l1, s1) \<Rightarrow> (Some e, l1, s1))"

definition plan_reference_json :: "plan_reference \<Rightarrow> json" where
  "plan_reference_json r = JObj [(''workflow_id'', JStr (pr_workflow_id r)), (''plan_id'', JStr (pr_plan_id r)),
     (''plan_freeze_id'', JStr (pr_plan_freeze_id r)), (''created_by_runtime'', JBool (pr_created_by_runtime r))]"

definition task_record_json :: "task_record \<Rightarrow> json" where
  "task_record_json r = JObj [(''workflow_id'', JStr (tr_workflow_id r)), (''item_id'', JStr (tr_item_id r)),
     (''project_id'', jtext (tr_project_id r)), (''provider_id'', JStr (tr_provider_id r)),
     (''outcome'', JStr (outcome_value (tr_outcome r))), (''completed_substeps'', jtexts (tr_completed_substeps r)),
     (''evidence_count'', JInt (int (tr_evidence_count r))), (''verification_count'', JInt (int (tr_verification_count r))),
     (''documentation_count'', JInt (int (tr_documentation_count r))), (''failure_class'', jtext (tr_failure_class r)),
     (''blocker_category'', jtext (tr_blocker_category r))]"

definition compact_decision :: "dispatch_selection \<Rightarrow> json" where
  "compact_decision d = JObj [(''cycle_id'', JStr (ds_cycle_id d)), (''reason'', JStr (ds_reason d)),
     (''selected_item_id'', jtext (map_option dc_item_id (ds_selected d))),
     (''selected_project_id'', jtext (map_option dc_project_id (ds_selected d))),
     (''started'', JBool (ds_started d))]"

definition loop_metadata :: "loop_result \<Rightarrow> json_object" where
  "loop_metadata l = [(''status'', JStr (loop_status_value (lr_status l))),
     (''selected_tasks'', JInt (int (lr_selected_tasks l))), (''completed_tasks'', JInt (int (lr_completed_tasks l))),
     (''blocked_tasks'', JInt (int (lr_blocked_tasks l))), (''resumed_tasks'', JInt (int (lr_resumed_tasks l))),
     (''retries'', JInt (lr_retries l)), (''escalations'', JInt (lr_escalations l)),
     (''provider_ids'', jtexts (lr_provider_ids l)), (''project_ids'', jtexts (lr_project_ids l)),
     (''project_switches'', JInt (int (lr_project_switches l))),
     (''scheduler_decisions'', JList (map compact_decision (lr_scheduler_decisions l))),
     (''plan_references'', JList (map plan_reference_json (lr_plan_references l))),
     (''task_records'', JList (map task_record_json (lr_task_records l))),
     (''wall_clock_duration_seconds'', JFloat (lr_wall_clock_duration_seconds l)),
     (''active_execution_time_seconds'', JFloat (lr_active_execution_time_seconds l)),
     (''external_capacity_wait_time_seconds'', JFloat (lr_external_capacity_wait_time_seconds l)),
     (''human_wait_time_seconds'', JFloat (lr_human_wait_time_seconds l)),
     (''blocked_task_time_seconds'', JFloat (lr_blocked_task_time_seconds l)),
     (''idle_eligible_work_time_seconds'', JFloat 0), (''single_dispatcher_enforced'', JBool True),
     (''stopped_reason'', jtext (lr_stopped_reason l))]"

text \<open>The \<open>finally\<close> block, and the handler before it.\<close>

definition finish_run_loop :: "runtime_env \<Rightarrow> timestamp \<Rightarrow> loop_result \<Rightarrow> db \<Rightarrow> loop_result \<times> db" where
  "finish_run_loop env started l s =
     (let l1 = l\<lparr>lr_provider_ids := dict_fromkeys (lr_provider_ids l), lr_project_ids := dict_fromkeys (lr_project_ids l),
                lr_wall_clock_duration_seconds := elapsed_seconds started (clock s)\<rparr>
      in (l1, audit_record ''NATIVE_RUNTIME_LOOP_COMPLETED'' (actor_value (env_actor env)) None None None None L0
            ''run_native_execution_runtime_loop'' (loop_status_value (lr_status l1)) (loop_metadata l1) s))"

definition run_loop :: "runtime_env \<Rightarrow> loop_config \<Rightarrow> db \<Rightarrow> loop_result res \<times> db" where
  "run_loop env cfg s =
     try_res (check_that (lc_dispatcher_count cfg = 1)
       (ExecutionRuntimeLoopError ''native runtime loop supports exactly one logical dispatcher'')) s (\<lambda>_.
     then_op (prepare_workflow_plans env (lc_workflow_ids cfg) s) (\<lambda>refs s1.
     case run_rounds env cfg (nat (lc_max_tasks cfg)) (loop_result_of refs) s1 of
       (None, l, s2) \<Rightarrow> (case finish_run_loop env (clock s) l s2 of (l', s3) \<Rightarrow> (Inr l', s3))
     | (Some (QueueStateError m), l, s2) \<Rightarrow>
         (case finish_run_loop env (clock s) (l\<lparr>lr_status := loop_status.FAILED, lr_stopped_reason := Some m\<rparr>)
             (audit_record ''NATIVE_RUNTIME_LOOP_FAILED_CLOSED'' (actor_value (env_actor env)) None None None None L0
                ''run_native_execution_runtime_loop'' ''QUEUE_STATE_ERROR''
                [(''reason'', JStr m), (''workflow_ids'',
                   case lc_workflow_ids cfg of None \<Rightarrow> JNull | Some ids \<Rightarrow> jtexts ids)] s2) of
            (l', s3) \<Rightarrow> (Inr l', s3))
     | (Some e, l, s2) \<Rightarrow> (case finish_run_loop env (clock s) l s2 of (l', s3) \<Rightarrow> (Inl e, s3))))"

section \<open>What the release check establishes\<close>

lemma latest_None:
  "latest_task_audit t ts a s = None \<longleftrightarrow> (\<forall>e \<in> set (events s). \<not> audit_matches t ts a e)"
proof -
  have "latest_task_audit t ts a s = None
      \<longleftrightarrow> rev (sort_key event_order (filter (audit_matches t ts a) (events s))) = []"
    unfolding latest_task_audit_def
    by (cases "rev (sort_key event_order (filter (audit_matches t ts a) (events s)))") (simp_all only: list.case, auto)
  then show ?thesis by (simp add: filter_empty_conv)
qed

lemma latest_Some:
  assumes "latest_task_audit t ts a s = Some r"
  shows "r \<in> set (events s)" "audit_matches t ts a r"
    "e \<in> set (events s) \<Longrightarrow> audit_matches t ts a e \<Longrightarrow> ev_timestamp e \<le> ev_timestamp r"
proof -
  obtain es where es: "rev (sort_key event_order (filter (audit_matches t ts a) (events s))) = r # es"
    using assms by (auto simp: latest_task_audit_def split: list.splits)
  then have sorted: "sort_key event_order (filter (audit_matches t ts a) (events s)) = rev es @ [r]"
    by (metis rev.simps(2) rev_rev_ident)
  have mem: "set (rev es @ [r]) = {e \<in> set (events s). audit_matches t ts a e}"
    by (simp only: set_sort set_filter flip: sorted)
  then show "r \<in> set (events s)" "audit_matches t ts a r" by auto
  assume "e \<in> set (events s)" "audit_matches t ts a e"
  with mem have e: "e \<in> set (rev es @ [r])" by blast
  have "sorted (map event_order (rev es @ [r]))"
    by (simp only: sorted_sort_key flip: sorted)
  then have "event_order e \<le> event_order r"
    using e by (auto simp: sorted_append)
  then show "ev_timestamp e \<le> ev_timestamp r"
    by (auto simp: event_order_def less_eq_prod_def)
qed

text \<open>The evidence that a task was made ready: an event of its readiness, later than every failed
  attempt to make it ready, and not earlier than any change of its contract.\<close>

definition readiness_is_current :: "string \<Rightarrow> db \<Rightarrow> bool" where
  "readiness_is_current t s \<longleftrightarrow> (\<exists>r \<in> set (events s). ev_task_id r = Some t \<and> ev_type r = ''TASK_READY''
     \<and> (\<forall>e \<in> set (events s). ev_task_id e = Some t \<longrightarrow>
          (ev_type e \<in> {''POLICY_BLOCK'', ''TASK_BLOCKED''} \<and> ev_action e = ''mark_ready'' \<longrightarrow> ev_timestamp e < ev_timestamp r)
        \<and> (ev_type e \<in> {''TASK_CONTRACT_CREATED'', ''TASK_CONTRACT_UPDATED''} \<longrightarrow> ev_timestamp e \<le> ev_timestamp r)))"

lemma readiness_error_None:
  assumes "readiness_release_evidence_error t s = None"
  shows "readiness_is_current t s"
proof -
  obtain r where r: "latest_task_audit t [''TASK_READY''] None s = Some r"
    using assms by (auto simp: readiness_release_evidence_error_def split: option.splits)
  have failed: "ev_timestamp f < ev_timestamp r"
    if "latest_task_audit t [''POLICY_BLOCK'', ''TASK_BLOCKED''] (Some ''mark_ready'') s = Some f" for f
    using assms r that by (auto simp: readiness_release_evidence_error_def split: if_splits)
  have change: "ev_timestamp c \<le> ev_timestamp r"
    if "latest_task_audit t [''TASK_CONTRACT_CREATED'', ''TASK_CONTRACT_UPDATED''] None s = Some c" for c
    using assms r that by (auto simp: readiness_release_evidence_error_def split: if_splits)
  have "ev_timestamp e < ev_timestamp r" if e: "e \<in> set (events s)"
    "audit_matches t [''POLICY_BLOCK'', ''TASK_BLOCKED''] (Some ''mark_ready'') e" for e
  proof (cases "latest_task_audit t [''POLICY_BLOCK'', ''TASK_BLOCKED''] (Some ''mark_ready'') s")
    case None
    with e show ?thesis by (simp add: latest_None)
  next
    case (Some f)
    from latest_Some(3) [OF Some e] failed [OF Some] show ?thesis by simp
  qed
  moreover have "ev_timestamp e \<le> ev_timestamp r" if e: "e \<in> set (events s)"
    "audit_matches t [''TASK_CONTRACT_CREATED'', ''TASK_CONTRACT_UPDATED''] None e" for e
  proof (cases "latest_task_audit t [''TASK_CONTRACT_CREATED'', ''TASK_CONTRACT_UPDATED''] None s")
    case None
    with e show ?thesis by (simp add: latest_None)
  next
    case (Some c)
    from latest_Some(3) [OF Some e] change [OF Some] show ?thesis by simp
  qed
  ultimately show ?thesis
    using latest_Some(1,2) [OF r] unfolding readiness_is_current_def
    by (intro bexI [of _ r]) (simp_all add: audit_matches_def)
qed

text \<open>A released execution, stated over the rows.\<close>

definition released :: "execution_context \<Rightarrow> db \<Rightarrow> bool" where
  "released ctx s \<longleftrightarrow> (\<exists>w task contract repository item plan freeze.
     get_workflow (xc_workflow_id ctx) s = Some w
   \<and> tget item_id_of (xc_item_id ctx) (wf_task_backlog w) = Some item \<and> qi_state item = Text ''RUNNING''
   \<and> (\<exists>i. xc_workflow_task_id ctx = Some i \<and> get_task i s = Some task)
   \<and> xc_project_id ctx = Some (t_project_id task) \<and> t_status task = task_status.READY
   \<and> active_contract (t_id task) s = Some contract
   \<and> project_blockers task s = [] \<and> contract_blockers task contract s = []
   \<and> xc_repository_id ctx = Some repository \<and> repository \<in> set (c_repository_ids contract)
   \<and> get_registration repository s \<noteq> None \<and> attached (t_project_id task) repository s
   \<and> readiness_is_current (t_id task) s
   \<and> (\<exists>i. xc_plan_id ctx = Some i \<and> get_plan i s = Some plan) \<and> (\<exists>i. xc_plan_freeze_id ctx = Some i \<and> get_freeze i s = Some freeze)
   \<and> fz_plan_id freeze = pl_id plan
   \<and> pl_task_id plan = t_id task \<and> fz_task_id freeze = t_id task
   \<and> pl_project_id plan = t_project_id task \<and> fz_project_id freeze = t_project_id task
   \<and> pl_task_contract_id plan = c_id contract \<and> pl_task_contract_version plan = c_version contract)"

lemma plan_freeze_None:
  assumes "plan_freeze_error ctx contract s = None"
  obtains i plan f freeze where "xc_plan_id ctx = Some i" "get_plan i s = Some plan"
    "xc_plan_freeze_id ctx = Some f" "get_freeze f s = Some freeze" "fz_plan_id freeze = pl_id plan"
    "Some (pl_task_id plan) = xc_workflow_task_id ctx" "Some (fz_task_id freeze) = xc_workflow_task_id ctx"
    "Some (pl_project_id plan) = xc_project_id ctx" "Some (fz_project_id freeze) = xc_project_id ctx"
    "pl_task_contract_id plan = c_id contract" "pl_task_contract_version plan = c_version contract"
  using assms by (auto simp: plan_freeze_error_def truthy_def option_text_def split: if_splits option.splits)

lemma release_granted:
  assumes "pre_dispatch_release_error ctx s = Inr None"
  shows "released ctx s"
proof -
  obtain w task where w: "get_workflow (xc_workflow_id ctx) s = Some w"
    "get_if get_task (xc_workflow_task_id ctx) s = Some task"
    using assms by (auto simp: pre_dispatch_release_error_def split: option.splits)
  then obtain i where i: "xc_workflow_task_id ctx = Some i" "get_task i s = Some task" by auto
  have tid: "t_id task = i" using i(2) by (auto simp: get_task_def dest: tget_Some_mem)
  note d = assms [unfolded pre_dispatch_release_error_def w option.case]
  have p: "xc_project_id ctx = Some (t_project_id task)" "t_status task = task_status.READY"
    using d by (auto split: if_splits)
  note d = d [unfolded p, simplified]
  obtain contract where c: "active_contract (t_id task) s = Some contract"
    using d by (auto split: option.splits)
  note d = d [unfolded c option.case]
  obtain r where r: "xc_repository_id ctx = Some r" using d by (auto split: option.splits)
  note d = d [unfolded r option.case]
  have rr: "r \<in> set (c_repository_ids contract)" "get_registration r s \<noteq> None" "attached (t_project_id task) r s"
    "selected_mutation_identity_error ctx = None"
    using d by (auto split: if_splits)
  note d = d [unfolded rr(4), simplified rr(1-3) if_False if_True simp_thms]
  have v: "validate_contract (t_id task) s = Inr v \<Longrightarrow> vr_blockers v = project_blockers task s @ contract_blockers task contract s" for v
    using i(2) tid c by (auto simp: validate_contract_def task_of_def Let_def)
  have b: "project_blockers task s = []" "contract_blockers task contract s = []"
    "readiness_release_evidence_error (t_id task) s = None" "plan_freeze_error ctx contract s = None"
    "\<exists>item. tget item_id_of (xc_item_id ctx) (wf_task_backlog w) = Some item \<and> qi_state item = Text ''RUNNING''"
    using d v by (auto simp: queue_item_of_def split: if_splits)
  obtain j plan f freeze where pf: "xc_plan_id ctx = Some j" "get_plan j s = Some plan"
    "xc_plan_freeze_id ctx = Some f" "get_freeze f s = Some freeze" "fz_plan_id freeze = pl_id plan"
    "Some (pl_task_id plan) = xc_workflow_task_id ctx" "Some (fz_task_id freeze) = xc_workflow_task_id ctx"
    "Some (pl_project_id plan) = xc_project_id ctx" "Some (fz_project_id freeze) = xc_project_id ctx"
    "pl_task_contract_id plan = c_id contract" "pl_task_contract_version plan = c_version contract"
    using plan_freeze_None [OF b(4)] by metis
  from b(5) obtain item where item: "tget item_id_of (xc_item_id ctx) (wf_task_backlog w) = Some item"
    "qi_state item = Text ''RUNNING''" by blast
  show ?thesis
    unfolding released_def
    by (intro exI [of _ w] exI [of _ task] exI [of _ contract] exI [of _ r] exI [of _ item] exI [of _ plan] exI [of _ freeze])
      (use w i p c rr(1-3) b(1,2) item pf tid readiness_error_None [OF b(3)] r in auto)
qed

section \<open>What a round leaves running\<close>

definition running_items :: "db \<Rightarrow> (string \<times> string) set" where
  "running_items s = {(i, k). \<exists>x. workflow_item i k s = Some x \<and> raw_running x}"

text \<open>An item is neither started nor stopped where the stored workflows do not change.\<close>

lemma running_items_frame: "workflows t = workflows s \<Longrightarrow> running_items t = running_items s"
  by (simp add: running_items_def workflow_item_def get_workflow_def)

lemma keyed_frame: "workflows t = workflows s \<Longrightarrow> keyed_workflows t = keyed_workflows s"
  by (simp add: keyed_workflows_def)

lemma workflow_item_write:
  assumes "workflows t = tput wf_id w' (workflows s)" and "get_workflow (wf_id w') s = Some w"
    and "wf_task_backlog w' = tput item_id_of y (wf_task_backlog w)"
  shows "workflow_item i k t = (if (i, k) = (wf_id w', item_id_of y) then Some y else workflow_item i k s)"
  using assms by (auto simp: workflow_item_def get_workflow_def)

lemma running_write:
  assumes "workflows t = tput wf_id w' (workflows s)" and "get_workflow (wf_id w') s = Some w"
    and "wf_task_backlog w' = tput item_id_of y (wf_task_backlog w)"
  shows "running_items t = (if raw_running y then insert (wf_id w', item_id_of y) (running_items s)
    else running_items s - {(wf_id w', item_id_of y)})"
  using workflow_item_write [OF assms] by (auto simp: running_items_def split: if_splits)

lemma keyed_write:
  assumes "workflows t = tput wf_id w' (workflows s)" and "keyed_workflows s"
  shows "keyed_workflows t"
  using assms by (simp add: keyed_workflows_def distinct_tput)

lemma running_workflow_write:
  assumes "workflows t = tput wf_id w' (workflows s)" and "get_workflow (wf_id w') s = Some w"
    and "wf_task_backlog w' = wf_task_backlog w"
  shows "running_items t = running_items s"
proof -
  have "workflow_item i k t = workflow_item i k s" for i k
    using assms by (cases "wf_id w' = i") (simp_all add: workflow_item_def get_workflow_def)
  then show ?thesis by (simp add: running_items_def)
qed

lemma reconcile_parent_running:
  "running_items (reconcile_parent_task a i s) = running_items s
    \<and> (keyed_workflows s \<longrightarrow> keyed_workflows (reconcile_parent_task a i s))"
proof (cases "workflows (reconcile_parent_task a i s) = workflows s")
  case True
  then show ?thesis using running_items_frame keyed_frame by blast
next
  case False
  then obtain w where w: "get_workflow i s = Some w"
    "workflows (reconcile_parent_task a i s) = tput wf_id (reconciled_workflow s w) (workflows s)"
    by (auto simp: reconcile_parent_task_def Let_def put_workflow_def put_task_def split: option.splits if_splits)
  have "get_workflow (wf_id (reconciled_workflow s w)) s = Some w"
    using w(1) workflow_table.get_key [OF w(1)] by (simp add: reconciled_workflow_def)
  from running_workflow_write [OF w(2) this] keyed_write [OF w(2)] show ?thesis
    by (simp add: reconciled_workflow_def)
qed

text \<open>A block of the running item goes through and stops it; so does its completion, while its
  workflow may execute.\<close>

lemma block_running_stops:
  assumes "get_workflow i s = Some w" "tget item_id_of k (wf_task_backlog w) = Some x" "raw_running x"
    "bq_blocking_state q \<in> set blocked_states" "keyed_workflows s"
  shows "\<exists>e t. block_running_item i k q a s = (Inr e, t) \<and> running_items t = running_items s - {(i, k)} \<and> keyed_workflows t"
proof -
  have x: "state_if_valid x = Some queue_state.RUNNING" using assms(3) by (simp add: raw_running_valid)
  let ?s1 = "bump_id ''queue_checkpoint'' s"
  let ?y = "block_item ?s1 (block_checkpoint s w k x queue_state.RUNNING q) q x"
  obtain e t where t: "block_running_item i k q a s = (Inr e, t)"
    "workflows t = tput wf_id ((with_item ?s1 ?y w)\<lparr>wf_active_task_id := None,
       wf_checkpoint_history := wf_checkpoint_history w @ [be_id (block_checkpoint s w k x queue_state.RUNNING q)]\<rparr>) (workflows s)"
    using assms(1,2,4) x
    by (simp add: block_running_item_def blocking_state_required_def workflow_of_def item_of_def state_of_def
        record_block_def Let_def put_workflow_def)
  have id: "wf_id w = i" "item_id_of x = k"
    using workflow_table.get_key [OF assms(1)] assms(2) by (auto dest: tget_Some_mem)
  have "\<not> raw_running ?y"
    using assms(4) by (auto simp: raw_running_valid blocked_states_def)
  with running_write [OF t(2), of w ?y] id assms(1) keyed_write [OF t(2) assms(5)] t(1) show ?thesis
    by (intro exI conjI) auto
qed

lemma complete_running_stops:
  assumes "get_workflow i s = Some w" "tget item_id_of k (wf_task_backlog w) = Some x" "raw_running x"
    "wf_workflow_state w \<in> set execution_eligible_states" "keyed_workflows s"
  shows "\<exists>e t. complete_item i k ss a s = (Inr e, t) \<and> running_items t = running_items s - {(i, k)} \<and> keyed_workflows t"
proof -
  obtain e t where t: "complete_item i k ss a s = (Inr e, t)"
    "workflows t = tput wf_id (completed_workflow s k (completed s ss x) w) (workflows s)"
  proof -
    have "execution_state x = Inr queue_state.RUNNING"
      using assms(3) by (simp add: execution_state_Inr raw_running_def)
    then show thesis
      using that assms(1,2,4)
      by (simp add: complete_item_def workflow_of_def item_of_def executable_workflow_def
          workflow_execution_exclusion_reason_def Let_def put_workflow_def)
  qed
  have id: "wf_id w = i" "item_id_of x = k"
    using workflow_table.get_key [OF assms(1)] assms(2) by (auto dest: tget_Some_mem)
  have y: "item_id_of (completed s ss x) = k" "\<not> raw_running (completed s ss x)"
    using id(2) by (simp_all add: raw_running_valid)
  have "get_workflow (wf_id (completed_workflow s k (completed s ss x) w)) s = Some w"
    "wf_task_backlog (completed_workflow s k (completed s ss x) w) = tput item_id_of (completed s ss x) (wf_task_backlog w)"
    "wf_id (completed_workflow s k (completed s ss x) w) = i"
    using id assms(1) by (simp_all add: completed_workflow_def)
  from running_write [OF t(2) this(1,2)] this(3) y keyed_write [OF t(2) assms(5)] t(1) show ?thesis
    by (intro exI conjI) auto
qed

lemma release_check_returns:
  assumes "get_workflow (xc_workflow_id ctx) s = Some w"
    and "tget item_id_of (xc_item_id ctx) (wf_task_backlog w) = Some x"
  shows "\<exists>m. pre_dispatch_release_error ctx s = Inr m"
proof (cases "get_if get_task (xc_workflow_task_id ctx) s")
  case None
  with assms(1) show ?thesis by (simp add: pre_dispatch_release_error_def)
next
  case (Some task)
  then have "get_task (t_id task) s = Some task"
    by (auto simp: get_task_def dest: tget_Some_mem)
  then obtain v where v: "validate_contract (t_id task) s = Inr v"
    by (cases "active_contract (t_id task) s") (auto simp: validate_contract_def task_of_def Let_def)
  have "\<not> isl (pre_dispatch_release_error ctx s)"
    unfolding pre_dispatch_release_error_def assms(1) Some option.case v bind_res_simps(2)
    by (simp add: queue_item_of_def assms(2) split: option.split)
  then show ?thesis by (cases "pre_dispatch_release_error ctx s") simp_all
qed

text \<open>What the loop relies on: the router leaves the workflows alone, and the planning adapter
  neither starts nor stops an item.\<close>

definition router_keeps_workflows :: "runtime_env \<Rightarrow> bool" where
  "router_keeps_workflows env \<longleftrightarrow> (\<forall>ctx s. workflows (snd (env_router_execute env ctx s)) = workflows s)"

definition planner_keeps_items :: "runtime_env \<Rightarrow> bool" where
  "planner_keeps_items env \<longleftrightarrow> (\<forall>i s. keyed_workflows s \<longrightarrow>
     running_items (snd (env_prepare_plan env i s)) = running_items s \<and> keyed_workflows (snd (env_prepare_plan env i s)))"

lemma fail_closed_workflows:
  "router_keeps_workflows env \<Longrightarrow> workflows (snd (execute_router_fail_closed env ctx s)) = workflows s"
  by (auto simp: execute_router_fail_closed_def router_keeps_workflows_def split: prod.splits sum.splits)
    (metis snd_conv)+

definition not_raised :: "loop_flow \<Rightarrow> bool" where
  "not_raised fl = (case fl of Raise e \<Rightarrow> False | _ \<Rightarrow> True)"

text \<open>A started item does not stay running: whatever the release check and the router say, the round
  blocks or completes it, and raises nothing.\<close>

lemma run_selected_stops:
  assumes "get_workflow i s = Some w" "tget item_id_of k (wf_task_backlog w) = Some x" "raw_running x"
    and "wf_workflow_state w \<in> set execution_eligible_states" "keyed_workflows s" "router_keeps_workflows env"
    and "dc_workflow_id c = i" "dc_item_id c = k" "run_selected env cfg sel c l s = (fl, l', t)"
  shows "not_raised fl \<and> running_items t = running_items s - {(i, k)} \<and> keyed_workflows t"
proof -
  obtain ctx where ctx: "execution_context_of i k s = Inr ctx" "xc_workflow_id ctx = i" "xc_item_id ctx = k"
    using assms(1,2) workflow_table.get_key [OF assms(1)]
    by (simp add: execution_context_of_def queue_item_of_def)
  obtain m where m: "pre_dispatch_release_error ctx s = Inr m"
    using release_check_returns [of ctx s w x] assms(1,2) ctx(2,3) by auto
  let ?l = "count_selection sel ctx l"
  have run: "run_selected env cfg sel c l s
      = (case m of Some reason \<Rightarrow> stop_unreleased env ctx reason ?l s | None \<Rightarrow> execute_released env cfg ctx ?l s)"
    using ctx m assms(7,8) by (simp add: run_selected_def Let_def split: option.split)
  show ?thesis
  proof (cases m)
    case (Some reason)
    define s1 where "s1 = audit_record ''NATIVE_RUNTIME_PRE_MUTATION_RELEASE_BLOCKED'' (actor_value (env_actor env))
        (xc_project_id ctx) (xc_repository_id ctx) (xc_workflow_task_id ctx) None L0 ''validate_pre_mutation_release''
        ''BLOCKED'' [(''workflow_id'', JStr (xc_workflow_id ctx)), (''item_id'', JStr (xc_item_id ctx)),
         (''reason'', JStr reason)] s"
    have s1: "workflows s1 = workflows s" by (simp add: s1_def)
    let ?q = "release_block_request reason ''Select another eligible work item.''"
    have "bq_blocking_state ?q \<in> set blocked_states" by (simp add: release_block_request_def blocked_states_def)
    moreover have "get_workflow i s1 = Some w" "keyed_workflows s1"
      using assms(1,5) get_workflow_cong [OF s1] keyed_frame [OF s1] by auto
    ultimately obtain e t' where e: "block_running_item i k ?q (env_actor env) s1 = (Inr e, t')"
      "running_items t' = running_items s1 - {(i, k)}" "keyed_workflows t'"
      using block_running_stops [OF _ assms(2,3)] by blast
    have "block_pre_dispatch_failure env ctx reason s = (Inr e, t')"
      using e(1) unfolding block_pre_dispatch_failure_def ctx(2,3) s1_def by simp
    then have "t = t'" "fl = Break"
      using assms(9) unfolding run Some option.case stop_unreleased_def by simp_all
    with e(2,3) running_items_frame [OF s1] show ?thesis by (simp add: not_raised_def)
  next
    case None
    obtain r s1 where r: "execute_router_fail_closed env ctx s = (r, s1)" by force
    have s1: "workflows s1 = workflows s" using fail_closed_workflows [OF assms(6), of ctx s] r by simp
    have g: "get_workflow i s1 = Some w" "keyed_workflows s1" "running_items s1 = running_items s"
      using assms(1,5) get_workflow_cong [OF s1] keyed_frame [OF s1] running_items_frame [OF s1] by auto
    show ?thesis
    proof (cases "ar_outcome r = execution_outcome.COMPLETED")
      case True
      obtain e t' where e: "complete_item i k (ar_completed_substeps r) (env_actor env) s1 = (Inr e, t')"
        "running_items t' = running_items s1 - {(i, k)}" "keyed_workflows t'"
        using complete_running_stops [OF g(1) assms(2,3,4) g(2)] by metis
      have "workflows t = workflows (reconcile_parent_task (env_actor env) i t')" "fl = Continue"
        using assms(9)
        unfolding run None option.case execute_released_def r prod.case Let_def if_P [OF True] finish_completed_def
          ctx(2,3) e(1) sum.case record_task_execution_def by auto
      with running_items_frame [of t] keyed_frame [of t] reconcile_parent_running [of "env_actor env" i t'] e(2,3) g(3)
      show ?thesis by (auto simp: not_raised_def)
    next
      case False
      have "bq_blocking_state (non_completion_request env r) \<in> set blocked_states"
        by (simp add: non_completion_request_def blocked_states_def)
      then obtain e t' where e: "block_running_item i k (non_completion_request env r) (env_actor env) s1 = (Inr e, t')"
        "running_items t' = running_items s1 - {(i, k)}" "keyed_workflows t'"
        using block_running_stops [OF g(1) assms(2,3) _ g(2)] by metis
      have "workflows t = workflows t'" "not_raised fl"
        using assms(9)
        unfolding run None option.case execute_released_def r prod.case Let_def if_not_P [OF False]
          finish_non_completed_def block_for_non_completion_def ctx(2,3) e(1) sum.case record_task_execution_def
          not_raised_def by (auto split: if_splits)
      with running_items_frame [of t t'] keyed_frame [of t t'] e(2,3) g(3) show ?thesis by simp
    qed
  qed
qed

definition starts_nothing :: "db \<Rightarrow> db \<Rightarrow> bool" where
  "starts_nothing s t \<longleftrightarrow> (keyed_workflows s \<longrightarrow> running_items t \<subseteq> running_items s \<and> keyed_workflows t)"

lemma starts_nothing_frame: "workflows t = workflows s \<Longrightarrow> starts_nothing s t"
  using running_items_frame [of t s] keyed_frame [of t s] by (simp add: starts_nothing_def)

lemma starts_nothing_trans: "starts_nothing s t \<Longrightarrow> starts_nothing t u \<Longrightarrow> starts_nothing s u"
  by (auto simp: starts_nothing_def)

lemma block_dispatch_starts_nothing:
  "starts_nothing s (snd (block_dispatch_selected_item i k e v q a s))"
proof (cases "block_dispatch_selected_item i k e v q a s")
  case (Pair r t)
  show ?thesis
  proof (cases r)
    case (Inl x)
    with Pair have "t = s"
      by (auto simp: block_dispatch_selected_item_def record_block_def Let_def split: try_res_splits)
    with Pair show ?thesis by (simp add: starts_nothing_def)
  next
    case (Inr ck)
    then obtain w x where w: "get_workflow i s = Some w" "tget item_id_of k (wf_task_backlog w) = Some x"
      "bq_blocking_state q \<in> set blocked_states"
      "record_block ''block_dispatch_selected_queue_work_item'' w k x e q a s = (Inr ck, t)"
      using Pair by (auto simp: block_dispatch_selected_item_def blocking_state_required_Inr workflow_of_Inr item_of_Inr)
    let ?s1 = "bump_id ''queue_checkpoint'' s"
    let ?y = "block_item ?s1 (block_checkpoint s w k x e q) q x"
    have t: "workflows t = tput wf_id ((with_item ?s1 ?y w)\<lparr>wf_active_task_id := None,
       wf_checkpoint_history := wf_checkpoint_history w @ [be_id (block_checkpoint s w k x e q)]\<rparr>) (workflows s)"
      using w(4) by (auto simp: record_block_def Let_def put_workflow_def)
    have "\<not> raw_running ?y"
      using w(3) by (auto simp: raw_running_valid blocked_states_def)
    then show ?thesis
      using running_write [OF t, of w ?y] keyed_write [OF t] w(1) workflow_table.get_key [OF w(1)] Pair
      by (auto simp: starts_nothing_def)
  qed
qed

lemma stop_without_selection_starts_nothing:
  assumes "stop_without_selection env sel l s = (fl, l', t)"
  shows "starts_nothing s t"
proof (cases "dispatch_fail_closed_reason sel")
  case None
  with assms have "t = s" by (simp add: stop_without_selection_def)
  then show ?thesis by (simp add: starts_nothing_def)
next
  case (Some reason)
  have "starts_nothing s (snd (block_dispatch_selection_failure env sel reason s))"
  proof (cases "first_fail_closed_evaluation sel")
    case None
    then show ?thesis by (simp add: block_dispatch_selection_failure_def starts_nothing_def)
  next
    case (Some e)
    let ?b = "block_dispatch_selected_item (dc_workflow_id (de_candidate e)) (dc_item_id (de_candidate e))
      (dc_state (de_candidate e)) (dc_item_version (de_candidate e)) (release_block_request reason
        ''Repair the failed dispatch precondition, then resolve the queue blocker.'') (env_actor env) s"
    have "workflows (snd (block_dispatch_selection_failure env sel reason s)) = workflows (snd ?b)"
      using Some by (simp add: block_dispatch_selection_failure_def Let_def snd_then_op split: sum.split)
    from starts_nothing_frame [OF this] block_dispatch_starts_nothing starts_nothing_trans show ?thesis by blast
  qed
  then show ?thesis
    using assms Some by (auto simp: stop_without_selection_def split: prod.splits sum.splits)
qed

lemma run_round_starts_nothing:
  assumes "run_round env cfg l s = (fl, l', t)" and "router_keeps_workflows env"
  shows "starts_nothing s t"
proof -
  obtain r s1 where d: "dispatch_start (lc_workflow_ids cfg) (env_actor env) s = (r, s1)" by force
  show ?thesis
  proof (cases "\<exists>sel c. r = Inr sel \<and> ds_selected sel = Some c")
    case False
    then have same: "starts_nothing s s1"
      using dispatch_start_unwritten [OF d] starts_nothing_frame by blast
    show ?thesis
    proof (cases r)
      case (Inl e)
      with d assms(1) same show ?thesis by (simp add: run_round_def)
    next
      case (Inr sel)
      with False have "ds_selected sel = None" by auto
      with Inr d assms(1) have "\<exists>l1. stop_without_selection env sel l1 s1 = (fl, l', t)"
        by (auto simp: run_round_def Let_def)
      with same show ?thesis
        using stop_without_selection_starts_nothing starts_nothing_trans by blast
    qed
  next
    case True
    then obtain sel c where sel: "r = Inr sel" "ds_selected sel = Some c" by blast
    have run: "\<exists>l1. run_selected env cfg sel c l1 s1 = (fl, l', t)"
      using assms(1) d sel by (auto simp: run_round_def Let_def)
    show ?thesis
    proof (cases "keyed_workflows s")
      case keyed: True
      obtain w x y where w: "(w, x) \<in> items_in_scope (lc_workflow_ids cfg) s" "dispatchable s w x"
        "tget item_id_of (item_id_of x) (wf_task_backlog w) = Some y"
        "workflows s1 = tput wf_id ((with_item s (dispatched_item s y) w)\<lparr>wf_active_task_id := Some (item_id_of y)\<rparr>) (workflows s)"
        "dc_workflow_id c = wf_id w" "dc_item_id c = item_id_of x"
        using dispatch_start_shape [OF d [unfolded sel(1)] sel(2) keyed] by metis
      let ?w1 = "(with_item s (dispatched_item s y) w)\<lparr>wf_active_task_id := Some (item_id_of y)\<rparr>"
      have k: "item_id_of y = item_id_of x" using w(3) by (auto dest: tget_Some_mem)
      have g: "get_workflow (wf_id w) s1 = Some ?w1" using w(4) by (simp add: get_workflow_def)
      have run1: "running_items s1 = insert (wf_id w, item_id_of x) (running_items s)" "keyed_workflows s1"
        using running_write [OF w(4), of w "dispatched_item s y"] scope_stored [OF w(1) keyed] k
          keyed_write [OF w(4) keyed] by simp_all
      have state: "wf_workflow_state ?w1 \<in> set execution_eligible_states"
        using w(2) by (simp add: dispatchable_def context_dispatchable_def)
      obtain l1 where "run_selected env cfg sel c l1 s1 = (fl, l', t)" using run by blast
      from run_selected_stops [OF g _ _ state run1(2) assms(2) w(5,6) this, of "dispatched_item s y"] run1(1) k
      show ?thesis by (auto simp: starts_nothing_def)
    qed (simp add: starts_nothing_def)
  qed
qed

lemma run_rounds_starts_nothing:
  "router_keeps_workflows env \<Longrightarrow> run_rounds env cfg n l s = (e, l', t) \<Longrightarrow> starts_nothing s t"
proof (induction n arbitrary: l s)
  case 0
  then show ?case by (simp add: starts_nothing_def)
next
  case (Suc n)
  obtain fl l1 s1 where r: "run_round env cfg l s = (fl, l1, s1)" by (metis prod_cases3)
  have "starts_nothing s s1" by (rule run_round_starts_nothing [OF r Suc.prems(1)])
  with Suc r show ?case
    by (cases fl) (auto intro: starts_nothing_trans)
qed

lemma prepare_starts_nothing:
  assumes "planner_keeps_items env"
  shows "starts_nothing s (snd (prepare_workflow_plans env ids s))"
proof -
  have step: "starts_nothing s (snd (prepare_workflow env i t))" if st: "starts_nothing s t" for i t
  proof -
    let ?t1 = "reconcile_parent_task (env_actor env) i t"
    have "starts_nothing t ?t1"
      using reconcile_parent_running [of "env_actor env" i t] by (simp add: starts_nothing_def)
    moreover have "starts_nothing ?t1 (snd (prepare_workflow env i t))"
      using assms by (auto simp: prepare_workflow_def Let_def starts_nothing_def planner_keeps_items_def snd_then_op
          split: option.splits sum.splits)
    ultimately show ?thesis using st starts_nothing_trans by blast
  qed
  have "starts_nothing s (snd (map_op (prepare_workflow env) is s))" for "is"
    by (rule map_op_inv [of "is" "starts_nothing s"]) (use step in \<open>auto simp: starts_nothing_def\<close>)
  then show ?thesis
    by (auto simp: prepare_workflow_plans_def snd_then_op starts_nothing_def split: try_res_splits sum.splits)
qed

lemma finish_run_loop_workflows:
  "finish_run_loop env b l s = (l', t) \<Longrightarrow> workflows t = workflows s"
  by (auto simp: finish_run_loop_def Let_def)

lemma run_loop_workflows:
  assumes "run_loop env cfg s = (r, t)" and "prepare_workflow_plans env (lc_workflow_ids cfg) s = (r0, s0)"
  shows "t = s \<or> t = s0 \<or> (\<exists>n l e l1 s1. run_rounds env cfg n l s0 = (e, l1, s1) \<and> workflows t = workflows s1)"
proof (cases "lc_dispatcher_count cfg = 1 \<and> (\<exists>refs. r0 = Inr refs)")
  case False
  with assms show ?thesis
    by (cases "lc_dispatcher_count cfg = 1"; cases r0) (auto simp: run_loop_def)
next
  case True
  then obtain refs where refs: "lc_dispatcher_count cfg = 1" "r0 = Inr refs" by blast
  obtain e l1 s1 where rr: "run_rounds env cfg (nat (lc_max_tasks cfg)) (loop_result_of refs) s0 = (e, l1, s1)"
    by (metis prod_cases3)
  have run: "run_loop env cfg s = (r, t) \<Longrightarrow> workflows t = workflows s1"
    unfolding run_loop_def assms(2) refs then_op_simps rr prod.case
    by (cases e; (cases "the e")?) (auto split: prod.splits dest!: finish_run_loop_workflows)
  with rr assms(1) show ?thesis by blast
qed

section \<open>Example environment\<close>

definition ex_env :: "execution_outcome \<Rightarrow> runtime_env" where
  "ex_env outcome = \<lparr>env_actor = LUCIUS, env_prepare_plan = (\<lambda>i s. (Inr \<lparr>pr_workflow_id = i, pr_plan_id = ''I'',
     pr_plan_freeze_id = ''F'', pr_created_by_runtime = True\<rparr>, s)), env_router_id = ''router'',
     env_router_execute = (\<lambda>ctx s. (Inr (adapter_result_of outcome), s)), env_dict_text = (\<lambda>d. [])\<rparr>"

definition ex_loop_config :: loop_config where
  "ex_loop_config = \<lparr>lc_workflow_ids = None, lc_max_tasks = 1, lc_dispatcher_count = 1, lc_stop_on_block = False,
     lc_stop_on_escalation = True\<rparr>"

lemma ex_env_frames [simp]: "router_keeps_workflows (ex_env r)" "planner_keeps_items (ex_env r)"
  by (simp_all add: ex_env_def router_keeps_workflows_def planner_keeps_items_def)

section \<open>Properties\<close>

text \<open>Replacing the router changes only what is executed.\<close>

lemma other_router_simps:
  "block_pre_dispatch_failure (env\<lparr>env_router_execute := exec\<rparr>) = block_pre_dispatch_failure env"
  "block_dispatch_selection_failure (env\<lparr>env_router_execute := exec\<rparr>) = block_dispatch_selection_failure env"
  "non_completion_request (env\<lparr>env_router_execute := exec\<rparr>) = non_completion_request env"
  "record_task_execution (env\<lparr>env_router_execute := exec\<rparr>) = record_task_execution env"
  "task_record_of (env\<lparr>env_router_execute := exec\<rparr>) = task_record_of env"
  by (intro ext; simp add: block_pre_dispatch_failure_def block_dispatch_selection_failure_def
      non_completion_request_def record_task_execution_def task_record_of_def split: option.split)+

lemma other_router_actor:
  "env_actor (env\<lparr>env_router_execute := exec\<rparr>) = env_actor env"
  "env_router_id (env\<lparr>env_router_execute := exec\<rparr>) = env_router_id env"
  "env_router_execute (env\<lparr>env_router_execute := exec\<rparr>) = exec"
  by simp_all

lemma other_router:
  "stop_unreleased (env\<lparr>env_router_execute := exec\<rparr>) = stop_unreleased env"
  "stop_without_selection (env\<lparr>env_router_execute := exec\<rparr>) = stop_without_selection env"
  "finish_completed (env\<lparr>env_router_execute := exec\<rparr>) = finish_completed env"
  "finish_non_completed (env\<lparr>env_router_execute := exec\<rparr>) = finish_non_completed env"
  unfolding stop_unreleased_def stop_without_selection_def finish_completed_def finish_non_completed_def
    block_for_non_completion_def other_router_simps other_router_actor by (rule refl)+

lemma run_rounds_released:
  assumes "\<forall>ctx s. released ctx s \<longrightarrow> exec ctx s = env_router_execute env ctx s"
  shows "run_rounds (env\<lparr>env_router_execute := exec\<rparr>) cfg n l s = run_rounds env cfg n l s"
proof (induction n arbitrary: l s)
  case (Suc n)
  let ?env = "env\<lparr>env_router_execute := exec\<rparr>"
  note other = other_router_simps other_router
  have exec: "execute_released ?env cfg ctx l s = execute_released env cfg ctx l s"
    if "pre_dispatch_release_error ctx s = Inr None" for ctx l s
  proof -
    have eq: "exec ctx s = env_router_execute env ctx s"
      using assms release_granted [OF that] by blast
    show ?thesis
      unfolding execute_released_def execute_router_fail_closed_def other other_router_actor eq by (rule refl)
  qed
  then have sel: "run_selected ?env cfg = run_selected env cfg"
    by (intro ext) (auto simp: run_selected_def Let_def other split: sum.split option.split)
  have "run_round ?env cfg l s = run_round env cfg l s"
    unfolding run_round_def other other_router_actor sel by (rule refl)
  with Suc show ?case by (simp split: prod.split loop_flow.split)
qed simp

text \<open>C12. Release before execution: the loop gives the router only released executions. Two routers that
  agree wherever the selected item is running, its task is ready and evidently so since its last contract
  change, the active contract is valid and names the attached repository, and the frozen plan is that of
  the task, the project and the current contract version, are indistinguishable to a run of the loop.\<close>

theorem run_loop_consults_released_only:
  assumes "\<forall>ctx s. released ctx s \<longrightarrow> exec ctx s = env_router_execute env ctx s"
  shows "run_loop (env\<lparr>env_router_execute := exec\<rparr>) cfg s = run_loop env cfg s"
proof -
  let ?env = "env\<lparr>env_router_execute := exec\<rparr>"
  have "prepare_workflow ?env = prepare_workflow env"
    by (intro ext) (simp add: prepare_workflow_def Let_def split: option.split)
  then have plans: "prepare_workflow_plans ?env = prepare_workflow_plans env"
    by (intro ext) (simp add: prepare_workflow_plans_def)
  have finish: "finish_run_loop ?env = finish_run_loop env"
    by (intro ext) (simp add: finish_run_loop_def)
  show ?thesis
    unfolding run_loop_def run_rounds_released [OF assms] other_router_actor plans finish by (rule refl)
qed

theorem run_loop_consults_released_only_witness:
  "run_loop ((ex_env execution_outcome.BLOCKED)\<lparr>env_router_execute := (\<lambda>ctx s.
       if get_workflow (xc_workflow_id ctx) s = None then (Inl ''unreleased'', s)
       else env_router_execute (ex_env execution_outcome.BLOCKED) ctx s)\<rparr>) ex_loop_config empty_db
     = run_loop (ex_env execution_outcome.BLOCKED) ex_loop_config empty_db"
  by (rule run_loop_consults_released_only) (auto simp: released_def)

text \<open>C13. Nothing is left running: with a router that leaves the workflows alone and a planner that starts
  and stops nothing, a run of the loop, however it ends, leaves no item RUNNING that was not RUNNING before.\<close>

theorem run_loop_leaves_nothing_running:
  assumes "run_loop env cfg s = (r, t)" and "keyed_workflows s"
    and "router_keeps_workflows env" and "planner_keeps_items env"
  shows "running_items t \<subseteq> running_items s \<and> keyed_workflows t"
proof -
  obtain r0 s0 where p: "prepare_workflow_plans env (lc_workflow_ids cfg) s = (r0, s0)" by force
  have s0: "starts_nothing s s0"
    using prepare_starts_nothing [OF assms(4), of s "lc_workflow_ids cfg"] p by simp
  from run_loop_workflows [OF assms(1) p] have "starts_nothing s t"
  proof (elim disjE exE conjE)
    fix n l e l1 s1
    assume "run_rounds env cfg n l s0 = (e, l1, s1)" "workflows t = workflows s1"
    then show ?thesis
      using run_rounds_starts_nothing [OF assms(3)] s0 starts_nothing_frame starts_nothing_trans by metis
  qed (use s0 in \<open>auto simp: starts_nothing_def\<close>)
  with assms(2) show ?thesis by (simp add: starts_nothing_def)
qed

theorem run_loop_leaves_nothing_running_witness:
  "\<exists>r t. run_loop (ex_env execution_outcome.FAILED) ex_loop_config
       (ex_fleet [ex_item ''A'' queue_state.READY []] [] []) = (r, t) \<and> running_items t = {}"
proof -
  let ?s = "ex_fleet [ex_item ''A'' queue_state.READY []] [] []"
  obtain r t where run: "run_loop (ex_env execution_outcome.FAILED) ex_loop_config ?s = (r, t)" by force
  have "running_items ?s = {}"
    by (auto simp: running_items_def workflow_item_def get_workflow_def raw_running_def split: if_splits)
  with run_loop_leaves_nothing_running [OF run ex_fleet_keyed ex_env_frames] have "running_items t = {}" by simp
  with run show ?thesis by blast
qed

text \<open>The counts of a run and its records.\<close>

definition accounts :: "nat \<Rightarrow> loop_result \<Rightarrow> bool" where
  "accounts rounds l \<longleftrightarrow> lr_selected_tasks l \<le> rounds
     \<and> length (lr_scheduler_decisions l) \<le> rounds
     \<and> lr_completed_tasks l + lr_blocked_tasks l \<le> rounds
     \<and> lr_completed_tasks l \<le> length (filter (\<lambda>r. tr_outcome r = execution_outcome.COMPLETED) (lr_task_records l))
     \<and> length (lr_task_records l) \<le> lr_selected_tasks l"

lemma count_selection_simps [simp]:
  "lr_selected_tasks (count_selection sel ctx l) = lr_selected_tasks l + 1"
  "lr_scheduler_decisions (count_selection sel ctx l) = lr_scheduler_decisions l"
  "lr_completed_tasks (count_selection sel ctx l) = lr_completed_tasks l"
  "lr_blocked_tasks (count_selection sel ctx l) = lr_blocked_tasks l"
  "lr_task_records (count_selection sel ctx l) = lr_task_records l"
  by (simp_all add: count_selection_def Let_def)

lemma add_observability_simps [simp]:
  "lr_selected_tasks (add_observability r l) = lr_selected_tasks l"
  "lr_scheduler_decisions (add_observability r l) = lr_scheduler_decisions l"
  "lr_completed_tasks (add_observability r l) = lr_completed_tasks l"
  "lr_blocked_tasks (add_observability r l) = lr_blocked_tasks l"
  "lr_task_records (add_observability r l) = lr_task_records l"
  by (simp_all add: add_observability_def)

lemma execute_released_accounts:
  assumes "execute_released env cfg ctx l s = (fl, l', t)"
  shows "lr_selected_tasks l' = lr_selected_tasks l \<and> lr_scheduler_decisions l' = lr_scheduler_decisions l
    \<and> lr_completed_tasks l' + lr_blocked_tasks l' \<le> lr_completed_tasks l + lr_blocked_tasks l + 1
    \<and> (\<exists>r. lr_task_records l' = lr_task_records l @ [r]
        \<and> (lr_completed_tasks l' = lr_completed_tasks l
          \<or> tr_outcome r = execution_outcome.COMPLETED \<and> lr_completed_tasks l' = lr_completed_tasks l + 1))"
proof -
  obtain r s1 where r: "execute_router_fail_closed env ctx s = (r, s1)" by force
  have rec: "tr_outcome (task_record_of env ctx r) = ar_outcome r" by (simp add: task_record_of_def)
  show ?thesis
    using assms rec
    by (cases "ar_outcome r = execution_outcome.COMPLETED")
      (auto simp: execute_released_def r Let_def finish_completed_def finish_non_completed_def
        split: prod.splits sum.splits if_splits)
qed

lemma run_round_accounts:
  assumes "run_round env cfg l s = (fl, l', t)" and "accounts n l"
  shows "accounts (Suc n) l'"
proof -
  obtain r s1 where d: "dispatch_start (lc_workflow_ids cfg) (env_actor env) s = (r, s1)" by force
  show ?thesis
  proof (cases r)
    case (Inl e)
    with assms d show ?thesis by (auto simp: run_round_def accounts_def)
  next
    case (Inr sel)
    let ?l = "l\<lparr>lr_scheduler_decisions := lr_scheduler_decisions l @ [sel]\<rparr>"
    show ?thesis
    proof (cases "ds_selected sel")
      case None
      with assms d Inr have "stop_without_selection env sel ?l s1 = (fl, l', t)"
        by (simp add: run_round_def Let_def)
      with assms(2) show ?thesis
        by (auto simp: stop_without_selection_def accounts_def split: option.splits prod.splits sum.splits)
    next
      case (Some c)
      with assms(1) d Inr have run: "run_selected env cfg sel c ?l s1 = (fl, l', t)"
        by (simp add: run_round_def Let_def)
      show ?thesis
      proof (cases "execution_context_of (dc_workflow_id c) (dc_item_id c) s1")
        case (Inl e)
        with run assms(2) show ?thesis by (auto simp: run_selected_def accounts_def)
      next
        case (Inr ctx)
        let ?l1 = "count_selection sel ctx ?l"
        consider e where "pre_dispatch_release_error ctx s1 = Inl e"
          | m where "pre_dispatch_release_error ctx s1 = Inr (Some m)" | "pre_dispatch_release_error ctx s1 = Inr None"
          by (metis not_Some_eq obj_sumE)
        then show ?thesis
        proof cases
          case 3
          with run Inr have "execute_released env cfg ctx ?l1 s1 = (fl, l', t)"
            by (simp add: run_selected_def Let_def)
          from execute_released_accounts [OF this] assms(2) show ?thesis
            by (auto simp: accounts_def)
        qed (use run Inr assms(2) in \<open>auto simp: run_selected_def Let_def stop_unreleased_def accounts_def
              split: prod.splits sum.splits\<close>)
      qed
    qed
  qed
qed

lemma run_rounds_accounts:
  "run_rounds env cfg n l s = (e, l', t) \<Longrightarrow> accounts m l \<Longrightarrow> accounts (m + n) l'"
proof (induction n arbitrary: l s m)
  case (Suc n)
  obtain fl l1 s1 where r: "run_round env cfg l s = (fl, l1, s1)" by (metis prod_cases3)
  have a: "accounts (Suc m) l1" by (rule run_round_accounts [OF r Suc.prems(2)])
  moreover have "accounts k l1 \<Longrightarrow> k \<le> k' \<Longrightarrow> accounts k' l1" for k k' by (auto simp: accounts_def)
  ultimately show ?case
    using Suc r by (cases fl) (auto dest!: Suc.IH [OF _ a])
qed simp

lemma run_loop_accounts:
  assumes "run_loop env cfg s = (Inr l, t)"
  shows "accounts (nat (lc_max_tasks cfg)) l"
proof -
  obtain refs s0 where p: "lc_dispatcher_count cfg = 1" "prepare_workflow_plans env (lc_workflow_ids cfg) s = (Inr refs, s0)"
    using assms by (auto simp: run_loop_def then_op_Inr)
  obtain e l1 s1 where rr: "run_rounds env cfg (nat (lc_max_tasks cfg)) (loop_result_of refs) s0 = (e, l1, s1)"
    by (metis prod_cases3)
  have "accounts (nat (lc_max_tasks cfg)) l1"
    using run_rounds_accounts [OF rr, of 0] by (simp add: accounts_def loop_result_of_def)
  then have a: "accounts (nat (lc_max_tasks cfg)) (l1\<lparr>lr_status := st, lr_stopped_reason := sr\<rparr>)"
    "accounts (nat (lc_max_tasks cfg)) l1" for st sr
    by (simp_all add: accounts_def)
  have fin: "accounts n l'" if "finish_run_loop env b l2 s2 = (l', t')" "accounts n l2" for n b l2 s2 l' t'
    using that by (auto simp: finish_run_loop_def Let_def accounts_def)
  show ?thesis
    using assms unfolding run_loop_def p then_op_simps rr prod.case
    by (cases e; (cases "the e")?) (auto split: prod.splits intro: fin a)
qed

text \<open>A bounded run: a run that returns has selected at most \<open>max_tasks\<close> tasks in as many dispatch
  cycles, has completed or blocked at most one per cycle, counts as completed only tasks whose execution
  reported completion, and keeps at most one record per selected task.\<close>

theorem run_loop_is_bounded:
  assumes "run_loop env cfg s = (Inr l, t)"
  shows "lr_selected_tasks l \<le> nat (lc_max_tasks cfg)
    \<and> length (lr_scheduler_decisions l) \<le> nat (lc_max_tasks cfg)
    \<and> lr_completed_tasks l + lr_blocked_tasks l \<le> nat (lc_max_tasks cfg)
    \<and> lr_completed_tasks l \<le> length (filter (\<lambda>r. tr_outcome r = execution_outcome.COMPLETED) (lr_task_records l))
    \<and> length (lr_task_records l) \<le> lr_selected_tasks l"
  using run_loop_accounts [OF assms] by (simp add: accounts_def)

lemma ex_loop_returns: "\<exists>l t. run_loop (ex_env r) ex_loop_config (ex_fleet [] [] []) = (Inr l, t)"
proof -
  let ?s = "ex_fleet [] [] []"
  have plans: "prepare_workflow_plans (ex_env r) None ?s = (Inr [], ?s)"
    by (simp add: prepare_workflow_plans_def loop_workflow_ids_def list_or_def Let_def)
  obtain d s1 where sel: "dispatch_select None LUCIUS ?s = (Inr d, s1)" using ex_fleet_select by blast
  have none: "ds_selected d = None"
    using dispatch_select_Some [OF sel] by (cases "ds_selected d") (auto simp: ex_fleet_scope)
  have start: "dispatch_start None LUCIUS ?s = (Inr d, s1)"
    using sel none by (simp add: dispatch_start_def)
  obtain bs r' s' where bs: "workflow_bundles None ?s = Inr bs" "decide_dispatch (fresh_id ''audit'' ?s) s' bs = (d, r')"
    using dispatch_select_Inr [OF sel] by metis
  have "bs = []"
    using bs(1) by (auto simp: workflow_bundles_def list_or_def Let_def filter_empty_conv)
  then have "ds_excluded_candidates d = []"
    using bs(2) by (auto simp: decide_dispatch_def running_evaluations_def eligible_evaluations_def
        excluded_evaluations_def ordered_candidates_def selection_of_def)
  then have "dispatch_fail_closed_reason d = None"
    by (simp add: dispatch_fail_closed_reason_def first_fail_closed_evaluation_def)
  then have "\<exists>l. run_round (ex_env r) ex_loop_config (loop_result_of []) ?s = (Break, l, s1)"
    using start none by (simp add: run_round_def ex_env_def ex_loop_config_def stop_without_selection_def Let_def)
  then obtain l where "run_rounds (ex_env r) ex_loop_config 1 (loop_result_of []) ?s = (None, l, s1)"
    by (auto simp: One_nat_def)
  then show ?thesis
    using plans by (simp add: run_loop_def ex_loop_config_def split: prod.split)
qed

theorem run_loop_is_bounded_witness:
  "\<exists>l t. run_loop (ex_env execution_outcome.COMPLETED) ex_loop_config (ex_fleet [] [] []) = (Inr l, t)
    \<and> lr_selected_tasks l \<le> 1"
proof -
  obtain l t where run: "run_loop (ex_env execution_outcome.COMPLETED) ex_loop_config (ex_fleet [] [] []) = (Inr l, t)"
    using ex_loop_returns by blast
  from run_loop_is_bounded [OF run] run show ?thesis by (auto simp: ex_loop_config_def)
qed

lemma reconcile_parent_tasks:
  assumes "get_workflow i s = Some w" and "get_if get_task (wf_task_id w) s = Some task"
    and "workflow_successfully_completed w"
  shows "tasks (reconcile_parent_task a i s) = (if t_status task = completed_workflow_task_status (t_id task) s
      \<and> wf_workflow_state w = COMPLETED_PENDING_INTEGRATION then tasks s
    else tput t_id (reconciled_task (completed_workflow_task_status (t_id task) s) s task) (tasks s))"
  unfolding reconcile_parent_task_def assms(1) option.case assms(2) Let_def
  using assms(3) by (simp add: put_task_def put_workflow_def)

text \<open>C14. The parent task: the reconciliation changes the status of a task only if it is the task of that
  workflow, every item of the workflow is COMPLETED, nothing is pending or active, and the ids recorded as
  completed are those of the items; the new status is COMPLETE exactly when the documentation duty of the
  active contract is met, and otherwise DOCUMENTATION_PENDING.\<close>

theorem parent_task_follows_completed_work:
  assumes "get_task k s = Some x" and "get_task k (reconcile_parent_task a i s) = Some y"
    and "t_status y \<noteq> t_status x"
  shows "\<exists>w. get_workflow i s = Some w \<and> wf_task_id w = Some k \<and> wf_task_backlog w \<noteq> []
    \<and> (\<forall>z \<in> set (wf_task_backlog w). qi_state z = Text ''COMPLETED'')
    \<and> wf_active_task_id w = None \<and> wf_pending_task_ids w = []
    \<and> item_id_of ` set (wf_task_backlog w) = set (wf_completed_task_ids w)
    \<and> (let documented = (case active_contract k s of None \<Rightarrow> True | Some c \<Rightarrow>
            c_documentation_required c \<longrightarrow> (\<exists>d. completion_of k s = Some d
              \<and> set (c_documentation_targets c) \<subseteq> set (d_targets_completed d) \<and> d_evidence_references d \<noteq> []))
        in t_status y = (if documented then COMPLETE else DOCUMENTATION_PENDING))"
proof -
  have changed: "get_task k (reconcile_parent_task a i s) \<noteq> get_task k s"
    using assms by auto
  then obtain w task where w: "get_workflow i s = Some w" "get_if get_task (wf_task_id w) s = Some task"
    "workflow_successfully_completed w"
    by (auto simp: reconcile_parent_task_def split: option.splits if_splits)
  define target where "target = completed_workflow_task_status (t_id task) s"
  have get: "get_task k (reconcile_parent_task a i s) =
      (if t_id task = k then Some (reconciled_task target s task) else get_task k s)"
    using changed unfolding get_task_def reconcile_parent_tasks [OF w] target_def
    by (simp add: reconciled_task_def split: if_splits)
  then have k: "t_id task = k" "y = reconciled_task target s task"
    using changed assms(2) by (auto split: if_splits)
  have task: "wf_task_id w = Some k"
    using w(2) k(1) by (auto simp: get_task_def dest: tget_Some_mem)
  have items: "\<forall>z \<in> set (wf_task_backlog w). qi_state z = Text ''COMPLETED''"
  proof
    fix z
    assume "z \<in> set (wf_task_backlog w)"
    then have "parent_state_of z = Some queue_state.COMPLETED"
      using w(3) by (simp add: workflow_successfully_completed_def list_all_iff)
    then show "qi_state z = Text ''COMPLETED''"
      using queue_state_of_Some [of _ queue_state.COMPLETED]
      by (auto simp: parent_state_of_def split: raw_field.splits)
  qed
  have "t_status y = target" using k(2) by (simp add: reconciled_task_def)
  then show ?thesis
    using w(1,3) task items k(1)
    by (intro exI [of _ w]) (auto simp: workflow_successfully_completed_def target_def
        completed_workflow_task_status_def Let_def split: option.split)
qed

text \<open>A workflow with one completed item and a task in a given status.\<close>

definition ex_finished :: "task_status \<Rightarrow> db" where
  "ex_finished st = empty_db\<lparr>tasks := [ex_task ''A'' st], workflows := [(ex_workflow ''W'' [ex_item ''I'' queue_state.COMPLETED []])
     \<lparr>wf_task_id := Some ''A'', wf_completed_task_ids := [''I'']\<rparr>]\<rparr>"

lemma ex_finished_reconciled:
  assumes "st \<noteq> COMPLETE"
  shows "\<exists>y. get_task ''A'' (reconcile_parent_task LUCIUS ''W'' (ex_finished st)) = Some y \<and> t_status y = COMPLETE"
proof -
  define w where "w = (ex_workflow ''W'' [ex_item ''I'' queue_state.COMPLETED []])
     \<lparr>wf_task_id := Some ''A'', wf_completed_task_ids := [''I'']\<rparr>"
  have w: "get_workflow ''W'' (ex_finished st) = Some w" "get_if get_task (wf_task_id w) (ex_finished st) = Some (ex_task ''A'' st)"
    by (simp_all add: ex_finished_def get_workflow_def get_task_def w_def ex_workflow_def ex_task_def)
  have "parent_state_of (ex_item ''I'' queue_state.COMPLETED []) = Some queue_state.COMPLETED"
    using queue_state_of_value [of queue_state.COMPLETED] by (simp add: parent_state_of_def ex_item_def)
  then have fin: "workflow_successfully_completed w"
    by (simp add: workflow_successfully_completed_def w_def ex_workflow_def)
  have target: "completed_workflow_task_status (t_id (ex_task ''A'' st)) (ex_finished st) = COMPLETE"
    by (simp add: completed_workflow_task_status_def active_contract_def ex_finished_def empty_db_def)
  have "get_task ''A'' (reconcile_parent_task LUCIUS ''W'' (ex_finished st))
      = Some (reconciled_task COMPLETE (ex_finished st) (ex_task ''A'' st))"
    unfolding reconcile_parent_task_def w(1) option.case w(2) target Let_def
    using assms fin by (simp add: get_task_def put_task_def put_workflow_def reconciled_task_def ex_task_def)
  then show ?thesis by (simp add: reconciled_task_def)
qed

theorem parent_task_follows_completed_work_witness:
  "\<exists>w. get_workflow ''W'' (ex_finished task_status.READY) = Some w \<and> wf_task_id w = Some ''A''
    \<and> wf_pending_task_ids w = []"
proof -
  have x: "get_task ''A'' (ex_finished task_status.READY) = Some (ex_task ''A'' task_status.READY)"
    by (simp add: ex_finished_def get_task_def ex_task_def)
  obtain y where y: "get_task ''A'' (reconcile_parent_task LUCIUS ''W'' (ex_finished task_status.READY)) = Some y"
    "t_status y = COMPLETE"
    using ex_finished_reconciled [of task_status.READY] by auto
  have "t_status y \<noteq> t_status (ex_task ''A'' task_status.READY)" using y(2) by (simp add: ex_task_def)
  from parent_task_follows_completed_work [OF x y(1) this] show ?thesis by blast
qed

section \<open>Findings\<close>

text \<open>The reconciliation looks at no status of the task: it completes a cancelled one.\<close>

lemma cancelled_task_completes:
  "\<exists>y. get_task ''A'' (ex_finished task_status.CANCELLED) = Some (ex_task ''A'' task_status.CANCELLED)
    \<and> get_task ''A'' (reconcile_parent_task LUCIUS ''W'' (ex_finished task_status.CANCELLED)) = Some y
    \<and> t_status y = COMPLETE"
  using ex_finished_reconciled [of task_status.CANCELLED]
  by (auto simp: ex_finished_def get_task_def ex_task_def)

text \<open>The escalations of an execution that did not complete are counted twice.\<close>

lemma escalations_counted_twice:
  assumes "execute_router_fail_closed env ctx s = (r, s1)" and "ar_outcome r \<noteq> execution_outcome.COMPLETED"
    and "block_for_non_completion env ctx r s1 = (Inr ck, s2)"
  shows "lr_escalations (fst (snd (execute_released env cfg ctx l s))) = lr_escalations l + 2 * ar_escalations r"
  using assms by (simp add: execute_released_def Let_def finish_non_completed_def add_observability_def)

text \<open>A candidate whose state is malformed counts as FAILED, so the reason that should stop the loop is
  never found.\<close>

lemma malformed_state_does_not_stop:
  assumes "raw_state x = None" and "ds_excluded_candidates sel = [evaluation_of (bundle_of s w) s x]"
  shows "''QUEUE_STATE_MALFORMED_OR_MISSING'' \<in> set (de_reasons (evaluation_of (bundle_of s w) s x))
    \<and> dispatch_fail_closed_reason sel = None"
proof -
  have "''QUEUE_STATE_MALFORMED_OR_MISSING'' \<in> set (eligibility_reasons (bundle_of s w) x s)"
    using assms(1) by (simp add: eligibility_reasons_def Let_def state_reasons_def)
  then have "''QUEUE_STATE_MALFORMED_OR_MISSING'' \<in> set (de_reasons (evaluation_of (bundle_of s w) s x))"
    by (auto simp: evaluation_of_def Let_def)
  then show ?thesis
    using assms by (simp add: dispatch_fail_closed_reason_def first_fail_closed_evaluation_def)
qed

end
