(* ===== verification/Continuation.thy ===== *)
theory Continuation
  imports Runtime_Loop Models
begin

text \<open>
  The bounded continuation of \<^verbatim>\<open>lucius/runtime/continuation.py\<close>: a session opens or
  recovers its mission and then repeats one-task runs of the execution loop. When a run selects
  nothing it re-evaluates the waits of the mission, asks the feeder for work, and otherwise stops with
  what it waits for and when to wake. The budgets on wall clock, cycles and failures are checked before
  each cycle; the sleep between two sessions is the loop of \<open>sleep_until_next_wake_or_recheck\<close>.
  The feeder is an optional collaborator of the service; a session takes it as a function from the
  number of tasks it has fed and the store to the workflows of the tasks it adds. The ids drawn from
  \<open>uuid4\<close> are arguments of the session.
\<close>

section \<open>Budgets and results\<close>

datatype continuation_stop = IDLE_NO_ELIGIBLE_WORK | IDLE_NO_WORK_EXISTS | WAITING_NO_CURRENTLY_RUNNABLE_WORK
  | SESSION_WALL_BUDGET_REACHED | SESSION_CYCLE_BUDGET_REACHED | FAILURE_BUDGET_REACHED | AUTHORITY_EXHAUSTED
  | ESCALATION_STOP

primrec continuation_stop_value :: "continuation_stop \<Rightarrow> string" where
  "continuation_stop_value IDLE_NO_ELIGIBLE_WORK = ''IDLE_NO_ELIGIBLE_WORK''"
| "continuation_stop_value IDLE_NO_WORK_EXISTS = ''IDLE_NO_WORK_EXISTS''"
| "continuation_stop_value WAITING_NO_CURRENTLY_RUNNABLE_WORK = ''WAITING_NO_CURRENTLY_RUNNABLE_WORK''"
| "continuation_stop_value SESSION_WALL_BUDGET_REACHED = ''SESSION_WALL_BUDGET_REACHED''"
| "continuation_stop_value SESSION_CYCLE_BUDGET_REACHED = ''SESSION_CYCLE_BUDGET_REACHED''"
| "continuation_stop_value FAILURE_BUDGET_REACHED = ''FAILURE_BUDGET_REACHED''"
| "continuation_stop_value AUTHORITY_EXHAUSTED = ''AUTHORITY_EXHAUSTED''"
| "continuation_stop_value ESCALATION_STOP = ''ESCALATION_STOP''"

record session_budget =
  sb_max_wall_seconds :: rat
  sb_max_cycles :: int
  sb_max_consecutive_failures :: int
  sb_max_total_failures :: int
  sb_max_provider_calls :: int
  sb_max_active_worktrees :: int

definition default_session_budget :: session_budget where
  "default_session_budget = \<lparr>sb_max_wall_seconds = 14400, sb_max_cycles = 50, sb_max_consecutive_failures = 3,
     sb_max_total_failures = 5, sb_max_provider_calls = 100, sb_max_active_worktrees = 3\<rparr>"

record cycle_record =
  cy_cycle_number :: nat
  cy_task_id :: "string option"
  cy_workflow_id :: "string option"
  cy_project_id :: "string option"
  cy_outcome :: "string option"
  cy_stopped_reason :: "string option"
  cy_duration_seconds :: rat

record session_result =
  sr_status :: string
  sr_stop_reason :: string
  sr_cycles_attempted :: nat
  sr_tasks_selected :: nat
  sr_tasks_completed :: nat
  sr_tasks_blocked :: nat
  sr_tasks_failed :: nat
  sr_project_switches :: nat
  sr_feeder_invocations :: nat
  sr_tasks_fed :: nat
  sr_consecutive_failures :: nat
  sr_total_failures :: nat
  sr_provider_calls :: nat
  sr_wall_clock_duration_seconds :: rat
  sr_operator_corrections :: nat
  sr_post_launch_external_instructions :: nat
  sr_cycle_records :: "cycle_record list"
  sr_project_ids_seen :: "string list"
  sr_next_wake :: "timestamp option"
  sr_sleep_recommended_seconds :: rat

definition new_session_result :: session_result where
  "new_session_result = \<lparr>sr_status = ''IDLE'', sr_stop_reason = continuation_stop_value IDLE_NO_ELIGIBLE_WORK,
     sr_cycles_attempted = 0, sr_tasks_selected = 0, sr_tasks_completed = 0, sr_tasks_blocked = 0, sr_tasks_failed = 0,
     sr_project_switches = 0, sr_feeder_invocations = 0, sr_tasks_fed = 0, sr_consecutive_failures = 0,
     sr_total_failures = 0, sr_provider_calls = 0, sr_wall_clock_duration_seconds = 0, sr_operator_corrections = 0,
     sr_post_launch_external_instructions = 0, sr_cycle_records = [], sr_project_ids_seen = [], sr_next_wake = None,
     sr_sleep_recommended_seconds = 0\<rparr>"

text \<open>The service with its collaborators, the arguments of a session, and the locals of its loop.\<close>

record session_env =
  se_runtime :: runtime_env
  se_actor :: actor
  se_feed :: "(nat \<Rightarrow> db \<Rightarrow> string list res \<times> nat \<times> db) option"
  se_path_exists :: "string \<Rightarrow> bool"

record session_request =
  sq_workflow_ids :: "string list option"
  sq_stop_on_block :: bool
  sq_mission_id :: "string option"
  sq_attempt_id :: "string option"
  sq_canonical_sha :: "string option"
  sq_recheck_interval_seconds :: rat
  sq_new_mission_id :: string
  sq_new_attempt_id :: string

record session_state =
  ss_result :: session_result
  ss_workflows :: "string list option"
  ss_feeder_exhausted :: bool
  ss_last_project_id :: "string option"
  ss_total_fed :: nat

datatype session_flow = Next session_state | Stop session_result

section \<open>The start of a session\<close>

definition audit_session :: "actor \<Rightarrow> string \<Rightarrow> string \<Rightarrow> string \<Rightarrow> json_object \<Rightarrow> db \<Rightarrow> db" where
  "audit_session actor event_type action result metadata =
     audit_record event_type (actor_value actor) None None None None L0 action result metadata"

definition current_attempt :: "mission_record \<Rightarrow> json" where
  "current_attempt m = (case jget ''current_attempt_id'' (mi_metadata (fst m)) of None \<Rightarrow> JNull | Some v \<Rightarrow> v)"

text \<open>The mission of the session and the attempt it runs under.\<close>

definition open_mission :: "session_env \<Rightarrow> session_request \<Rightarrow> db \<Rightarrow> (string \<times> json) res \<times> db" where
  "open_mission env q s =
     (let sha = or_else (sq_canonical_sha q) ''HEAD'';
          attempt = (case sq_attempt_id q of None \<Rightarrow> sq_new_attempt_id q | Some a \<Rightarrow> a);
          create = (\<lambda>i s0. then_op (create_mission (se_actor env) sha [] i attempt s0)
            (\<lambda>m s1. (Inr (i, current_attempt m), s1)))
      in case sq_mission_id q of
        None \<Rightarrow> create (sq_new_mission_id q) s
      | Some i \<Rightarrow> then_op (get_mission_record i s) (\<lambda>existing s1.
          if existing = None then create i s1
          else if truthy (sq_canonical_sha q)
          then then_op (recover_mission (se_actor env) i (sq_canonical_sha q) None attempt s1)
            (\<lambda>m s2. (Inr (i, current_attempt m), s2))
          else (Inr (i, jtext (sq_attempt_id q)), s1)))"

definition budget_json :: "session_budget \<Rightarrow> json" where
  "budget_json b = JObj [(''max_wall_seconds'', JFloat (sb_max_wall_seconds b)), (''max_cycles'', JInt (sb_max_cycles b)),
     (''max_consecutive_failures'', JInt (sb_max_consecutive_failures b)),
     (''max_total_failures'', JInt (sb_max_total_failures b)), (''max_provider_calls'', JInt (sb_max_provider_calls b)),
     (''max_active_worktrees'', JInt (sb_max_active_worktrees b))]"

definition workflow_ids_json :: "string list option \<Rightarrow> json" where
  "workflow_ids_json ids = (case ids of None \<Rightarrow> JNull | Some l \<Rightarrow> jtexts l)"

definition audit_started :: "session_env \<Rightarrow> session_budget \<Rightarrow> session_request \<Rightarrow> string \<Rightarrow> json \<Rightarrow> db \<Rightarrow> db" where
  "audit_started env b q mission attempt = audit_session (se_actor env) ''BOUNDED_CONTINUATION_SESSION_STARTED''
     ''run_session'' ''STARTED'' [(''budget'', budget_json b), (''workflow_ids'', workflow_ids_json (sq_workflow_ids q)),
       (''mission_id'', JStr mission), (''attempt_id'', attempt)]"

section \<open>One cycle\<close>

text \<open>The budgets, in the order in which they are checked.\<close>

definition budget_stop :: "session_budget \<Rightarrow> session_result \<Rightarrow> (continuation_stop \<times> string) option" where
  "budget_stop b r =
     (if sr_wall_clock_duration_seconds r \<ge> sb_max_wall_seconds b
      then Some (SESSION_WALL_BUDGET_REACHED, ''BUDGET_EXHAUSTED'')
      else if int (sr_cycles_attempted r) \<ge> sb_max_cycles b
      then Some (SESSION_CYCLE_BUDGET_REACHED, ''BUDGET_EXHAUSTED'')
      else if int (sr_consecutive_failures r) \<ge> sb_max_consecutive_failures b
        \<or> int (sr_total_failures r) \<ge> sb_max_total_failures b
      then Some (FAILURE_BUDGET_REACHED, ''FAILED'')
      else None)"

definition cycle_config :: "session_request \<Rightarrow> session_state \<Rightarrow> loop_config" where
  "cycle_config q st = \<lparr>lc_workflow_ids = ss_workflows st, lc_max_tasks = 1, lc_dispatcher_count = 1,
     lc_stop_on_block = sq_stop_on_block q, lc_stop_on_escalation = True\<rparr>"

definition new_cycle_record :: "nat \<Rightarrow> rat \<Rightarrow> cycle_record" where
  "new_cycle_record n duration = \<lparr>cy_cycle_number = n, cy_task_id = None, cy_workflow_id = None, cy_project_id = None,
     cy_outcome = None, cy_stopped_reason = None, cy_duration_seconds = duration\<rparr>"

definition count_project :: "string option \<Rightarrow> session_state \<Rightarrow> session_state" where
  "count_project p st =
     (if truthy p
      then let r = ss_result st;
               seen = append_new (sr_project_ids_seen r) [the p];
               switched = (ss_last_project_id st \<noteq> None \<and> p \<noteq> ss_last_project_id st)
           in st\<lparr>ss_result := r\<lparr>sr_project_ids_seen := seen,
                sr_project_switches := sr_project_switches r + (if switched then 1 else 0)\<rparr>, ss_last_project_id := p\<rparr>
      else st)"

definition count_outcome :: "task_record \<Rightarrow> session_result \<Rightarrow> session_result" where
  "count_outcome rec r =
     (case tr_outcome rec of
        execution_outcome.COMPLETED \<Rightarrow> r\<lparr>sr_consecutive_failures := 0\<rparr>
      | execution_outcome.FAILED \<Rightarrow>
          if task_local_failure (tr_failure_class rec) then r\<lparr>sr_consecutive_failures := 0\<rparr>
          else r\<lparr>sr_tasks_failed := sr_tasks_failed r + 1, sr_total_failures := sr_total_failures r + 1,
                 sr_consecutive_failures := sr_consecutive_failures r + 1\<rparr>
      | execution_outcome.BLOCKED \<Rightarrow> r\<lparr>sr_consecutive_failures := 0\<rparr>
      | execution_outcome.ESCALATED \<Rightarrow> r)"

definition count_task :: "task_record \<Rightarrow> session_state \<Rightarrow> session_state" where
  "count_task rec st = (let st1 = count_project (tr_project_id rec) st
     in st1\<lparr>ss_result := count_outcome rec (ss_result st1)\<rparr>)"

definition cycle_record_of :: "task_record list \<Rightarrow> cycle_record \<Rightarrow> cycle_record" where
  "cycle_record_of recs cy =
     (if recs = [] then cy
      else cy\<lparr>cy_task_id := Some (tr_item_id (last recs)), cy_workflow_id := Some (tr_workflow_id (last recs)),
              cy_project_id := tr_project_id (last recs), cy_outcome := Some (outcome_value (tr_outcome (last recs)))\<rparr>)"

text \<open>A cycle that selected a task: its counts, its record, and the stop after an escalation.\<close>

definition after_selection :: "loop_result \<Rightarrow> cycle_record \<Rightarrow> session_state \<Rightarrow> session_flow" where
  "after_selection l cy st =
     (let r = ss_result st;
          st1 = st\<lparr>ss_result := r\<lparr>sr_tasks_selected := sr_tasks_selected r + lr_selected_tasks l,
            sr_tasks_completed := sr_tasks_completed r + lr_completed_tasks l,
            sr_tasks_blocked := sr_tasks_blocked r + lr_blocked_tasks l\<rparr>\<rparr>;
          st2 = (if lr_task_records l = [] then st1 else count_task (last (lr_task_records l)) st1);
          r2 = ss_result st2;
          r3 = r2\<lparr>sr_cycle_records := sr_cycle_records r2 @ [cycle_record_of (lr_task_records l) cy]\<rparr>
      in if lr_status l = loop_status.ESCALATED
         then Stop (r3\<lparr>sr_stop_reason := continuation_stop_value ESCALATION_STOP, sr_status := ''ESCALATED''\<rparr>)
         else Next (st2\<lparr>ss_result := r3\<rparr>))"

definition after_failed_dispatch :: "loop_result \<Rightarrow> cycle_record \<Rightarrow> session_state \<Rightarrow> session_flow" where
  "after_failed_dispatch l cy st =
     (let r = ss_result st
      in Stop (r\<lparr>sr_cycle_records := sr_cycle_records r @ [cy\<lparr>cy_stopped_reason := lr_stopped_reason l\<rparr>],
                 sr_stop_reason := or_else (lr_stopped_reason l) ''DISPATCH_FAILED'', sr_status := ''FAILED''\<rparr>))"

text \<open>The waits of the mission that are not cleared, read as \<open>get_mission\<close> reads them.\<close>

definition open_waits :: "string \<Rightarrow> db \<Rightarrow> wait_row list res \<times> db" where
  "open_waits mission s =
     (if mission = [] then (Inr [], s)
      else then_op (get_mission_record mission s)
        (\<lambda>m s1. (Inr (case m of None \<Rightarrow> [] | Some (_, ws) \<Rightarrow> uncleared ws), s1)))"

definition session_waiting_states :: "queue_state list" where
  "session_waiting_states = [WAITING_RESOURCE, WAITING_RESOURCE_SHORT, WAITING_RESOURCE_LONG, WAITING_DEPENDENCY,
     WAITING_SCHEDULE, BLOCKED_AUTHORITY, BLOCKED_DECISION]"

definition session_waiting_classes :: "wait_class list" where
  "session_waiting_classes = [RESOURCE, RESOURCE_SHORT, RESOURCE_LONG, DEPENDENCY, SCHEDULE, AUTHORITY, DECISION]"

definition waiting_count :: "wait_row list \<Rightarrow> db \<Rightarrow> nat" where
  "waiting_count unc s =
     (let items = length (filter (has_state session_waiting_states) (all_items s));
          waits = length (filter (\<lambda>w. w_wait_class w \<in> set session_waiting_classes) unc)
      in if items = 0 then waits else items)"

definition idle_verdict :: "mission_record option \<Rightarrow> nat \<Rightarrow> continuation_stop \<times> string" where
  "idle_verdict m waiting =
     (if (case m of None \<Rightarrow> False | Some (row, _) \<Rightarrow> mi_status row = mission_status.COMPLETED)
      then (IDLE_NO_ELIGIBLE_WORK, ''COMPLETED'')
      else if waiting > 0 then (WAITING_NO_CURRENTLY_RUNNABLE_WORK, ''WAITING'')
      else (IDLE_NO_ELIGIBLE_WORK, ''IDLE''))"

text \<open>The next wake: the earliest retry of an open wait when it lies ahead, otherwise the interval of
  the next look. A \<open>timedelta\<close> rounds to whole microseconds.\<close>

definition retry_dates :: "wait_row list \<Rightarrow> timestamp list" where
  "retry_dates unc = concat (map (\<lambda>w. case w_retry_after w of None \<Rightarrow> [] | Some t \<Rightarrow> [t]) unc)"

definition wake :: "rat \<Rightarrow> wait_row list \<Rightarrow> timestamp \<Rightarrow> timestamp \<times> rat" where
  "wake recheck unc now =
     (let dates = retry_dates unc; earliest = Min (set dates)
      in if dates \<noteq> [] \<and> earliest > now then (earliest, max 1 (of_int (earliest - now) / 1000000))
         else (now + round_half_even (recheck * 1000000), recheck))"

definition idle_stop :: "session_request \<Rightarrow> string \<Rightarrow> session_state \<Rightarrow> db \<Rightarrow> session_flow res \<times> db" where
  "idle_stop q mission st s =
     then_op (open_waits mission s) (\<lambda>unc s1.
     then_op (if mission = [] then (Inr None, s1)
              else then_op (reconcile_mission_state mission s1) (\<lambda>m s2. (Inr (Some m), s2))) (\<lambda>m s2.
     then_op (open_waits mission s2) (\<lambda>unc2 s3.
       let v = idle_verdict m (waiting_count unc s);
           wk = wake (sq_recheck_interval_seconds q) unc2 (utc_now s3)
       in (Inr (Stop ((ss_result st)\<lparr>sr_stop_reason := continuation_stop_value (fst v), sr_status := snd v,
             sr_next_wake := Some (fst wk), sr_sleep_recommended_seconds := snd wk\<rparr>)), s3))))"

definition fed :: "string list \<Rightarrow> nat \<Rightarrow> session_state \<Rightarrow> session_state" where
  "fed ids n st = st\<lparr>ss_result := (ss_result st)\<lparr>sr_tasks_fed := sr_tasks_fed (ss_result st) + length ids\<rparr>,
     ss_workflows := map_option (\<lambda>l. l @ ids) (ss_workflows st), ss_total_fed := n\<rparr>"

definition feed_cycle ::
  "session_env \<Rightarrow> (nat \<Rightarrow> db \<Rightarrow> string list res \<times> nat \<times> db) \<Rightarrow> session_request \<Rightarrow> string \<Rightarrow> session_state \<Rightarrow> db \<Rightarrow>
   session_flow res \<times> db" where
  "feed_cycle env feed q mission st s =
     (let st1 = st\<lparr>ss_result := (ss_result st)\<lparr>sr_feeder_invocations := sr_feeder_invocations (ss_result st) + 1\<rparr>\<rparr>
      in case feed (ss_total_fed st) s of
        (Inl e, n, s1) \<Rightarrow> (Inl e, s1)
      | (Inr ids, n, s1) \<Rightarrow>
          if ids \<noteq> []
          then (Inr (Next (fed ids n st1)), audit_session (se_actor env) ''TASKS_FED_FROM_BACKLOG'' ''feed_into_queue''
            ''SUCCESS'' [(''count'', JInt (int (length ids))), (''workflows'', jtexts ids)] s1)
          else idle_stop q mission (st1\<lparr>ss_feeder_exhausted := True, ss_total_fed := n\<rparr>) s1)"

text \<open>A cycle without a selection: waits first, then the feeder unless the mission waits, then the stop.\<close>

definition idle_cycle ::
  "session_env \<Rightarrow> session_request \<Rightarrow> string \<Rightarrow> session_state \<Rightarrow> db \<Rightarrow> session_flow res \<times> db" where
  "idle_cycle env q mission st s =
     then_op (if mission = [] then (Inr [], s)
              else reevaluate_durable_waits (se_path_exists env) (se_actor env) (Some mission) s) (\<lambda>cleared s1.
     if cleared \<noteq> []
     then (Inr (Next st), audit_session (se_actor env) ''DURABLE_WAITS_CLEARED_DURING_CONTINUATION'' ''run_session''
       ''SUCCESS'' [(''cleared_count'', JInt (int (length cleared))), (''mission_id'', JStr mission)] s1)
     else then_op (open_waits mission s1) (\<lambda>unc s2.
       case se_feed env of
         None \<Rightarrow> idle_stop q mission st s2
       | Some feed \<Rightarrow>
           if \<not> ss_feeder_exhausted st \<and> unc = [] then feed_cycle env feed q mission st s2
           else idle_stop q mission st s2))"

definition session_cycle ::
  "session_env \<Rightarrow> session_request \<Rightarrow> string \<Rightarrow> session_state \<Rightarrow> db \<Rightarrow> session_flow res \<times> db" where
  "session_cycle env q mission st s =
     then_op (run_loop (se_runtime env) (cycle_config q st) s) (\<lambda>l s1.
       let r = ss_result st;
           cy = new_cycle_record (sr_cycles_attempted r + 1) (elapsed_seconds (clock s) (clock s1));
           st1 = st\<lparr>ss_result := r\<lparr>sr_cycles_attempted := sr_cycles_attempted r + 1\<rparr>\<rparr>
       in if lr_selected_tasks l > 0 then (Inr (after_selection l cy st1), s1)
          else if lr_status l = loop_status.FAILED then (Inr (after_failed_dispatch l cy st1), s1)
          else idle_cycle env q mission st1 s1)"

text \<open>Every cycle that goes on has been counted, whatever it did.\<close>

lemma count_task_simps [simp]:
  "sr_cycles_attempted (ss_result (count_task rec st)) = sr_cycles_attempted (ss_result st)"
  "sr_cycle_records (ss_result (count_task rec st)) = sr_cycle_records (ss_result st)"
  "sr_tasks_selected (ss_result (count_task rec st)) = sr_tasks_selected (ss_result st)"
  "sr_tasks_completed (ss_result (count_task rec st)) = sr_tasks_completed (ss_result st)"
  "sr_tasks_blocked (ss_result (count_task rec st)) = sr_tasks_blocked (ss_result st)"
  by (simp_all add: count_task_def count_project_def count_outcome_def Let_def split: execution_outcome.split)

text \<open>What a flow carries, and the part of a result that only a selection or a dispatch changes.\<close>

definition flow_result :: "session_flow \<Rightarrow> session_result" where
  "flow_result fl = (case fl of Next st \<Rightarrow> ss_result st | Stop r \<Rightarrow> r)"

lemma flow_result_simps [simp]: "flow_result (Next st) = ss_result st" "flow_result (Stop r) = r"
  by (simp_all add: flow_result_def)

definition same_work :: "session_result \<Rightarrow> session_result \<Rightarrow> bool" where
  "same_work r r' \<longleftrightarrow> sr_cycles_attempted r' = sr_cycles_attempted r \<and> sr_tasks_selected r' = sr_tasks_selected r
     \<and> sr_tasks_completed r' = sr_tasks_completed r \<and> sr_tasks_blocked r' = sr_tasks_blocked r
     \<and> sr_tasks_failed r' = sr_tasks_failed r \<and> sr_total_failures r' = sr_total_failures r
     \<and> sr_consecutive_failures r' = sr_consecutive_failures r \<and> sr_cycle_records r' = sr_cycle_records r
     \<and> sr_provider_calls r' = sr_provider_calls r"

lemma idle_stop_shape:
  assumes "idle_stop q mission st s = (Inr fl, t)"
  shows "(\<exists>r. fl = Stop r) \<and> same_work (ss_result st) (flow_result fl)"
  using assms by (auto simp: idle_stop_def then_op_Inr Let_def same_work_def)

lemma feed_cycle_shape:
  assumes "feed_cycle env feed q mission st s = (Inr fl, t)"
  shows "same_work (ss_result st) (flow_result fl)"
proof -
  obtain x n s1 where f: "feed (ss_total_fed st) s = (x, n, s1)" by (metis prod_cases3)
  show ?thesis
  proof (cases "\<exists>i ids. x = Inr (i # ids)")
    case True
    with assms f show ?thesis by (auto simp: feed_cycle_def Let_def same_work_def fed_def)
  next
    case False
    let ?st = "st\<lparr>ss_result := (ss_result st)\<lparr>sr_feeder_invocations := sr_feeder_invocations (ss_result st) + 1\<rparr>,
      ss_feeder_exhausted := True, ss_total_fed := n\<rparr>"
    have "idle_stop q mission ?st s1 = (Inr fl, t)"
      using assms f False by (cases x) (auto simp: feed_cycle_def Let_def neq_Nil_conv split: if_splits)
    from idle_stop_shape [OF this] show ?thesis by (simp add: same_work_def)
  qed
qed

lemma idle_cycle_shape:
  assumes "idle_cycle env q mission st s = (Inr fl, t)"
  shows "same_work (ss_result st) (flow_result fl)"
proof -
  define w where "w = (if mission = [] then (Inr [], s)
    else reevaluate_durable_waits (se_path_exists env) (se_actor env) (Some mission) s)"
  obtain cleared s1 where w1: "w = (Inr cleared, s1)"
    using assms unfolding idle_cycle_def w_def [symmetric] then_op_Inr by blast
  note run = assms [unfolded idle_cycle_def, folded w_def, unfolded w1 then_op_simps]
  show ?thesis
  proof (cases cleared)
    case (Cons c cs)
    with run show ?thesis by (auto simp: same_work_def)
  next
    case Nil
    then obtain unc s2 where "open_waits mission s1 = (Inr unc, s2)"
      using run by (auto simp: then_op_Inr)
    with run Nil show ?thesis
      by (auto split: option.splits if_splits dest: idle_stop_shape feed_cycle_shape)
  qed
qed

lemma after_selection_cycles:
  "sr_cycles_attempted (flow_result (after_selection l cy st)) = sr_cycles_attempted (ss_result st)"
  by (simp add: after_selection_def Let_def)

lemma session_cycle_cases:
  assumes "session_cycle env q mission st s = (Inr fl, t)"
  obtains l s1 cy st1 where "run_loop (se_runtime env) (cycle_config q st) s = (Inr l, s1)"
    and "st1 = st\<lparr>ss_result := (ss_result st)\<lparr>sr_cycles_attempted := sr_cycles_attempted (ss_result st) + 1\<rparr>\<rparr>"
    and "lr_selected_tasks l > 0 \<and> fl = after_selection l cy st1 \<and> t = s1
      \<or> lr_selected_tasks l = 0 \<and> lr_status l = loop_status.FAILED \<and> fl = after_failed_dispatch l cy st1 \<and> t = s1
      \<or> lr_selected_tasks l = 0 \<and> lr_status l \<noteq> loop_status.FAILED \<and> idle_cycle env q mission st1 s1 = (Inr fl, t)"
proof -
  obtain l s1 where l: "run_loop (se_runtime env) (cycle_config q st) s = (Inr l, s1)"
    using assms by (auto simp: session_cycle_def then_op_Inr)
  show thesis
    by (rule that [OF l refl]) (use assms l in \<open>auto simp: session_cycle_def Let_def split: if_splits\<close>)
qed

lemma session_cycle_counts:
  assumes "session_cycle env q mission st s = (Inr fl, t)"
  shows "sr_cycles_attempted (flow_result fl) = sr_cycles_attempted (ss_result st) + 1"
  using assms
  by (rule session_cycle_cases)
    (auto simp: after_selection_cycles after_failed_dispatch_def Let_def same_work_def dest!: idle_cycle_shape)

section \<open>The session\<close>

function session_rounds ::
  "session_env \<Rightarrow> session_budget \<Rightarrow> session_request \<Rightarrow> string \<Rightarrow> timestamp \<Rightarrow> session_state \<Rightarrow> db \<Rightarrow>
   session_result res \<times> db" where
  "session_rounds env b q mission started st s =
     (let r = (ss_result st)\<lparr>sr_wall_clock_duration_seconds := elapsed_seconds started (clock s)\<rparr>
      in case budget_stop b r of
        Some (reason, status) \<Rightarrow>
          (Inr (r\<lparr>sr_stop_reason := continuation_stop_value reason, sr_status := status\<rparr>), s)
      | None \<Rightarrow>
          (case session_cycle env q mission (st\<lparr>ss_result := r\<rparr>) s of
             (Inl e, s1) \<Rightarrow> (Inl e, s1)
           | (Inr (Stop r1), s1) \<Rightarrow> (Inr r1, s1)
           | (Inr (Next st1), s1) \<Rightarrow> session_rounds env b q mission started st1 s1))"
  by pat_completeness auto

termination
proof (relation "measure (\<lambda>(env, b, q, mission, started, st, s). nat (sb_max_cycles b - int (sr_cycles_attempted (ss_result st))))", goal_cases)
  case (2 env b q mission started st s r f s1 x2 st1)
  then show ?case
    using session_cycle_counts [of env q mission "st\<lparr>ss_result := r\<rparr>" s "Next st1" s1]
    by (auto simp: budget_stop_def split: if_splits)
qed simp

declare session_rounds.simps [simp del]

definition finish_session ::
  "session_env \<Rightarrow> string \<Rightarrow> timestamp \<Rightarrow> session_result \<Rightarrow> db \<Rightarrow> session_result res \<times> db" where
  "finish_session env mission started r s =
     then_op (if mission = [] then (Inr (), s)
              else then_op (reconcile_mission_state mission s) (\<lambda>_ s1. (Inr (), s1))) (\<lambda>_ s1.
       let r1 = r\<lparr>sr_wall_clock_duration_seconds := elapsed_seconds started (clock s1)\<rparr>
       in (Inr r1, audit_session (se_actor env) ''BOUNDED_CONTINUATION_SESSION_COMPLETED'' ''run_session'' (sr_status r1)
            [(''stop_reason'', JStr (sr_stop_reason r1)), (''cycles'', JInt (int (sr_cycles_attempted r1))),
             (''completed'', JInt (int (sr_tasks_completed r1))), (''blocked'', JInt (int (sr_tasks_blocked r1))),
             (''switches'', JInt (int (sr_project_switches r1))),
             (''duration'', JFloat (sr_wall_clock_duration_seconds r1)), (''mission_id'', JStr mission)] s1))"

definition new_session_state :: "session_request \<Rightarrow> nat \<Rightarrow> session_state" where
  "new_session_state q n = \<lparr>ss_result = new_session_result, ss_workflows = sq_workflow_ids q,
     ss_feeder_exhausted = False, ss_last_project_id = None, ss_total_fed = n\<rparr>"

text \<open>A session, with the number of tasks its feeder has fed before.\<close>

definition run_session ::
  "session_env \<Rightarrow> session_budget \<Rightarrow> session_request \<Rightarrow> nat \<Rightarrow> db \<Rightarrow> session_result res \<times> db" where
  "run_session env b q n s =
     then_op (open_mission env q s) (\<lambda>(mission, attempt) s1.
     then_op (session_rounds env b q mission (clock s) (new_session_state q n)
        (audit_started env b q mission attempt s1)) (\<lambda>r s2.
       finish_session env mission (clock s) r s2))"

section \<open>Sleeping\<close>

text \<open>\<open>sleep_until_next_wake_or_recheck\<close>: the duration is that to the next wake, at least a second
  and at most the interval of the next look. Each tick asks whether it is interrupted; the answer to the
  n-th question is a parameter. \<open>time.sleep\<close> rejects a negative length. With a tick of zero the loop
  does not end, which is the value \<open>None\<close>.\<close>

definition sleep_duration :: "timestamp option \<Rightarrow> rat \<Rightarrow> timestamp \<Rightarrow> rat" where
  "sleep_duration next_wake recheck now =
     min (case next_wake of Some w \<Rightarrow> max 1 (of_int (w - now) / 1000000) | None \<Rightarrow> max 1 recheck) recheck"

partial_function (option) sleep_ticks :: "rat \<Rightarrow> rat \<Rightarrow> (nat \<Rightarrow> bool) \<Rightarrow> nat \<Rightarrow> rat \<Rightarrow> rat res option" where
  "sleep_ticks tick dur interrupted n slept =
     (if slept < dur
      then if interrupted n then Some (Inr slept)
        else if min tick (dur - slept) < 0 then Some (Inl (ValueError ''sleep length must be non-negative''))
        else sleep_ticks tick dur interrupted (n + 1) (slept + min tick (dur - slept))
      else Some (Inr slept))"

definition sleep_until_next_wake_or_recheck ::
  "timestamp option \<Rightarrow> rat \<Rightarrow> (nat \<Rightarrow> bool) \<Rightarrow> rat \<Rightarrow> timestamp \<Rightarrow> rat res option" where
  "sleep_until_next_wake_or_recheck next_wake recheck interrupted tick now =
     sleep_ticks tick (sleep_duration next_wake recheck now) interrupted 0 0"

lemma sleep_ticks_return:
  assumes "0 < tick" and "dur - slept \<le> of_nat k * tick"
  shows "\<exists>t. sleep_ticks tick dur i n slept = Some (Inr t) \<and> slept \<le> t \<and> t \<le> max slept dur
    \<and> ((\<forall>m. \<not> i m) \<longrightarrow> t = max slept dur)"
  using assms(2)
proof (induction k arbitrary: n slept)
  case 0
  then show ?case by (subst sleep_ticks.simps) auto
next
  case (Suc k)
  show ?case
  proof (cases "slept < dur \<and> \<not> i n")
    case False
    then show ?thesis by (subst sleep_ticks.simps) auto
  next
    case True
    let ?slept = "slept + min tick (dur - slept)"
    have "dur - ?slept \<le> of_nat k * tick"
      using Suc.prems assms(1) by (auto simp: min_def algebra_simps)
    from Suc.IH [OF this, of "n + 1"] obtain t where t: "sleep_ticks tick dur i (n + 1) ?slept = Some (Inr t)"
      "?slept \<le> t" "t \<le> max ?slept dur" "(\<forall>m. \<not> i m) \<longrightarrow> t = max ?slept dur" by blast
    have "0 \<le> min tick (dur - slept)" "max ?slept dur = dur" "max slept dur = dur"
      using True assms(1) by auto
    with t True show ?thesis by (subst sleep_ticks.simps) (auto simp: not_less)
  qed
qed



text \<open>A tick of zero never ends.\<close>

lemma sleep_without_tick:
  assumes "slept < dur" and "\<forall>n. \<not> interrupted n"
  shows "sleep_ticks 0 dur interrupted n slept = None"
proof -
  have "\<not> (tick = 0 \<and> slept < dur \<and> (\<forall>n. \<not> i n))" if "sleep_ticks tick dur i n slept = Some y" for tick dur i n slept y
    by (rule sleep_ticks.raw_induct [where P = "\<lambda>tick dur i n slept y. \<not> (tick = 0 \<and> slept < dur \<and> (\<forall>n. \<not> i n))",
          OF _ that]) (fastforce split: if_splits)
  with assms show ?thesis by (metis not_None_eq)
qed

section \<open>What a session counts\<close>

definition session_accounts :: "session_budget \<Rightarrow> session_result \<Rightarrow> bool" where
  "session_accounts b r \<longleftrightarrow> sr_cycles_attempted r \<le> nat (sb_max_cycles b)
     \<and> sr_tasks_selected r \<le> sr_cycles_attempted r
     \<and> sr_tasks_completed r + sr_tasks_blocked r \<le> sr_tasks_selected r
     \<and> sr_total_failures r \<le> nat (sb_max_total_failures b)
     \<and> sr_tasks_failed r = sr_total_failures r
     \<and> sr_consecutive_failures r \<le> sr_total_failures r
     \<and> length (sr_cycle_records r) \<le> sr_cycles_attempted r"

lemma accounts_same_work:
  "same_work r r' \<Longrightarrow> session_accounts b r \<Longrightarrow> session_accounts b r'"
  by (simp add: same_work_def session_accounts_def)

text \<open>A task adds at most one failure, which a budget that is not exhausted has room for.\<close>

lemma count_task_failures:
  "let r = ss_result st; r' = ss_result (count_task rec st)
   in (sr_total_failures r' = sr_total_failures r \<and> sr_tasks_failed r' = sr_tasks_failed r
        \<and> sr_consecutive_failures r' \<le> sr_consecutive_failures r
      \<or> sr_total_failures r' = sr_total_failures r + 1 \<and> sr_tasks_failed r' = sr_tasks_failed r + 1
        \<and> sr_consecutive_failures r' = sr_consecutive_failures r + 1)"
  by (simp add: count_task_def count_project_def count_outcome_def Let_def split: execution_outcome.split)

lemma after_selection_accounts:
  assumes "accounts 1 l" "lr_selected_tasks l > 0" "budget_stop b r = None" "session_accounts b r"
    and "ss_result st = r\<lparr>sr_cycles_attempted := sr_cycles_attempted r + 1\<rparr>"
  shows "session_accounts b (flow_result (after_selection l cy st))"
proof -
  define st1 where "st1 = st\<lparr>ss_result := (ss_result st)\<lparr>sr_tasks_selected := sr_tasks_selected (ss_result st) + lr_selected_tasks l,
            sr_tasks_completed := sr_tasks_completed (ss_result st) + lr_completed_tasks l,
            sr_tasks_blocked := sr_tasks_blocked (ss_result st) + lr_blocked_tasks l\<rparr>\<rparr>"
  define st2 where "st2 = (if lr_task_records l = [] then st1 else count_task (last (lr_task_records l)) st1)"
  have one: "lr_selected_tasks l = 1" "lr_completed_tasks l + lr_blocked_tasks l \<le> 1"
    using assms(1,2) by (simp_all add: accounts_def)
  have room: "int (sr_cycles_attempted r) < sb_max_cycles b" "int (sr_total_failures r) < sb_max_total_failures b"
    using assms(3) by (auto simp: budget_stop_def split: if_splits)
  have "session_accounts b ((ss_result st2)\<lparr>sr_cycle_records := sr_cycle_records (ss_result st2) @ [x]\<rparr>)" for x
    using assms(4,5) one room count_task_failures [of st1 "last (lr_task_records l)"]
    by (auto simp: st2_def st1_def session_accounts_def Let_def)
  then show ?thesis
    unfolding after_selection_def Let_def st1_def [symmetric] st2_def [symmetric]
    by (simp add: session_accounts_def)
qed

lemma session_cycle_accounts:
  assumes "session_cycle env q mission st s = (Inr fl, t)" and "budget_stop b (ss_result st) = None"
    and "session_accounts b (ss_result st)"
  shows "session_accounts b (flow_result fl)"
proof (rule session_cycle_cases [OF assms(1)])
  fix l s1 cy st1
  assume l: "run_loop (se_runtime env) (cycle_config q st) s = (Inr l, s1)"
    and st1: "st1 = st\<lparr>ss_result := (ss_result st)\<lparr>sr_cycles_attempted := sr_cycles_attempted (ss_result st) + 1\<rparr>\<rparr>"
    and cases: "lr_selected_tasks l > 0 \<and> fl = after_selection l cy st1 \<and> t = s1
      \<or> lr_selected_tasks l = 0 \<and> lr_status l = loop_status.FAILED \<and> fl = after_failed_dispatch l cy st1 \<and> t = s1
      \<or> lr_selected_tasks l = 0 \<and> lr_status l \<noteq> loop_status.FAILED \<and> idle_cycle env q mission st1 s1 = (Inr fl, t)"
  have acc: "accounts 1 l" using run_loop_accounts [OF l] by (simp add: cycle_config_def)
  have room: "int (sr_cycles_attempted (ss_result st)) < sb_max_cycles b"
    using assms(2) by (auto simp: budget_stop_def split: if_splits)
  have ok: "session_accounts b (ss_result st1)"
    using assms(3) room by (simp add: st1 session_accounts_def)
  from cases show ?thesis
  proof (elim disjE conjE)
    assume "lr_selected_tasks l > 0" "fl = after_selection l cy st1"
    with after_selection_accounts [OF acc _ assms(2,3)] show ?thesis by (simp add: st1)
  next
    assume "fl = after_failed_dispatch l cy st1"
    with assms(3) room show ?thesis by (simp add: after_failed_dispatch_def Let_def session_accounts_def st1)
  next
    assume "idle_cycle env q mission st1 s1 = (Inr fl, t)"
    from accounts_same_work [OF idle_cycle_shape [OF this] ok] show ?thesis .
  qed
qed

lemma session_rounds_accounts:
  "session_rounds env b q mission started st s = (Inr r, t) \<Longrightarrow> session_accounts b (ss_result st) \<Longrightarrow> session_accounts b r"
proof (induction env b q mission started st s rule: session_rounds.induct)
  case (1 env b q mission started st s)
  define r0 where "r0 = (ss_result st)\<lparr>sr_wall_clock_duration_seconds := elapsed_seconds started (clock s)\<rparr>"
  have ok: "session_accounts b r0" using 1(3) by (simp add: session_accounts_def r0_def)
  show ?case
  proof (cases "budget_stop b r0")
    case (Some x)
    with 1(2) ok show ?thesis
      by (subst (asm) session_rounds.simps) (auto simp: Let_def r0_def [symmetric] session_accounts_def split: prod.splits)
  next
    case None
    obtain y s1 where y: "session_cycle env q mission (st\<lparr>ss_result := r0\<rparr>) s = (y, s1)" by force
    have run: "(case y of Inl e \<Rightarrow> (Inl e, s1) | Inr (Stop r1) \<Rightarrow> (Inr r1, s1)
        | Inr (Next st1) \<Rightarrow> session_rounds env b q mission started st1 s1) = (Inr r, t)"
      using 1(2) None y by (subst (asm) session_rounds.simps)
        (auto simp: Let_def r0_def [symmetric] split: sum.split session_flow.split)
    then obtain fl where fl: "y = Inr fl" by (cases y) auto
    have acc: "session_accounts b (flow_result fl)"
      using session_cycle_accounts [OF y [unfolded fl]] None ok by simp
    show ?thesis
    proof (cases fl)
      case (Stop r1)
      with run fl acc show ?thesis by simp
    next
      case (Next st1)
      with run fl have "session_rounds env b q mission started st1 s1 = (Inr r, t)" by simp
      from 1(1) [OF r0_def None y [symmetric] fl Next this] acc Next show ?thesis by simp
    qed
  qed
qed


section \<open>What a session leaves running\<close>

text \<open>The supervisor moves items between waiting and ready: it starts none.\<close>

lemma tget_map:
  "(\<And>x. key (f x) = key x) \<Longrightarrow> tget key k (map f xs) = map_option f (tget key k xs)"
  by (induction xs) (auto simp: tget_simps)

lemma update_first_match_items:
  assumes "tget wf_id i (update_first_match j q ws) = Some w'"
  shows "\<exists>w. tget wf_id i ws = Some w
    \<and> (wf_task_backlog w' = wf_task_backlog w
      \<or> wf_task_backlog w' = map (\<lambda>x. if matches_item j x then set_item_state q x else x) (wf_task_backlog w))"
  using assms by (induction ws) (auto simp: tget_simps split: if_splits)

lemma update_first_match_ids: "map wf_id (update_first_match j q ws) = map wf_id ws"
  by (induction ws) simp_all

lemma set_item_state_simps [simp]:
  "item_id_of (set_item_state q x) = item_id_of x"
  "raw_running (set_item_state q x) \<longleftrightarrow> q = queue_state.RUNNING"
  by (simp_all add: set_item_state_def item_id_of_def raw_running_def raw_state_def)

lemma update_item_state_starts_nothing:
  assumes "q \<noteq> queue_state.RUNNING"
  shows "starts_nothing s (update_item_state j q s)"
proof -
  have "workflow_item i k s = Some x" if wi: "workflow_item i k (update_item_state j q s) = Some x" and run: "raw_running x" for i k x
  proof -
    let ?f = "\<lambda>x. if matches_item j x then set_item_state q x else x"
    obtain w' where w': "tget wf_id i (update_first_match j q (workflows s)) = Some w'"
      "tget item_id_of k (wf_task_backlog w') = Some x"
      using wi by (auto simp: workflow_item_def get_workflow_def update_item_state_def split: option.splits)
    obtain w where w: "tget wf_id i (workflows s) = Some w"
      "wf_task_backlog w' = wf_task_backlog w \<or> wf_task_backlog w' = map ?f (wf_task_backlog w)"
      using update_first_match_items [OF w'(1)] by blast
    have "tget item_id_of k (map ?f (wf_task_backlog w)) = map_option ?f (tget item_id_of k (wf_task_backlog w))"
      by (rule tget_map) simp
    then have "tget item_id_of k (wf_task_backlog w) = Some x"
      using w(2) w'(2) run assms by (auto split: if_splits)
    with w(1) show ?thesis by (simp add: workflow_item_def get_workflow_def)
  qed
  then show ?thesis
    by (auto simp: starts_nothing_def running_items_def keyed_workflows_def update_item_state_def update_first_match_ids)
qed

lemma release_wait_starts_nothing: "starts_nothing s (release_wait now w s)"
proof -
  have put: "starts_nothing s (put_wait v s)" for v
    by (rule starts_nothing_frame) (simp add: put_wait_def)
  show ?thesis
    unfolding release_wait_def Let_def
    using put starts_nothing_trans [OF put update_item_state_starts_nothing [of queue_state.READY]] by simp
qed

lemma reconcile_mission_workflows [simp]: "workflows (snd (reconcile_mission_state i s)) = workflows s"
  by (simp add: reconcile_mission_state_def try_res_def Let_def put_mission_def split: sum.split)

lemma get_mission_record_workflows [simp]: "workflows (snd (get_mission_record i s)) = workflows s"
  using reconcile_mission_workflows [of i s]
  by (auto simp del: reconcile_mission_workflows simp: get_mission_record_def split: prod.splits sum.splits)

lemma create_mission_workflows [simp]: "workflows (snd (create_mission a sha md i att s)) = workflows s"
  by (simp add: create_mission_def try_res_def Let_def put_mission_def audit_mission_def split: sum.split)

lemma open_waits_workflows [simp]: "workflows (snd (open_waits i s)) = workflows s"
  by (simp add: open_waits_def snd_then_op split: sum.split)

lemma fold_release_starts_nothing:
  "starts_nothing s (fold (\<lambda>w t. if P w then release_wait now w t else t) ws s)"
proof (induction ws arbitrary: s)
  case Nil
  then show ?case by (simp add: starts_nothing_def)
next
  case (Cons w ws)
  have "starts_nothing s (if P w then release_wait now w s else s)"
    using release_wait_starts_nothing by (simp add: starts_nothing_def)
  from starts_nothing_trans [OF this Cons] show ?case by simp
qed

lemma recover_mission_starts_nothing: "starts_nothing s (snd (recover_mission a i c c' att s))"
proof -
  have step: "starts_nothing s (snd (case reconcile_mission_state i s2 of
      (Inl e, s3) \<Rightarrow> (Inl e, s3) | (Inr r, s3) \<Rightarrow> (Inr r, audit_mission a ev ac re md s3)))"
    if "starts_nothing s s2" for s2 ev ac re md
  proof (rule starts_nothing_trans [OF that])
    show "starts_nothing s2 (snd (case reconcile_mission_state i s2 of
        (Inl e, s3) \<Rightarrow> (Inl e, s3) | (Inr r, s3) \<Rightarrow> (Inr r, audit_mission a ev ac re md s3)))"
      by (rule starts_nothing_frame) (use reconcile_mission_workflows [of i s2] in
          \<open>auto simp: audit_mission_def simp del: reconcile_mission_workflows split: prod.splits sum.splits\<close>)
  qed
  have start: "starts_nothing s (put_mission m s)" for m
    by (rule starts_nothing_frame) (simp add: put_mission_def)
  show ?thesis
    unfolding recover_mission_def Let_def
    by (auto simp: starts_nothing_def [of s s] intro!: step starts_nothing_trans [OF start fold_release_starts_nothing]
        split: try_res_splits)
qed

lemma clear_wait_starts_nothing: "starts_nothing s (snd (clear_wait a i s))"
proof (cases "get_wait i s")
  case None
  then show ?thesis by (simp add: clear_wait_def starts_nothing_def)
next
  case (Some w)
  let ?s1 = "release_wait (utc_now s) w s"
  obtain r s2 where r: "reconcile_mission_state (w_mission_id w) ?s1 = (r, s2)" by force
  have "workflows s2 = workflows ?s1"
    using reconcile_mission_workflows [of "w_mission_id w" ?s1] unfolding r by simp
  then have "workflows (snd (clear_wait a i s)) = workflows ?s1"
    by (simp add: clear_wait_def Some r audit_mission_def split: sum.split)
  from starts_nothing_trans [OF release_wait_starts_nothing starts_nothing_frame [OF this]] show ?thesis .
qed

lemma reevaluate_starts_nothing: "starts_nothing s (snd (reevaluate_waits pe a now ws s))"
proof (induction ws arbitrary: s)
  case Nil
  then show ?case by (simp add: starts_nothing_def)
next
  case (Cons w ws)
  obtain c s1 where c: "clear_wait a (w_id w) s = (c, s1)" by force
  have s1: "starts_nothing s s1" using clear_wait_starts_nothing [of s a "w_id w"] c by simp
  have "starts_nothing s (snd (reevaluate_waits pe a now ws s1))"
    by (rule starts_nothing_trans [OF s1 Cons])
  with Cons s1 c show ?case
    by (auto split: sum.splits prod.splits)
qed

definition feeder_starts_nothing :: "session_env \<Rightarrow> bool" where
  "feeder_starts_nothing env \<longleftrightarrow> (\<forall>feed n s. se_feed env = Some feed \<longrightarrow> starts_nothing s (snd (snd (feed n s))))"

lemma starts_nothing_then:
  assumes "starts_nothing s (snd p)" and "\<And>x t. p = (Inr x, t) \<Longrightarrow> starts_nothing s t \<Longrightarrow> starts_nothing s (snd (k x t))"
  shows "starts_nothing s (snd (then_op p k))"
  using assms by (cases p; cases "fst p") (auto simp: snd_then_op)

lemma starts_nothing_refl [simp]: "starts_nothing s s"
  by (simp add: starts_nothing_def)

lemma open_waits_starts_nothing: "starts_nothing s t \<Longrightarrow> starts_nothing s (snd (open_waits i t))"
  by (rule starts_nothing_trans [OF _ starts_nothing_frame]) simp_all

lemma audit_session_starts_nothing:
  "starts_nothing s t \<Longrightarrow> starts_nothing s (audit_session a ev ac re md t)"
  by (rule starts_nothing_trans [OF _ starts_nothing_frame]) (simp_all add: audit_session_def)

lemma reconcile_mission_starts_nothing: "starts_nothing s t \<Longrightarrow> starts_nothing s (snd (reconcile_mission_state i t))"
  by (rule starts_nothing_trans [OF _ starts_nothing_frame]) simp_all

lemmas session_quiet = starts_nothing_then open_waits_starts_nothing audit_session_starts_nothing
  reconcile_mission_starts_nothing

lemma idle_stop_starts_nothing: "starts_nothing s t \<Longrightarrow> starts_nothing s (snd (idle_stop q i st t))"
  unfolding idle_stop_def Let_def by (intro session_quiet) (auto intro: session_quiet)

lemma feed_cycle_starts_nothing:
  assumes "starts_nothing s t" and "starts_nothing t (snd (snd (feed (ss_total_fed st) t)))"
  shows "starts_nothing s (snd (feed_cycle env feed q i st t))"
  using starts_nothing_trans [OF assms]
  by (auto simp: feed_cycle_def Let_def intro: session_quiet idle_stop_starts_nothing split: prod.splits sum.splits)

lemma idle_cycle_starts_nothing:
  assumes "starts_nothing s t" and "feeder_starts_nothing env"
  shows "starts_nothing s (snd (idle_cycle env q i st t))"
proof -
  have start: "starts_nothing s (snd (if i = [] then (Inr [], t)
      else reevaluate_durable_waits (se_path_exists env) (se_actor env) (Some i) t))"
    using assms(1) starts_nothing_trans [OF assms(1) reevaluate_starts_nothing]
    by (simp add: reevaluate_durable_waits_def)
  show ?thesis
    unfolding idle_cycle_def
  proof (rule starts_nothing_then [OF start])
    fix cleared u
    assume u: "starts_nothing s u"
    have read: "starts_nothing s (snd (open_waits i u))" by (rule open_waits_starts_nothing [OF u])
    have go: "starts_nothing s (snd (case se_feed env of None \<Rightarrow> idle_stop q i st v
        | Some feed \<Rightarrow> if \<not> ss_feeder_exhausted st \<and> unc = [] then feed_cycle env feed q i st v else idle_stop q i st v))"
      if "starts_nothing s v" for v unc
      using that assms(2) idle_stop_starts_nothing [OF that] feed_cycle_starts_nothing [OF that]
      by (simp add: feeder_starts_nothing_def split: option.split)
    show "starts_nothing s (snd (if cleared \<noteq> []
        then (Inr (Next st), audit_session (se_actor env) ''DURABLE_WAITS_CLEARED_DURING_CONTINUATION'' ''run_session''
          ''SUCCESS'' [(''cleared_count'', JInt (int (length cleared))), (''mission_id'', JStr i)] u)
        else then_op (open_waits i u) (\<lambda>unc s2. case se_feed env of None \<Rightarrow> idle_stop q i st s2
          | Some feed \<Rightarrow> if \<not> ss_feeder_exhausted st \<and> unc = [] then feed_cycle env feed q i st s2
              else idle_stop q i st s2)))"
      using audit_session_starts_nothing [OF u] by (simp, intro impI starts_nothing_then [OF read go])
  qed
qed

lemma run_loop_starts_nothing:
  assumes "router_keeps_workflows env" and "planner_keeps_items env"
  shows "starts_nothing s (snd (run_loop env cfg s))"
proof -
  obtain r0 s0 where p: "prepare_workflow_plans env (lc_workflow_ids cfg) s = (r0, s0)" by force
  have s0: "starts_nothing s s0"
    using prepare_starts_nothing [OF assms(2), of s "lc_workflow_ids cfg"] p by simp
  obtain r t where run: "run_loop env cfg s = (r, t)" by force
  from run_loop_workflows [OF run p] have "starts_nothing s t"
  proof (elim disjE exE conjE)
    fix n l e l1 s1
    assume "run_rounds env cfg n l s0 = (e, l1, s1)" "workflows t = workflows s1"
    then show ?thesis
      using run_rounds_starts_nothing [OF assms(1)] s0 starts_nothing_frame starts_nothing_trans by metis
  qed (use s0 in auto)
  with run show ?thesis by simp
qed

lemma session_cycle_starts_nothing:
  assumes "starts_nothing s t" and "feeder_starts_nothing env"
    and "router_keeps_workflows (se_runtime env)" "planner_keeps_items (se_runtime env)"
  shows "starts_nothing s (snd (session_cycle env q i st t))"
  unfolding session_cycle_def Let_def
  by (rule starts_nothing_then)
    (use starts_nothing_trans [OF assms(1) run_loop_starts_nothing [OF assms(3,4)]] assms(2) in
      \<open>auto intro: idle_cycle_starts_nothing\<close>)

lemma session_rounds_starts_nothing:
  assumes "feeder_starts_nothing env" "router_keeps_workflows (se_runtime env)" "planner_keeps_items (se_runtime env)"
  shows "starts_nothing u s \<Longrightarrow> starts_nothing u (snd (session_rounds env b q i started st s))"
  using assms
proof (induction env b q i started st s rule: session_rounds.induct)
  case (1 env b q i started st s)
  define r0 where "r0 = (ss_result st)\<lparr>sr_wall_clock_duration_seconds := elapsed_seconds started (clock s)\<rparr>"
  show ?case
  proof (cases "budget_stop b r0")
    case (Some x)
    with 1(2) show ?thesis
      by (subst session_rounds.simps) (simp add: Let_def r0_def [symmetric] split: prod.split)
  next
    case None
    obtain y s1 where y: "session_cycle env q i (st\<lparr>ss_result := r0\<rparr>) s = (y, s1)" by force
    have s1: "starts_nothing u s1"
      using session_cycle_starts_nothing [OF 1(2-5), of q i "st\<lparr>ss_result := r0\<rparr>"] y by simp
    have run: "session_rounds env b q i started st s = (case y of Inl e \<Rightarrow> (Inl e, s1) | Inr (Stop r1) \<Rightarrow> (Inr r1, s1)
        | Inr (Next st1) \<Rightarrow> session_rounds env b q i started st1 s1)"
      using None y by (subst session_rounds.simps) (simp add: Let_def r0_def [symmetric] split: sum.split session_flow.split)
    show ?thesis
    proof (cases "\<exists>st1. y = Inr (Next st1)")
      case True
      then obtain st1 where st1: "y = Inr (Next st1)" by blast
      from 1(1) [OF r0_def None y [symmetric] st1 refl s1 1(3-5)] show ?thesis unfolding run st1 by simp
    next
      case False
      with s1 show ?thesis unfolding run by (auto split: sum.split session_flow.split)
    qed
  qed
qed

lemma open_mission_starts_nothing: "starts_nothing s (snd (open_mission env q s))"
proof -
  have create: "starts_nothing s (snd (then_op (create_mission a sha [] i att t) (\<lambda>m s1. (Inr (i, current_attempt m), s1))))"
    if "workflows t = workflows s" for a sha i att t
    by (rule starts_nothing_frame) (use that in \<open>simp add: snd_then_op split: sum.split\<close>)
  show ?thesis
  proof (cases "sq_mission_id q")
    case None
    then show ?thesis using create [OF refl] by (simp add: open_mission_def Let_def)
  next
    case (Some i)
    obtain x t where t: "get_mission_record i s = (x, t)" by force
    have wt: "workflows t = workflows s" using get_mission_record_workflows [of i s] unfolding t by simp
    have st: "starts_nothing s t" by (rule starts_nothing_frame [OF wt])
    have rec: "starts_nothing s (snd (then_op (recover_mission a i c c' att t) (\<lambda>m s2. (Inr (i, current_attempt m), s2))))"
      for a c c' att
      using starts_nothing_trans [OF st recover_mission_starts_nothing] by (simp add: snd_then_op split: sum.split)
    show ?thesis
      using Some t st create [OF wt] rec
      by (cases x) (auto simp: open_mission_def Let_def)
  qed
qed


definition ex_session_env :: "execution_outcome \<Rightarrow> session_env" where
  "ex_session_env outcome = \<lparr>se_runtime = ex_env outcome, se_actor = LUCIUS, se_feed = None, se_path_exists = (\<lambda>p. False)\<rparr>"

definition ex_session_request :: session_request where
  "ex_session_request = \<lparr>sq_workflow_ids = None, sq_stop_on_block = False, sq_mission_id = None, sq_attempt_id = None,
     sq_canonical_sha = None, sq_recheck_interval_seconds = 300, sq_new_mission_id = ''M'', sq_new_attempt_id = ''T''\<rparr>"



text \<open>Two of the budgets are never looked at.\<close>

lemma provider_budget_ignored:
  "session_rounds env (b\<lparr>sb_max_provider_calls := n, sb_max_active_worktrees := m\<rparr>) q i c st s
     = session_rounds env b q i c st s"
proof (induction env b q i c st s rule: session_rounds.induct)
  case (1 env b q i started st s)
  have "budget_stop (b\<lparr>sb_max_provider_calls := n, sb_max_active_worktrees := m\<rparr>) r = budget_stop b r" for r
    by (simp add: budget_stop_def)
  with 1 show ?case
    by (subst (1 2) session_rounds.simps) (auto simp: Let_def split: option.split sum.split session_flow.split prod.split)
qed

end
