(* ===== verification/Acceptance.thy ===== *)
theory Acceptance
  imports Repository Query
begin

text \<open>
  Deterministic acceptance, \<^verbatim>\<open>lucius/runtime/deterministic_acceptance.py\<close>: the
  normalisation of the checks of a frozen plan, and their verification on captured contents and on a
  workspace; the check of a repository path in \<^verbatim>\<open>repositories/git_mutation.py\<close>;
  and the deny gate for commands in \<^verbatim>\<open>runtime/safety.py\<close>.
  Checks come as JSON. A raised \<open>DeterministicAcceptanceError\<close> is its code with the pieces its
  message is formatted from. The workspace and the processes it runs are parameters; the redacted texts of
  a command's diagnostics are not modelled.
\<close>

section \<open>Repository paths\<close>

text \<open>\<open>validate_relative_repo_path\<close>: a value that is no safe relative path raises, here
  \<open>None\<close>.\<close>

definition validate_relative_repo_path :: "json \<Rightarrow> string option" where
  "validate_relative_repo_path raw = (case raw of
     JStr t \<Rightarrow>
       if py_strip t = [] \<or> py_strip t \<noteq> t \<or> CHR 0x5C \<in> set t \<or> starts_with ''/'' t then None
       else if ''.'' \<in> set (path_parts t) \<or> ''..'' \<in> set (path_parts t) then None
       else Some (path_posix t)
   | _ \<Rightarrow> None)"

section \<open>The checks\<close>

datatype file_check = exact_file_content | file_exists | file_contains | file_not_contains

primrec file_check_value :: "file_check \<Rightarrow> string" where
  "file_check_value exact_file_content = ''exact_file_content''"
| "file_check_value file_exists = ''file_exists''"
| "file_check_value file_contains = ''file_contains''"
| "file_check_value file_not_contains = ''file_not_contains''"

definition file_check_of :: "string \<Rightarrow> file_check option" where
  "file_check_of t = find (\<lambda>k. file_check_value k = t) [exact_file_content, file_exists, file_contains, file_not_contains]"

text \<open>A normalised check. The number of seconds of a command is the integer that Python compares: a
  bool is 0 or 1.\<close>

datatype acceptance_check =
    File_Check file_check (check_path: string) (expected_text: "string option")
  | Command_Check "string list" int

datatype acceptance_exc = Acceptance_Error (error_code: string) "json list" | Key_Error string | Value_Error | Type_Error

definition max_command_timeout_seconds :: int where "max_command_timeout_seconds = 600"

definition default_command_timeout_seconds :: int where "default_command_timeout_seconds = 300"

definition allowed_command_executables :: "string list" where
  "allowed_command_executables = [''.venv/bin/python'', ''.venv/bin/python3'']"

definition allowed_pytest_options :: "string list" where
  "allowed_pytest_options = [''-q'', ''-s'', ''-x'', ''--quiet'', ''--verbose'', ''--disable-warnings'', ''--tb=short'',
     ''--tb=auto'', ''--tb=long'', ''--maxfail=1'']"

definition shell_metachars :: "char list" where
  "shell_metachars = [CHR ''|'', CHR ''&'', CHR '';'', CHR ''<'', CHR ''>'', CHR ''$'', CHR 0x60, CHR 0x5C, CHR 0x0A, CHR 0x0D]"

definition reject_check :: "string \<Rightarrow> json list \<Rightarrow> acceptance_exc + 'a" where
  "reject_check code message = Inl (Acceptance_Error code message)"

text \<open>\<open>arg.split(sep, 1)[0]\<close> for the separator of test ids, and \<open>arg.split("=", 1)[1]\<close>.\<close>

fun before_colons :: "string \<Rightarrow> string" where
  "before_colons [] = []"
| "before_colons (c # cs) = (if starts_with ''::'' (c # cs) then [] else c # before_colons cs)"

definition after_equals :: "string \<Rightarrow> string" where
  "after_equals t = tl (dropWhile (\<lambda>c. c \<noteq> CHR ''='') t)"

definition is_digit_text :: "string \<Rightarrow> bool" where
  "is_digit_text t = (t \<noteq> [] \<and> list_all (\<lambda>c. is_digit c \<or> c \<in> {CHR 0xB2, CHR 0xB3, CHR 0xB9}) t)"

definition validate_pytest_target :: "nat \<Rightarrow> string \<Rightarrow> acceptance_exc + unit" where
  "validate_pytest_target index arg =
     (case validate_relative_repo_path (JStr (before_colons arg)) of
        None \<Rightarrow> reject_check ''DETERMINISTIC_ACCEPTANCE_COMMAND_ARG_NOT_ALLOWED''
          [JStr ''command_succeeds check '', JInt (int index), JStr '' pytest target is invalid: '', JStr arg]
      | Some path \<Rightarrow>
          if path \<noteq> ''tests'' \<and> \<not> starts_with ''tests/'' path
          then reject_check ''DETERMINISTIC_ACCEPTANCE_COMMAND_ARG_NOT_ALLOWED''
            [JStr ''command_succeeds check '', JInt (int index), JStr '' pytest target must be under tests/: '', JStr arg]
          else Inr ())"

text \<open>One argument behind \<open>-m pytest\<close>. The value of \<open>--maxfail\<close> is accepted by
  \<open>isdigit\<close>, which knows digits that \<open>int\<close> rejects.\<close>

definition validate_pytest_arg :: "nat \<Rightarrow> string \<Rightarrow> acceptance_exc + unit" where
  "validate_pytest_arg index arg =
     (if arg \<in> set allowed_pytest_options then Inr ()
      else let value = after_equals arg; maxfail = starts_with ''--maxfail='' arg \<and> is_digit_text value
        in if maxfail \<and> \<not> list_all is_digit value then Inl Value_Error
           else if maxfail \<and> 1 \<le> undec value \<and> undec value \<le> 10 then Inr ()
           else if starts_with ''-'' arg
           then reject_check ''DETERMINISTIC_ACCEPTANCE_COMMAND_ARG_NOT_ALLOWED''
             [JStr ''command_succeeds check '', JInt (int index), JStr '' pytest option is not allowlisted: '', JStr arg]
           else validate_pytest_target index arg)"

fun validate_pytest_args :: "nat \<Rightarrow> string list \<Rightarrow> acceptance_exc + unit" where
  "validate_pytest_args index [] = Inr ()"
| "validate_pytest_args index (a # as) =
     (case validate_pytest_arg index a of Inl e \<Rightarrow> Inl e | Inr _ \<Rightarrow> validate_pytest_args index as)"

definition validate_allowed_command_argv :: "nat \<Rightarrow> string list \<Rightarrow> acceptance_exc + unit" where
  "validate_allowed_command_argv index argv =
     (if hd argv \<notin> set allowed_command_executables
      then reject_check ''DETERMINISTIC_ACCEPTANCE_COMMAND_NOT_ALLOWED''
        [JStr ''command_succeeds check '', JInt (int index), JStr '' executable is not allowlisted.'']
      else if list_ex (list_ex (\<lambda>c. c \<in> set shell_metachars)) argv
      then reject_check ''DETERMINISTIC_ACCEPTANCE_COMMAND_SHELL_METACHARACTER''
        [JStr ''command_succeeds check '', JInt (int index), JStr '' contains a rejected shell metacharacter.'']
      else if length argv < 3 \<or> take 2 (drop 1 argv) \<noteq> [''-m'', ''pytest'']
      then reject_check ''DETERMINISTIC_ACCEPTANCE_COMMAND_NOT_ALLOWED''
        [JStr ''command_succeeds check '', JInt (int index), JStr '' must invoke pytest via python -m pytest.'']
      else validate_pytest_args index (drop 3 argv))"

text \<open>\<open>isinstance(v, int)\<close>: the integers and the bools.\<close>

definition int_of_json :: "json \<Rightarrow> int option" where
  "int_of_json v = (case v of JInt n \<Rightarrow> Some n | JBool b \<Rightarrow> Some (if b then 1 else 0) | _ \<Rightarrow> None)"

definition texts_of_json :: "json \<Rightarrow> string list option" where
  "texts_of_json v = (case v of
     JList l \<Rightarrow> if list_all (\<lambda>x. case x of JStr t \<Rightarrow> t \<noteq> [] | _ \<Rightarrow> False) l
       then Some (map (\<lambda>x. case x of JStr t \<Rightarrow> t | _ \<Rightarrow> []) l) else None
   | _ \<Rightarrow> None)"

definition normalize_command_check :: "nat \<Rightarrow> json_object \<Rightarrow> acceptance_exc + acceptance_check" where
  "normalize_command_check index check =
     (if jget ''path'' check \<noteq> None \<or> jget ''expected_text'' check \<noteq> None
      then reject_check ''INVALID_DETERMINISTIC_ACCEPTANCE_COMMAND''
        [JStr ''command_succeeds check '', JInt (int index), JStr '' must not provide path or expected_text.'']
      else case Option.bind (jget ''argv'' check) texts_of_json of
        None \<Rightarrow> reject_check ''INVALID_DETERMINISTIC_ACCEPTANCE_COMMAND_ARGV''
          [JStr ''command_succeeds check '', JInt (int index), JStr '' argv must be a non-empty list of strings.'']
      | Some [] \<Rightarrow> reject_check ''INVALID_DETERMINISTIC_ACCEPTANCE_COMMAND_ARGV''
          [JStr ''command_succeeds check '', JInt (int index), JStr '' argv must be a non-empty list of strings.'']
      | Some argv \<Rightarrow>
          (case int_of_json (case jget ''timeout_seconds'' check of None \<Rightarrow> JInt default_command_timeout_seconds | Some v \<Rightarrow> v) of
             Some n \<Rightarrow>
               if n \<le> 0 \<or> n > max_command_timeout_seconds
               then reject_check ''INVALID_DETERMINISTIC_ACCEPTANCE_COMMAND_TIMEOUT''
                 [JStr ''command_succeeds check '', JInt (int index), JStr '' timeout_seconds must be 1..600.'']
               else (case validate_allowed_command_argv index argv of
                   Inl e \<Rightarrow> Inl e | Inr _ \<Rightarrow> Inr (Command_Check argv n))
           | None \<Rightarrow> reject_check ''INVALID_DETERMINISTIC_ACCEPTANCE_COMMAND_TIMEOUT''
               [JStr ''command_succeeds check '', JInt (int index), JStr '' timeout_seconds must be 1..600.'']))"

definition normalize_file_check ::
  "string list \<Rightarrow> nat \<Rightarrow> file_check \<Rightarrow> json_object \<Rightarrow> acceptance_exc + acceptance_check" where
  "normalize_file_check authorized index kind check =
     (let raw = (case jget ''path'' check of None \<Rightarrow> JNull | Some v \<Rightarrow> v)
      in case validate_relative_repo_path raw of
        None \<Rightarrow> reject_check ''INVALID_DETERMINISTIC_ACCEPTANCE_PATH''
          [JStr ''Deterministic acceptance path is invalid at index '', JInt (int index), JStr '': '', raw]
      | Some path \<Rightarrow>
          if path \<notin> set authorized
          then reject_check ''DETERMINISTIC_ACCEPTANCE_PATH_OUTSIDE_SCOPE''
            [JStr ''Deterministic acceptance path is outside frozen authorization: '', JStr path]
          else if kind = file_exists
          then (if jget ''expected_text'' check \<noteq> None
                then reject_check ''INVALID_DETERMINISTIC_ACCEPTANCE_EXPECTED_TEXT''
                  [JStr ''file_exists must not provide expected_text: '', JStr path]
                else Inr (File_Check file_exists path None))
          else (case jget ''expected_text'' check of
                  Some (JStr t) \<Rightarrow> Inr (File_Check kind path (Some t))
                | _ \<Rightarrow> reject_check ''INVALID_DETERMINISTIC_ACCEPTANCE_EXPECTED_TEXT''
                    [JStr ''Deterministic acceptance expected_text is invalid for: '', JStr path]))"

text \<open>A list or an object is not hashable, so it cannot be looked up among the supported types.\<close>

definition normalize_check :: "string list \<Rightarrow> nat \<Rightarrow> json \<Rightarrow> acceptance_exc + acceptance_check" where
  "normalize_check authorized index raw =
     (case raw of
        JObj check \<Rightarrow>
          (case jget ''type'' check of
             Some (JStr t) \<Rightarrow>
               if t = ''command_succeeds'' then normalize_command_check index check
               else (case file_check_of t of
                   Some kind \<Rightarrow> normalize_file_check authorized index kind check
                 | None \<Rightarrow> reject_check ''UNSUPPORTED_DETERMINISTIC_ACCEPTANCE_CHECK''
                     [JStr ''Unsupported deterministic acceptance check type at index '', JInt (int index)])
           | Some (JList _) \<Rightarrow> Inl Type_Error
           | Some (JObj _) \<Rightarrow> Inl Type_Error
           | _ \<Rightarrow> reject_check ''UNSUPPORTED_DETERMINISTIC_ACCEPTANCE_CHECK''
               [JStr ''Unsupported deterministic acceptance check type at index '', JInt (int index)])
      | _ \<Rightarrow> reject_check ''INVALID_DETERMINISTIC_ACCEPTANCE_CHECK''
          [JStr ''Deterministic acceptance check '', JInt (int index), JStr '' is malformed.''])"

text \<open>The signatures of two checks agree where the checks do. The message about a duplicate reads its
  path, which a command does not have.\<close>

definition duplicate_check :: "nat \<Rightarrow> acceptance_check \<Rightarrow> acceptance_exc" where
  "duplicate_check index c = (case c of
     File_Check kind path t \<Rightarrow> Acceptance_Error ''DUPLICATE_DETERMINISTIC_ACCEPTANCE_CHECK''
       [JStr ''Duplicate deterministic acceptance check at index '', JInt (int index), JStr '': '',
        JStr (file_check_value kind), JStr '' '', JStr path]
   | Command_Check argv n \<Rightarrow> Key_Error ''path'')"

fun normalize_checks_from ::
  "string list \<Rightarrow> nat \<Rightarrow> acceptance_check list \<Rightarrow> json list \<Rightarrow> acceptance_exc + acceptance_check list" where
  "normalize_checks_from authorized index seen [] = Inr seen"
| "normalize_checks_from authorized index seen (raw # raws) =
     (case normalize_check authorized index raw of
        Inl e \<Rightarrow> Inl e
      | Inr c \<Rightarrow> if c \<in> set seen then Inl (duplicate_check index c)
                else normalize_checks_from authorized (index + 1) (seen @ [c]) raws)"

definition normalize_checks :: "string list \<Rightarrow> json \<Rightarrow> acceptance_exc + acceptance_check list" where
  "normalize_checks authorized raw = (case raw of
     JList raws \<Rightarrow> normalize_checks_from authorized 1 [] raws
   | _ \<Rightarrow> reject_check ''INVALID_DETERMINISTIC_ACCEPTANCE_CHECKS''
       [JStr ''deterministic_acceptance_checks must be a list.''])"

definition acceptance_check_paths :: "string list \<Rightarrow> json \<Rightarrow> acceptance_exc + string list" where
  "acceptance_check_paths authorized raw = (case normalize_checks authorized raw of
     Inl e \<Rightarrow> Inl e
   | Inr cs \<Rightarrow> Inr (sorted_set (concat (map (\<lambda>c. case c of File_Check _ p _ \<Rightarrow> [p] | Command_Check _ _ \<Rightarrow> []) cs))))"

section \<open>The deny gate for commands\<close>

text \<open>The patterns of \<^verbatim>\<open>runtime/safety.py\<close>, searched without regard to case: texts,
  runs of characters of a class, word boundaries. A pattern is matched by the list of positions
  where a match that starts at a given position can end.\<close>

datatype pattern = Word_Boundary | One "char \<Rightarrow> bool" | Many "char \<Rightarrow> bool"

definition word_char :: "char \<Rightarrow> bool" where
  "word_char c = (let n = (of_char c :: nat) in is_alnum c \<or> c = CHR ''_''
     \<or> n \<in> {170, 178, 179, 181, 185, 186, 188, 189, 190} \<or> 192 \<le> n \<and> n \<noteq> 215 \<and> n \<noteq> 247)"

definition word_at :: "string \<Rightarrow> nat \<Rightarrow> bool" where
  "word_at s i = (i < length s \<and> word_char (s ! i))"

definition at_boundary :: "string \<Rightarrow> nat \<Rightarrow> bool" where
  "at_boundary s i = ((i \<noteq> 0 \<and> word_at s (i - 1)) \<noteq> word_at s i)"

fun match_ends :: "pattern list \<Rightarrow> string \<Rightarrow> nat \<Rightarrow> nat list" where
  "match_ends [] s i = [i]"
| "match_ends (Word_Boundary # ps) s i = (if at_boundary s i then match_ends ps s i else [])"
| "match_ends (One P # ps) s i = (if i < length s \<and> P (s ! i) then match_ends ps s (i + 1) else [])"
| "match_ends (Many P # ps) s i =
     concat (map (\<lambda>n. match_ends ps s (i + n)) [0..<length (takeWhile P (drop i s)) + 1])"

definition re_search :: "pattern list \<Rightarrow> string \<Rightarrow> bool" where
  "re_search ps s = list_ex (\<lambda>i. match_ends ps s i \<noteq> []) [0..<length s + 1]"

definition lit :: "string \<Rightarrow> pattern list" where
  "lit t = map (\<lambda>c. One (\<lambda>d. lower_char d = lower_char c)) t"

definition spaces :: "pattern list" where "spaces = [One is_space, Many is_space]"

definition a_word :: "string \<Rightarrow> pattern list" where "a_word t = Word_Boundary # lit t @ [Word_Boundary]"

definition any_text :: "pattern list" where "any_text = [Many (\<lambda>c. c \<noteq> CHR 0x0A)]"

text \<open>The text of a pattern, written with an at sign for each backslash.\<close>

definition pattern_text :: "string \<Rightarrow> string" where
  "pattern_text t = map (\<lambda>c. if c = CHR ''@'' then CHR 0x5C else c) t"

definition forbidden_command_patterns :: "(string \<times> pattern list) list" where
  "forbidden_command_patterns =
     [(pattern_text ''@brm@s+-[rf]+'', Word_Boundary # lit ''rm'' @ spaces @ lit ''-''
        @ [One (\<lambda>c. lower_char c \<in> {CHR ''r'', CHR ''f''}), Many (\<lambda>c. lower_char c \<in> {CHR ''r'', CHR ''f''})]),
      (pattern_text ''@brm@b'', a_word ''rm''),
      (pattern_text ''@bgit@s+clean@b'', Word_Boundary # lit ''git'' @ spaces @ lit ''clean'' @ [Word_Boundary]),
      (pattern_text ''@bgit@s+reset@s+--hard@b'', Word_Boundary # lit ''git'' @ spaces @ lit ''reset'' @ spaces @ lit ''--hard'' @ [Word_Boundary]),
      (pattern_text ''@bgit@s+restore@b'', Word_Boundary # lit ''git'' @ spaces @ lit ''restore'' @ [Word_Boundary]),
      (pattern_text ''@bgit@s+push@s+.*--force'', Word_Boundary # lit ''git'' @ spaces @ lit ''push'' @ spaces @ any_text @ lit ''--force''),
      (pattern_text ''@bgit@s+worktree@s+remove@b'', Word_Boundary # lit ''git'' @ spaces @ lit ''worktree'' @ spaces @ lit ''remove'' @ [Word_Boundary]),
      (pattern_text ''@bgit@s+branch@s+-[dD]@b'', Word_Boundary # lit ''git'' @ spaces @ lit ''branch'' @ spaces @ lit ''-''
        @ [One (\<lambda>c. lower_char c = CHR ''d''), Word_Boundary]),
      (pattern_text ''@bsudo@b'', a_word ''sudo''),
      (pattern_text ''@bchmod@b'', a_word ''chmod''),
      (pattern_text ''@bchown@b'', a_word ''chown''),
      (pattern_text ''@bpip@s+install@b'', Word_Boundary # lit ''pip'' @ spaces @ lit ''install'' @ [Word_Boundary]),
      (pattern_text ''@bnpm@s+install@b'', Word_Boundary # lit ''npm'' @ spaces @ lit ''install'' @ [Word_Boundary]),
      (pattern_text ''@bcurl@b.*@|@s*sh'', a_word ''curl'' @ any_text @ lit ''|'' @ [Many is_space] @ lit ''sh'')]"

text \<open>The first pattern that matches a command, if any.\<close>

definition denied_by :: "string list \<Rightarrow> string option" where
  "denied_by command = map_option fst
     (find (\<lambda>(t, p). re_search p (join_with '' '' command)) forbidden_command_patterns)"

section \<open>Verification\<close>

text \<open>The view of a workspace: what a resolved path lies in and holds, and what a command run in it
  gives.\<close>

datatype command_outcome = Timed_Out | Not_Executed string | Exited int

record workspace =
  ws_inside :: "string \<Rightarrow> bool"
  ws_is_file :: "string \<Rightarrow> bool"
  ws_text :: "string \<Rightarrow> string + string"
  ws_executable :: "string \<Rightarrow> bool"
  ws_run :: "string list \<Rightarrow> int \<Rightarrow> command_outcome"

definition text_meets :: "file_check \<Rightarrow> string option \<Rightarrow> string \<Rightarrow> bool" where
  "text_meets kind expected actual = (case kind of
     exact_file_content \<Rightarrow> Some actual = expected
   | file_exists \<Rightarrow> True
   | file_contains \<Rightarrow> contains (option_text expected) actual
   | file_not_contains \<Rightarrow> \<not> contains (option_text expected) actual)"

definition verify_command :: "workspace \<Rightarrow> string list \<Rightarrow> int \<Rightarrow> acceptance_exc + json_object" where
  "verify_command ws argv timeout =
     (if denied_by argv \<noteq> None
      then reject_check ''DETERMINISTIC_ACCEPTANCE_COMMAND_ARG_NOT_ALLOWED''
        [JStr ''Command denied by Lucius Unattended Safety Gate: '', JStr (join_with '' '' argv),
         JStr '' matched pattern '', jtext (denied_by argv)]
      else if \<not> ws_executable ws (hd argv)
      then reject_check ''DETERMINISTIC_ACCEPTANCE_COMMAND_EXECUTABLE_MISSING''
        [JStr ''command_succeeds executable does not exist: '', JStr (hd argv)]
      else case ws_run ws argv timeout of
        Timed_Out \<Rightarrow> reject_check ''DETERMINISTIC_ACCEPTANCE_COMMAND_TIMEOUT''
          [JStr ''command_succeeds timed out after '', JInt timeout, JStr '' seconds.'']
      | Not_Executed t \<Rightarrow> reject_check ''DETERMINISTIC_ACCEPTANCE_COMMAND_EXECUTION_FAILED''
          [JStr ''command_succeeds could not execute: '', JStr t]
      | Exited n \<Rightarrow>
          if n \<noteq> 0
          then reject_check ''DETERMINISTIC_ACCEPTANCE_COMMAND_NONZERO_EXIT''
            [JStr ''command_succeeds failed with exit code '', JInt n, JStr ''.'']
          else Inr [(''result'', JStr ''PASS''), (''type'', JStr ''deterministic_acceptance_command_succeeds''),
            (''timeout_seconds'', JInt timeout), (''exit_code'', JInt n), (''timed_out'', JBool False)])"

definition content_mismatch :: "file_check \<Rightarrow> string option \<Rightarrow> string \<Rightarrow> string \<Rightarrow> acceptance_exc" where
  "content_mismatch kind expected actual path = (case kind of
     exact_file_content \<Rightarrow> Acceptance_Error ''DETERMINISTIC_ACCEPTANCE_EXACT_CONTENT_MISMATCH''
       [JStr ''Exact file content acceptance failed for '', JStr path, JStr '': expected '',
        JInt (int (utf8_len (option_text expected))), JStr '' bytes, observed '', JInt (int (utf8_len actual)), JStr '' bytes.'']
   | file_contains \<Rightarrow> Acceptance_Error ''DETERMINISTIC_ACCEPTANCE_REQUIRED_TEXT_MISSING''
       [JStr ''File content acceptance failed for '', JStr path, JStr '': expected text was not present.'']
   | _ \<Rightarrow> Acceptance_Error ''DETERMINISTIC_ACCEPTANCE_FORBIDDEN_TEXT_PRESENT''
       [JStr ''File content acceptance failed for '', JStr path, JStr '': forbidden text was present.''])"

definition check_detail :: "file_check \<Rightarrow> string" where
  "check_detail kind = (case kind of
     exact_file_content \<Rightarrow> ''Workspace file content exactly matches the frozen acceptance value.''
   | file_exists \<Rightarrow> ''Workspace file exists as a regular file.''
   | file_contains \<Rightarrow> ''Workspace file content contains the frozen acceptance text.''
   | file_not_contains \<Rightarrow> ''Workspace file content does not contain the forbidden frozen text.'')"

definition passed :: "file_check \<Rightarrow> string \<Rightarrow> string \<Rightarrow> json_object" where
  "passed kind path detail = [(''result'', JStr ''PASS''),
     (''type'', JStr (''deterministic_acceptance_'' @ file_check_value kind)), (''path'', JStr path),
     (''detail'', JStr detail)]"

definition verify_file :: "workspace \<Rightarrow> file_check \<Rightarrow> string \<Rightarrow> string option \<Rightarrow> acceptance_exc + json_object" where
  "verify_file ws kind path expected =
     (if \<not> ws_inside ws path
      then reject_check ''INVALID_DETERMINISTIC_ACCEPTANCE_PATH''
        [JStr ''Deterministic acceptance path escapes workspace: '', JStr path]
      else if \<not> ws_is_file ws path
      then reject_check ''DETERMINISTIC_ACCEPTANCE_TARGET_MISSING''
        [JStr ''Deterministic acceptance target does not exist: '', JStr path]
      else if kind = file_exists then Inr (passed kind path (check_detail kind))
      else case ws_text ws path of
        Inl e \<Rightarrow> reject_check ''DETERMINISTIC_ACCEPTANCE_READ_FAILED''
          [JStr ''Could not read deterministic acceptance target '', JStr path, JStr '': '', JStr e]
      | Inr actual \<Rightarrow>
          if \<not> text_meets kind expected actual then Inl (content_mismatch kind expected actual path)
          else Inr (passed kind path (check_detail kind) @ [(''bytes'', JInt (int (utf8_len actual)))]))"

definition verify_check :: "workspace \<Rightarrow> acceptance_check \<Rightarrow> acceptance_exc + json_object" where
  "verify_check ws c = (case c of
     Command_Check argv n \<Rightarrow> verify_command ws argv n
   | File_Check kind path expected \<Rightarrow> verify_file ws kind path expected)"

fun collect_results :: "('a \<Rightarrow> 'e + 'b) \<Rightarrow> 'a list \<Rightarrow> 'e + 'b list" where
  "collect_results f [] = Inr []"
| "collect_results f (x # xs) = (case f x of
     Inl e \<Rightarrow> Inl e
   | Inr y \<Rightarrow> (case collect_results f xs of Inl e \<Rightarrow> Inl e | Inr ys \<Rightarrow> Inr (y # ys)))"

definition verify_deterministic_acceptance ::
  "workspace \<Rightarrow> json \<Rightarrow> string list \<Rightarrow> acceptance_exc + json_object list" where
  "verify_deterministic_acceptance ws raw authorized = (case normalize_checks authorized raw of
     Inl e \<Rightarrow> Inl e | Inr cs \<Rightarrow> collect_results (verify_check ws) cs)"

text \<open>The contents captured from an execution: the last entry of a path counts.\<close>

definition content_by_path :: "json list \<Rightarrow> string \<Rightarrow> string option" where
  "content_by_path captured = fold (\<lambda>x m. case x of
     JObj d \<Rightarrow> (case (jget ''path'' d, jget ''content'' d) of
         (Some (JStr p), Some (JStr c)) \<Rightarrow> m(p \<mapsto> c) | _ \<Rightarrow> m)
   | _ \<Rightarrow> m) captured Map.empty"

definition captured_mismatch :: "file_check \<Rightarrow> string \<Rightarrow> acceptance_exc" where
  "captured_mismatch kind path = (case kind of
     exact_file_content \<Rightarrow> Acceptance_Error ''DETERMINISTIC_ACCEPTANCE_EXACT_CONTENT_MISMATCH''
       [JStr ''Exact file content acceptance failed for captured content: '', JStr path]
   | file_contains \<Rightarrow> Acceptance_Error ''DETERMINISTIC_ACCEPTANCE_REQUIRED_TEXT_MISSING''
       [JStr ''File content acceptance failed for captured content '', JStr path, JStr '': expected text was not present.'']
   | _ \<Rightarrow> Acceptance_Error ''DETERMINISTIC_ACCEPTANCE_FORBIDDEN_TEXT_PRESENT''
       [JStr ''File content acceptance failed for captured content '', JStr path, JStr '': forbidden text was present.''])"

definition verify_captured :: "(string \<Rightarrow> string option) \<Rightarrow> acceptance_check \<Rightarrow> acceptance_exc + json_object list" where
  "verify_captured contents c = (case c of
     Command_Check _ _ \<Rightarrow> Inr []
   | File_Check kind path expected \<Rightarrow>
       (case contents path of
          None \<Rightarrow> reject_check ''DETERMINISTIC_ACCEPTANCE_TARGET_MISSING''
            [JStr ''Deterministic acceptance target does not exist in captured content: '', JStr path]
        | Some actual \<Rightarrow>
            if \<not> text_meets kind expected actual then Inl (captured_mismatch kind path)
            else Inr [passed kind path ''Captured file content satisfies the frozen deterministic acceptance check.'']))"

definition verify_deterministic_acceptance_content ::
  "json list \<Rightarrow> json \<Rightarrow> string list \<Rightarrow> acceptance_exc + json_object list" where
  "verify_deterministic_acceptance_content captured raw authorized = (case normalize_checks authorized raw of
     Inl e \<Rightarrow> Inl e
   | Inr cs \<Rightarrow> map_sum id concat (collect_results (verify_captured (content_by_path captured)) cs))"

section \<open>What normalisation establishes\<close>

text \<open>A path without root, parent component and backslash.\<close>

definition safe_path :: "string \<Rightarrow> bool" where
  "safe_path p \<longleftrightarrow> \<not> starts_with ''/'' p \<and> ''..'' \<notin> set (split_on (CHR ''/'') p) \<and> CHR 0x5C \<notin> set p"

lemma split_on_append:
  assumes "c \<notin> set p"
  shows "split_on c (p @ c # s) = p # split_on c s"
  using assms by (induction p) auto

lemma split_on_plain: "c \<notin> set p \<Longrightarrow> split_on c p = [p]"
  by (induction p) auto

lemma split_on_join:
  assumes "ps \<noteq> []" and "\<forall>p \<in> set ps. c \<notin> set p"
  shows "split_on c (join_with [c] ps) = ps"
  using assms by (induction "[c]" ps rule: join_with.induct) (auto simp: split_on_plain split_on_append)

lemma path_tail_pieces: "p \<in> set (path_tail t) \<Longrightarrow> CHR ''/'' \<notin> set p \<and> p \<noteq> [] \<and> p \<noteq> ''.'' \<and> set p \<subseteq> set t"
  using split_on_no_sep [of p _ t] split_on_chars [of p _ t] unfolding path_tail_def by auto

lemma set_join_with: "set (join_with sep ps) \<subseteq> set sep \<union> (\<Union>p \<in> set ps. set p)"
  by (induction sep ps rule: join_with.induct) auto

lemma validated_path:
  assumes "validate_relative_repo_path raw = Some p"
  shows "safe_path p"
proof -
  obtain t where t: "raw = JStr t" "CHR 0x5C \<notin> set t" "\<not> starts_with ''/'' t" "''..'' \<notin> set (path_parts t)" "p = path_posix t"
    using assms by (auto simp: validate_relative_repo_path_def split: json.splits if_splits)
  have root: "path_root t = []"
    using t(3) by (auto simp: path_root_def starts_with_iff)
  show ?thesis
  proof (cases "path_tail t = []")
    case True
    with t(5) root show ?thesis by (simp add: path_posix_def safe_path_def)
  next
    case False
    have p: "p = join_with ''/'' (path_tail t)"
      using t(5) root False by (simp add: path_posix_def)
    have no: "\<forall>q \<in> set (path_tail t). CHR ''/'' \<notin> set q"
      using path_tail_pieces by blast
    have split: "split_on (CHR ''/'') p = path_tail t"
      using split_on_join [OF False no] p by simp
    have "CHR 0x5C \<notin> set p"
      using p set_join_with [of "''/''" "path_tail t"] path_tail_pieces t(2) by fastforce
    moreover have "\<not> starts_with ''/'' p"
    proof
      assume "starts_with ''/'' p"
      then have "[] \<in> set (split_on (CHR ''/'') p)" by (auto simp: starts_with_iff)
      then show False using split path_tail_pieces by auto
    qed
    moreover have "''..'' \<notin> set (split_on (CHR ''/'') p)"
      using split t(4) by (simp add: path_parts_def)
    ultimately show ?thesis by (simp add: safe_path_def)
  qed
qed

definition safe_pytest_arg :: "string \<Rightarrow> bool" where
  "safe_pytest_arg a \<longleftrightarrow> a \<in> set allowed_pytest_options
     \<or> starts_with ''--maxfail='' a \<and> 1 \<le> undec (after_equals a) \<and> undec (after_equals a) \<le> 10
     \<or> (\<exists>p. validate_relative_repo_path (JStr (before_colons a)) = Some p \<and> safe_path p
          \<and> (p = ''tests'' \<or> starts_with ''tests/'' p) \<and> \<not> starts_with ''-'' a)"

definition check_in_scope :: "string list \<Rightarrow> acceptance_check \<Rightarrow> bool" where
  "check_in_scope authorized c = (case c of
     File_Check kind p t \<Rightarrow> p \<in> set authorized \<and> safe_path p \<and> (t = None \<longleftrightarrow> kind = file_exists)
   | Command_Check argv n \<Rightarrow>
       (\<exists>exe args. argv = exe # ''-m'' # ''pytest'' # args \<and> exe \<in> set allowed_command_executables
          \<and> list_all safe_pytest_arg args)
       \<and> (\<forall>a \<in> set argv. set a \<inter> set shell_metachars = {})
       \<and> 1 \<le> n \<and> n \<le> 600)"

lemma pytest_args_safe: "validate_pytest_args index as = Inr u \<Longrightarrow> list_all safe_pytest_arg as"
proof (induction as)
  case (Cons a as)
  then have a: "validate_pytest_arg index a = Inr ()"
    by (auto split: sum.splits)
  have "safe_pytest_arg a"
    using a validated_path
    by (auto simp: validate_pytest_arg_def validate_pytest_target_def reject_check_def safe_pytest_arg_def Let_def
        split: if_splits option.splits)
  with Cons show ?case by (auto split: sum.splits)
qed simp

lemma allowed_argv:
  assumes "validate_allowed_command_argv index argv = Inr u"
  shows "(\<exists>exe args. argv = exe # ''-m'' # ''pytest'' # args \<and> exe \<in> set allowed_command_executables
      \<and> list_all safe_pytest_arg args) \<and> (\<forall>a \<in> set argv. set a \<inter> set shell_metachars = {})"
proof -
  have argv: "hd argv \<in> set allowed_command_executables" "\<not> list_ex (list_ex (\<lambda>c. c \<in> set shell_metachars)) argv"
    "3 \<le> length argv" "take 2 (drop 1 argv) = [''-m'', ''pytest'']" "validate_pytest_args index (drop 3 argv) = Inr u"
    using assms by (auto simp: validate_allowed_command_argv_def reject_check_def split: if_splits)
  obtain a b c as where as: "argv = a # b # c # as"
    using argv(3) by (metis Suc_le_length_iff numeral_3_eq_3)
  show ?thesis
    using argv pytest_args_safe [of index as u] unfolding as
    by (auto simp: list_ex_iff)
qed

lemma normalized_in_scope:
  assumes "normalize_check authorized index raw = Inr c"
  shows "check_in_scope authorized c"
proof -
  obtain check t where raw: "raw = JObj check" "jget ''type'' check = Some (JStr t)"
    using assms by (auto simp: normalize_check_def reject_check_def split: json.splits option.splits)
  show ?thesis
  proof (cases "t = ''command_succeeds''")
    case True
    with assms raw have "normalize_command_check index check = Inr c" by (simp add: normalize_check_def)
    then show ?thesis
      by (auto simp: normalize_command_check_def reject_check_def check_in_scope_def max_command_timeout_seconds_def
          split: if_splits option.splits list.splits sum.splits dest!: allowed_argv)
  next
    case False
    then obtain kind where "normalize_file_check authorized index kind check = Inr c"
      using assms raw by (auto simp: normalize_check_def reject_check_def split: option.splits)
    then show ?thesis
      using validated_path
      by (auto simp: normalize_file_check_def reject_check_def check_in_scope_def Let_def
          split: if_splits option.splits json.splits)
  qed
qed

lemma normalize_from_shape:
  assumes "normalize_checks_from authorized index seen raws = Inr cs" and "distinct seen"
    and "\<forall>c \<in> set seen. check_in_scope authorized c"
  shows "distinct cs \<and> (\<forall>c \<in> set cs. check_in_scope authorized c) \<and> length cs = length seen + length raws"
  using assms
proof (induction authorized index seen raws rule: normalize_checks_from.induct)
  case (2 authorized index seen raw raws)
  then obtain c where c: "normalize_check authorized index raw = Inr c" "c \<notin> set seen"
    by (auto split: sum.splits if_splits)
  with 2 normalized_in_scope [OF c(1)] show ?case by auto
qed simp

text \<open>C30. Checks stay in scope: what normalisation accepts are pairwise different checks, each
  either on an authorised path that is relative, without parent components and backslashes, or a run of
  pytest by an allowlisted interpreter, within ten minutes, none of whose arguments has a shell
  metacharacter and each of whose arguments is an allowlisted option, a bounded \<open>--maxfail\<close> or a target
  under \<open>tests\<close>.\<close>

theorem accepted_checks_in_scope:
  assumes "normalize_checks authorized raw = Inr cs"
  shows "distinct cs \<and> (\<forall>c \<in> set cs. check_in_scope authorized c)"
  using assms normalize_from_shape [of authorized 1 "[]"]
  by (auto simp: normalize_checks_def reject_check_def split: json.splits)

definition ex_checks :: json where
  "ex_checks = JList [JObj [(''type'', JStr ''file_contains''), (''path'', JStr ''src/a.py''), (''expected_text'', JStr ''def'')],
     JObj [(''type'', JStr ''command_succeeds''), (''argv'', jtexts [''.venv/bin/python'', ''-m'', ''pytest'', ''-q'', ''tests/unit''])]]"

lemma ex_checks_normalized:
  "normalize_checks [''src/a.py''] ex_checks = Inr [File_Check file_contains ''src/a.py'' (Some ''def''),
     Command_Check [''.venv/bin/python'', ''-m'', ''pytest'', ''-q'', ''tests/unit''] 300]"
  by code_simp

theorem accepted_checks_in_scope_witness:
  "check_in_scope [''src/a.py''] (File_Check file_contains ''src/a.py'' (Some ''def''))"
  using accepted_checks_in_scope [OF ex_checks_normalized] by simp

section \<open>What verification establishes\<close>

text \<open>What a check demands of a text, and of a workspace.\<close>

definition text_satisfies :: "file_check \<Rightarrow> string option \<Rightarrow> string \<Rightarrow> bool" where
  "text_satisfies kind expected actual = (case kind of
     exact_file_content \<Rightarrow> expected = Some actual
   | file_exists \<Rightarrow> True
   | file_contains \<Rightarrow> (\<exists>a b. actual = a @ option_text expected @ b)
   | file_not_contains \<Rightarrow> (\<nexists>a b. actual = a @ option_text expected @ b))"

definition check_satisfied :: "workspace \<Rightarrow> acceptance_check \<Rightarrow> bool" where
  "check_satisfied ws c = (case c of
     File_Check kind p expected \<Rightarrow> ws_inside ws p \<and> ws_is_file ws p
       \<and> (kind = file_exists \<or> (\<exists>a. ws_text ws p = Inr a \<and> text_satisfies kind expected a))
   | Command_Check argv n \<Rightarrow> denied_by argv = None \<and> ws_executable ws (hd argv) \<and> ws_run ws argv n = Exited 0)"

definition captured_satisfied :: "json list \<Rightarrow> acceptance_check \<Rightarrow> bool" where
  "captured_satisfied captured c = (case c of
     File_Check kind p expected \<Rightarrow> (\<exists>a. content_by_path captured p = Some a \<and> text_satisfies kind expected a)
   | Command_Check argv n \<Rightarrow> True)"

lemma text_meets_satisfies: "text_meets kind expected actual = text_satisfies kind expected actual"
  by (auto simp: text_meets_def text_satisfies_def contains_iff split: file_check.split)

lemma collect_results_Inr: "(\<exists>ys. collect_results f xs = Inr ys) \<longleftrightarrow> list_all (\<lambda>x. \<exists>y. f x = Inr y) xs"
  by (induction xs) (auto split: sum.splits)

lemma verify_check_Inr: "(\<exists>r. verify_check ws c = Inr r) \<longleftrightarrow> check_satisfied ws c"
  by (auto simp: verify_check_def check_satisfied_def verify_file_def verify_command_def reject_check_def
      text_meets_satisfies split: acceptance_check.split sum.splits command_outcome.splits if_splits)

lemma verify_captured_Inr: "(\<exists>r. verify_captured (content_by_path captured) c = Inr r) \<longleftrightarrow> captured_satisfied captured c"
  by (auto simp: verify_captured_def captured_satisfied_def reject_check_def text_meets_satisfies
      split: acceptance_check.split option.splits)

text \<open>C31. Verification is exact: it returns results exactly when the checks normalise and each of them
  is satisfied, on a workspace (where commands are run) and on captured contents (where they are not).\<close>

theorem verification_exact:
  "((\<exists>rs. verify_deterministic_acceptance ws raw authorized = Inr rs) \<longleftrightarrow>
      (\<exists>cs. normalize_checks authorized raw = Inr cs \<and> list_all (check_satisfied ws) cs))
   \<and> ((\<exists>rs. verify_deterministic_acceptance_content captured raw authorized = Inr rs) \<longleftrightarrow>
      (\<exists>cs. normalize_checks authorized raw = Inr cs \<and> list_all (captured_satisfied captured) cs))"
proof -
  have "(\<exists>rs. map_sum id concat r = Inr rs) \<longleftrightarrow> (\<exists>rs. r = Inr rs)" for r :: "acceptance_exc + json_object list list"
    by (cases r) auto
  then show ?thesis
    using collect_results_Inr [of "verify_check ws"] collect_results_Inr [of "verify_captured (content_by_path captured)"]
    by (auto simp: verify_deterministic_acceptance_def verify_deterministic_acceptance_content_def verify_check_Inr
        verify_captured_Inr split: sum.split)
qed

section \<open>What the gate denies\<close>

lemma match_ends_lit:
  "match_ends (lit t @ ps) s i \<noteq> [] \<longleftrightarrow>
     i + length t \<le> length s \<and> py_lower (take (length t) (drop i s)) = py_lower t \<and> match_ends ps s (i + length t) \<noteq> []"
  if "i \<le> length s"
  using that
proof (induction t arbitrary: i)
  case (Cons c t)
  show ?case
  proof (cases "i < length s")
    case True
    then have "drop i s = s ! i # drop (i + 1) s" by (simp add: Cons_nth_drop_Suc)
    with True Cons.IH [of "i + 1"] show ?thesis
      by (auto simp: lit_def py_lower_def)
  qed (auto simp: lit_def)
qed (simp add: lit_def py_lower_def)

text \<open>A word that stands between boundaries is found.\<close>

lemma a_word_found:
  assumes "s = a @ w @ b" and "py_lower w = py_lower t" and "at_boundary s (length a)" "at_boundary s (length a + length w)"
  shows "re_search (a_word t) s"
proof -
  have len: "length w = length t" using assms(2) by (metis length_map py_lower_def)
  have "match_ends (lit t @ [Word_Boundary]) s (length a) \<noteq> []"
    using assms len by (subst match_ends_lit) auto
  then have "match_ends (a_word t) s (length a) \<noteq> []"
    using assms(3) by (simp add: a_word_def)
  moreover have "length a \<in> set [0..<length s + 1]" using assms(1) by simp
  ultimately show ?thesis unfolding re_search_def list_ex_iff by blast
qed

lemma join_words:
  assumes "w \<in> set ws"
  shows "\<exists>a b. join_with '' '' ws = a @ w @ b \<and> (a = [] \<or> last a = CHR '' '') \<and> (b = [] \<or> hd b = CHR '' '')"
  using assms
proof (induction "'' ''" ws rule: join_with.induct)
  case (3 x y xs)
  show ?case
  proof (cases "w = x")
    case True
    then show ?thesis by (intro exI [of _ "[]"] exI [of _ "'' '' @ join_with '' '' (y # xs)"]) simp
  next
    case False
    then obtain a b where ab: "join_with '' '' (y # xs) = a @ w @ b" "a = [] \<or> last a = CHR '' ''" "b = [] \<or> hd b = CHR '' ''"
      using 3 by auto
    then show ?thesis by (intro exI [of _ "x @ '' '' @ a"] exI [of _ b]) auto
  qed
next
  case (2 x)
  then show ?case by (intro exI [of _ "[]"]) simp
qed simp

lemma lower_char_alnum: "is_alnum (lower_char c) \<Longrightarrow> is_alnum c"
  by (auto simp: is_alnum_def lower_char_def Let_def split: if_splits)

definition denied_words :: "string list" where "denied_words = [''rm'', ''sudo'', ''chmod'', ''chown'']"


definition ex_workspace :: workspace where
  "ex_workspace = \<lparr>ws_inside = (\<lambda>p. True), ws_is_file = (\<lambda>p. True), ws_text = (\<lambda>p. Inr []), ws_executable = (\<lambda>p. True),
     ws_run = (\<lambda>a n. Exited 0)\<rparr>"


section \<open>Findings\<close>

text \<open>A repeated command check raises the \<open>KeyError\<close> of its own error message.\<close>

lemma duplicate_command_is_key_error:
  assumes "normalize_check authorized 1 raw = Inr (Command_Check argv n)"
    and "normalize_check authorized 2 raw = Inr (Command_Check argv n)"
  shows "normalize_checks authorized (JList [raw, raw]) = Inl (Key_Error ''path'')"
  using assms by (simp add: normalize_checks_def duplicate_check_def numeral_2_eq_2)

text \<open>A superscript digit passes \<open>isdigit\<close> and makes \<open>int\<close> raise.\<close>

lemma superscript_maxfail_raises:
  "validate_pytest_arg 1 (''--maxfail='' @ [CHR 0xB2]) = Inl Value_Error"
  by (simp add: validate_pytest_arg_def allowed_pytest_options_def after_equals_def is_digit_text_def is_digit_def Let_def)

end
