(* ===== verification/Planning.thy ===== *)
theory Planning
  imports Acceptance Missions Dispatcher
begin

text \<open>
  Engineering plans: the schemas of \<^verbatim>\<open>planning/schemas.py\<close>, the validation that
  enriches a model's plan (\<^verbatim>\<open>planning/validation.py\<close>), the canonical form of
  documentation requirements (\<^verbatim>\<open>pilots/documentation_contract.py\<close>) and the storage
  of plans with their versions and supersessions (\<^verbatim>\<open>planning/persistence.py\<close>).
  The text of an acceptance error is formatted from the pieces it carries by a parameter. Where the code
  iterates over a Python set, whose order is unspecified, the model takes the sorted order.
\<close>

section \<open>Vocabulary\<close>

datatype plan_risk = LOW | MEDIUM | HIGH | CRITICAL

datatype plan_status = DRAFT | PROPOSED | APPROVED | SUPERSEDED | REJECTED

datatype planning_blocker_code = TASK_NOT_READY | TASK_CONTRACT_INVALID | PROJECT_INACTIVE | REPOSITORY_SNAPSHOT_REQUIRED
  | SNAPSHOT_STALE | NO_RELEVANT_EVIDENCE | MODEL_UNAVAILABLE | MODEL_POLICY_BLOCK | PLANNING_CONTEXT_INVALID
  | ENGINEERING_PLAN_INVALID | AUTHORITY_ESCALATION_REQUIRED | DECISION_REQUIRED

datatype step_support = SUPPORTED | PARTIALLY_SUPPORTED | INFERRED | BLOCKED_BY_UNKNOWN

datatype coverage_status = COVERED | PARTIALLY_COVERED | NOT_COVERED | BLOCKED

datatype affected_status = EXISTING_VERIFIED | LIKELY_EXISTING | NEW_PROPOSED | UNKNOWN

datatype test_kind = STATIC | UNIT | INTEGRATION | REGRESSION | SYSTEM | REAL_WORLD_VALIDATION

primrec risk_rank :: "plan_risk \<Rightarrow> nat" where
  "risk_rank plan_risk.LOW = 0"
| "risk_rank MEDIUM = 1"
| "risk_rank plan_risk.HIGH = 2"
| "risk_rank plan_risk.CRITICAL = 3"

instantiation plan_risk :: linorder
begin

definition less_eq_plan_risk :: "plan_risk \<Rightarrow> plan_risk \<Rightarrow> bool" where
  "less_eq_plan_risk a b = (risk_rank a \<le> risk_rank b)"

definition less_plan_risk :: "plan_risk \<Rightarrow> plan_risk \<Rightarrow> bool" where
  "less_plan_risk a b = (risk_rank a < risk_rank b)"

instance
proof
  fix a b :: plan_risk
  show "a \<le> b \<Longrightarrow> b \<le> a \<Longrightarrow> a = b"
    by (cases a; cases b) (simp_all add: less_eq_plan_risk_def)
qed (auto simp: less_eq_plan_risk_def less_plan_risk_def)

end

primrec plan_risk_value :: "plan_risk \<Rightarrow> string" where
  "plan_risk_value plan_risk.LOW = ''LOW''"
| "plan_risk_value MEDIUM = ''MEDIUM''"
| "plan_risk_value plan_risk.HIGH = ''HIGH''"
| "plan_risk_value plan_risk.CRITICAL = ''CRITICAL''"

primrec plan_status_value :: "plan_status \<Rightarrow> string" where
  "plan_status_value plan_status.DRAFT = ''DRAFT''"
| "plan_status_value PROPOSED = ''PROPOSED''"
| "plan_status_value APPROVED = ''APPROVED''"
| "plan_status_value plan_status.SUPERSEDED = ''SUPERSEDED''"
| "plan_status_value plan_status.REJECTED = ''REJECTED''"

primrec planning_blocker_value :: "planning_blocker_code \<Rightarrow> string" where
  "planning_blocker_value TASK_NOT_READY = ''TASK_NOT_READY''"
| "planning_blocker_value TASK_CONTRACT_INVALID = ''TASK_CONTRACT_INVALID''"
| "planning_blocker_value PROJECT_INACTIVE = ''PROJECT_INACTIVE''"
| "planning_blocker_value REPOSITORY_SNAPSHOT_REQUIRED = ''REPOSITORY_SNAPSHOT_REQUIRED''"
| "planning_blocker_value SNAPSHOT_STALE = ''SNAPSHOT_STALE''"
| "planning_blocker_value NO_RELEVANT_EVIDENCE = ''NO_RELEVANT_EVIDENCE''"
| "planning_blocker_value MODEL_UNAVAILABLE = ''MODEL_UNAVAILABLE''"
| "planning_blocker_value MODEL_POLICY_BLOCK = ''MODEL_POLICY_BLOCK''"
| "planning_blocker_value PLANNING_CONTEXT_INVALID = ''PLANNING_CONTEXT_INVALID''"
| "planning_blocker_value ENGINEERING_PLAN_INVALID = ''ENGINEERING_PLAN_INVALID''"
| "planning_blocker_value AUTHORITY_ESCALATION_REQUIRED = ''AUTHORITY_ESCALATION_REQUIRED''"
| "planning_blocker_value planning_blocker_code.DECISION_REQUIRED = ''DECISION_REQUIRED''"

primrec step_support_value :: "step_support \<Rightarrow> string" where
  "step_support_value SUPPORTED = ''SUPPORTED''"
| "step_support_value PARTIALLY_SUPPORTED = ''PARTIALLY_SUPPORTED''"
| "step_support_value INFERRED = ''INFERRED''"
| "step_support_value BLOCKED_BY_UNKNOWN = ''BLOCKED_BY_UNKNOWN''"

primrec coverage_status_value :: "coverage_status \<Rightarrow> string" where
  "coverage_status_value COVERED = ''COVERED''"
| "coverage_status_value PARTIALLY_COVERED = ''PARTIALLY_COVERED''"
| "coverage_status_value NOT_COVERED = ''NOT_COVERED''"
| "coverage_status_value coverage_status.BLOCKED = ''BLOCKED''"

primrec affected_status_value :: "affected_status \<Rightarrow> string" where
  "affected_status_value EXISTING_VERIFIED = ''EXISTING_VERIFIED''"
| "affected_status_value LIKELY_EXISTING = ''LIKELY_EXISTING''"
| "affected_status_value NEW_PROPOSED = ''NEW_PROPOSED''"
| "affected_status_value UNKNOWN = ''UNKNOWN''"

primrec test_kind_value :: "test_kind \<Rightarrow> string" where
  "test_kind_value STATIC = ''STATIC''"
| "test_kind_value UNIT = ''UNIT''"
| "test_kind_value INTEGRATION = ''INTEGRATION''"
| "test_kind_value REGRESSION = ''REGRESSION''"
| "test_kind_value SYSTEM = ''SYSTEM''"
| "test_kind_value REAL_WORLD_VALIDATION = ''REAL_WORLD_VALIDATION''"

section \<open>Schemas\<close>

record planning_blocker =
  pb_code :: planning_blocker_code
  pb_message :: string
  pb_metadata :: json_object

record planning_evidence_item =
  pe_evidence_id :: string
  pe_repository_id :: string
  pe_snapshot_id :: string
  pe_source_type :: source_type
  pe_path :: string
  pe_snippet :: "string option"
  pe_relevance_score :: rat
  pe_match_reasons :: "string list"

record planning_memory_item =
  pm_memory_id :: string
  pm_scope :: knowledge_scope
  pm_statement :: string
  pm_validation_status :: validation_status
  pm_confidence :: rat
  pm_requires_revalidation :: bool
  pm_source_evidence_ids :: "string list"

record planning_context =
  pc_task_id :: string
  pc_run_id :: "string option"
  pc_project_id :: string
  pc_task_title :: string
  pc_task_objective :: string
  pc_task_status :: task_status
  pc_task_authority_level :: authority_level
  pc_task_complexity :: task_complexity
  pc_task_contract_id :: string
  pc_task_contract_version :: nat
  pc_contract_objective :: string
  pc_acceptance_criteria :: "criterion list"
  pc_constraints :: "string list"
  pc_allowed_actions :: "allowed_action list"
  pc_environment :: environment
  pc_contract_authority_level :: authority_level
  pc_documentation_required :: bool
  pc_documentation_targets :: "string list"
  pc_snapshot_metadata :: "json_object list"
  pc_evidence :: "planning_evidence_item list"
  pc_memory :: "planning_memory_item list"
  pc_context_warnings :: "json_object list"
  pc_omitted_counts :: "nat \<times> nat"
  pc_total_context_bytes :: nat
  pc_created_at :: timestamp

record plan_assumption =
  as_statement :: string
  as_verified :: bool
  as_evidence_ids :: "string list"

record plan_unknown =
  un_statement :: string
  un_blocking :: bool
  un_needed_to_resolve :: "string option"

record plan_open_question =
  oq_question :: string
  oq_reason :: string
  oq_blocking :: bool
  oq_required_decision_authority :: authority_level

record affected_file =
  af_path :: string
  af_status :: affected_status
  af_evidence_ids :: "string list"

record plan_step =
  st_step_id :: string
  st_sequence :: int
  st_title :: string
  st_description :: string
  st_affected_components :: "string list"
  st_affected_files :: "string list"
  st_required_evidence_ids :: "string list"
  st_memory_ids :: "string list"
  st_dependencies :: "string list"
  st_expected_result :: string
  st_validation :: string
  st_risk :: plan_risk
  st_authority_level :: authority_level
  st_support_status :: step_support

record acceptance_coverage =
  co_criterion_id :: string
  co_status :: coverage_status
  co_step_ids :: "string list"
  co_evidence_ids :: "string list"
  co_notes :: "string option"

record declared_check =
  dk_type :: string
  dk_path :: "string option"
  dk_expected_text :: "string option"
  dk_argv :: "string list option"
  dk_timeout_seconds :: "int option"

record test_recommendation =
  te_kind :: test_kind
  te_description :: string
  te_acceptance_criteria :: "string list"
  te_evidence_ids :: "string list"

record documentation_requirement =
  dr_target :: string
  dr_reason :: string
  dr_trigger :: string
  dr_target_type :: "string option"
  dr_exact_path_required :: "bool option"
  dr_acceptable_paths :: "string list"
  dr_acceptable_categories :: "string list"
  dr_proposed_path :: "string option"
  dr_canonical_target :: "string option"

record plan_risk_item =
  ri_risk :: string
  ri_level :: plan_risk
  ri_mitigation :: "string option"

record model_plan =
  mp_summary :: string
  mp_objective :: string
  mp_risk_level :: plan_risk
  mp_required_authority_level :: authority_level
  mp_assumptions :: "plan_assumption list"
  mp_unknowns :: "plan_unknown list"
  mp_open_questions :: "plan_open_question list"
  mp_affected_components :: "string list"
  mp_affected_files :: "affected_file list"
  mp_steps :: "plan_step list"
  mp_acceptance_coverage :: "acceptance_coverage list"
  mp_deterministic_acceptance_checks :: "declared_check list"
  mp_test_strategy :: "test_recommendation list"
  mp_documentation_requirements :: "documentation_requirement list"
  mp_rollback_considerations :: "string list"
  mp_orchestration_contract_required :: bool
  mp_orchestration_contract :: json_object
  mp_adversarial_probes :: "json_object list"
  mp_dependencies :: "string list"
  mp_risks :: "plan_risk_item list"
  mp_estimated_scope :: "string option"
  mp_confidence :: "rat option"

text \<open>The validators of the schemas: those of a declared check, of a step and of a plan.\<close>

definition valid_declared_check :: "declared_check \<Rightarrow> bool" where
  "valid_declared_check d =
     (dk_type d \<in> {''exact_file_content'', ''file_exists'', ''file_contains'', ''file_not_contains'', ''command_succeeds''}
      \<and> (case dk_path d of None \<Rightarrow> True | Some p \<Rightarrow> p \<noteq> [] \<and> py_strip p = p)
      \<and> (if dk_type d = ''command_succeeds''
         then dk_path d = None \<and> dk_expected_text d = None
           \<and> (case dk_argv d of None \<Rightarrow> False | Some argv \<Rightarrow> argv \<noteq> [] \<and> list_all (\<lambda>a. a \<noteq> []) argv)
         else dk_argv d = None \<and> dk_timeout_seconds d = None \<and> dk_path d \<noteq> None
           \<and> (dk_type d = ''file_exists'' \<longleftrightarrow> dk_expected_text d = None)))"

definition valid_model_plan :: "model_plan \<Rightarrow> bool" where
  "valid_model_plan p = (list_all (\<lambda>s. 1 \<le> st_sequence s) (mp_steps p)
     \<and> list_all valid_declared_check (mp_deterministic_acceptance_checks p)
     \<and> (case mp_confidence p of None \<Rightarrow> True | Some c \<Rightarrow> 0 \<le> c \<and> c \<le> 1))"

section \<open>JSON of the parts\<close>

definition blocker_dump :: "planning_blocker \<Rightarrow> json" where
  "blocker_dump b = JObj [(''code'', JStr (planning_blocker_value (pb_code b))), (''message'', JStr (pb_message b)),
     (''metadata'', JObj (pb_metadata b))]"

definition assumption_dump :: "plan_assumption \<Rightarrow> json" where
  "assumption_dump a = JObj [(''statement'', JStr (as_statement a)), (''verified'', JBool (as_verified a)),
     (''evidence_ids'', jtexts (as_evidence_ids a))]"

definition unknown_dump :: "plan_unknown \<Rightarrow> json" where
  "unknown_dump u = JObj [(''statement'', JStr (un_statement u)), (''blocking'', JBool (un_blocking u)),
     (''needed_to_resolve'', jtext (un_needed_to_resolve u))]"

definition open_question_dump :: "plan_open_question \<Rightarrow> json" where
  "open_question_dump q = JObj [(''question'', JStr (oq_question q)), (''reason'', JStr (oq_reason q)),
     (''blocking'', JBool (oq_blocking q)),
     (''required_decision_authority'', JStr (authority_value (oq_required_decision_authority q)))]"

definition affected_file_dump :: "affected_file \<Rightarrow> json" where
  "affected_file_dump f = JObj [(''path'', JStr (af_path f)), (''status'', JStr (affected_status_value (af_status f))),
     (''evidence_ids'', jtexts (af_evidence_ids f))]"

definition step_dump :: "plan_step \<Rightarrow> json" where
  "step_dump s = JObj [(''step_id'', JStr (st_step_id s)), (''sequence'', JInt (st_sequence s)),
     (''title'', JStr (st_title s)), (''description'', JStr (st_description s)),
     (''affected_components'', jtexts (st_affected_components s)), (''affected_files'', jtexts (st_affected_files s)),
     (''required_evidence_ids'', jtexts (st_required_evidence_ids s)), (''memory_ids'', jtexts (st_memory_ids s)),
     (''dependencies'', jtexts (st_dependencies s)), (''expected_result'', JStr (st_expected_result s)),
     (''validation'', JStr (st_validation s)), (''risk'', JStr (plan_risk_value (st_risk s))),
     (''authority_level'', JStr (authority_value (st_authority_level s))),
     (''support_status'', JStr (step_support_value (st_support_status s)))]"

definition coverage_dump :: "acceptance_coverage \<Rightarrow> json" where
  "coverage_dump c = JObj [(''criterion_id'', JStr (co_criterion_id c)), (''status'', JStr (coverage_status_value (co_status c))),
     (''step_ids'', jtexts (co_step_ids c)), (''evidence_ids'', jtexts (co_evidence_ids c)), (''notes'', jtext (co_notes c))]"

text \<open>\<open>model_dump(exclude_none=True)\<close>: an absent value is left out.\<close>

definition present_member :: "string \<Rightarrow> json option \<Rightarrow> json_object" where
  "present_member k v = (case v of None \<Rightarrow> [] | Some j \<Rightarrow> [(k, j)])"

definition declared_check_dump :: "declared_check \<Rightarrow> json" where
  "declared_check_dump d = JObj ([(''type'', JStr (dk_type d))]
     @ present_member ''path'' (map_option JStr (dk_path d))
     @ present_member ''expected_text'' (map_option JStr (dk_expected_text d))
     @ present_member ''argv'' (map_option jtexts (dk_argv d))
     @ present_member ''timeout_seconds'' (map_option JInt (dk_timeout_seconds d)))"

definition test_recommendation_dump :: "test_recommendation \<Rightarrow> json" where
  "test_recommendation_dump t = JObj [(''kind'', JStr (test_kind_value (te_kind t))), (''description'', JStr (te_description t)),
     (''acceptance_criteria'', jtexts (te_acceptance_criteria t)), (''evidence_ids'', jtexts (te_evidence_ids t))]"

definition documentation_requirement_dump :: "documentation_requirement \<Rightarrow> json_object" where
  "documentation_requirement_dump d = [(''target'', JStr (dr_target d)), (''reason'', JStr (dr_reason d)),
     (''trigger'', JStr (dr_trigger d)), (''target_type'', jtext (dr_target_type d)),
     (''exact_path_required'', case dr_exact_path_required d of None \<Rightarrow> JNull | Some b \<Rightarrow> JBool b),
     (''acceptable_paths'', jtexts (dr_acceptable_paths d)), (''acceptable_categories'', jtexts (dr_acceptable_categories d)),
     (''proposed_path'', jtext (dr_proposed_path d)), (''canonical_target'', jtext (dr_canonical_target d))]"

definition risk_item_dump :: "plan_risk_item \<Rightarrow> json" where
  "risk_item_dump r = JObj [(''risk'', JStr (ri_risk r)), (''level'', JStr (plan_risk_value (ri_level r))),
     (''mitigation'', jtext (ri_mitigation r))]"

section \<open>The documentation contract\<close>

definition exact_documentation_target_types :: "string list" where
  "exact_documentation_target_types = [''EXACT_PATH'', ''REQUIRED_PATH'', ''NEW_DOCUMENT'', ''PROPOSED_PATH'']"

text \<open>\<open>str(value or "").strip()\<close>.\<close>

definition clean_value :: "json option \<Rightarrow> string" where
  "clean_value v = (case v of None \<Rightarrow> [] | Some j \<Rightarrow> if json_truthy j then py_strip (scalar_text j) else [])"

definition member_or :: "json option \<Rightarrow> json option \<Rightarrow> json option" where
  "member_or a b = (case a of None \<Rightarrow> b | Some j \<Rightarrow> if json_truthy j then a else b)"

fun add_ordered :: "string list \<Rightarrow> json list \<Rightarrow> string list" where
  "add_ordered acc [] = acc"
| "add_ordered acc (v # vs) = (let t = clean_value (Some v)
     in add_ordered (if t \<noteq> [] \<and> t \<notin> set acc then acc @ [t] else acc) vs)"

definition ordered_strings :: "json option \<Rightarrow> string list" where
  "ordered_strings v = (case v of Some (JList vs) \<Rightarrow> add_ordered [] vs | _ \<Rightarrow> [])"

definition looks_like_documentation_path :: "string \<Rightarrow> bool" where
  "looks_like_documentation_path t = (starts_with ''docs/'' (py_lower t) \<or> ends_with ''.md'' (py_lower t)
     \<or> ends_with ''.rst'' (py_lower t))"

definition jdel :: "string \<Rightarrow> json_object \<Rightarrow> json_object" where
  "jdel k d = filter (\<lambda>(k', v). k' \<noteq> k) d"

definition add_path :: "bool \<Rightarrow> string \<Rightarrow> string list \<Rightarrow> string list" where
  "add_path b p ps = (if b \<and> p \<noteq> [] \<and> p \<notin> set ps then ps @ [p] else ps)"

text \<open>The canonical form of a requirement without its path aliases, whose path is given.\<close>

definition canonical_with_path :: "string \<Rightarrow> json_object \<Rightarrow> json_object" where
  "canonical_with_path path d =
     (let proposed = clean_value (jget ''proposed_path'' d);
          target_type = py_upper (clean_value (member_or (jget ''target_type'' d) (jget ''kind'' d)));
          exact = ((case jget ''exact_path_required'' d of None \<Rightarrow> False | Some j \<Rightarrow> json_truthy j)
            \<or> target_type \<in> set exact_documentation_target_types);
          named = clean_value (jget ''target'' d);
          target = (if named \<noteq> [] then named else if path \<noteq> [] then path else if proposed \<noteq> [] then proposed
            else clean_value (jget ''canonical_target'' d));
          proposed' = (if path \<noteq> [] \<and> proposed = [] \<and> exact then path else proposed);
          paths = add_path (looks_like_documentation_path target) target
            (add_path (\<not> exact) path (ordered_strings (jget ''acceptable_paths'' d)));
          d2 = jset ''acceptable_categories'' (jtexts (ordered_strings (jget ''acceptable_categories'' d)))
            (jset ''acceptable_paths'' (jtexts paths) (jset ''target'' (JStr target) d));
          d3 = (if proposed' \<noteq> [] then jset ''proposed_path'' (JStr proposed') d2 else d2)
      in if exact then jset ''exact_path_required'' (JBool True) d3
         else if jget ''exact_path_required'' d \<noteq> None then jset ''exact_path_required'' (JBool False) d3 else d3)"

text \<open>\<open>canonical.pop("path") or canonical.pop("target_path")\<close> removes the second key only when
  the first is falsy.\<close>

definition canonicalize_documentation_requirement :: "json_object \<Rightarrow> json_object" where
  "canonicalize_documentation_requirement r =
     canonical_with_path (clean_value (member_or (jget ''path'' r) (jget ''target_path'' r)))
       (if (case jget ''path'' r of None \<Rightarrow> False | Some j \<Rightarrow> json_truthy j) then jdel ''path'' r
        else jdel ''target_path'' (jdel ''path'' r))"

definition canonicalize_documentation_requirements :: "json list \<Rightarrow> json list" where
  "canonicalize_documentation_requirements rs =
     concat (map (\<lambda>r. case r of JObj d \<Rightarrow> [JObj (canonicalize_documentation_requirement d)] | _ \<Rightarrow> []) rs)"

section \<open>Validation\<close>

definition invalid_plan :: "string \<Rightarrow> json_object \<Rightarrow> planning_blocker" where
  "invalid_plan message metadata = \<lparr>pb_code = ENGINEERING_PLAN_INVALID, pb_message = message, pb_metadata = metadata\<rparr>"

text \<open>\<open>sorted(set(xs) - ys)\<close>, and a blocker when it is not empty.\<close>

definition missing_of :: "string list \<Rightarrow> string list \<Rightarrow> string list" where
  "missing_of xs ys = sorted_set (filter (\<lambda>x. x \<notin> set ys) xs)"

definition blocker_if :: "bool \<Rightarrow> planning_blocker \<Rightarrow> planning_blocker list" where
  "blocker_if b x = (if b then [x] else [])"

definition context_evidence_ids :: "planning_context \<Rightarrow> string list" where
  "context_evidence_ids ctx = map pe_evidence_id (pc_evidence ctx)"

definition context_memory_ids :: "planning_context \<Rightarrow> string list" where
  "context_memory_ids ctx = map pm_memory_id (pc_memory ctx)"

definition step_blockers :: "planning_context \<Rightarrow> plan_step \<Rightarrow> planning_blocker list" where
  "step_blockers ctx step =
     (let missing_evidence = missing_of (st_required_evidence_ids step) (context_evidence_ids ctx);
          missing_memory = missing_of (st_memory_ids step) (context_memory_ids ctx)
      in blocker_if (missing_evidence \<noteq> []) (invalid_plan ''Plan step references nonexistent or unauthorized evidence.''
           [(''step_id'', JStr (st_step_id step)), (''evidence_ids'', jtexts missing_evidence)])
         @ blocker_if (missing_memory \<noteq> []) (invalid_plan ''Plan step references nonexistent or unauthorized memory.''
           [(''step_id'', JStr (st_step_id step)), (''memory_ids'', jtexts missing_memory)]))"

definition coverage_blockers :: "planning_context \<Rightarrow> model_plan \<Rightarrow> acceptance_coverage \<Rightarrow> planning_blocker list" where
  "coverage_blockers ctx plan item =
     (let missing_steps = missing_of (co_step_ids item) (map st_step_id (mp_steps plan));
          missing_evidence = missing_of (co_evidence_ids item) (context_evidence_ids ctx)
      in blocker_if (missing_steps \<noteq> [] \<or> missing_evidence \<noteq> [])
           (invalid_plan ''Acceptance coverage references missing plan steps or evidence.''
             [(''criterion_id'', JStr (co_criterion_id item)), (''step_ids'', jtexts missing_steps),
              (''evidence_ids'', jtexts missing_evidence)]))"

definition validate_reference_scope :: "planning_context \<Rightarrow> db \<Rightarrow> planning_blocker list" where
  "validate_reference_scope ctx s = concat (map (\<lambda>i.
     blocker_if (case tget e_id i (evidence_refs s) of None \<Rightarrow> True | Some row \<Rightarrow> e_project_id row \<noteq> pc_project_id ctx)
       (invalid_plan ''Plan references evidence outside the planning project.'' [(''evidence_id'', JStr i)]))
     (sorted_set (context_evidence_ids ctx)))"

definition validate_acceptance_coverage :: "planning_context \<Rightarrow> model_plan \<Rightarrow> planning_blocker list" where
  "validate_acceptance_coverage ctx plan =
     (let missing = missing_of (map cr_id (pc_acceptance_criteria ctx)) (map co_criterion_id (mp_acceptance_coverage plan));
          uncovered = sort (map co_criterion_id (filter (\<lambda>c. co_status c \<in> {NOT_COVERED, coverage_status.BLOCKED})
            (mp_acceptance_coverage plan)))
      in blocker_if (missing \<noteq> []) (invalid_plan ''Plan omits required acceptance criteria coverage.''
           [(''criterion_ids'', jtexts missing)])
         @ blocker_if (uncovered \<noteq> []) (invalid_plan ''Plan leaves acceptance criteria uncovered or blocked.''
           [(''criterion_ids'', jtexts uncovered)]))"

definition assumption_blockers :: "model_plan \<Rightarrow> planning_blocker list" where
  "assumption_blockers plan = concat (map (\<lambda>a. blocker_if (as_verified a)
     (invalid_plan ''Assumptions must not be claimed as verified facts.'' [(''assumption'', JStr (as_statement a))]))
     (mp_assumptions plan))"

text \<open>The paths of the manifests of the context's snapshots.\<close>

definition manifest_entry_paths :: "json list \<Rightarrow> string list res" where
  "manifest_entry_paths files =
     (if list_all (\<lambda>v. case v of JObj _ \<Rightarrow> True | _ \<Rightarrow> False) files
      then Inr (concat (map (\<lambda>v. case v of JObj d \<Rightarrow> (case jget ''path'' d of Some (JStr p) \<Rightarrow> if p = [] then [] else [p] | _ \<Rightarrow> [])
        | _ \<Rightarrow> []) files))
      else Inl (AttributeError ''get''))"

definition manifest_paths :: "planning_context \<Rightarrow> db \<Rightarrow> string list res" where
  "manifest_paths ctx s = bind_res (map_res (\<lambda>meta.
     case jget ''snapshot_id'' meta of
       Some (JStr i) \<Rightarrow>
         (case (if i = [] then None else tget snap_id i (snapshots s)) of
            None \<Rightarrow> Inr []
          | Some snapshot \<Rightarrow> manifest_entry_paths (jlist_of (jget ''files'' (snap_manifest snapshot))))
     | _ \<Rightarrow> Inr []) (pc_snapshot_metadata ctx)) (\<lambda>ps. Inr (concat ps))"

definition evidence_at :: "planning_context \<Rightarrow> string \<Rightarrow> string list" where
  "evidence_at ctx path = map pe_evidence_id (filter (\<lambda>e. pe_path e = path) (pc_evidence ctx))"

text \<open>The entry of a path: the last that the plan declares, or a new one for a path a step names.\<close>

definition declared_file :: "model_plan \<Rightarrow> string \<Rightarrow> affected_file" where
  "declared_file plan path = (case find (\<lambda>f. af_path f = path) (rev (mp_affected_files plan)) of
     Some f \<Rightarrow> f | None \<Rightarrow> \<lparr>af_path = path, af_status = UNKNOWN, af_evidence_ids = []\<rparr>)"

definition classify_file :: "planning_context \<Rightarrow> string list \<Rightarrow> affected_file \<Rightarrow> affected_file" where
  "classify_file ctx manifest item =
     (let path = af_path item
      in if path = [] \<or> py_upper path = ''UNKNOWN'' then item\<lparr>af_status := UNKNOWN\<rparr>
         else if evidence_at ctx path \<noteq> []
         then item\<lparr>af_status := EXISTING_VERIFIED, af_evidence_ids := sorted_set (af_evidence_ids item @ evidence_at ctx path)\<rparr>
         else if path \<in> set manifest then item\<lparr>af_status := EXISTING_VERIFIED\<rparr>
         else if CHR ''/'' \<in> set path \<or> CHR ''.'' \<in> set path then item\<lparr>af_status := NEW_PROPOSED\<rparr>
         else item\<lparr>af_status := UNKNOWN\<rparr>)"

definition plan_paths :: "model_plan \<Rightarrow> string list" where
  "plan_paths plan = sorted_set (map af_path (mp_affected_files plan) @ concat (map st_affected_files (mp_steps plan)))"

definition classify_affected_files :: "planning_context \<Rightarrow> string list \<Rightarrow> model_plan \<Rightarrow> affected_file list" where
  "classify_affected_files ctx manifest plan = map (\<lambda>p. classify_file ctx manifest (declared_file plan p)) (plan_paths plan)"

text \<open>The check of the declared acceptance checks. Only the declared error becomes a blocker; the
  exceptions of the defects of the normalisation are raised. \<open>render\<close> formats the message.\<close>

definition validate_deterministic_checks ::
  "(json list \<Rightarrow> string) \<Rightarrow> model_plan \<Rightarrow> acceptance_exc + planning_blocker list" where
  "validate_deterministic_checks render plan =
     (case normalize_checks (map af_path (mp_affected_files plan))
        (JList (map declared_check_dump (mp_deterministic_acceptance_checks plan))) of
        Inr _ \<Rightarrow> Inr []
      | Inl (Acceptance_Error code message) \<Rightarrow> Inr [invalid_plan (render message) [(''code'', JStr code)]]
      | Inl e \<Rightarrow> Inl e)"

definition blocking_unknown :: "model_plan \<Rightarrow> bool" where
  "blocking_unknown plan = list_ex un_blocking (mp_unknowns plan)"

definition classify_step :: "model_plan \<Rightarrow> plan_step \<Rightarrow> plan_step" where
  "classify_step plan step = step\<lparr>st_support_status :=
     (if st_required_evidence_ids step \<noteq> [] then SUPPORTED
      else if blocking_unknown plan then BLOCKED_BY_UNKNOWN else INFERRED)\<rparr>"

definition plan_text :: "model_plan \<Rightarrow> string" where
  "plan_text plan = join_with '' '' [mp_summary plan, mp_objective plan, join_with '' '' (mp_affected_components plan),
     join_with '' '' (map (\<lambda>s. st_title s @ '' '' @ st_description s) (mp_steps plan)),
     join_with '' '' (map ri_risk (mp_risks plan)), join_with '' '' (map dr_reason (mp_documentation_requirements plan))]"

definition mentions :: "string list \<Rightarrow> model_plan \<Rightarrow> bool" where
  "mentions words plan = list_ex (\<lambda>w. contains w (py_lower (plan_text plan))) words"

definition risk_floor :: "planning_context \<Rightarrow> model_plan \<Rightarrow> plan_risk" where
  "risk_floor ctx plan =
     (let r0 = plan_risk.LOW;
          r1 = (if pc_task_complexity ctx \<in> {T2, T3} \<or> 3 < length (mp_affected_files plan) \<or> blocking_unknown plan
                then max r0 MEDIUM else r0);
          r2 = (if mentions [''migration'', ''schema'', ''architecture''] plan then max r1 plan_risk.HIGH else r1);
          r3 = (if mentions [''security'', ''secret'', ''credential''] plan then max r2 plan_risk.HIGH else r2)
      in if pc_environment ctx = PRODUCTION \<or> mentions [''production'', ''destructive'', ''irreversible''] plan
         then max r3 plan_risk.CRITICAL else r3)"

definition required_authority :: "planning_context \<Rightarrow> model_plan \<Rightarrow> authority_level" where
  "required_authority ctx plan =
     (let a0 = fold (\<lambda>s a. if authority_exceeds (st_authority_level s) a then st_authority_level s else a) (mp_steps plan)
            (pc_contract_authority_level ctx);
          a1 = (if mentions [''migration'', ''schema'', ''security'', ''credential''] plan then max a0 L2 else a0)
      in if pc_environment ctx = PRODUCTION \<or> mentions [''production'', ''destructive'', ''irreversible''] plan
         then max a1 L3 else a1)"

definition elevate_risk :: "planning_context \<Rightarrow> model_plan \<Rightarrow> model_plan \<times> json_object list" where
  "elevate_risk ctx plan =
     (if mp_risk_level plan < risk_floor ctx plan
      then (plan\<lparr>mp_risk_level := risk_floor ctx plan\<rparr>, [[(''code'', JStr ''RISK_FLOOR_ELEVATED''),
        (''model_risk'', JStr (plan_risk_value (mp_risk_level plan))),
        (''deterministic_risk'', JStr (plan_risk_value (risk_floor ctx plan)))]])
      else (plan, []))"

definition elevate_authority :: "planning_context \<Rightarrow> model_plan \<Rightarrow> model_plan \<times> json_object list" where
  "elevate_authority ctx plan =
     (if authority_exceeds (required_authority ctx plan) (mp_required_authority_level plan)
      then (plan\<lparr>mp_required_authority_level := required_authority ctx plan\<rparr>, [[(''code'', JStr ''AUTHORITY_FLOOR_ELEVATED''),
        (''model_authority'', JStr (authority_value (mp_required_authority_level plan))),
        (''deterministic_authority'', JStr (authority_value (required_authority ctx plan)))]])
      else (plan, []))"

definition escalation_blockers :: "planning_context \<Rightarrow> model_plan \<Rightarrow> planning_blocker list" where
  "escalation_blockers ctx plan =
     blocker_if (authority_exceeds (mp_required_authority_level plan) (pc_contract_authority_level ctx))
       \<lparr>pb_code = AUTHORITY_ESCALATION_REQUIRED, pb_message = ''Plan requires authority above TaskContract authority.'',
        pb_metadata = [(''required_authority_level'', JStr (authority_value (mp_required_authority_level plan))),
          (''contract_authority_level'', JStr (authority_value (pc_contract_authority_level ctx)))]\<rparr>"

datatype planning_exc = Raised exc | Acceptance_Raised acceptance_exc

text \<open>The blockers on the references and on the coverage, before the plan is enriched.\<close>

definition reference_blockers :: "planning_context \<Rightarrow> model_plan \<Rightarrow> db \<Rightarrow> planning_blocker list" where
  "reference_blockers ctx plan s =
     concat (map (step_blockers ctx) (mp_steps plan)) @ concat (map (coverage_blockers ctx plan) (mp_acceptance_coverage plan))
     @ validate_reference_scope ctx s @ validate_acceptance_coverage ctx plan @ assumption_blockers plan"

definition validate_and_enrich_plan ::
  "(json list \<Rightarrow> string) \<Rightarrow> planning_context \<Rightarrow> model_plan \<Rightarrow> db \<Rightarrow>
   planning_exc + model_plan \<times> planning_blocker list \<times> json_object list" where
  "validate_and_enrich_plan render ctx plan s =
     (case manifest_paths ctx s of
        Inl e \<Rightarrow> Inl (Raised e)
      | Inr manifest \<Rightarrow>
          let plan1 = plan\<lparr>mp_affected_files := classify_affected_files ctx manifest plan\<rparr>
          in case validate_deterministic_checks render plan1 of
               Inl e \<Rightarrow> Inl (Acceptance_Raised e)
             | Inr check_blockers \<Rightarrow>
                 let plan2 = plan1\<lparr>mp_steps := map (classify_step plan1) (mp_steps plan1)\<rparr>;
                     (plan3, risk_warnings) = elevate_risk ctx plan2;
                     (plan4, authority_warnings) = elevate_authority ctx plan3
                 in Inr (plan4, reference_blockers ctx plan s @ check_blockers @ escalation_blockers ctx plan4,
                      risk_warnings @ authority_warnings))"

section \<open>Storage\<close>

definition put_plan :: "plan_row \<Rightarrow> db \<Rightarrow> db" where
  "put_plan r s = s\<lparr>plans := tput pl_id r (plans s)\<rparr>"

interpretation plan_table: keyed_table get_plan put_plan pl_id
  by unfold_locales (auto simp: get_plan_def put_plan_def dest: tget_Some_mem)

definition plan_versions :: "string \<Rightarrow> db \<Rightarrow> nat list" where
  "plan_versions task_id s = map pl_version (filter (\<lambda>r. pl_task_id r = task_id) (plans s))"

definition next_plan_version :: "string \<Rightarrow> db \<Rightarrow> nat" where
  "next_plan_version task_id s = (if plan_versions task_id s = [] then 1 else Max (set (plan_versions task_id s)) + 1)"

definition snapshot_ids_of :: "planning_context \<Rightarrow> string list" where
  "snapshot_ids_of ctx = concat (map (\<lambda>m. case jget ''snapshot_id'' m of Some (JStr i) \<Rightarrow> if i = [] then [] else [i] | _ \<Rightarrow> [])
     (pc_snapshot_metadata ctx))"

record plan_creation =
  cr_model_execution_ids :: "string list"
  cr_blockers :: "planning_blocker list"
  cr_validation_warnings :: "json_object list"
  cr_planner_version :: string
  cr_created_by :: string
  cr_supersedes_plan_id :: "string option"
  cr_supersession_reason :: "string option"

definition plan_row_of :: "string \<Rightarrow> nat \<Rightarrow> planning_context \<Rightarrow> model_plan \<Rightarrow> plan_creation \<Rightarrow> timestamp \<Rightarrow> plan_row" where
  "plan_row_of plan_id version ctx p c now = \<lparr>
     pl_id = plan_id, pl_task_id = pc_task_id ctx, pl_run_id = pc_run_id ctx, pl_project_id = pc_project_id ctx,
     pl_task_contract_id = pc_task_contract_id ctx, pl_task_contract_version = pc_task_contract_version ctx,
     pl_version = version, pl_status = plan_status_value PROPOSED, pl_summary = mp_summary p, pl_objective = mp_objective p,
     pl_risk_level = plan_risk_value (mp_risk_level p), pl_required_authority_level = mp_required_authority_level p,
     pl_repository_snapshot_ids = snapshot_ids_of ctx, pl_evidence_ids = context_evidence_ids ctx,
     pl_memory_ids = context_memory_ids ctx, pl_model_execution_ids = cr_model_execution_ids c,
     pl_assumptions = map assumption_dump (mp_assumptions p), pl_unknowns = map unknown_dump (mp_unknowns p),
     pl_open_questions = map open_question_dump (mp_open_questions p), pl_affected_components = mp_affected_components p,
     pl_affected_files = map affected_file_dump (mp_affected_files p), pl_steps = map step_dump (mp_steps p),
     pl_acceptance_coverage = map coverage_dump (mp_acceptance_coverage p),
     pl_deterministic_acceptance_checks = map declared_check_dump (mp_deterministic_acceptance_checks p),
     pl_test_strategy = map test_recommendation_dump (mp_test_strategy p),
     pl_documentation_requirements = canonicalize_documentation_requirements
       (map (\<lambda>d. JObj (documentation_requirement_dump d)) (mp_documentation_requirements p)),
     pl_rollback_considerations = mp_rollback_considerations p,
     pl_orchestration_contract_required = mp_orchestration_contract_required p,
     pl_orchestration_contract = mp_orchestration_contract p,
     pl_adversarial_probes = map JObj (mp_adversarial_probes p), pl_dependencies = mp_dependencies p,
     pl_risks = map risk_item_dump (mp_risks p), pl_estimated_scope = mp_estimated_scope p, pl_confidence = mp_confidence p,
     pl_validation_warnings = map JObj (cr_validation_warnings c), pl_blockers = map blocker_dump (cr_blockers c),
     pl_planner_version = cr_planner_version c, pl_supersedes_plan_id = cr_supersedes_plan_id c,
     pl_superseded_by_plan_id = None, pl_supersession_reason = cr_supersession_reason c, pl_created_by = cr_created_by c,
     pl_created_at = now, pl_updated_at = now\<rparr>"

definition supersede_row :: "string \<Rightarrow> timestamp \<Rightarrow> plan_row \<Rightarrow> plan_row" where
  "supersede_row plan_id now r = r\<lparr>pl_status := plan_status_value plan_status.SUPERSEDED,
     pl_superseded_by_plan_id := Some plan_id, pl_updated_at := now\<rparr>"

text \<open>Creating a plan: the next version of its task, and the supersession of the plan it replaces.\<close>

definition create_plan_row :: "planning_context \<Rightarrow> model_plan \<Rightarrow> plan_creation \<Rightarrow> db \<Rightarrow> plan_row \<times> db" where
  "create_plan_row ctx p c s =
     (let plan_id = fresh_id ''engineering_plan'' s; s1 = bump_id ''engineering_plan'' s;
          row = plan_row_of plan_id (next_plan_version (pc_task_id ctx) s) ctx p c (utc_now s);
          s2 = put_plan row s1;
          s3 = (if truthy (cr_supersedes_plan_id c)
                then case get_plan (the (cr_supersedes_plan_id c)) s2 of
                    None \<Rightarrow> s2 | Some previous \<Rightarrow> put_plan (supersede_row plan_id (utc_now s) previous) s2
                else s2)
      in (row, s3))"

definition reject_plan_row :: "string \<Rightarrow> string \<Rightarrow> db \<Rightarrow> plan_row res \<times> db" where
  "reject_plan_row plan_id reason s =
     try_res (some_or (get_plan plan_id s) (ValueError (''Unknown engineering plan: '' @ plan_id))) s (\<lambda>r.
     let r' = r\<lparr>pl_status := plan_status_value plan_status.REJECTED, pl_supersession_reason := Some reason, pl_updated_at := utc_now s\<rparr>
     in (Inr r', put_plan r' s))"

section \<open>The canonical form is stable\<close>

lemma py_strip_ends: "py_strip t = [] \<or> \<not> is_space (hd (py_strip t)) \<and> \<not> is_space (last (py_strip t))"
proof -
  define u where "u = dropWhile is_space t"
  define v where "v = dropWhile is_space (rev u)"
  have strip: "py_strip t = rev v" by (simp add: py_strip_def u_def v_def)
  show ?thesis
  proof (cases "v = []")
    case False
    have v: "\<not> is_space (hd v)" using hd_dropWhile [of is_space "rev u"] False by (simp add: v_def)
    obtain pre where "rev u = pre @ v" unfolding v_def by (metis takeWhile_dropWhile_id)
    then have u: "u = rev v @ rev pre" by (metis rev_append rev_rev_ident)
    then have "u \<noteq> []" "hd u = hd (rev v)" using False by simp_all
    then have "\<not> is_space (hd (rev v))" using hd_dropWhile [of is_space t] by (simp add: u_def)
    with v False show ?thesis unfolding strip by (simp add: last_rev)
  qed (simp add: strip)
qed

lemma py_strip_stripped: "t = [] \<or> \<not> is_space (hd t) \<and> \<not> is_space (last t) \<Longrightarrow> py_strip t = t"
proof (cases "t = []")
  case False
  assume "t = [] \<or> \<not> is_space (hd t) \<and> \<not> is_space (last t)"
  with False have ends: "\<not> is_space (hd t)" "\<not> is_space (last t)" by simp_all
  have "dropWhile is_space t = t" using ends(1) False by (cases t) auto
  moreover have "dropWhile is_space (rev t) = rev t" using ends(2) False by (cases t rule: rev_cases) auto
  ultimately show ?thesis by (simp add: py_strip_def)
qed (simp add: py_strip_def)

lemma py_strip_idem [simp]: "py_strip (py_strip t) = py_strip t"
  by (rule py_strip_stripped [OF py_strip_ends])

lemma clean_value_text [simp]: "clean_value (Some (JStr t)) = py_strip t"
  by (simp add: clean_value_def json_truthy_def scalar_text_def py_strip_def)

lemma clean_value_stripped [simp]: "py_strip (clean_value v) = clean_value v"
  by (cases v) (simp_all add: clean_value_def py_strip_stripped)

lemma jset_same: "jget k d = Some v \<Longrightarrow> jset k v d = d"
  by (induction d) (auto simp: jget_def split: if_splits)

lemma jget_jdel [simp]: "jget k (jdel k' d) = (if k = k' then None else jget k d)"
  by (induction d) (auto simp: jget_def jdel_def)

lemma jdel_absent: "jget k d = None \<Longrightarrow> jdel k d = d"
  by (induction d) (auto simp: jget_def jdel_def split: if_splits)

definition clean_list :: "string list \<Rightarrow> bool" where
  "clean_list ts \<longleftrightarrow> distinct ts \<and> (\<forall>t \<in> set ts. t \<noteq> [] \<and> py_strip t = t)"

lemma clean_list_snoc: "clean_list acc \<Longrightarrow> t \<noteq> [] \<Longrightarrow> t \<notin> set acc \<Longrightarrow> py_strip t = t \<Longrightarrow> clean_list (acc @ [t])"
  by (simp add: clean_list_def)

lemma add_ordered_clean: "clean_list acc \<Longrightarrow> clean_list (add_ordered acc vs)"
proof (induction vs arbitrary: acc)
  case (Cons v vs)
  have "clean_list (if clean_value (Some v) \<noteq> [] \<and> clean_value (Some v) \<notin> set acc then acc @ [clean_value (Some v)] else acc)"
    using Cons.prems clean_list_snoc by simp
  from Cons.IH [OF this] show ?case by (simp add: Let_def)
qed simp

lemma ordered_strings_clean: "clean_list (ordered_strings v)"
proof -
  have "clean_list []" by (simp add: clean_list_def)
  then show ?thesis using add_ordered_clean by (simp add: ordered_strings_def split: option.split json.split)
qed

lemma add_ordered_same: "clean_list (acc @ ts) \<Longrightarrow> add_ordered acc (map JStr ts) = acc @ ts"
proof (induction ts arbitrary: acc)
  case (Cons t ts)
  then have "t \<noteq> []" "t \<notin> set acc" "py_strip t = t" by (auto simp: clean_list_def)
  with Cons show ?case by simp
qed simp

lemma ordered_strings_same: "clean_list ts \<Longrightarrow> ordered_strings (Some (jtexts ts)) = ts"
  using add_ordered_same [of "[]" ts] by (simp add: ordered_strings_def jtexts_def)

lemma add_path_clean: "clean_list ps \<Longrightarrow> py_strip p = p \<Longrightarrow> clean_list (add_path b p ps)"
  by (auto simp: add_path_def clean_list_def)

lemma canonical_with_path_stable:
  assumes "py_strip path = path"
  shows "canonical_with_path [] (canonical_with_path path d) = canonical_with_path path d"
    and "k \<in> {''path'', ''target_path''} \<Longrightarrow> jget k (canonical_with_path path d) = jget k d"
proof -
  define proposed where "proposed = clean_value (jget ''proposed_path'' d)"
  define target_type where "target_type = py_upper (clean_value (member_or (jget ''target_type'' d) (jget ''kind'' d)))"
  define exact where "exact \<longleftrightarrow> (case jget ''exact_path_required'' d of None \<Rightarrow> False | Some j \<Rightarrow> json_truthy j)
     \<or> target_type \<in> set exact_documentation_target_types"
  define named where "named = clean_value (jget ''target'' d)"
  define target where "target = (if named \<noteq> [] then named else if path \<noteq> [] then path else if proposed \<noteq> [] then proposed
     else clean_value (jget ''canonical_target'' d))"
  define proposed' where "proposed' = (if path \<noteq> [] \<and> proposed = [] \<and> exact then path else proposed)"
  define paths where "paths = add_path (looks_like_documentation_path target) target
     (add_path (\<not> exact) path (ordered_strings (jget ''acceptable_paths'' d)))"
  define cats where "cats = ordered_strings (jget ''acceptable_categories'' d)"
  define d2 where "d2 = jset ''acceptable_categories'' (jtexts cats)
     (jset ''acceptable_paths'' (jtexts paths) (jset ''target'' (JStr target) d))"
  define d3 where "d3 = (if proposed' \<noteq> [] then jset ''proposed_path'' (JStr proposed') d2 else d2)"
  define c where "c = (if exact then jset ''exact_path_required'' (JBool True) d3
     else if jget ''exact_path_required'' d \<noteq> None then jset ''exact_path_required'' (JBool False) d3 else d3)"
  have canonical: "canonical_with_path path d = c"
    unfolding canonical_with_path_def Let_def proposed_def target_type_def exact_def named_def
      target_def proposed'_def paths_def cats_def d2_def d3_def c_def by (rule refl)
  have stripped: "py_strip proposed = proposed" "py_strip target = target" "py_strip proposed' = proposed'"
    using assms by (simp_all add: proposed_def target_def named_def proposed'_def)
  have clean: "clean_list paths" "clean_list cats"
    unfolding paths_def cats_def using stripped assms by (simp_all add: add_path_clean ordered_strings_clean)
  have "jget ''path'' c = jget ''path'' d" "jget ''target_path'' c = jget ''target_path'' d"
    by (simp_all add: c_def d3_def d2_def)
  then show "k \<in> {''path'', ''target_path''} \<Longrightarrow> jget k (canonical_with_path path d) = jget k d"
    unfolding canonical by (elim insertE emptyE) simp_all
  have get: "jget ''target'' c = Some (JStr target)"
    "jget ''acceptable_paths'' c = Some (jtexts paths)" "jget ''acceptable_categories'' c = Some (jtexts cats)"
    "jget ''target_type'' c = jget ''target_type'' d" "jget ''kind'' c = jget ''kind'' d"
    "jget ''canonical_target'' c = jget ''canonical_target'' d"
    by (simp_all add: c_def d3_def d2_def)
  have proposes: "jget ''proposed_path'' c = (if proposed' \<noteq> [] then Some (JStr proposed') else jget ''proposed_path'' d)"
    "clean_value (jget ''proposed_path'' c) = proposed'"
  proof -
    show "jget ''proposed_path'' c = (if proposed' \<noteq> [] then Some (JStr proposed') else jget ''proposed_path'' d)"
      by (simp add: c_def d3_def d2_def)
    then show "clean_value (jget ''proposed_path'' c) = proposed'"
      using stripped(3) by (auto simp: proposed'_def proposed_def)
  qed
  have ex: "jget ''exact_path_required'' c = (if exact then Some (JBool True)
      else if jget ''exact_path_required'' d \<noteq> None then Some (JBool False) else None)"
    by (auto simp: c_def d3_def d2_def)
  have exact_c: "((case jget ''exact_path_required'' c of None \<Rightarrow> False | Some j \<Rightarrow> json_truthy j)
     \<or> target_type \<in> set exact_documentation_target_types) \<longleftrightarrow> exact"
    unfolding ex by (cases exact) (auto simp: json_truthy_def exact_def)
  have target_c: "(if target \<noteq> [] then target else if proposed' \<noteq> [] then proposed'
     else clean_value (jget ''canonical_target'' d)) = target"
    by (auto simp: target_def proposed'_def)
  have no_path: "([] :: string) \<noteq> [] \<longleftrightarrow> False" "add_path b [] ps = ps" for b ps
    by (simp_all add: add_path_def)
  have paths_c: "add_path (looks_like_documentation_path target) target paths = paths"
    by (auto simp: add_path_def paths_def)
  have "canonical_with_path [] c = (if exact then jset ''exact_path_required'' (JBool True)
        (if proposed' \<noteq> [] then jset ''proposed_path'' (JStr proposed') c else c)
      else if jget ''exact_path_required'' c \<noteq> None then jset ''exact_path_required'' (JBool False)
        (if proposed' \<noteq> [] then jset ''proposed_path'' (JStr proposed') c else c)
      else (if proposed' \<noteq> [] then jset ''proposed_path'' (JStr proposed') c else c))"
    unfolding canonical_with_path_def Let_def get(4,5) target_type_def [symmetric] exact_c proposes(2) get(1,2,3,6)
      clean_value_text stripped(2) no_path simp_thms if_False target_c ordered_strings_same [OF clean(1)]
      ordered_strings_same [OF clean(2)] paths_c
      jset_same [OF get(1)] jset_same [OF get(2)] jset_same [OF get(3)] by (rule TrueI)
  also have "(if proposed' \<noteq> [] then jset ''proposed_path'' (JStr proposed') c else c) = c"
    using proposes(1) by (simp add: jset_same)
  also have "(if exact then jset ''exact_path_required'' (JBool True) c
      else if jget ''exact_path_required'' c \<noteq> None then jset ''exact_path_required'' (JBool False) c else c) = c"
    using ex by (auto simp: jset_same split: if_splits)
  finally show "canonical_with_path [] (canonical_with_path path d) = canonical_with_path path d"
    unfolding canonical .
qed



section \<open>What validation establishes\<close>

lemma fold_authority: "fold (\<lambda>x a. if a < f x then f x else a) xs a = fold (\<lambda>x. max (f x)) xs (a :: 'a :: linorder)"
proof -
  have "(\<lambda>x a. if a < f x then f x else a) = (\<lambda>x. max (f x))"
    by (intro ext) (auto simp: max_def)
  then show ?thesis by simp
qed

lemma fold_max_bounds: "a \<le> fold (\<lambda>x. max (f x)) xs a \<and> (\<forall>x \<in> set xs. f x \<le> fold (\<lambda>x. max (f x)) xs (a :: 'a :: linorder))"
proof (induction xs arbitrary: a)
  case (Cons x xs)
  from Cons [of "max (f x) a"] show ?case by auto
qed simp

lemma classify_step_simps [simp]:
  "st_title (classify_step p s) = st_title s" "st_description (classify_step p s) = st_description s"
  "st_authority_level (classify_step p s) = st_authority_level s" "st_step_id (classify_step p s) = st_step_id s"
  by (simp_all add: classify_step_def)

text \<open>Enrichment leaves alone what the floors are computed from.\<close>

lemma same_floors:
  assumes "plan_text p = plan_text q" and "mp_unknowns p = mp_unknowns q"
    and "length (mp_affected_files p) = length (mp_affected_files q)"
    and "map st_authority_level (mp_steps p) = map st_authority_level (mp_steps q)"
  shows "risk_floor ctx p = risk_floor ctx q" and "required_authority ctx p = required_authority ctx q"
proof -
  have fold: "fold (\<lambda>s. max (st_authority_level s)) xs a = fold max (map st_authority_level xs) a" for xs a
    by (induction xs arbitrary: a) auto
  show "risk_floor ctx p = risk_floor ctx q" "required_authority ctx p = required_authority ctx q"
    using assms by (simp_all add: risk_floor_def required_authority_def mentions_def blocking_unknown_def fold_authority fold)
qed

lemma elevate_risk_simps:
  "fst (elevate_risk ctx p) = p\<lparr>mp_risk_level := max (mp_risk_level p) (risk_floor ctx p)\<rparr>"
  by (auto simp: elevate_risk_def max_def)

lemma elevate_authority_simps:
  "fst (elevate_authority ctx p) = p\<lparr>mp_required_authority_level := max (mp_required_authority_level p) (required_authority ctx p)\<rparr>"
  by (auto simp: elevate_authority_def max_def)

text \<open>The enriched plan and the blockers of a validation that returns.\<close>

lemma validated_shape:
  assumes "validate_and_enrich_plan render ctx plan s = Inr (plan', bs, ws)"
  obtains manifest cb where "manifest_paths ctx s = Inr manifest"
    and "mp_affected_files plan' = classify_affected_files ctx manifest plan"
    and "validate_deterministic_checks render plan' = Inr cb"
    and "plan' = plan\<lparr>mp_affected_files := mp_affected_files plan', mp_steps := map (classify_step plan') (mp_steps plan),
      mp_risk_level := max (mp_risk_level plan) (risk_floor ctx plan'),
      mp_required_authority_level := max (mp_required_authority_level plan) (required_authority ctx plan')\<rparr>"
    and "bs = reference_blockers ctx plan s @ cb @ escalation_blockers ctx plan'"
proof -
  obtain manifest where m: "manifest_paths ctx s = Inr manifest"
    using assms by (auto simp: validate_and_enrich_plan_def split: sum.splits)
  define plan1 where "plan1 = plan\<lparr>mp_affected_files := classify_affected_files ctx manifest plan\<rparr>"
  obtain cb where cb: "validate_deterministic_checks render plan1 = Inr cb"
    using assms by (auto simp: validate_and_enrich_plan_def m Let_def plan1_def split: sum.splits)
  define plan2 where "plan2 = plan1\<lparr>mp_steps := map (classify_step plan1) (mp_steps plan1)\<rparr>"
  define plan3 where "plan3 = plan2\<lparr>mp_risk_level := max (mp_risk_level plan2) (risk_floor ctx plan2)\<rparr>"
  define plan4 where "plan4 = plan3\<lparr>mp_required_authority_level := max (mp_required_authority_level plan3) (required_authority ctx plan3)\<rparr>"
  obtain w1 where w1: "elevate_risk ctx plan2 = (plan3, w1)"
    using elevate_risk_simps [of ctx plan2] by (cases "elevate_risk ctx plan2") (simp add: plan3_def)
  obtain w2 where w2: "elevate_authority ctx plan3 = (plan4, w2)"
    using elevate_authority_simps [of ctx plan3] by (cases "elevate_authority ctx plan3") (simp add: plan4_def)
  have out: "plan' = plan4" "bs = reference_blockers ctx plan s @ cb @ escalation_blockers ctx plan4"
    using assms unfolding validate_and_enrich_plan_def m sum.case Let_def plan1_def [symmetric] cb plan2_def [symmetric]
      w1 w2 prod.case by auto
  have floors: "risk_floor ctx plan2 = risk_floor ctx plan4" "required_authority ctx plan3 = required_authority ctx plan4"
    by (rule same_floors; simp add: plan4_def plan3_def plan_text_def)+
  have steps: "classify_step plan1 = classify_step plan4"
    by (rule ext) (simp add: classify_step_def blocking_unknown_def plan4_def plan3_def plan2_def)
  have shape: "plan4 = plan\<lparr>mp_affected_files := mp_affected_files plan4, mp_steps := map (classify_step plan4) (mp_steps plan),
      mp_risk_level := max (mp_risk_level plan) (risk_floor ctx plan4),
      mp_required_authority_level := max (mp_required_authority_level plan) (required_authority ctx plan4)\<rparr>"
    unfolding steps [symmetric] floors [symmetric] by (simp add: plan4_def plan3_def plan2_def plan1_def)
  have "validate_deterministic_checks render plan4 = Inr cb"
    using cb by (simp add: validate_deterministic_checks_def plan4_def plan3_def plan2_def)
  moreover have "mp_affected_files plan4 = classify_affected_files ctx manifest plan"
    by (simp add: plan4_def plan3_def plan2_def plan1_def)
  ultimately show thesis using that [OF m] shape out by simp
qed

lemma blocker_if_simps [simp]:
  "set (blocker_if b x) = (if b then {x} else {})" "blocker_if b x = [] \<longleftrightarrow> \<not> b"
  unfolding blocker_if_def by (cases b; simp)+

lemma invalid_plan_code [simp]: "pb_code (invalid_plan m d) = ENGINEERING_PLAN_INVALID"
  by (simp add: invalid_plan_def)

lemma missing_of_Nil [simp]: "missing_of xs ys = [] \<longleftrightarrow> set xs \<subseteq> set ys"
proof -
  have "missing_of xs ys = [] \<longleftrightarrow> set (missing_of xs ys) = {}" by simp
  then show ?thesis by (auto simp: missing_of_def)
qed

lemma reference_blockers_hard: "b \<in> set (reference_blockers ctx plan s) \<Longrightarrow> pb_code b = ENGINEERING_PLAN_INVALID"
  by (auto simp: reference_blockers_def step_blockers_def coverage_blockers_def validate_reference_scope_def
      validate_acceptance_coverage_def assumption_blockers_def Let_def split: if_splits)

lemma check_blockers_hard:
  "validate_deterministic_checks render plan = Inr cb \<Longrightarrow> b \<in> set cb \<Longrightarrow> pb_code b = ENGINEERING_PLAN_INVALID"
  by (auto simp: validate_deterministic_checks_def split: sum.splits acceptance_exc.splits)

lemma escalation_blockers_iff:
  "b \<in> set (escalation_blockers ctx plan) \<Longrightarrow> pb_code b = AUTHORITY_ESCALATION_REQUIRED"
  "escalation_blockers ctx plan = [] \<longleftrightarrow> \<not> pc_contract_authority_level ctx < mp_required_authority_level plan"
  unfolding escalation_blockers_def by (auto simp: blocker_if_def)

lemma escalation_iff:
  assumes "validate_deterministic_checks render plan' = Inr cb"
  shows "(\<exists>b \<in> set (reference_blockers ctx plan s @ cb @ escalation_blockers ctx plan').
      pb_code b = AUTHORITY_ESCALATION_REQUIRED) \<longleftrightarrow> pc_contract_authority_level ctx < mp_required_authority_level plan'"
proof
  assume "\<exists>b \<in> set (reference_blockers ctx plan s @ cb @ escalation_blockers ctx plan'). pb_code b = AUTHORITY_ESCALATION_REQUIRED"
  then obtain b where b: "b \<in> set (reference_blockers ctx plan s) \<or> b \<in> set cb \<or> b \<in> set (escalation_blockers ctx plan')"
    "pb_code b = AUTHORITY_ESCALATION_REQUIRED" by (auto simp only: set_append Un_iff)
  then have "b \<in> set (escalation_blockers ctx plan')"
    using reference_blockers_hard check_blockers_hard [OF assms] by (elim disjE) fastforce+
  then show "pc_contract_authority_level ctx < mp_required_authority_level plan'"
    using escalation_blockers_iff(2) [of ctx plan'] by (metis empty_iff list.set(1))
next
  assume "pc_contract_authority_level ctx < mp_required_authority_level plan'"
  then obtain b bs where "escalation_blockers ctx plan' = b # bs"
    using escalation_blockers_iff(2) [of ctx plan'] by (metis neq_Nil_conv)
  then show "\<exists>b \<in> set (reference_blockers ctx plan s @ cb @ escalation_blockers ctx plan'). pb_code b = AUTHORITY_ESCALATION_REQUIRED"
    using escalation_blockers_iff(1) [of b ctx plan'] by simp
qed

text \<open>C27. The floors of a plan: validation raises risk and authority of a plan to the maximum of what the
  model declared and of the deterministic floor, never lowers them, and never below the contract's authority
  or that of a step; work on PRODUCTION is critical and needs L3. An escalation is demanded exactly when the
  authority exceeds that of the contract.\<close>

theorem plan_validation_floors:
  assumes "validate_and_enrich_plan render ctx plan s = Inr (plan', bs, ws)"
  shows "mp_risk_level plan' = max (mp_risk_level plan) (risk_floor ctx plan')
    \<and> mp_required_authority_level plan' = max (mp_required_authority_level plan) (required_authority ctx plan')
    \<and> pc_contract_authority_level ctx \<le> mp_required_authority_level plan'
    \<and> list_all (\<lambda>st. st_authority_level st \<le> mp_required_authority_level plan') (mp_steps plan')
    \<and> (pc_environment ctx = PRODUCTION \<longrightarrow> mp_risk_level plan' = plan_risk.CRITICAL \<and> mp_required_authority_level plan' = L3)
    \<and> ((\<exists>b \<in> set bs. pb_code b = AUTHORITY_ESCALATION_REQUIRED)
        \<longleftrightarrow> pc_contract_authority_level ctx < mp_required_authority_level plan')"
proof -
  obtain manifest cb where shape: "validate_deterministic_checks render plan' = Inr cb"
    "plan' = plan\<lparr>mp_affected_files := mp_affected_files plan', mp_steps := map (classify_step plan') (mp_steps plan),
      mp_risk_level := max (mp_risk_level plan) (risk_floor ctx plan'),
      mp_required_authority_level := max (mp_required_authority_level plan) (required_authority ctx plan')\<rparr>"
    "bs = reference_blockers ctx plan s @ cb @ escalation_blockers ctx plan'"
    by (rule validated_shape [OF assms])
  have levels: "mp_risk_level plan' = max (mp_risk_level plan) (risk_floor ctx plan')"
    "mp_required_authority_level plan' = max (mp_required_authority_level plan) (required_authority ctx plan')"
    by (subst shape(2), simp)+
  have req: "pc_contract_authority_level ctx \<le> required_authority ctx plan'"
    "\<forall>st \<in> set (mp_steps plan'). st_authority_level st \<le> required_authority ctx plan'"
    using fold_max_bounds [of "pc_contract_authority_level ctx" st_authority_level "mp_steps plan'"]
    by (auto simp: required_authority_def Let_def fold_authority le_max_iff_disj)
  have top: "a \<le> plan_risk.CRITICAL" "b \<le> L3" for a b
    by (cases a; simp add: less_eq_plan_risk_def) (cases b; simp add: less_eq_authority_level_def)
  have prod: "risk_floor ctx plan' = plan_risk.CRITICAL \<and> required_authority ctx plan' = L3" if "pc_environment ctx = PRODUCTION"
    using that top by (simp add: risk_floor_def required_authority_def Let_def max_absorb2)
  have "(\<exists>b \<in> set bs. pb_code b = AUTHORITY_ESCALATION_REQUIRED)
      \<longleftrightarrow> pc_contract_authority_level ctx < mp_required_authority_level plan'"
    unfolding shape(3) by (rule escalation_iff [OF shape(1)])
  moreover have "list_all (\<lambda>st. st_authority_level st \<le> mp_required_authority_level plan') (mp_steps plan')"
    unfolding levels(2) using req(2) by (auto simp: list_all_iff le_max_iff_disj)
  moreover have "pc_contract_authority_level ctx \<le> mp_required_authority_level plan'"
    unfolding levels(2) using req(1) by (simp add: le_max_iff_disj)
  moreover have "pc_environment ctx = PRODUCTION \<longrightarrow> mp_risk_level plan' = plan_risk.CRITICAL \<and> mp_required_authority_level plan' = L3"
    unfolding levels using prod top by (auto simp: max_absorb2)
  ultimately show ?thesis using levels by blast
qed

definition ex_planning_context :: planning_context where
  "ex_planning_context = \<lparr>pc_task_id = ''T'', pc_run_id = None, pc_project_id = ''P'', pc_task_title = ''t'',
     pc_task_objective = ''o'', pc_task_status = task_status.READY, pc_task_authority_level = L1, pc_task_complexity = T1,
     pc_task_contract_id = ''K'', pc_task_contract_version = 1, pc_contract_objective = ''o'', pc_acceptance_criteria = [],
     pc_constraints = [], pc_allowed_actions = [], pc_environment = PRODUCTION, pc_contract_authority_level = L1,
     pc_documentation_required = False, pc_documentation_targets = [], pc_snapshot_metadata = [], pc_evidence = [],
     pc_memory = [], pc_context_warnings = [], pc_omitted_counts = (0, 0), pc_total_context_bytes = 0, pc_created_at = 0\<rparr>"

definition ex_model_plan :: model_plan where
  "ex_model_plan = \<lparr>mp_summary = ''s'', mp_objective = ''o'', mp_risk_level = plan_risk.LOW, mp_required_authority_level = L0,
     mp_assumptions = [], mp_unknowns = [], mp_open_questions = [], mp_affected_components = [], mp_affected_files = [],
     mp_steps = [], mp_acceptance_coverage = [], mp_deterministic_acceptance_checks = [], mp_test_strategy = [],
     mp_documentation_requirements = [], mp_rollback_considerations = [], mp_orchestration_contract_required = False,
     mp_orchestration_contract = [], mp_adversarial_probes = [], mp_dependencies = [], mp_risks = [],
     mp_estimated_scope = None, mp_confidence = None\<rparr>"

lemma ex_plan_validates:
  "\<exists>v. validate_and_enrich_plan (\<lambda>_. []) ex_planning_context ex_model_plan empty_db = Inr v"
proof -
  have "case validate_and_enrich_plan (\<lambda>_. []) ex_planning_context ex_model_plan empty_db of Inl _ \<Rightarrow> False | Inr _ \<Rightarrow> True"
    by code_simp
  then show ?thesis by (auto split: sum.splits)
qed

theorem plan_validation_floors_witness:
  "\<exists>plan' bs ws. validate_and_enrich_plan (\<lambda>_. []) ex_planning_context ex_model_plan empty_db = Inr (plan', bs, ws)
     \<and> mp_risk_level plan' = plan_risk.CRITICAL \<and> mp_required_authority_level plan' = L3
     \<and> (\<exists>b \<in> set bs. pb_code b = AUTHORITY_ESCALATION_REQUIRED)"
proof -
  obtain plan' bs ws where v: "validate_and_enrich_plan (\<lambda>_. []) ex_planning_context ex_model_plan empty_db = Inr (plan', bs, ws)"
    using ex_plan_validates by auto
  have "pc_environment ex_planning_context = PRODUCTION" "pc_contract_authority_level ex_planning_context < L3"
    by (simp_all add: ex_planning_context_def less_authority_level_def)
  with plan_validation_floors [OF v] v show ?thesis by auto
qed

text \<open>What a plan may refer to, stated on its own.\<close>

definition step_grounded :: "planning_context \<Rightarrow> plan_step \<Rightarrow> bool" where
  "step_grounded ctx step \<longleftrightarrow> set (st_required_evidence_ids step) \<subseteq> set (context_evidence_ids ctx)
     \<and> set (st_memory_ids step) \<subseteq> set (context_memory_ids ctx)"

definition coverage_grounded :: "planning_context \<Rightarrow> model_plan \<Rightarrow> acceptance_coverage \<Rightarrow> bool" where
  "coverage_grounded ctx plan c \<longleftrightarrow> set (co_step_ids c) \<subseteq> st_step_id ` set (mp_steps plan)
     \<and> set (co_evidence_ids c) \<subseteq> set (context_evidence_ids ctx)
     \<and> co_status c \<noteq> NOT_COVERED \<and> co_status c \<noteq> coverage_status.BLOCKED"

definition evidence_in_project :: "planning_context \<Rightarrow> db \<Rightarrow> bool" where
  "evidence_in_project ctx s \<longleftrightarrow> (\<forall>i \<in> set (context_evidence_ids ctx).
     \<exists>row. tget e_id i (evidence_refs s) = Some row \<and> e_project_id row = pc_project_id ctx)"

definition plan_grounded :: "planning_context \<Rightarrow> model_plan \<Rightarrow> db \<Rightarrow> bool" where
  "plan_grounded ctx plan s \<longleftrightarrow> (\<forall>st \<in> set (mp_steps plan). step_grounded ctx st)
     \<and> (\<forall>c \<in> set (mp_acceptance_coverage plan). coverage_grounded ctx plan c)
     \<and> cr_id ` set (pc_acceptance_criteria ctx) \<subseteq> co_criterion_id ` set (mp_acceptance_coverage plan)
     \<and> evidence_in_project ctx s
     \<and> (\<forall>a \<in> set (mp_assumptions plan). \<not> as_verified a)"

lemma concat_map_Nil [simp]: "concat (map f xs) = [] \<longleftrightarrow> (\<forall>x \<in> set xs. f x = [])"
  by auto

lemma sort_Nil [simp]: "sort xs = [] \<longleftrightarrow> xs = []"
  by (metis sort_key_simps(1) set_empty set_sort)

lemma step_blockers_Nil: "step_blockers ctx st = [] \<longleftrightarrow> step_grounded ctx st"
  by (simp add: step_blockers_def step_grounded_def)

lemma scope_blockers_Nil: "validate_reference_scope ctx s = [] \<longleftrightarrow> evidence_in_project ctx s"
  unfolding validate_reference_scope_def evidence_in_project_def concat_map_Nil blocker_if_simps
  by (auto split: option.splits)

lemma reference_blockers_Nil: "reference_blockers ctx plan s = [] \<longleftrightarrow> plan_grounded ctx plan s"
proof -
  have cov: "coverage_blockers ctx plan c = [] \<longleftrightarrow> set (co_step_ids c) \<subseteq> st_step_id ` set (mp_steps plan)
     \<and> set (co_evidence_ids c) \<subseteq> set (context_evidence_ids ctx)" for c
    by (simp add: coverage_blockers_def)
  have acc: "validate_acceptance_coverage ctx plan = []
      \<longleftrightarrow> cr_id ` set (pc_acceptance_criteria ctx) \<subseteq> co_criterion_id ` set (mp_acceptance_coverage plan)
        \<and> (\<forall>c \<in> set (mp_acceptance_coverage plan). co_status c \<noteq> NOT_COVERED \<and> co_status c \<noteq> coverage_status.BLOCKED)"
    by (auto simp: validate_acceptance_coverage_def filter_empty_conv)
  have ass: "assumption_blockers plan = [] \<longleftrightarrow> (\<forall>a \<in> set (mp_assumptions plan). \<not> as_verified a)"
    unfolding assumption_blockers_def concat_map_Nil by simp
  show ?thesis
    unfolding reference_blockers_def append_is_Nil_conv concat_map_Nil step_blockers_Nil scope_blockers_Nil cov acc ass
      plan_grounded_def coverage_grounded_def by blast
qed

lemma check_blockers_Nil:
  assumes "validate_deterministic_checks render plan = Inr cb"
  shows "cb = [] \<longleftrightarrow> (\<exists>cs. normalize_checks (map af_path (mp_affected_files plan))
    (JList (map declared_check_dump (mp_deterministic_acceptance_checks plan))) = Inr cs)"
  using assms unfolding validate_deterministic_checks_def by (auto split: sum.splits acceptance_exc.splits)

lemma escalation_blockers_Nil:
  "escalation_blockers ctx plan = [] \<longleftrightarrow> mp_required_authority_level plan \<le> pc_contract_authority_level ctx"
  using escalation_blockers_iff(2) [of ctx plan] by (simp add: not_less)

lemma declared_file_path [simp]: "af_path (declared_file plan p) = p"
  by (auto simp: declared_file_def split: option.split dest!: find_Some_iff [THEN iffD1])

lemma classify_file_path [simp]: "af_path (classify_file ctx manifest f) = af_path f"
  by (simp add: classify_file_def Let_def)

lemma classified_paths [simp]: "map af_path (classify_affected_files ctx manifest plan) = plan_paths plan"
  by (simp add: classify_affected_files_def comp_def)

lemma classified_verified_iff: "af_status (classify_file ctx manifest f) = EXISTING_VERIFIED
    \<longleftrightarrow> af_path f \<noteq> [] \<and> py_upper (af_path f) \<noteq> ''UNKNOWN'' \<and> (evidence_at ctx (af_path f) \<noteq> [] \<or> af_path f \<in> set manifest)"
  unfolding classify_file_def Let_def by auto

text \<open>C26. A plan has no blockers exactly when it is grounded: its steps and its coverage refer to evidence,
  memory and steps that the context and the plan hold, every criterion is covered, the evidence belongs to the
  project, no assumption is sold as a fact, its declared checks normalise within the affected files, and it
  stays within the contract's authority.\<close>

theorem plan_unblocked_iff_grounded:
  assumes "validate_and_enrich_plan render ctx plan s = Inr (plan', bs, ws)"
  shows "bs = [] \<longleftrightarrow> plan_grounded ctx plan s
    \<and> (\<exists>cs. normalize_checks (plan_paths plan)
        (JList (map declared_check_dump (mp_deterministic_acceptance_checks plan))) = Inr cs)
    \<and> mp_required_authority_level plan' \<le> pc_contract_authority_level ctx"
proof -
  obtain manifest cb where shape: "mp_affected_files plan' = classify_affected_files ctx manifest plan"
    "validate_deterministic_checks render plan' = Inr cb"
    "plan' = plan\<lparr>mp_affected_files := mp_affected_files plan', mp_steps := map (classify_step plan') (mp_steps plan),
      mp_risk_level := max (mp_risk_level plan) (risk_floor ctx plan'),
      mp_required_authority_level := max (mp_required_authority_level plan) (required_authority ctx plan')\<rparr>"
    "bs = reference_blockers ctx plan s @ cb @ escalation_blockers ctx plan'"
    by (rule validated_shape [OF assms])
  have checks: "mp_deterministic_acceptance_checks plan' = mp_deterministic_acceptance_checks plan"
    by (subst shape(3)) simp
  show ?thesis
    unfolding shape(4) append_is_Nil_conv reference_blockers_Nil check_blockers_Nil [OF shape(2)] escalation_blockers_Nil
      checks shape(1) classified_paths ..
qed

theorem plan_unblocked_iff_grounded_witness:
  "\<exists>plan' bs ws. validate_and_enrich_plan (\<lambda>_. []) ex_planning_context ex_model_plan empty_db = Inr (plan', bs, ws)
     \<and> (bs = [] \<longleftrightarrow> plan_grounded ex_planning_context ex_model_plan empty_db
        \<and> (\<exists>cs. normalize_checks (plan_paths ex_model_plan)
            (JList (map declared_check_dump (mp_deterministic_acceptance_checks ex_model_plan))) = Inr cs)
        \<and> mp_required_authority_level plan' \<le> L1)"
proof -
  obtain plan' bs ws where v: "validate_and_enrich_plan (\<lambda>_. []) ex_planning_context ex_model_plan empty_db = Inr (plan', bs, ws)"
    using ex_plan_validates by auto
  have "pc_contract_authority_level ex_planning_context = L1" by (simp add: ex_planning_context_def)
  with plan_unblocked_iff_grounded [OF v] v show ?thesis by simp
qed

text \<open>C28. No invented files: validation lists every path that the plan or one of its steps names, once and
  in order, and calls a file verified only when evidence at its path or an entry of a snapshot's manifest
  shows it; a step counts as supported exactly when it cites evidence.\<close>

theorem validated_files_verified:
  assumes "validate_and_enrich_plan render ctx plan s = Inr (plan', bs, ws)"
  shows "\<exists>manifest. manifest_paths ctx s = Inr manifest
    \<and> map af_path (mp_affected_files plan') = plan_paths plan
    \<and> (\<forall>f \<in> set (mp_affected_files plan'). af_status f = EXISTING_VERIFIED \<longrightarrow>
         af_path f \<in> pe_path ` set (pc_evidence ctx) \<or> af_path f \<in> set manifest)
    \<and> (\<forall>st \<in> set (mp_steps plan'). st_support_status st = SUPPORTED \<longleftrightarrow> st_required_evidence_ids st \<noteq> [])"
proof -
  obtain manifest where shape: "manifest_paths ctx s = Inr manifest"
    "mp_affected_files plan' = classify_affected_files ctx manifest plan"
    "plan' = plan\<lparr>mp_affected_files := mp_affected_files plan', mp_steps := map (classify_step plan') (mp_steps plan),
      mp_risk_level := max (mp_risk_level plan) (risk_floor ctx plan'),
      mp_required_authority_level := max (mp_required_authority_level plan) (required_authority ctx plan')\<rparr>"
    by (rule validated_shape [OF assms])
  have steps: "mp_steps plan' = map (classify_step plan') (mp_steps plan)"
    by (subst shape(3)) simp
  have supported: "st_support_status st = SUPPORTED \<longleftrightarrow> st_required_evidence_ids st \<noteq> []"
    if "st \<in> set (mp_steps plan')" for st
    using that unfolding steps by (auto simp: classify_step_def split: if_splits)
  have verified: "af_path f \<in> pe_path ` set (pc_evidence ctx) \<or> af_path f \<in> set manifest"
    if "f \<in> set (mp_affected_files plan')" "af_status f = EXISTING_VERIFIED" for f
  proof -
    from that(1) obtain p where f: "f = classify_file ctx manifest (declared_file plan p)"
      unfolding shape(2) classify_affected_files_def by auto
    with that(2) have "evidence_at ctx (af_path f) \<noteq> [] \<or> af_path f \<in> set manifest"
      by (simp add: classified_verified_iff)
    then show ?thesis unfolding evidence_at_def map_is_Nil_conv filter_empty_conv by (metis imageI)
  qed
  show ?thesis
    by (intro exI [of _ manifest] conjI ballI impI shape(1) verified supported) (simp_all add: shape(2))
qed

theorem validated_files_verified_witness:
  "\<exists>plan' bs ws. validate_and_enrich_plan (\<lambda>_. []) ex_planning_context ex_model_plan empty_db = Inr (plan', bs, ws)
     \<and> map af_path (mp_affected_files plan') = plan_paths ex_model_plan"
proof -
  obtain plan' bs ws where v: "validate_and_enrich_plan (\<lambda>_. []) ex_planning_context ex_model_plan empty_db = Inr (plan', bs, ws)"
    using ex_plan_validates by auto
  with validated_files_verified [OF v] show ?thesis by auto
qed

section \<open>The history of a task's plans\<close>

definition plan_history :: "db \<Rightarrow> bool" where
  "plan_history s \<longleftrightarrow> distinct (map pl_id (plans s))
     \<and> (\<forall>r \<in> set (plans s). \<forall>r' \<in> set (plans s). pl_task_id r = pl_task_id r' \<and> pl_version r = pl_version r' \<longrightarrow> pl_id r = pl_id r')"

lemma next_plan_version_above:
  assumes "r \<in> set (plans s)" and "pl_task_id r = task_id"
  shows "pl_version r < next_plan_version task_id s"
proof -
  have mem: "pl_version r \<in> set (plan_versions task_id s)" using assms by (auto simp: plan_versions_def)
  then have "pl_version r \<le> Max (set (plan_versions task_id s))" by simp
  moreover have "plan_versions task_id s \<noteq> []" using mem by auto
  ultimately show ?thesis by (simp add: next_plan_version_def)
qed

lemma plan_row_of_simps [simp]:
  "pl_id (plan_row_of i v ctx p c now) = i" "pl_version (plan_row_of i v ctx p c now) = v"
  "pl_task_id (plan_row_of i v ctx p c now) = pc_task_id ctx"
  by (simp_all add: plan_row_of_def)

lemma supersede_row_simps [simp]:
  "pl_id (supersede_row i now r) = pl_id r" "pl_version (supersede_row i now r) = pl_version r"
  "pl_task_id (supersede_row i now r) = pl_task_id r"
  by (simp_all add: supersede_row_def)

text \<open>Writing back a row under its own task and version keeps the history.\<close>

lemma plan_history_update:
  assumes "plan_history s" and "get_plan (pl_id r') s = Some r" and "pl_task_id r' = pl_task_id r" "pl_version r' = pl_version r"
  shows "plan_history (put_plan r' s)"
proof -
  have r: "r \<in> set (plans s)" "pl_id r = pl_id r'" using assms(2) by (auto simp: get_plan_def dest: tget_Some_mem)
  have d: "distinct (map pl_id (plans s))" using assms(1) by (simp add: plan_history_def)
  have rows: "set (plans (put_plan r' s)) = insert r' {x \<in> set (plans s). pl_id x \<noteq> pl_id r'}"
    unfolding put_plan_def using set_tput_distinct [OF d] by simp
  have "distinct (map pl_id (plans (put_plan r' s)))" unfolding put_plan_def using distinct_tput [OF d] by simp
  moreover have "pl_id x = pl_id y" if "x \<in> set (plans (put_plan r' s))" "y \<in> set (plans (put_plan r' s))"
    "pl_task_id x = pl_task_id y" "pl_version x = pl_version y" for x y
    using that r assms(1,3,4) unfolding rows plan_history_def by (metis (no_types, lifting) insertE mem_Collect_eq)
  ultimately show ?thesis unfolding plan_history_def by blast
qed

lemma plan_history_append:
  assumes "plan_history s" and "pl_id r \<notin> pl_id ` set (plans s)"
    and "\<And>x. x \<in> set (plans s) \<Longrightarrow> pl_task_id x = pl_task_id r \<Longrightarrow> pl_version x < pl_version r"
  shows "plan_history (put_plan r s)"
proof -
  have rows: "plans (put_plan r s) = plans s @ [r]" using assms(2) by (simp add: put_plan_def tput_fresh)
  have "distinct (map pl_id (plans s @ [r]))" using assms(1) [unfolded plan_history_def, THEN conjunct1] assms(2) by simp
  moreover have "pl_id x = pl_id y" if "x \<in> set (plans s @ [r])" "y \<in> set (plans s @ [r])"
    "pl_task_id x = pl_task_id y" "pl_version x = pl_version y" for x y
  proof -
    have "x \<in> set (plans s) \<or> x = r" "y \<in> set (plans s) \<or> y = r" using that(1,2) by auto
    moreover have "\<not> (x \<in> set (plans s) \<and> y = r)"
    proof
      assume "x \<in> set (plans s) \<and> y = r"
      then show False using assms(3) [of x] that(3,4) by simp
    qed
    moreover have "\<not> (y \<in> set (plans s) \<and> x = r)"
    proof
      assume "y \<in> set (plans s) \<and> x = r"
      then show False using assms(3) [of y] that(3,4) by simp
    qed
    ultimately have "x = y \<or> x \<in> set (plans s) \<and> y \<in> set (plans s)" by blast
    then show ?thesis
    proof
      assume "x \<in> set (plans s) \<and> y \<in> set (plans s)"
      then show ?thesis using assms(1) that(3,4) unfolding plan_history_def by simp
    qed simp
  qed
  ultimately show ?thesis unfolding plan_history_def rows by blast
qed

lemma create_plan_row_cases:
  assumes "create_plan_row ctx p c s = (row, s')"
  obtains s2 where "row = plan_row_of (fresh_id ''engineering_plan'' s) (next_plan_version (pc_task_id ctx) s) ctx p c (utc_now s)"
    and "s2 = put_plan row (bump_id ''engineering_plan'' s)"
    and "s' = s2" "\<not> truthy (cr_supersedes_plan_id c) \<or> get_plan (the (cr_supersedes_plan_id c)) s2 = None"
  | s2 q where "row = plan_row_of (fresh_id ''engineering_plan'' s) (next_plan_version (pc_task_id ctx) s) ctx p c (utc_now s)"
    and "s2 = put_plan row (bump_id ''engineering_plan'' s)"
    and "truthy (cr_supersedes_plan_id c)" "get_plan (the (cr_supersedes_plan_id c)) s2 = Some q"
    and "s' = put_plan (supersede_row (pl_id row) (utc_now s) q) s2"
proof -
  define r where "r = plan_row_of (fresh_id ''engineering_plan'' s) (next_plan_version (pc_task_id ctx) s) ctx p c (utc_now s)"
  define s2 where "s2 = put_plan r (bump_id ''engineering_plan'' s)"
  have id: "fresh_id ''engineering_plan'' s = pl_id r" by (simp add: r_def)
  have "create_plan_row ctx p c s = (r, if truthy (cr_supersedes_plan_id c)
      then case get_plan (the (cr_supersedes_plan_id c)) s2 of
          None \<Rightarrow> s2 | Some previous \<Rightarrow> put_plan (supersede_row (pl_id r) (utc_now s) previous) s2
      else s2)"
    unfolding create_plan_row_def Let_def
    unfolding r_def [symmetric] unfolding s2_def [symmetric] id by (rule refl)
  with assms have row: "row = r" and s': "s' = (if truthy (cr_supersedes_plan_id c)
      then case get_plan (the (cr_supersedes_plan_id c)) s2 of
          None \<Rightarrow> s2 | Some previous \<Rightarrow> put_plan (supersede_row (pl_id r) (utc_now s) previous) s2
      else s2)" by simp_all
  show thesis
  proof (cases "truthy (cr_supersedes_plan_id c) \<and> get_plan (the (cr_supersedes_plan_id c)) s2 \<noteq> None")
    case True
    then obtain q where q: "get_plan (the (cr_supersedes_plan_id c)) s2 = Some q" by blast
    have "s' = put_plan (supersede_row (pl_id row) (utc_now s) q) s2" using s' True q row by simp
    then show thesis using that(2) [OF row [unfolded r_def] _ _ q, unfolded row] True s2_def row by blast
  next
    case False
    then have "s' = s2" using s' by auto
    then show thesis using that(1) [OF row [unfolded r_def], unfolded row, of s2] False s2_def by blast
  qed
qed

lemma create_plan_row_history:
  assumes "plan_history s" and "create_plan_row ctx p c s = (row, s')"
    and "cr_supersedes_plan_id c \<noteq> Some (pl_id row)"
  shows "plan_history s' \<and> get_plan (pl_id row) s = None \<and> get_plan (pl_id row) s' = Some row
    \<and> list_all (\<lambda>r. pl_task_id r = pl_task_id row \<longrightarrow> pl_version r < pl_version row) (plans s)
    \<and> (\<forall>i r. get_plan i s = Some r \<longrightarrow> get_plan i s' = Some
        (if truthy (cr_supersedes_plan_id c) \<and> cr_supersedes_plan_id c = Some i
         then supersede_row (pl_id row) (utc_now s) r else r))"
proof -
  define s2 where "s2 = put_plan row (bump_id ''engineering_plan'' s)"
  have row: "row = plan_row_of (fresh_id ''engineering_plan'' s) (next_plan_version (pc_task_id ctx) s) ctx p c (utc_now s)"
    by (rule create_plan_row_cases [OF assms(2)]) assumption+
  have new: "pl_id row \<notin> pl_id ` set (plans s)" unfolding row plan_row_of_simps by simp
  have above: "pl_version x < pl_version row" if "x \<in> set (plans s)" "pl_task_id x = pl_task_id row" for x
    using next_plan_version_above [OF that(1)] that(2) unfolding row plan_row_of_simps by blast
  have bump: "plans (bump_id ''engineering_plan'' s) = plans s" by simp
  have h2: "plan_history s2" unfolding s2_def
  proof (rule plan_history_append)
    show "plan_history (bump_id ''engineering_plan'' s)" using assms(1) unfolding plan_history_def bump .
    next
    show "pl_id row \<notin> pl_id ` set (plans (bump_id ''engineering_plan'' s))" using new unfolding bump .
  next
    fix x
    assume "x \<in> set (plans (bump_id ''engineering_plan'' s))" "pl_task_id x = pl_task_id row"
    then show "pl_version x < pl_version row" using above unfolding bump by blast
  qed
  have get2: "get_plan i s2 = (if pl_id row = i then Some row else get_plan i s)" for i
    unfolding s2_def get_plan_def put_plan_def by (simp add: bump)
  have old: "get_plan (pl_id row) s = None" using new unfolding get_plan_def tget_None_iff .
  have "list_all (\<lambda>r. pl_task_id r = pl_task_id row \<longrightarrow> pl_version r < pl_version row) (plans s)"
    using above unfolding list_all_iff by blast
  moreover have "plan_history s' \<and> get_plan (pl_id row) s' = Some row
    \<and> (\<forall>i r. get_plan i s = Some r \<longrightarrow> get_plan i s' = Some
        (if truthy (cr_supersedes_plan_id c) \<and> cr_supersedes_plan_id c = Some i
         then supersede_row (pl_id row) (utc_now s) r else r))"
  proof (rule create_plan_row_cases [OF assms(2)], goal_cases)
    case (1 t2)
    then have s': "s' = s2" and none: "\<not> truthy (cr_supersedes_plan_id c) \<or> get_plan (the (cr_supersedes_plan_id c)) s2 = None"
      unfolding s2_def by simp_all
    have kept: "get_plan i s' = Some r" "\<not> (truthy (cr_supersedes_plan_id c) \<and> cr_supersedes_plan_id c = Some i)"
      if "get_plan i s = Some r" for i r
    proof -
      have "pl_id row \<noteq> i" using that old by auto
      then show "get_plan i s' = Some r" using that by (simp add: s' get2)
      then show "\<not> (truthy (cr_supersedes_plan_id c) \<and> cr_supersedes_plan_id c = Some i)"
        using none unfolding s' by auto
    qed
    have "get_plan (pl_id row) s' = Some row" by (simp add: s' get2)
    moreover have "get_plan i s' = Some (if truthy (cr_supersedes_plan_id c) \<and> cr_supersedes_plan_id c = Some i
         then supersede_row (pl_id row) (utc_now s) r else r)" if "get_plan i s = Some r" for i r
      unfolding if_not_P [OF kept(2) [OF that]] by (rule kept(1) [OF that])
    ultimately show ?case using h2 unfolding s' [symmetric] by blast
  next
    case (2 t2 q)
    then have t: "truthy (cr_supersedes_plan_id c)" and q: "get_plan (the (cr_supersedes_plan_id c)) s2 = Some q"
      and s': "s' = put_plan (supersede_row (pl_id row) (utc_now s) q) s2" unfolding s2_def by simp_all
    obtain i' where i': "cr_supersedes_plan_id c = Some i'" using t by (auto simp: truthy_def split: option.splits)
    have qi: "pl_id q = i'" using q i' by (auto simp: get_plan_def dest: tget_Some_mem)
    have ne: "i' \<noteq> pl_id row" using assms(3) i' by simp
    have gq: "get_plan i' s = Some q" using q ne unfolding i' get2 by (simp split: if_splits)
    have get': "get_plan i s' = (if i' = i then Some (supersede_row (pl_id row) (utc_now s) q) else get_plan i s2)" for i
      unfolding s' get_plan_def put_plan_def by (simp add: qi)
    have "plan_history s'" unfolding s'
      by (rule plan_history_update [OF h2]) (use q i' qi in simp_all)
    moreover have "get_plan (pl_id row) s' = Some row" using get' [of "pl_id row"] ne by (simp add: get2)
    moreover have "get_plan i s' = Some (if i' = i then supersede_row (pl_id row) (utc_now s) r else r)"
      if g: "get_plan i s = Some r" for i r
    proof (cases "i' = i")
      case True
      then show ?thesis using get' [of i] g gq by simp
    next
      case False
      moreover have "pl_id row \<noteq> i" using g old by auto
      ultimately show ?thesis using get' [of i] g by (simp add: get2)
    qed
    ultimately show ?case using t by (simp add: i')
  qed
  ultimately show ?thesis using old by blast
qed

text \<open>Plans are versioned, never overwritten: a stored plan is new, its version is above those of every plan
  of the task, the versions of a task stay unique, and of the older plans only the one it names is touched: it is
  marked superseded and points to its successor.\<close>

theorem created_plan_keeps_history:
  assumes "plan_history s" and "create_plan_row ctx p c s = (row, s')"
    and "cr_supersedes_plan_id c \<noteq> Some (pl_id row)"
  shows "plan_history s' \<and> get_plan (pl_id row) s = None \<and> get_plan (pl_id row) s' = Some row
    \<and> list_all (\<lambda>r. pl_task_id r = pl_task_id row \<longrightarrow> pl_version r < pl_version row) (plans s)
    \<and> (\<forall>i r. get_plan i s = Some r \<longrightarrow> get_plan i s' = Some
        (if truthy (cr_supersedes_plan_id c) \<and> cr_supersedes_plan_id c = Some i
         then supersede_row (pl_id row) (utc_now s) r else r))"
  using assms by (rule create_plan_row_history)

definition ex_creation :: plan_creation where
  "ex_creation = \<lparr>cr_model_execution_ids = [], cr_blockers = [], cr_validation_warnings = [], cr_planner_version = ''1'',
     cr_created_by = ''SYSTEM'', cr_supersedes_plan_id = None, cr_supersession_reason = None\<rparr>"

theorem created_plan_keeps_history_witness:
  "\<exists>row s'. create_plan_row ex_planning_context ex_model_plan ex_creation empty_db = (row, s')
    \<and> plan_history s' \<and> get_plan (pl_id row) s' = Some row"
proof -
  obtain row s' where c: "create_plan_row ex_planning_context ex_model_plan ex_creation empty_db = (row, s')"
    by (cases "create_plan_row ex_planning_context ex_model_plan ex_creation empty_db")
  have "plan_history empty_db" "cr_supersedes_plan_id ex_creation \<noteq> Some (pl_id row)"
    by (simp_all add: plan_history_def empty_db_def ex_creation_def)
  from created_plan_keeps_history [OF this(1) c this(2)] c show ?thesis by blast
qed

end
