(* ===== verification/Planner.thy ===== *)
theory Planner
  imports Planning Retrieval Memory Gateway
begin

text \<open>
  The engineering planner: the bounded context of a planning request
  (\<^verbatim>\<open>planning/context.py\<close>) and the service that asks a model for a plan, validates and
  stores it (\<^verbatim>\<open>planning/service.py\<close>). It composes retrieval, memory, the model gateway,
  validation and storage. Parameters: the host of a repository adapter, the adapters of the model
  providers, the JSON text of the prompt, and the parser of a model's answer, whose two faces are the check
  that the gateway runs and the plan that the service reads.
\<close>

section \<open>Memory and evidence within a budget\<close>

record planning_budget =
  bu_max_evidence_items :: int
  bu_max_memory_items :: int
  bu_max_total_context_bytes :: int
  bu_max_per_source_bytes :: int

definition default_planning_budget :: planning_budget where
  "default_planning_budget = \<lparr>bu_max_evidence_items = 8, bu_max_memory_items = 6, bu_max_total_context_bytes = 24000,
     bu_max_per_source_bytes = 1200\<rparr>"

text \<open>\<open>t[:n]\<close>.\<close>

definition py_prefix :: "int \<Rightarrow> string \<Rightarrow> string" where
  "py_prefix n t = take (slice_bound n (length t)) t"

definition memory_allowed :: "string \<Rightarrow> bool \<Rightarrow> memory_row \<Rightarrow> bool" where
  "memory_allowed project_id allow_candidate r =
     (if m_scope r = knowledge_scope.CLIENT \<and> m_project_id r \<noteq> Some project_id then False
      else if truthy (m_project_id r) \<and> m_project_id r \<noteq> Some project_id then False
      else if m_validation_status r = validation_status.VALIDATED then True
      else allow_candidate \<and> m_validation_status r \<in> {CANDIDATE, OBSERVED})"

definition planning_scope_rank :: "knowledge_scope \<Rightarrow> int" where
  "planning_scope_rank sc = (case sc of knowledge_scope.PROJECT \<Rightarrow> 0 | DFG \<Rightarrow> 1 | DOMAIN \<Rightarrow> 2 | GLOBAL \<Rightarrow> 3 | _ \<Rightarrow> 9)"

definition memory_sort_key :: "memory_row \<Rightarrow> int \<times> int \<times> int \<times> string" where
  "memory_sort_key r = (planning_scope_rank (m_scope r),
     if m_validation_status r = validation_status.VALIDATED then 0 else 1,
     if m_requires_revalidation r then 1 else 0, m_id r)"

definition memory_item :: "planning_budget \<Rightarrow> memory_row \<Rightarrow> planning_memory_item" where
  "memory_item b r = \<lparr>pm_memory_id = m_id r, pm_scope = m_scope r,
     pm_statement = py_prefix (bu_max_per_source_bytes b) (m_statement r), pm_validation_status = m_validation_status r,
     pm_confidence = m_confidence r, pm_requires_revalidation = m_requires_revalidation r,
     pm_source_evidence_ids = m_source_evidence_ids r\<rparr>"

definition evidence_item :: "planning_budget \<Rightarrow> evidence_row \<Rightarrow> planning_evidence_item" where
  "evidence_item b r = \<lparr>pe_evidence_id = e_id r, pe_repository_id = e_repository_id r, pe_snapshot_id = e_snapshot_id r,
     pe_source_type = e_source_type r, pe_path = e_path r,
     pe_snippet = Some (py_prefix (bu_max_per_source_bytes b) (option_text (e_snippet r))),
     pe_relevance_score = e_relevance_score r, pe_match_reasons = e_match_reasons r\<rparr>"

text \<open>The loop of both selections: items are taken while their number and the sum of their sizes stay within
  the bounds, and the first that does not fit ends it.\<close>

fun take_fitting :: "('a \<Rightarrow> nat) \<Rightarrow> int \<Rightarrow> int \<Rightarrow> nat \<Rightarrow> nat \<Rightarrow> 'a list \<Rightarrow> 'a list" where
  "take_fitting sz max_items max_bytes n used [] = []"
| "take_fitting sz max_items max_bytes n used (x # xs) =
     (if max_items \<le> int n \<or> max_bytes < int (used + sz x) then []
      else x # take_fitting sz max_items max_bytes (n + 1) (used + sz x) xs)"

definition evidence_size :: "planning_evidence_item \<Rightarrow> nat" where
  "evidence_size e = utf8_len (option_text (pe_snippet e))"

definition memory_size :: "planning_memory_item \<Rightarrow> nat" where
  "memory_size m = utf8_len (pm_statement m)"

definition omitted_warning :: "string \<Rightarrow> nat \<Rightarrow> json_object list" where
  "omitted_warning limit omitted = (if omitted = 0 then []
     else [[(''code'', JStr ''PLANNING_CONTEXT_BUDGET_REACHED''), (''limit'', JStr limit), (''omitted'', JInt (int omitted))]])"

definition bounded_evidence ::
  "evidence_row list \<Rightarrow> planning_budget \<Rightarrow> planning_evidence_item list \<times> json_object list \<times> nat" where
  "bounded_evidence rows b =
     (let ordered = sort_key (\<lambda>r. (- e_relevance_score r, e_id r)) rows;
          selected = take_fitting evidence_size (bu_max_evidence_items b) (bu_max_total_context_bytes b) 0 0
            (map (evidence_item b) ordered);
          omitted = length ordered - length selected
      in (selected, omitted_warning ''evidence'' omitted, omitted))"

definition planning_memory_query :: "string \<Rightarrow> string list \<Rightarrow> memory_query" where
  "planning_memory_query project_id terms = \<lparr>mq_project_id = Some project_id, mq_scope = None, mq_memory_type = None,
     mq_validation_status = None, mq_technology_tags = [], mq_context_tags = [], mq_query_terms = terms,
     mq_include_excluded = False\<rparr>"

definition planning_memory_rows :: "string \<Rightarrow> bool \<Rightarrow> memory_match list \<Rightarrow> db \<Rightarrow> memory_row list" where
  "planning_memory_rows project_id allow_candidate matches s = sort_key memory_sort_key
     (filter (memory_allowed project_id allow_candidate)
       (concat (map (\<lambda>m. case get_memory (mm_memory_id m) s of None \<Rightarrow> [] | Some r \<Rightarrow> [r]) matches)))"

definition planning_memory ::
  "string \<Rightarrow> string list \<Rightarrow> planning_budget \<Rightarrow> bool \<Rightarrow> db \<Rightarrow> (planning_memory_item list \<times> json_object list \<times> nat) \<times> db"
where
  "planning_memory project_id terms b allow_candidate s =
     (let ((matches, _), s1) = retrieve_memory (planning_memory_query project_id terms) s;
          rows = planning_memory_rows project_id allow_candidate matches s1;
          selected = take_fitting memory_size (bu_max_memory_items b) (bu_max_total_context_bytes b) 0 0
            (map (memory_item b) rows);
          omitted = length rows - length selected
      in ((selected, concat (map (\<lambda>m. if pm_requires_revalidation m
               then [[(''code'', JStr ''MEMORY_REVALIDATION_REQUIRED''), (''memory_id'', JStr (pm_memory_id m))]] else []) selected)
             @ omitted_warning ''memory'' omitted, omitted), s1))"

section \<open>Memory that contradicts the evidence\<close>

text \<open>The characters of an implementation's name. The first match of
  \<^verbatim>\<open>uses implementation ([a-z0-9_-]+)\<close>, and all matches of
  \<^verbatim>\<open>implementation[_ ]([a-z0-9_-]+)\<close>, left to right.\<close>

definition name_char :: "char \<Rightarrow> bool" where
  "name_char c = (CHR ''a'' \<le> c \<and> c \<le> CHR ''z'' \<or> is_digit c \<or> c = CHR ''_'' \<or> c = CHR ''-'')"

definition name_after :: "nat \<Rightarrow> string \<Rightarrow> string" where
  "name_after n t = takeWhile name_char (drop n t)"

fun claimed_implementation :: "string \<Rightarrow> string option" where
  "claimed_implementation [] = None"
| "claimed_implementation (c # cs) =
     (if starts_with ''uses implementation '' (c # cs) \<and> name_after 20 (c # cs) \<noteq> [] then Some (name_after 20 (c # cs))
      else claimed_implementation cs)"

function implementations_in :: "string \<Rightarrow> string list" where
  "implementations_in [] = []"
| "implementations_in (c # cs) =
     (if (starts_with ''implementation_'' (c # cs) \<or> starts_with ''implementation '' (c # cs)) \<and> name_after 15 (c # cs) \<noteq> []
      then name_after 15 (c # cs) # implementations_in (drop (15 + length (name_after 15 (c # cs))) (c # cs))
      else implementations_in cs)"
  by pat_completeness auto
termination
  by (relation "measure length") auto

definition evidence_text :: "planning_evidence_item list \<Rightarrow> string" where
  "evidence_text es = py_lower (join_with [CHR 0x0A] (map (\<lambda>e. join_with '' ''
     [pe_path e, source_type_value (pe_source_type e), option_text (pe_snippet e), join_with '' '' (pe_match_reasons e)]) es))"

definition conflict_warning :: "planning_memory_item \<Rightarrow> string list \<Rightarrow> json_object" where
  "conflict_warning m signal = [(''code'', JStr ''MEMORY_CONFLICT_WITH_REPOSITORY''), (''memory_id'', JStr (pm_memory_id m)),
     (''memory_claim'', JStr (pm_statement m)), (''evidence_signal'', jtexts signal)]"

definition memory_conflict :: "string \<Rightarrow> planning_memory_item \<Rightarrow> json_object list" where
  "memory_conflict text m =
     (let statement = py_lower (pm_statement m)
      in case claimed_implementation statement of
           None \<Rightarrow> []
         | Some impl \<Rightarrow>
             let found = sorted_set (implementations_in text)
             in if found \<noteq> [] \<and> impl \<notin> set found then [conflict_warning m found]
                else if contains ''snapshot reuse'' statement \<and> (contains ''code'' text \<or> contains ''repositories.py'' text)
                  \<and> \<not> contains (''implementation '' @ impl) text
                then [conflict_warning m [''current snapshot reuse evidence differs from memory claim'']]
                else [])"

definition detect_memory_conflicts :: "planning_memory_item list \<Rightarrow> planning_evidence_item list \<Rightarrow> json_object list" where
  "detect_memory_conflicts ms es = concat (map (memory_conflict (evidence_text es)) ms)"

section \<open>Building the context\<close>

definition audit_planning ::
  "string \<Rightarrow> actor \<Rightarrow> string \<Rightarrow> string \<Rightarrow> string option \<Rightarrow> string \<Rightarrow> string \<Rightarrow> json_object \<Rightarrow> db \<Rightarrow> db" where
  "audit_planning event actor project_id task_id run_id action result metadata =
     audit_record event (actor_value actor) (Some project_id) None (Some task_id) run_id L0 action result metadata"

definition planning_blocker_of :: "planning_blocker_code \<Rightarrow> string \<Rightarrow> planning_blocker" where
  "planning_blocker_of code message = \<lparr>pb_code = code, pb_message = message, pb_metadata = []\<rparr>"

definition blockers_json :: "planning_blocker list \<Rightarrow> json_object" where
  "blockers_json bs = [(''blockers'', JList (map blocker_dump bs))]"

definition preflight ::
  "task_row \<Rightarrow> contract_row option \<Rightarrow> project_row option \<Rightarrow> string list \<Rightarrow> planning_blocker list" where
  "preflight task contract project snapshot_ids =
     blocker_if (case project of None \<Rightarrow> True | Some p \<Rightarrow> p_status p \<noteq> project_status.ACTIVE)
       (planning_blocker_of PROJECT_INACTIVE ''Project is not active.'')
     @ blocker_if (t_status task \<notin> {task_status.READY, task_status.RUNNING, task_status.BLOCKED})
       (planning_blocker_of TASK_NOT_READY ''Task must be READY or RUNNING before planning.'')
     @ blocker_if (case contract of None \<Rightarrow> True | Some c \<Rightarrow> c_acceptance_criteria c = [])
       (planning_blocker_of TASK_CONTRACT_INVALID ''Task requires a valid TaskContract.'')
     @ blocker_if (case contract of None \<Rightarrow> False | Some c \<Rightarrow> c_repository_ids c \<noteq> [] \<and> snapshot_ids = [])
       (planning_blocker_of REPOSITORY_SNAPSHOT_REQUIRED ''Repository snapshots are required for repository-bound planning.'')"

definition snapshot_metadata_of :: "db \<Rightarrow> string \<Rightarrow> json_object" where
  "snapshot_metadata_of s i = (case get_snapshot i s of
     None \<Rightarrow> []
   | Some sn \<Rightarrow> [(''snapshot_id'', JStr (snap_id sn)), (''repository_id'', JStr (snap_repository_id sn)),
       (''branch'', jtext (snap_branch sn)), (''commit_sha'', JStr (snap_commit_sha sn)),
       (''manifest_hash'', JStr (snap_manifest_hash sn)), (''is_dirty'', JBool (snap_is_dirty sn))])"

definition context_size :: "planning_evidence_item list \<Rightarrow> planning_memory_item list \<Rightarrow> nat" where
  "context_size es ms = sum_list (map evidence_size es) + sum_list (map memory_size ms)"

definition planning_options :: "string option \<Rightarrow> planning_budget \<Rightarrow> retrieval_options" where
  "planning_options run_id b = \<lparr>ro_task_run_id = run_id, ro_explicit_terms = None, ro_requested_source_types = None,
     ro_max_results = bu_max_evidence_items b * 2, ro_max_total_bytes = bu_max_total_context_bytes b,
     ro_max_snippet_bytes = bu_max_per_source_bytes b, ro_include_tests = True, ro_include_documentation = True,
     ro_include_config = True\<rparr>"

definition has_code :: "string \<Rightarrow> json_object \<Rightarrow> bool" where
  "has_code code w = (jget ''code'' w = Some (JStr code))"

definition conflict_warnings :: "json_object list \<Rightarrow> json_object list" where
  "conflict_warnings ws = filter (has_code ''MEMORY_CONFLICT_WITH_REPOSITORY'') ws"

definition conflict_ids :: "json_object list \<Rightarrow> string list" where
  "conflict_ids ws = concat (map (\<lambda>w. case jget ''memory_id'' w of Some (JStr i) \<Rightarrow> if i = [] then [] else [i] | _ \<Rightarrow> [])
     (conflict_warnings ws))"

definition planning_context_of ::
  "task_row \<Rightarrow> contract_row \<Rightarrow> string option \<Rightarrow> string list \<Rightarrow> planning_evidence_item list \<Rightarrow> planning_memory_item list \<Rightarrow>
   json_object list \<Rightarrow> nat \<times> nat \<Rightarrow> db \<Rightarrow> planning_context"
where
  "planning_context_of task contract run_id snapshot_ids es ms warnings omitted s = \<lparr>
     pc_task_id = t_id task, pc_run_id = run_id, pc_project_id = t_project_id task, pc_task_title = t_title task,
     pc_task_objective = t_objective task, pc_task_status = t_status task, pc_task_authority_level = t_authority_level task,
     pc_task_complexity = t_complexity task, pc_task_contract_id = c_id contract, pc_task_contract_version = c_version contract,
     pc_contract_objective = c_objective contract, pc_acceptance_criteria = c_acceptance_criteria contract,
     pc_constraints = c_constraints contract, pc_allowed_actions = c_allowed_actions contract,
     pc_environment = c_environment contract, pc_contract_authority_level = c_authority_level contract,
     pc_documentation_required = c_documentation_required contract,
     pc_documentation_targets = c_documentation_targets contract,
     pc_snapshot_metadata = map (snapshot_metadata_of s) snapshot_ids, pc_evidence = es, pc_memory = ms,
     pc_context_warnings = warnings, pc_omitted_counts = omitted, pc_total_context_bytes = context_size es ms,
     pc_created_at = utc_now s\<rparr>"

definition omitted_json :: "nat \<times> nat \<Rightarrow> json" where
  "omitted_json o' = JObj [(''evidence'', JInt (int (fst o'))), (''memory'', JInt (int (snd o')))]"

text \<open>The events and the marks behind a context.\<close>

definition record_context ::
  "task_row \<Rightarrow> string option \<Rightarrow> actor \<Rightarrow> planning_context \<Rightarrow> db \<Rightarrow> unit res \<times> db" where
  "record_context task run_id actor ctx s =
     (let ws = pc_context_warnings ctx;
          audit = (\<lambda>event. audit_planning event actor (t_project_id task) (t_id task) run_id ''build_planning_context'');
          s1 = (if fst (pc_omitted_counts ctx) \<noteq> 0 \<or> snd (pc_omitted_counts ctx) \<noteq> 0
                  \<or> list_ex (has_code (retrieval_warning_value CONTEXT_BUDGET_REACHED)) ws
                then audit ''PLANNING_CONTEXT_TRUNCATED'' ''WARNING'' [(''omitted_counts'', omitted_json (pc_omitted_counts ctx))] s
                else s);
          s2 = (if conflict_warnings ws \<noteq> []
                then audit ''MEMORY_CONFLICT_WITH_REPOSITORY'' ''WARNING'' [(''memory_ids'', JList (map (\<lambda>w.
                  case jget ''memory_id'' w of None \<Rightarrow> JNull | Some v \<Rightarrow> v) (conflict_warnings ws)))] s1
                else s1)
      in then_op (map_op (\<lambda>i. mark_requires_revalidation i ''Planning detected conflict with current repository evidence'' actor)
           (conflict_ids ws) s2)
         (\<lambda>_ s3. (Inr (), audit ''PLANNING_CONTEXT_CREATED'' ''SUCCESS''
            [(''evidence_ids'', jtexts (context_evidence_ids ctx)), (''memory_ids'', jtexts (context_memory_ids ctx)),
             (''warnings'', JList (map JObj ws))] s3)))"

text \<open>What is selected once retrieval has given its package.\<close>

definition gather_context ::
  "task_row \<Rightarrow> contract_row \<Rightarrow> string option \<Rightarrow> string list \<Rightarrow> planning_budget \<Rightarrow> bool \<Rightarrow> context_package \<Rightarrow> db \<Rightarrow>
   planning_context \<times> db"
where
  "gather_context task contract run_id snapshot_ids b allow_candidate package s =
     (let rows = concat (map (\<lambda>i. case tget e_id i (evidence_refs s) of None \<Rightarrow> [] | Some r \<Rightarrow> [r]) (cp_evidence_ids package));
          (es, evidence_warnings, omitted_evidence) = bounded_evidence rows b;
          ((ms, memory_warnings, omitted_memory), s1) =
            planning_memory (t_project_id task) (cp_query_terms package) b allow_candidate s
      in (planning_context_of task contract run_id snapshot_ids es ms
            (cp_warnings package @ evidence_warnings @ memory_warnings @ detect_memory_conflicts ms es)
            (omitted_evidence, omitted_memory) s1, s1))"

definition build_context ::
  "host \<Rightarrow> string \<Rightarrow> string option \<Rightarrow> string list \<Rightarrow> (string \<Rightarrow> workspace_context option) \<Rightarrow> planning_budget \<Rightarrow> bool \<Rightarrow>
   actor \<Rightarrow> db \<Rightarrow> (planning_context option \<times> planning_blocker list) res \<times> db"
where
  "build_context h task_id run_id snapshot_ids contexts b allow_candidate actor s =
     (case get_task task_id s of
        None \<Rightarrow> (Inr (None, [planning_blocker_of TASK_CONTRACT_INVALID ''Unknown task.'']), s)
      | Some task \<Rightarrow>
          let contract = active_contract (t_id task) s;
              blockers = preflight task contract (get_project (t_project_id task) s) snapshot_ids
          in if blockers \<noteq> []
             then (Inr (None, blockers), audit_planning ''PLANNING_BLOCKED'' actor (t_project_id task) (t_id task) None
               ''build_planning_context'' ''BLOCKED'' (blockers_json blockers) s)
             else then_op (retrieve_for_task h (t_id task) snapshot_ids contexts (planning_options run_id b) actor s) (\<lambda>package s1.
               try_res (some_or contract (AttributeError ''id'')) s1 (\<lambda>contract.
               let (ctx, s2) = gather_context task contract run_id snapshot_ids b allow_candidate package s1
               in then_op (record_context task run_id actor ctx s2) (\<lambda>_ s3. (Inr (Some ctx, []), s3)))))"

section \<open>The planner\<close>

definition planner_version :: string where "planner_version = ''1.9.0''"

datatype replan_reason = NEW_EVIDENCE | TASK_CHANGED | CONTRACT_CHANGED | PLAN_REJECTED | TEST_FAILURE | HUMAN_FEEDBACK
  | MODEL_FAILURE_RECOVERY

primrec replan_reason_value :: "replan_reason \<Rightarrow> string" where
  "replan_reason_value NEW_EVIDENCE = ''NEW_EVIDENCE''"
| "replan_reason_value TASK_CHANGED = ''TASK_CHANGED''"
| "replan_reason_value CONTRACT_CHANGED = ''CONTRACT_CHANGED''"
| "replan_reason_value PLAN_REJECTED = ''PLAN_REJECTED''"
| "replan_reason_value TEST_FAILURE = ''TEST_FAILURE''"
| "replan_reason_value HUMAN_FEEDBACK = ''HUMAN_FEEDBACK''"
| "replan_reason_value MODEL_FAILURE_RECOVERY = ''MODEL_FAILURE_RECOVERY''"

record planning_result =
  pr_plan :: "plan_row option"
  pr_context :: "planning_context option"
  pr_blockers :: "planning_blocker list"
  pr_model_response_error :: "string option"

definition blocked_result :: "planning_context option \<Rightarrow> planning_blocker list \<Rightarrow> string option \<Rightarrow> planning_result" where
  "blocked_result ctx bs err = \<lparr>pr_plan = None, pr_context = ctx, pr_blockers = bs, pr_model_response_error = err\<rparr>"

text \<open>\<open>PlanningResult.ok\<close>.\<close>

definition planning_ok :: "planning_result \<Rightarrow> bool" where
  "planning_ok r = (pr_plan r \<noteq> None \<and> \<not> list_ex (\<lambda>b. pb_code b \<noteq> AUTHORITY_ESCALATION_REQUIRED) (pr_blockers r))"

text \<open>What the planner is given: the check and the parse of a model's answer, the text of a JSON value, and
  the text of an acceptance error.\<close>

record planner_env =
  en_check_plan :: "json_object \<Rightarrow> string + json_object"
  en_parse_plan :: "json_object option \<Rightarrow> string + model_plan"
  en_dumps :: "json \<Rightarrow> string"
  en_render :: "json list \<Rightarrow> string"
  en_host :: host
  en_adapters :: "string \<Rightarrow> adapter option"

definition evidence_item_dump :: "planning_evidence_item \<Rightarrow> json" where
  "evidence_item_dump e = JObj [(''evidence_id'', JStr (pe_evidence_id e)), (''repository_id'', JStr (pe_repository_id e)),
     (''snapshot_id'', JStr (pe_snapshot_id e)), (''source_type'', JStr (source_type_value (pe_source_type e))),
     (''path'', JStr (pe_path e)), (''snippet'', jtext (pe_snippet e)), (''relevance_score'', JFloat (pe_relevance_score e)),
     (''match_reasons'', jtexts (pe_match_reasons e))]"

definition memory_item_dump :: "planning_memory_item \<Rightarrow> json" where
  "memory_item_dump m = JObj [(''memory_id'', JStr (pm_memory_id m)), (''scope'', JStr (scope_value (pm_scope m))),
     (''statement'', JStr (pm_statement m)), (''validation_status'', JStr (validation_value (pm_validation_status m))),
     (''confidence'', JFloat (pm_confidence m)), (''requires_revalidation'', JBool (pm_requires_revalidation m)),
     (''source_evidence_ids'', jtexts (pm_source_evidence_ids m))]"

primrec criterion_status_value :: "criterion_status \<Rightarrow> string" where
  "criterion_status_value criterion_status.PENDING = ''PENDING''"
| "criterion_status_value criterion_status.PASS = ''PASS''"
| "criterion_status_value criterion_status.FAIL = ''FAIL''"
| "criterion_status_value criterion_status.NOT_EVALUATED = ''NOT_EVALUATED''"

definition criterion_json :: "criterion \<Rightarrow> json" where
  "criterion_json c = JObj [(''id'', JStr (cr_id c)), (''statement'', JStr (cr_statement c)),
     (''status'', JStr (criterion_status_value (cr_status c)))]"

definition planner_contract :: json where
  "planner_contract = JObj
     [(''epistemic_rules'', jtexts
         [''Distinguish current evidence, memory, inference, assumptions, and unknowns.'',
          ''Do not invent evidence IDs or treat memory as current repository reality.'',
          ''Return only fields compatible with the structured schema.'']),
      (''expected_fields'', jtexts [''summary'', ''steps'', ''evidence references'', ''memory references'', ''assumptions'',
         ''unknowns'', ''risks'', ''tests'', ''documentation'', ''authority requirement''])]"

definition planning_prompt :: "(json \<Rightarrow> string) \<Rightarrow> planning_context \<Rightarrow> string" where
  "planning_prompt dumps ctx = dumps (JObj
     [(''planner_contract'', planner_contract),
      (''task'', JObj [(''id'', JStr (pc_task_id ctx)), (''title'', JStr (pc_task_title ctx)),
         (''objective'', JStr (pc_task_objective ctx)), (''authority_level'', JStr (authority_value (pc_task_authority_level ctx)))]),
      (''contract'', JObj [(''id'', JStr (pc_task_contract_id ctx)), (''version'', JInt (int (pc_task_contract_version ctx))),
         (''objective'', JStr (pc_contract_objective ctx)),
         (''acceptance_criteria'', JList (map criterion_json (pc_acceptance_criteria ctx))),
         (''constraints'', jtexts (pc_constraints ctx)),
         (''authority_level'', JStr (authority_value (pc_contract_authority_level ctx))),
         (''environment'', JStr (environment_value (pc_environment ctx))),
         (''documentation_required'', JBool (pc_documentation_required ctx)),
         (''documentation_targets'', jtexts (pc_documentation_targets ctx))]),
      (''snapshots'', JList (map JObj (pc_snapshot_metadata ctx))),
      (''current_evidence'', JList (map evidence_item_dump (pc_evidence ctx))),
      (''historical_memory'', JList (map memory_item_dump (pc_memory ctx))),
      (''warnings'', JList (map JObj (pc_context_warnings ctx)))])"

definition planning_privacy_class :: "string \<Rightarrow> db \<Rightarrow> privacy_class" where
  "planning_privacy_class project_id s = (case get_project project_id s of
     Some p \<Rightarrow> if p_type p = project_type.CLIENT then CONFIDENTIAL else INTERNAL
   | None \<Rightarrow> INTERNAL)"

definition planning_request_id :: "string \<Rightarrow> db \<Rightarrow> string" where
  "planning_request_id task_id s = ''PLANREQ-'' @ task_id @ ''-v'' @ dec (next_plan_version task_id s)"

text \<open>The capabilities are a set in the code; the model lists them in the order of their names.\<close>

definition planning_capabilities :: "task_complexity \<Rightarrow> model_capability list" where
  "planning_capabilities c = (if c \<in> {T3, T4} then [CODE_REASONING, HIGH_REASONING, model_capability.PLANNING, STRUCTURED_OUTPUT]
     else [model_capability.PLANNING, STRUCTURED_OUTPUT])"

definition planning_request :: "planner_env \<Rightarrow> planning_context \<Rightarrow> db \<Rightarrow> model_request" where
  "planning_request env ctx s =
     (let capabilities = planning_capabilities (pc_task_complexity ctx)
      in \<lparr>rq_request_id = planning_request_id (pc_task_id ctx) s, rq_task_id = Some (pc_task_id ctx), rq_run_id = pc_run_id ctx,
          rq_project_id = Some (pc_project_id ctx), rq_purpose = ''engineering_planning'',
          rq_required_capabilities = capabilities, rq_privacy_class = planning_privacy_class (pc_project_id ctx) s,
          rq_minimum_quality = (if HIGH_REASONING \<in> set capabilities then 40 else 0), rq_max_cost_class = None,
          rq_max_estimated_cost = None, rq_max_attempts = None, rq_preferred_provider = None, rq_preferred_model = None,
          rq_fallback_model_ids = [], rq_input_messages = [\<lparr>mm_role = ''user'', mm_content = planning_prompt (en_dumps env) ctx\<rparr>],
          rq_structured_output_schema = Some (ModelClass (en_check_plan env)), rq_max_output_tokens = None,
          rq_timeout = None, rq_fallback_allowed = True,
          rq_metadata = [(''planner_version'', JStr planner_version),
            (''task_contract_version'', JInt (int (pc_task_contract_version ctx))),
            (''context_summary'', JObj [(''evidence_count'', JInt (int (length (pc_evidence ctx)))),
               (''memory_count'', JInt (int (length (pc_memory ctx)))),
               (''warnings'', JList (map JObj (pc_context_warnings ctx)))])],
          rq_created_at = utc_now s\<rparr>)"

definition evidence_preconditions :: "planning_context \<Rightarrow> planning_blocker list" where
  "evidence_preconditions ctx =
     blocker_if (list_ex (\<lambda>a. a \<in> {WRITE_SOURCE, WRITE_TESTS, CREATE_MIGRATION}) (pc_allowed_actions ctx)
         \<and> pc_snapshot_metadata ctx \<noteq> [] \<and> pc_evidence ctx = [])
       (planning_blocker_of planning_blocker_code.NO_RELEVANT_EVIDENCE
         ''Repository-bound implementation planning requires current evidence.'')"

definition audit_context :: "string \<Rightarrow> actor \<Rightarrow> planning_context \<Rightarrow> string \<Rightarrow> string \<Rightarrow> json_object \<Rightarrow> db \<Rightarrow> db" where
  "audit_context event actor ctx action result metadata =
     audit_planning event actor (pc_project_id ctx) (pc_task_id ctx) (pc_run_id ctx) action result metadata"

definition invalid_output :: "planning_context \<Rightarrow> actor \<Rightarrow> planning_blocker list \<Rightarrow> db \<Rightarrow> db" where
  "invalid_output ctx actor bs s = audit_context ''ENGINEERING_PLAN_INVALID'' actor ctx ''validate_engineering_plan'' ''BLOCKED''
     (blockers_json bs) s"

definition model_failure :: "model_response \<Rightarrow> planning_blocker" where
  "model_failure rs = \<lparr>pb_code = (case rs_error_code rs of None \<Rightarrow> MODEL_UNAVAILABLE | Some _ \<Rightarrow> MODEL_POLICY_BLOCK),
     pb_message = or_else (rs_error_message rs) ''Planning model request failed.'',
     pb_metadata = [(''model_error_code'', error_json (rs_error_code rs))]\<rparr>"

text \<open>\<open>plan_from_row\<close>: a stored plan as it is read.\<close>

definition plan_from_row :: "plan_row \<Rightarrow> plan_row" where
  "plan_from_row r = r\<lparr>pl_documentation_requirements := canonicalize_documentation_requirements (pl_documentation_requirements r)\<rparr>"

definition audit_escalation :: "planning_context \<Rightarrow> actor \<Rightarrow> planning_blocker \<Rightarrow> db \<Rightarrow> db" where
  "audit_escalation ctx actor b s =
     (if pb_code b = AUTHORITY_ESCALATION_REQUIRED
      then audit_context ''AUTHORITY_ESCALATION_REQUIRED'' actor ctx ''validate_engineering_plan'' ''WARNING''
        (case blocker_dump b of JObj d \<Rightarrow> d | _ \<Rightarrow> []) s
      else s)"

definition hard_blocker :: "planning_blocker \<Rightarrow> bool" where
  "hard_blocker b = (pb_code b \<noteq> AUTHORITY_ESCALATION_REQUIRED)"

definition plan_creation_of :: "string option \<Rightarrow> planning_blocker list \<Rightarrow> json_object list \<Rightarrow> actor \<Rightarrow> plan_creation" where
  "plan_creation_of execution bs ws actor = \<lparr>cr_model_execution_ids = (if truthy execution then [the execution] else []),
     cr_blockers = bs, cr_validation_warnings = ws, cr_planner_version = planner_version, cr_created_by = actor_value actor,
     cr_supersedes_plan_id = None, cr_supersession_reason = None\<rparr>"

definition store_plan ::
  "planning_context \<Rightarrow> model_plan \<Rightarrow> planning_blocker list \<Rightarrow> json_object list \<Rightarrow> string option \<Rightarrow> actor \<Rightarrow> db \<Rightarrow>
   planning_result \<times> db"
where
  "store_plan ctx plan bs ws execution actor s =
     (let (row, s1) = create_plan_row ctx plan (plan_creation_of execution bs ws actor) s;
          s2 = audit_context ''ENGINEERING_PLAN_CREATED'' actor ctx ''create_engineering_plan'' ''SUCCESS''
            [(''plan_id'', JStr (pl_id row)), (''version'', JInt (int (pl_version row))),
             (''model_execution_ids'', jtexts (pl_model_execution_ids row))] s1;
          s3 = audit_context ''ENGINEERING_PLAN_PROPOSED'' actor ctx ''propose_engineering_plan'' ''SUCCESS''
            [(''plan_id'', JStr (pl_id row)), (''risk_level'', JStr (pl_risk_level row)),
             (''required_authority_level'', JStr (authority_value (pl_required_authority_level row)))] s2
      in (\<lparr>pr_plan = Some (plan_from_row row), pr_context = Some ctx, pr_blockers = bs, pr_model_response_error = None\<rparr>,
          fold (audit_escalation ctx actor) bs s3))"

definition settle_plan ::
  "planner_env \<Rightarrow> planning_context \<Rightarrow> model_plan \<Rightarrow> string option \<Rightarrow> actor \<Rightarrow> db \<Rightarrow> (planning_exc + planning_result) \<times> db"
where
  "settle_plan env ctx plan execution actor s =
     (case validate_and_enrich_plan (en_render env) ctx plan s of
        Inl e \<Rightarrow> (Inl e, s)
      | Inr (plan', bs, ws) \<Rightarrow>
          if list_ex hard_blocker bs then (Inr (blocked_result (Some ctx) bs None), invalid_output ctx actor bs s)
          else apfst Inr (store_plan ctx plan' bs ws execution actor s))"

definition request_plan ::
  "planner_env \<Rightarrow> planning_context \<Rightarrow> actor \<Rightarrow> db \<Rightarrow> (planning_exc + planning_result) \<times> db"
where
  "request_plan env ctx actor s =
     (let rq = planning_request env ctx s;
          s1 = audit_context ''PLANNER_MODEL_REQUESTED'' actor ctx ''request_planning_model'' ''STARTED''
            [(''request_id'', JStr (rq_request_id rq)),
             (''required_capabilities'', jtexts (sorted_set (map capability_value (rq_required_capabilities rq)))),
             (''privacy_class'', JStr (privacy_value (rq_privacy_class rq)))] s;
          (rs, s2) = execute_with_fallback (en_adapters env) rq (actor_value actor) s1
      in if rs_status rs \<noteq> model_response_status.SUCCEEDED
         then (Inr (blocked_result (Some ctx) [model_failure rs] (rs_error_message rs)),
           audit_context ''PLANNING_BLOCKED'' actor ctx ''create_engineering_plan'' ''BLOCKED'' (blockers_json [model_failure rs]) s2)
         else case en_parse_plan env (rs_structured_data rs) of
             Inl e \<Rightarrow>
               let b = invalid_plan ''Planning model returned malformed structured output.'' [(''error'', JStr e)]
               in (Inr (blocked_result (Some ctx) [b] (Some e)), invalid_output ctx actor [b] s2)
           | Inr plan \<Rightarrow> settle_plan env ctx plan (rs_execution_id rs) actor s2)"

definition create_plan ::
  "planner_env \<Rightarrow> string \<Rightarrow> string option \<Rightarrow> string list \<Rightarrow> (string \<Rightarrow> workspace_context option) \<Rightarrow> planning_budget option \<Rightarrow>
   bool \<Rightarrow> actor \<Rightarrow> db \<Rightarrow> (planning_exc + planning_result) \<times> db"
where
  "create_plan env task_id run_id snapshot_ids contexts budget allow_candidate actor s =
     (case get_task task_id s of
        None \<Rightarrow> (Inl (Raised (ValueError (''Unknown task: '' @ task_id))), s)
      | Some task \<Rightarrow>
          (case build_context (en_host env) task_id run_id snapshot_ids contexts
              (case budget of None \<Rightarrow> default_planning_budget | Some b \<Rightarrow> b) allow_candidate actor
              (audit_planning ''PLANNING_STARTED'' actor (t_project_id task) (t_id task) run_id ''create_engineering_plan''
                ''STARTED'' [] s) of
             (Inl e, s1) \<Rightarrow> (Inl (Raised e), s1)
           | (Inr (None, bs), s1) \<Rightarrow> (Inr (blocked_result None bs None), s1)
           | (Inr (Some ctx, bs), s1) \<Rightarrow>
               if bs \<noteq> [] then (Inr (blocked_result (Some ctx) bs None), s1)
               else if evidence_preconditions ctx \<noteq> []
               then (Inr (blocked_result (Some ctx) (evidence_preconditions ctx) None),
                 audit_context ''PLANNING_BLOCKED'' actor ctx ''create_engineering_plan'' ''BLOCKED''
                   (blockers_json (evidence_preconditions ctx)) s1)
               else request_plan env ctx actor s1))"

definition replan ::
  "planner_env \<Rightarrow> string \<Rightarrow> replan_reason \<Rightarrow> string list \<Rightarrow> (string \<Rightarrow> workspace_context option) \<Rightarrow> planning_budget option \<Rightarrow>
   actor \<Rightarrow> db \<Rightarrow> (planning_exc + planning_result) \<times> db"
where
  "replan env previous_plan_id reason snapshot_ids contexts budget actor s =
     (case get_plan previous_plan_id s of
        None \<Rightarrow> (Inl (Raised (ValueError (''Unknown engineering plan: '' @ previous_plan_id))), s)
      | Some previous \<Rightarrow>
          (case create_plan env (pl_task_id previous) (pl_run_id previous) snapshot_ids contexts budget False actor s of
             (Inl e, s1) \<Rightarrow> (Inl e, s1)
           | (Inr result, s1) \<Rightarrow>
               (case pr_plan result of
                  None \<Rightarrow> (Inr result, s1)
                | Some plan \<Rightarrow>
                    let (result', s2) = (case (get_plan (pl_id plan) s1, get_plan previous_plan_id s1) of
                          (Some new_row, Some old_row) \<Rightarrow>
                            let old' = old_row\<lparr>pl_status := plan_status_value plan_status.SUPERSEDED,
                                  pl_superseded_by_plan_id := Some (pl_id new_row),
                                  pl_supersession_reason := Some (replan_reason_value reason), pl_updated_at := utc_now s1\<rparr>;
                                new' = new_row\<lparr>pl_supersedes_plan_id := Some (pl_id old_row),
                                  pl_supersession_reason := Some (replan_reason_value reason), pl_updated_at := utc_now s1\<rparr>
                            in (result\<lparr>pr_plan := Some (plan_from_row new')\<rparr>, put_plan new' (put_plan old' s1))
                        | _ \<Rightarrow> (result, s1))
                    in (Inr result', audit_planning ''ENGINEERING_PLAN_SUPERSEDED'' actor (pl_project_id previous)
                          (pl_task_id previous) (pl_run_id previous) ''replan'' ''SUCCESS''
                          [(''previous_plan_id'', JStr previous_plan_id), (''new_plan_id'', JStr (pl_id plan)),
                           (''reason'', JStr (replan_reason_value reason))] s2))))"

definition reject_plan :: "string \<Rightarrow> string \<Rightarrow> actor \<Rightarrow> db \<Rightarrow> plan_row res \<times> db" where
  "reject_plan plan_id reason actor s =
     then_op (reject_plan_row plan_id reason s) (\<lambda>plan s1. (Inr (plan_from_row plan),
       audit_planning ''ENGINEERING_PLAN_REJECTED'' actor (pl_project_id plan) (pl_task_id plan) (pl_run_id plan)
         ''reject_engineering_plan'' ''SUCCESS'' [(''plan_id'', JStr (pl_id plan)), (''reason'', JStr reason)] s1))"

section \<open>What planning leaves alone\<close>

text \<open>The tables that building a context leaves alone; the memories too, up to the marks at its end.\<close>

definition context_frame :: "bool \<Rightarrow> db \<Rightarrow> db \<Rightarrow> bool" where
  "context_frame keep s t \<longleftrightarrow> plans t = plans s \<and> projects t = projects s \<and> model_profiles t = model_profiles s
     \<and> model_providers t = model_providers s \<and> model_executions t = model_executions s
     \<and> (\<exists>xs. evidence_refs t = evidence_refs s @ xs) \<and> (keep \<longrightarrow> memories t = memories s)"

lemma context_frame_refl [simp]: "context_frame keep s s"
  by (simp add: context_frame_def)

lemma context_frame_trans: "context_frame keep s t \<Longrightarrow> context_frame keep t u \<Longrightarrow> context_frame keep s u"
  by (auto simp: context_frame_def)

lemma context_frame_audit [simp]: "context_frame keep s (audit_record e a p r k n l ac re md t) \<longleftrightarrow> context_frame keep s t"
  by (simp add: context_frame_def)

lemma context_frame_audits [simp]:
  "context_frame keep s (audit_planning e a p k n ac re md t) \<longleftrightarrow> context_frame keep s t"
  "context_frame keep s (audit_retrieval e a task rq ac re md t) \<longleftrightarrow> context_frame keep s t"
  "context_frame keep s (audit_memory e a p' k' n ac re md t) \<longleftrightarrow> context_frame keep s t"
  "context_frame keep s (audit_entry e a r ac md t) \<longleftrightarrow> context_frame keep s t"
  by (simp_all add: audit_planning_def audit_retrieval_def audit_memory_def audit_entry_def)

lemma context_frame_put_memory [simp]: "context_frame False s (put_memory r t) \<longleftrightarrow> context_frame False s t"
  by (simp add: context_frame_def put_memory_def)

lemma capture_context_frame: "context_frame keep s (snd (capture c a s))"
  by (auto simp: capture_def Let_def put_evidence_def context_frame_def tput_fresh evidence_of_def)

lemma capture_evidence_context_frame: "context_frame keep s (snd (capture_evidence rq rs a s))"
proof (induction rs arbitrary: s)
  case (Cons r rs)
  show ?case
    using context_frame_trans [OF capture_context_frame Cons.IH] by (simp add: split_beta)
qed simp

lemma gather_context_frame: "context_frame keep s t \<Longrightarrow> context_frame keep s (snd (gather_snapshot h cx rq task a i t))"
  by (simp add: gather_snapshot_def split: try_res_splits prod.splits)

lemma finish_context_frame: "context_frame keep s t \<Longrightarrow> context_frame keep s (snd (finish_retrieval h rq task a sel ws t))"
  using context_frame_trans [OF _ capture_evidence_context_frame [of keep t rq sel a]]
  by (simp add: finish_retrieval_def Let_def split_beta)

lemma retrieve_context_frame: "context_frame keep s (snd (retrieve h rq cx a s))"
proof -
  have "context_frame keep s (snd (map_op (gather_snapshot h cx rq task a) (rt_snapshot_ids rq)
      (audit_retrieval e a task rq ac re md s)))" for task e ac re md
    by (rule map_op_inv) (simp_all add: gather_context_frame)
  then show ?thesis
    by (auto simp: retrieve_def snd_then_op finish_context_frame split: try_res_splits prod.splits sum.splits)
qed

lemma retrieve_task_context_frame: "context_frame keep s (snd (retrieve_for_task h i sns cx opts a s))"
  by (simp add: retrieve_for_task_def retrieve_context_frame split: try_res_splits)

lemma mark_context_frame: "context_frame False s t \<Longrightarrow> context_frame False s (snd (mark_requires_revalidation i reason a t))"
  by (simp add: mark_requires_revalidation_def Let_def split: try_res_splits)

lemma record_context_frame: "context_frame False s t \<Longrightarrow> context_frame False s (snd (record_context task n a ctx t))"
proof -
  assume t: "context_frame False s t"
  have "context_frame False s (snd (map_op (\<lambda>i. mark_requires_revalidation i reason a) is u))" if "context_frame False s u" for reason "is" u
    by (rule map_op_inv) (simp_all add: that mark_context_frame)
  with t show ?thesis
    by (simp add: record_context_def Let_def snd_then_op split: sum.splits)
qed

lemma planning_memory_frame: "context_frame keep s t \<Longrightarrow> context_frame keep s (snd (planning_memory p ts b al t))"
  by (simp add: planning_memory_def retrieve_memory_def Let_def split_beta)

lemma gathered_context_frame: "context_frame keep s t \<Longrightarrow> context_frame keep s (snd (gather_context task c n sns b al pkg t))"
  using planning_memory_frame by (simp add: gather_context_def Let_def split_beta)

lemma build_context_frame: "context_frame False s t \<Longrightarrow> context_frame False s (snd (build_context h i n sns cx b al a t))"
proof -
  assume t: "context_frame False s t"
  have r: "context_frame False s (snd (retrieve_for_task h k sns cx opts a t))" for k opts
    using context_frame_trans [OF t retrieve_task_context_frame] .
  show ?thesis
    by (simp add: build_context_def Let_def snd_then_op split_beta t r gathered_context_frame record_context_frame
        split: option.splits sum.splits try_res_splits)
qed

section \<open>The context is bounded and the project's own\<close>

lemma take_fitting_bounds:
  "take_fitting sz mi mb n used xs = [] \<or>
    int (n + length (take_fitting sz mi mb n used xs)) \<le> mi
    \<and> int (used + sum_list (map sz (take_fitting sz mi mb n used xs))) \<le> mb"
proof (induction xs arbitrary: n used)
  case (Cons x xs)
  show ?case
  proof (cases "mi \<le> int n \<or> mb < int (used + sz x)")
    case False
    with Cons.IH [of "n + 1" "used + sz x"] show ?thesis by (auto simp: algebra_simps)
  qed simp
qed simp

lemma take_fitting_subset: "set (take_fitting sz mi mb n used xs) \<subseteq> set xs"
  by (induction xs arbitrary: n used) auto

lemma evidence_item_simps [simp]:
  "pe_evidence_id (evidence_item b r) = e_id r" "pe_path (evidence_item b r) = e_path r"
  by (simp_all add: evidence_item_def)

lemma memory_item_simps [simp]:
  "pm_memory_id (memory_item b r) = m_id r" "pm_validation_status (memory_item b r) = m_validation_status r"
  "pm_scope (memory_item b r) = m_scope r"
  by (simp_all add: memory_item_def)

text \<open>What is selected, within the bounds and from what.\<close>

definition fits :: "('a \<Rightarrow> nat) \<Rightarrow> int \<Rightarrow> int \<Rightarrow> 'a list \<Rightarrow> bool" where
  "fits sz max_items max_bytes xs \<longleftrightarrow>
     int (length xs) \<le> max 0 max_items \<and> int (sum_list (map sz xs)) \<le> max 0 max_bytes"

lemma take_fitting_fits: "fits sz mi mb (take_fitting sz mi mb 0 0 xs)"
  using take_fitting_bounds [of sz mi mb 0 0 xs] by (auto simp: fits_def)

lemma bounded_evidence_facts:
  assumes "bounded_evidence rows b = (es, ws, om)"
  shows "fits evidence_size (bu_max_evidence_items b) (bu_max_total_context_bytes b) es"
    and "set es \<subseteq> evidence_item b ` set rows"
  using assms take_fitting_fits take_fitting_subset [of evidence_size "bu_max_evidence_items b" "bu_max_total_context_bytes b" 0 0
      "map (evidence_item b) (sort_key (\<lambda>r. (- e_relevance_score r, e_id r)) rows)"]
  by (auto simp: bounded_evidence_def Let_def)

lemma planning_memory_facts:
  assumes "planning_memory p ts b al s = ((ms, ws, om), t)"
  shows "fits memory_size (bu_max_memory_items b) (bu_max_total_context_bytes b) ms"
    and "m \<in> set ms \<Longrightarrow> \<exists>r \<in> set (memories s). m = memory_item b r \<and> memory_allowed p al r"
proof -
  obtain mt k s1 where r: "retrieve_memory (planning_memory_query p ts) s = ((mt, k), s1)"
    by (cases "retrieve_memory (planning_memory_query p ts) s") auto
  have mem: "memories s1 = memories s"
    using r by (auto simp: retrieve_memory_def Let_def audit_memory_def)
  let ?rows = "planning_memory_rows p al mt s1"
  have ms: "ms = take_fitting memory_size (bu_max_memory_items b) (bu_max_total_context_bytes b) 0 0 (map (memory_item b) ?rows)"
    using assms by (auto simp: planning_memory_def r Let_def)
  show "fits memory_size (bu_max_memory_items b) (bu_max_total_context_bytes b) ms"
    unfolding ms by (rule take_fitting_fits)
  assume "m \<in> set ms"
  then obtain q where q: "q \<in> set ?rows" "m = memory_item b q"
    using take_fitting_subset unfolding ms by fastforce
  then have "q \<in> set (memories s)" "memory_allowed p al q"
    by (auto simp: planning_memory_rows_def get_memory_def mem split: option.splits dest: tget_Some_mem [OF sym])
  with q(2) show "\<exists>r \<in> set (memories s). m = memory_item b r \<and> memory_allowed p al r" by blast
qed

lemma build_contextE:
  assumes "build_context h i n sns cx b al a s = (Inr (Some ctx, bs), t)"
  obtains task contract pkg s1 s2 where "get_task i s = Some task" and "active_contract (t_id task) s = Some contract"
    and "preflight task (Some contract) (get_project (t_project_id task) s) sns = []" and "bs = []"
    and "retrieve_for_task h (t_id task) sns cx (planning_options n b) a s = (Inr pkg, s1)"
    and "gather_context task contract n sns b al pkg s1 = (ctx, s2)"
    and "record_context task n a ctx s2 = (Inr (), t)"
proof -
  obtain task where task: "get_task i s = Some task"
    using assms by (cases "get_task i s") (auto simp: build_context_def)
  let ?c = "active_contract (t_id task) s"
  let ?r = "retrieve_for_task h (t_id task) sns cx (planning_options n b) a s"
  have ok: "preflight task ?c (get_project (t_project_id task) s) sns = []"
    using assms task by (auto simp: build_context_def Let_def split: if_splits)
  then have body: "then_op ?r (\<lambda>package s1. try_res (some_or ?c (AttributeError ''id'')) s1 (\<lambda>contract.
      let (ctx, s2) = gather_context task contract n sns b al package s1
      in then_op (record_context task n a ctx s2) (\<lambda>_ s3. (Inr (Some ctx, []), s3)))) = (Inr (Some ctx, bs), t)"
    using assms task by (simp add: build_context_def Let_def)
  then obtain pkg s1 where r: "?r = (Inr pkg, s1)"
    and k: "try_res (some_or ?c (AttributeError ''id'')) s1 (\<lambda>contract.
      let (ctx, s2) = gather_context task contract n sns b al pkg s1
      in then_op (record_context task n a ctx s2) (\<lambda>_ s3. (Inr (Some ctx, []), s3))) = (Inr (Some ctx, bs), t)"
    unfolding then_op_Inr by blast
  obtain contract where c: "?c = Some contract"
    using k by (cases ?c) (simp_all add: some_or_def)
  obtain ctx' s2 where g: "gather_context task contract n sns b al pkg s1 = (ctx', s2)" by fastforce
  have "then_op (record_context task n a ctx' s2) (\<lambda>_ s3. (Inr (Some ctx', []), s3)) = (Inr (Some ctx, bs), t)"
    using k by (simp add: c some_or_def g)
  then have "record_context task n a ctx' s2 = (Inr (), t)" "ctx' = ctx" "bs = []"
    unfolding then_op_Inr by auto
  with that [OF task c ok [unfolded c] _ r] g show thesis by blast
qed

lemma gather_contextE:
  assumes "gather_context task c n sns b al pkg s = (ctx, t)"
  obtains es ew oe ms mw om where
    "bounded_evidence (concat (map (\<lambda>i. case tget e_id i (evidence_refs s) of None \<Rightarrow> [] | Some r \<Rightarrow> [r]) (cp_evidence_ids pkg))) b = (es, ew, oe)"
    and "planning_memory (t_project_id task) (cp_query_terms pkg) b al s = ((ms, mw, om), t)"
    and "ctx = planning_context_of task c n sns es ms (cp_warnings pkg @ ew @ mw @ detect_memory_conflicts ms es) (oe, om) t"
proof -
  obtain es ew oe where e: "bounded_evidence (concat (map (\<lambda>i. case tget e_id i (evidence_refs s) of None \<Rightarrow> [] | Some r \<Rightarrow> [r])
      (cp_evidence_ids pkg))) b = (es, ew, oe)" using prod_cases3 by blast
  obtain ms mw om u where m: "planning_memory (t_project_id task) (cp_query_terms pkg) b al s = ((ms, mw, om), u)"
    by (metis prod.collapse)
  show thesis
    using that [OF e] m assms by (auto simp: gather_context_def Let_def e)
qed

lemma tget_append: "tget key i (xs @ ys) = (case tget key i xs of None \<Rightarrow> tget key i ys | Some r \<Rightarrow> Some r)"
  by (induction xs) auto

lemma capture_get:
  "get_evidence (e_id (fst (capture c a s))) (snd (capture c a s)) = Some (fst (capture c a s))"
  "get_evidence i s = Some r \<Longrightarrow> get_evidence i (snd (capture c a s)) = Some r"
proof -
  show "get_evidence (e_id (fst (capture c a s))) (snd (capture c a s)) = Some (fst (capture c a s))"
    by (simp add: capture_def Let_def put_evidence_def get_evidence_def)
  assume g: "get_evidence i s = Some r"
  then have "i \<in> e_id ` set (evidence_refs s)" by (auto simp: get_evidence_def dest: tget_Some_mem)
  moreover have "fresh_id ''evidence'' s \<notin> e_id ` set (evidence_refs s)" by simp
  ultimately have "fresh_id ''evidence'' s \<noteq> i" by metis
  with g show "get_evidence i (snd (capture c a s)) = Some r"
    by (simp add: capture_def Let_def put_evidence_def get_evidence_def evidence_of_def)
qed

lemma capture_evidence_keeps:
  "get_evidence i s = Some r \<Longrightarrow> get_evidence i (snd (capture_evidence rq rs a s)) = Some r"
proof (induction rs arbitrary: s)
  case (Cons x rs)
  from Cons.IH [OF capture_get(2) [OF Cons.prems]] show ?case by (simp add: split_beta)
qed simp

lemma capture_evidence_get:
  "row \<in> set (fst (capture_evidence rq rs a s)) \<Longrightarrow> get_evidence (e_id row) (snd (capture_evidence rq rs a s)) = Some row"
proof (induction rs arbitrary: s)
  case (Cons x rs)
  let ?c = "capture (evidence_for rq x) (actor_value a) s"
  from Cons.prems have "row = fst ?c \<or> row \<in> set (fst (capture_evidence rq rs a (snd ?c)))" by (auto simp: split_beta)
  then show ?case
  proof
    assume row: "row = fst ?c"
    have "get_evidence (e_id row) (snd ?c) = Some row" unfolding row by (rule capture_get(1))
    from capture_evidence_keeps [OF this] show ?thesis by (simp add: split_beta)
  next
    assume "row \<in> set (fst (capture_evidence rq rs a (snd ?c)))"
    from Cons.IH [OF this] show ?thesis by (simp add: split_beta)
  qed
qed simp

text \<open>The evidence of a package belongs to the project of its task.\<close>

lemma package_evidence:
  assumes "retrieve_for_task h i sns cx opts a s = (Inr pkg, t)" and "e \<in> set (cp_evidence_ids pkg)"
  obtains task row where "get_task i s = Some task" and "tget e_id e (evidence_refs t) = Some row"
    and "e_project_id row = t_project_id task"
proof -
  obtain rq where rq: "build_request i sns opts s = Inr rq" "retrieve h rq cx a s = (Inr pkg, t)"
    using assms(1) by (auto simp: retrieve_for_task_def)
  obtain task0 where "get_task i s = Some task0" "rt_task_id rq = t_id task0"
    using rq(1) by (auto simp: build_request_def task_of_def bind_res_def some_or_def split: option.splits sum.splits)
  moreover from this have "t_id task0 = i" by (auto simp: get_task_def dest: tget_Some_mem)
  ultimately have id: "rt_task_id rq = i" by simp
  obtain task s1 sel ws where f: "get_task (rt_task_id rq) s = Some task" "t_project_id task = rt_project_id rq"
    "finish_retrieval h rq task a sel ws s1 = (pkg, t)"
    using retrieve_Inr [OF rq(2)] by metis
  have ids: "cp_evidence_ids pkg = map e_id (fst (capture_evidence rq sel a s1))"
    using finish_retrieval_rows(4) [OF f(3)] .
  have t: "evidence_refs t = evidence_refs (snd (capture_evidence rq sel a s1))"
    using finish_retrieval_rows(5) [OF f(3)] capture_evidence_rows [of rq sel a s1] by simp
  obtain row where row: "row \<in> set (fst (capture_evidence rq sel a s1))" "e = e_id row"
    using assms(2) unfolding ids by auto
  have "get_evidence e (snd (capture_evidence rq sel a s1)) = Some row"
    using capture_evidence_get [OF row(1)] row(2) by simp
  then have got: "tget e_id e (evidence_refs t) = Some row" by (simp add: t get_evidence_def)
  have "list_all2 (\<lambda>r e. \<exists>i now. e = evidence_of i now (evidence_for rq r)) sel (fst (capture_evidence rq sel a s1))"
    using capture_evidence_rows by blast
  then have "\<exists>r i' now. row = evidence_of i' now (evidence_for rq r)"
    using row(1) by (induction rule: list_all2_induct) auto
  then obtain r i' now where "row = evidence_of i' now (evidence_for rq r)" by blast
  then have "e_project_id row = t_project_id task" by (simp add: evidence_of_def evidence_for_def f(2))
  with that f(1) got id show thesis by simp
qed

lemma planning_context_of_simps [simp]:
  "pc_evidence (planning_context_of task c n sns es ms ws om s) = es" "pc_memory (planning_context_of task c n sns es ms ws om s) = ms"
  "pc_project_id (planning_context_of task c n sns es ms ws om s) = t_project_id task"
  "pc_task_id (planning_context_of task c n sns es ms ws om s) = t_id task"
  "pc_contract_authority_level (planning_context_of task c n sns es ms ws om s) = c_authority_level c"
  "pc_total_context_bytes (planning_context_of task c n sns es ms ws om s) = context_size es ms"
  by (simp_all add: planning_context_of_def)

text \<open>What a context that is built consists of.\<close>

lemma build_context_facts:
  assumes "build_context h i n sns cx b al a s = (Inr (Some ctx, bs), t)"
  shows "bs = [] \<and> pc_task_id ctx = i \<and> (\<exists>task. get_task i s = Some task \<and> pc_project_id ctx = t_project_id task)"
    and "fits evidence_size (bu_max_evidence_items b) (bu_max_total_context_bytes b) (pc_evidence ctx)"
    and "fits memory_size (bu_max_memory_items b) (bu_max_total_context_bytes b) (pc_memory ctx)"
    and "pc_total_context_bytes ctx = context_size (pc_evidence ctx) (pc_memory ctx)"
    and "m \<in> set (pc_memory ctx) \<Longrightarrow> \<exists>r \<in> set (memories s). m = memory_item b r \<and> memory_allowed (pc_project_id ctx) al r"
    and "evidence_in_project ctx t"
proof -
  obtain task contract pkg s1 s2 where b: "get_task i s = Some task" "bs = []"
    "retrieve_for_task h (t_id task) sns cx (planning_options n b) a s = (Inr pkg, s1)"
    "gather_context task contract n sns b al pkg s1 = (ctx, s2)" "record_context task n a ctx s2 = (Inr (), t)"
    by (rule build_contextE [OF assms])
  have ti: "t_id task = i" using b(1) by (auto simp: get_task_def dest: tget_Some_mem)
  let ?rows = "concat (map (\<lambda>i. case tget e_id i (evidence_refs s1) of None \<Rightarrow> [] | Some r \<Rightarrow> [r]) (cp_evidence_ids pkg))"
  obtain es ew oe ms mw om where g: "bounded_evidence ?rows b = (es, ew, oe)"
    "planning_memory (t_project_id task) (cp_query_terms pkg) b al s1 = ((ms, mw, om), s2)"
    "ctx = planning_context_of task contract n sns es ms (cp_warnings pkg @ ew @ mw @ detect_memory_conflicts ms es) (oe, om) s2"
    by (rule gather_contextE [OF b(4)])
  show "bs = [] \<and> pc_task_id ctx = i \<and> (\<exists>task. get_task i s = Some task \<and> pc_project_id ctx = t_project_id task)"
    using b(1,2) ti by (simp add: g(3))
  show "fits evidence_size (bu_max_evidence_items b) (bu_max_total_context_bytes b) (pc_evidence ctx)"
    using bounded_evidence_facts(1) [OF g(1)] by (simp add: g(3))
  show "fits memory_size (bu_max_memory_items b) (bu_max_total_context_bytes b) (pc_memory ctx)"
    using planning_memory_facts(1) [OF g(2)] by (simp add: g(3))
  show "pc_total_context_bytes ctx = context_size (pc_evidence ctx) (pc_memory ctx)" by (simp add: g(3))
  have "context_frame True s s1"
    using retrieve_task_context_frame [of True s h "t_id task" sns cx "planning_options n b" a] b(3) by simp
  then have mem: "memories s1 = memories s" by (simp add: context_frame_def)
  show "m \<in> set (pc_memory ctx) \<Longrightarrow> \<exists>r \<in> set (memories s). m = memory_item b r \<and> memory_allowed (pc_project_id ctx) al r"
    using planning_memory_facts(2) [OF g(2), of m] by (simp add: g(3) mem)
  have "context_frame False s1 s2"
    using gathered_context_frame [of False s1 s1 task contract n sns b al pkg] b(4) by simp
  from record_context_frame [OF this, of task n a ctx] b(5) have "context_frame False s1 t" by simp
  then obtain xs where xs: "evidence_refs t = evidence_refs s1 @ xs" by (auto simp: context_frame_def)
  show "evidence_in_project ctx t"
  proof (unfold evidence_in_project_def, rule ballI)
    fix e
    assume "e \<in> set (context_evidence_ids ctx)"
    then obtain x where x: "x \<in> set es" "e = pe_evidence_id x"
      by (auto simp: context_evidence_ids_def g(3))
    then have "x \<in> evidence_item b ` set ?rows" using bounded_evidence_facts(2) [OF g(1)] by blast
    then obtain r where r: "r \<in> set ?rows" "e = e_id r" using x(2) by (elim imageE) simp
    then obtain k where k: "k \<in> set (cp_evidence_ids pkg)" "tget e_id k (evidence_refs s1) = Some r"
      by (auto split: option.splits)
    then have "k = e" using r(2) by (auto dest: tget_Some_mem)
    obtain task' row where row: "get_task (t_id task) s = Some task'" "tget e_id k (evidence_refs s1) = Some row"
      "e_project_id row = t_project_id task'"
      by (rule package_evidence [OF b(3) k(1)])
    then have "e_project_id r = pc_project_id ctx" using k(2) b(1) ti by (simp add: g(3))
    moreover have "tget e_id e (evidence_refs t) = Some r" using k(2) \<open>k = e\<close> by (simp add: xs tget_append)
    ultimately show "\<exists>row. tget e_id e (evidence_refs t) = Some row \<and> e_project_id row = pc_project_id ctx" by blast
  qed
qed

section \<open>What the gateway leaves alone\<close>

definition gateway_frame :: "db \<Rightarrow> db \<Rightarrow> bool" where
  "gateway_frame s t \<longleftrightarrow> plans t = plans s \<and> evidence_refs t = evidence_refs s"

lemma gateway_frame_refl [simp]: "gateway_frame s s"
  by (simp add: gateway_frame_def)

lemma gateway_frame_audit [simp]: "gateway_frame s (audit_request e a rq ac re md t) \<longleftrightarrow> gateway_frame s t"
  by (simp add: gateway_frame_def audit_request_def)

lemma persist_gateway_frame [simp]: "gateway_frame s (snd (persist_response rq rs rd a t)) \<longleftrightarrow> gateway_frame s t"
  by (simp add: gateway_frame_def persist_response_def Let_def put_execution_def audit_request_def split_beta)

lemma attempt_gateway_frame [simp]: "gateway_frame s (snd (attempt_execution ad rq rd pf n a t)) \<longleftrightarrow> gateway_frame s t"
  by (simp add: attempt_execution_def Let_def split: sum.splits prod.splits)

lemma request_created_gateway_frame [simp]: "gateway_frame s (record_request_created rq a t) \<longleftrightarrow> gateway_frame s t"
  by (simp add: record_request_created_def)

lemma policy_block_gateway_frame [simp]: "gateway_frame s (snd (record_policy_block rq rd a t)) \<longleftrightarrow> gateway_frame s t"
  by (simp add: record_policy_block_def Let_def)

lemma run_attempts_gateway_frame: "gateway_frame s t \<Longrightarrow> gateway_frame s (snd (run_attempts ads rq rd a n ids t))"
proof (induction ids arbitrary: n t)
  case (Cons i ids)
  show ?case
  proof (cases "get_profile i t")
    case None
    with Cons.prems show ?thesis by (simp add: split_beta)
  next
    case (Some row)
    let ?pf = "profile_from_row row"
    let ?step = "case (get_provider (pf_provider_id ?pf) t, ads (pf_provider_id ?pf)) of
        (Some _, Some f) \<Rightarrow> attempt_execution f rq rd ?pf n a t
      | _ \<Rightarrow> persist_response rq (failure_response rq rd PROVIDER_UNAVAILABLE
          (''No adapter registered for provider '' @ pf_provider_id ?pf @ ''.'') (Some ?pf) n (1 < n) (utc_now t)) rd a t"
    obtain rs u where st: "?step = (rs, u)" by fastforce
    have "gateway_frame s (snd ?step)" using Cons.prems by (simp split: option.splits)
    then have u: "gateway_frame s u" unfolding st by simp
    have "run_attempts ads rq rd a n (i # ids) t = (if stops rq rs \<or> ids = [] then (Some rs, u)
        else run_attempts ads rq rd a (Suc n) ids
          (audit_request ''MODEL_FALLBACK_USED'' a rq ''fallback_model_request'' ''SUCCESS''
            [(''request_id'', JStr (rq_request_id rq)), (''from_profile_id'', JStr i),
             (''next_profile_id'', JStr (hd ids)), (''error_code'', error_json (rs_error_code rs))] u))"
      using Some st by (simp add: Let_def)
    then show ?thesis using u Cons.IH by simp
  qed
qed simp

lemma execute_gateway_frame: "gateway_frame s (snd (execute_with_fallback ads rq a s))"
proof -
  let ?s1 = "record_request_created rq a s"
  let ?rd = "route_request rq ?s1"
  show ?thesis
  proof (cases "rd_error_code ?rd = None \<and> rd_selected_profile_id ?rd \<noteq> None")
    case False
    then have "execute_with_fallback ads rq a s = record_policy_block rq ?rd a ?s1"
      by (auto simp: execute_with_fallback_def Let_def split: option.split)
    then show ?thesis by simp
  next
    case True
    then obtain i where i: "rd_selected_profile_id ?rd = Some i" "rd_error_code ?rd = None" by auto
    let ?s2 = "audit_request ''MODEL_ROUTED'' a rq ''route_model_request'' ''SUCCESS''
      [(''request_id'', JStr (rq_request_id rq)), (''selected_profile_id'', JStr i),
       (''fallback_profile_ids'', jtexts (rd_fallback_profile_ids ?rd)), (''reasons'', jtexts (rd_reasons ?rd))] ?s1"
    obtain rs t where r: "run_attempts ads rq ?rd a 1 (attempt_ids rq i (rd_fallback_profile_ids ?rd)) ?s2 = (rs, t)" by fastforce
    have "gateway_frame s (snd (run_attempts ads rq ?rd a 1 (attempt_ids rq i (rd_fallback_profile_ids ?rd)) ?s2))"
      by (rule run_attempts_gateway_frame) simp
    then have t: "gateway_frame s t" unfolding r by simp
    have "execute_with_fallback ads rq a s = (case rs of Some x \<Rightarrow> (x, t)
        | None \<Rightarrow> record_policy_block rq (?rd\<lparr>rd_error_code := Some BUDGET_EXCEEDED\<rparr>) a t)"
      unfolding execute_with_fallback_def Let_def i option.case prod.case r by (simp split: option.split)
    then show ?thesis using t by (simp split: option.split)
  qed
qed

section \<open>What a planner stores\<close>

lemma create_plan_row_frame [simp]:
  "model_executions (snd (create_plan_row ctx p c s)) = model_executions s"
  "evidence_refs (snd (create_plan_row ctx p c s)) = evidence_refs s"
  by (simp_all add: create_plan_row_def Let_def put_plan_def split: option.splits)

lemma audit_context_frame [simp]:
  "model_executions (audit_context e a ctx ac re md s) = model_executions s"
  "evidence_refs (audit_context e a ctx ac re md s) = evidence_refs s" "plans (audit_context e a ctx ac re md s) = plans s"
  "projects (audit_context e a ctx ac re md s) = projects s" "model_profiles (audit_context e a ctx ac re md s) = model_profiles s"
  "model_providers (audit_context e a ctx ac re md s) = model_providers s"
  by (simp_all add: audit_context_def audit_planning_def)

lemma escalations_frame [simp]:
  "model_executions (fold (audit_escalation ctx a) bs s) = model_executions s"
  "evidence_refs (fold (audit_escalation ctx a) bs s) = evidence_refs s" "plans (fold (audit_escalation ctx a) bs s) = plans s"
  by (induction bs arbitrary: s) (simp_all add: audit_escalation_def)

lemma store_plan_facts:
  assumes "store_plan ctx p bs ws ex a s = (r, t)"
  obtains row s1 where "create_plan_row ctx p (plan_creation_of ex bs ws a) s = (row, s1)"
    and "r = \<lparr>pr_plan = Some (plan_from_row row), pr_context = Some ctx, pr_blockers = bs, pr_model_response_error = None\<rparr>"
    and "plans t = plans s1" and "evidence_refs t = evidence_refs s" and "model_executions t = model_executions s"
proof -
  obtain row s1 where c: "create_plan_row ctx p (plan_creation_of ex bs ws a) s = (row, s1)" by fastforce
  then have "evidence_refs s1 = evidence_refs s" "model_executions s1 = model_executions s"
    using create_plan_row_frame [of ctx p "plan_creation_of ex bs ws a" s] by simp_all
  then show thesis using that [OF c] assms by (auto simp: store_plan_def Let_def c)
qed

text \<open>The settled outcome: a plan is stored, or the tables stay as they are.\<close>

lemma settle_plan_cases:
  assumes "settle_plan env ctx p ex a s = (out, t)"
  shows "(\<exists>p' bs ws r. validate_and_enrich_plan (en_render env) ctx p s = Inr (p', bs, ws) \<and> \<not> list_ex hard_blocker bs
      \<and> store_plan ctx p' bs ws ex a s = (r, t) \<and> out = Inr r)
    \<or> plans t = plans s \<and> (\<forall>r. out = Inr r \<longrightarrow> pr_plan r = None)"
    and "model_executions t = model_executions s"
proof -
  have store: "model_executions u = model_executions s" if "store_plan ctx p' bs ws ex a s = (r, u)" for p' bs ws r u
    by (rule store_plan_facts [OF that])
  show "(\<exists>p' bs ws r. validate_and_enrich_plan (en_render env) ctx p s = Inr (p', bs, ws) \<and> \<not> list_ex hard_blocker bs
      \<and> store_plan ctx p' bs ws ex a s = (r, t) \<and> out = Inr r)
    \<or> plans t = plans s \<and> (\<forall>r. out = Inr r \<longrightarrow> pr_plan r = None)"
    using assms by (auto simp: settle_plan_def invalid_output_def blocked_result_def apfst_def map_prod_def
        split: sum.splits prod.splits if_splits)
  show "model_executions t = model_executions s"
    using assms store by (auto simp: settle_plan_def invalid_output_def apfst_def map_prod_def split: sum.splits prod.splits if_splits)
qed

text \<open>The ways through a planning: it ends while the context is built or on missing evidence, or asks the model.\<close>

lemma create_plan_cases:
  assumes "create_plan env i n sns cx bu al a s = (out, t)"
  obtains (unasked) s1 where "context_frame False s s1" "plans t = plans s1" "model_executions t = model_executions s1"
      "\<forall>r. out = Inr r \<longrightarrow> pr_plan r = None"
  | (asked) task ctx s0 s1 where "get_task i s = Some task"
      "s0 = audit_planning ''PLANNING_STARTED'' a (t_project_id task) (t_id task) n ''create_engineering_plan'' ''STARTED'' [] s"
      "build_context (en_host env) i n sns cx (case bu of None \<Rightarrow> default_planning_budget | Some b \<Rightarrow> b) al a s0 = (Inr (Some ctx, []), s1)"
      "request_plan env ctx a s1 = (out, t)"
proof (cases "get_task i s")
  case None
  then show thesis using assms that(1) [of s] by (auto simp: create_plan_def)
next
  case (Some task)
  define s0 where "s0 = audit_planning ''PLANNING_STARTED'' a (t_project_id task) (t_id task) n ''create_engineering_plan'' ''STARTED'' [] s"
  obtain o' s1 where b: "build_context (en_host env) i n sns cx (case bu of None \<Rightarrow> default_planning_budget | Some b \<Rightarrow> b) al a s0 = (o', s1)"
    by fastforce
  have "context_frame False s s0" by (simp add: s0_def)
  from build_context_frame [OF this] b have f: "context_frame False s s1" by (metis snd_conv)
  show thesis
  proof (cases "\<exists>ctx. o' = Inr (Some ctx, []) \<and> evidence_preconditions ctx = []")
    case True
    then obtain ctx where o': "o' = Inr (Some ctx, [])" "evidence_preconditions ctx = []" by blast
    then have "request_plan env ctx a s1 = (out, t)"
      using assms by (simp add: create_plan_def Some s0_def [symmetric] b)
    with that(2) [OF Some s0_def] b o' show thesis by simp
  next
    case False
    have "plans t = plans s1 \<and> model_executions t = model_executions s1 \<and> (\<forall>r. out = Inr r \<longrightarrow> pr_plan r = None)"
      using assms False unfolding create_plan_def Some option.case s0_def [symmetric] b
      by (auto simp: blocked_result_def split: sum.splits prod.splits option.splits if_splits)
    then show thesis using that(1) [OF f] by blast
  qed
qed

lemma request_plan_cases:
  assumes "request_plan env ctx a s = (out, t)"
  obtains rs s1 where
    "execute_with_fallback (en_adapters env) (planning_request env ctx s) (actor_value a)
       (audit_context ''PLANNER_MODEL_REQUESTED'' a ctx ''request_planning_model'' ''STARTED''
         [(''request_id'', JStr (rq_request_id (planning_request env ctx s))),
          (''required_capabilities'', jtexts (sorted_set (map capability_value (rq_required_capabilities (planning_request env ctx s))))),
          (''privacy_class'', JStr (privacy_value (rq_privacy_class (planning_request env ctx s))))] s) = (rs, s1)"
    and "model_executions t = model_executions s1"
    and "plans t = plans s \<and> (\<forall>r. out = Inr r \<longrightarrow> pr_plan r = None)
      \<or> (\<exists>p p' bs ws r. en_parse_plan env (rs_structured_data rs) = Inr p
          \<and> validate_and_enrich_plan (en_render env) ctx p s1 = Inr (p', bs, ws) \<and> \<not> list_ex hard_blocker bs
          \<and> store_plan ctx p' bs ws (rs_execution_id rs) a s1 = (r, t) \<and> out = Inr r \<and> plans s1 = plans s
          \<and> evidence_refs s1 = evidence_refs s)"
proof -
  let ?rq = "planning_request env ctx s"
  let ?s0 = "audit_context ''PLANNER_MODEL_REQUESTED'' a ctx ''request_planning_model'' ''STARTED''
         [(''request_id'', JStr (rq_request_id ?rq)),
          (''required_capabilities'', jtexts (sorted_set (map capability_value (rq_required_capabilities ?rq)))),
          (''privacy_class'', JStr (privacy_value (rq_privacy_class ?rq)))] s"
  obtain rs s1 where e: "execute_with_fallback (en_adapters env) ?rq (actor_value a) ?s0 = (rs, s1)" by fastforce
  have f: "plans s1 = plans s" "evidence_refs s1 = evidence_refs s"
    using execute_gateway_frame [of ?s0 "en_adapters env" ?rq "actor_value a"] unfolding e by (simp_all add: gateway_frame_def)
  have body: "(if rs_status rs \<noteq> model_response_status.SUCCEEDED
         then (Inr (blocked_result (Some ctx) [model_failure rs] (rs_error_message rs)),
           audit_context ''PLANNING_BLOCKED'' a ctx ''create_engineering_plan'' ''BLOCKED'' (blockers_json [model_failure rs]) s1)
         else case en_parse_plan env (rs_structured_data rs) of
             Inl e \<Rightarrow>
               let b = invalid_plan ''Planning model returned malformed structured output.'' [(''error'', JStr e)]
               in (Inr (blocked_result (Some ctx) [b] (Some e)), invalid_output ctx a [b] s1)
           | Inr plan \<Rightarrow> settle_plan env ctx plan (rs_execution_id rs) a s1) = (out, t)"
    using assms unfolding request_plan_def Let_def e prod.case .
  show thesis
  proof (cases "\<exists>p. rs_status rs = model_response_status.SUCCEEDED \<and> en_parse_plan env (rs_structured_data rs) = Inr p")
    case True
    then obtain p where p: "rs_status rs = model_response_status.SUCCEEDED" "en_parse_plan env (rs_structured_data rs) = Inr p" by blast
    then have st: "settle_plan env ctx p (rs_execution_id rs) a s1 = (out, t)" using body by simp
    show thesis
      by (rule that [OF e settle_plan_cases(2) [OF st]]) (use settle_plan_cases(1) [OF st] p(2) f in auto)
  next
    case False
    then have "model_executions t = model_executions s1 \<and> plans t = plans s \<and> (\<forall>r. out = Inr r \<longrightarrow> pr_plan r = None)"
      using body f by (auto simp: blocked_result_def invalid_output_def Let_def split: sum.splits if_splits)
    then show thesis using that [OF e] by blast
  qed
qed

section \<open>An example\<close>

text \<open>A store with a task, its contract and one model, and a planner whose model answers with a plan.\<close>

definition ex_planning_profile :: model_profile where
  "ex_planning_profile = (ex_profile ''A'' CONFIDENTIAL 50)\<lparr>pf_capabilities := [model_capability.PLANNING, STRUCTURED_OUTPUT],
     pf_supports_structured_output := True\<rparr>"

definition ex_planning_store :: "project_type \<Rightarrow> db" where
  "ex_planning_store ty = (ex_db task_status.READY False)\<lparr>projects := [ex_project\<lparr>p_type := ty\<rparr>],
     model_providers := [ex_provider_row], model_profiles := [profile_row_of ''A'' 0 0 ex_planning_profile]\<rparr>"

definition ex_planner :: planner_env where
  "ex_planner = \<lparr>en_check_plan = Inr, en_parse_plan = (\<lambda>_. Inr (ex_model_plan\<lparr>mp_acceptance_coverage :=
       [\<lparr>co_criterion_id = ''AC-001'', co_status = COVERED, co_step_ids = [], co_evidence_ids = [], co_notes = None\<rparr>]\<rparr>)),
     en_dumps = (\<lambda>_. []), en_render = (\<lambda>_. []), en_host = ex_host,
     en_adapters = (\<lambda>_. Some \<lparr>ad_available = (\<lambda>n. Inr True), ad_generate = (\<lambda>n rq pf.
       Inr \<lparr>pg_content = None, pg_structured_data = Some [], pg_input_tokens = None,
       pg_output_tokens = None, pg_total_tokens = None, pg_estimated_cost = None,
       pg_cost_source = model_cost_source.UNKNOWN, pg_latency_ms = None, pg_finish_reason = None, pg_metadata = []\<rparr>)\<rparr>)\<rparr>"

section \<open>Properties\<close>


lemma build_without_snapshots:
  assumes "get_task i s = Some task" and "active_contract i s = Some c"
    and "preflight task (Some c) (get_project (t_project_id task) s) [] = []" and "memories s = []"
  shows "\<exists>ctx t. build_context h i None [] cx b al a s = (Inr (Some ctx, []), t) \<and> evidence_preconditions ctx = []"
proof -
  have ti: "t_id task = i" using assms(1) by (auto simp: get_task_def dest: tget_Some_mem)
  obtain rq where rq: "build_request i [] (planning_options None b) s = Inr rq" "rt_snapshot_ids rq = []" "rt_task_id rq = i"
    "rt_project_id rq = t_project_id task" "rt_task_run_id rq = None"
    using assms(1,2) ti
    by (auto simp: build_request_def task_of_def bind_res_def some_or_def planning_options_def)
  let ?s1 = "audit_retrieval ''RETRIEVAL_STARTED'' a task rq ''retrieve'' ''STARTED''
          [(''snapshot_ids'', jtexts (rt_snapshot_ids rq)), (''query_terms'', jtexts (rt_query_terms rq))] s"
  have "retrieve h rq cx a s = apfst Inr (finish_retrieval h rq task a [] [] ?s1)"
    unfolding retrieve_def rq using assms(1)
    by (simp add: task_of_def some_or_def rank_candidates_def apply_budget_def truthy_def check_that_def)
  moreover obtain pkg s2 where fin: "finish_retrieval h rq task a [] [] ?s1 = (pkg, s2)" by fastforce
  ultimately have r: "retrieve_for_task h (t_id task) [] cx (planning_options None b) a s = (Inr pkg, s2)"
    by (simp add: retrieve_for_task_def rq(1) ti)
  have pkg: "cp_evidence_ids pkg = []" "conflict_warnings (cp_warnings pkg) = []"
    using fin by (auto simp: finish_retrieval_def build_context_package_def Let_def conflict_warnings_def has_code_def jget_def)
  have "context_frame True s s2"
    using retrieve_task_context_frame [of True s h "t_id task" "[]" cx "planning_options None b" a] r by simp
  then have mem: "memories s2 = []" using assms(4) by (simp add: context_frame_def)
  obtain ctx s3 where g: "gather_context task c None [] b al pkg s2 = (ctx, s3)" by fastforce
  have none: "bounded_evidence [] b = ([], [], 0)" "fst (planning_memory p ts b al s2) = ([], [], 0)" for p ts
    by (simp_all add: bounded_evidence_def planning_memory_def planning_memory_rows_def retrieve_memory_def rank_memory_def
        retrieved_rows_def mem omitted_warning_def Let_def)
  have "pc_context_warnings ctx = cp_warnings pkg"
    using g none by (auto simp: gather_context_def pkg split_beta planning_context_of_def detect_memory_conflicts_def)
  then have "conflict_ids (pc_context_warnings ctx) = []" by (simp add: conflict_ids_def pkg)
  then obtain u where "record_context task None a ctx s3 = (Inr (), u)"
    by (simp add: record_context_def Let_def)
  moreover have "evidence_preconditions ctx = []"
    by (rule gather_contextE [OF g]) (simp add: planning_context_of_def evidence_preconditions_def)
  ultimately show ?thesis
    using assms(1-3) ti r g by (simp add: build_context_def Let_def some_or_def)
qed

lemma stored_plan_facts:
  assumes "plan_history s" and "validate_and_enrich_plan render ctx p s = Inr (p', bs, ws)" and "\<not> list_ex hard_blocker bs"
    and "store_plan ctx p' bs ws ex a s = (r, t)"
  shows "\<exists>row. pr_plan r = Some (plan_from_row row) \<and> planning_ok r \<and> pr_context r = Some ctx \<and> plan_grounded ctx p t
      \<and> pl_task_id row = pc_task_id ctx \<and> get_plan (pl_id row) s = None \<and> get_plan (pl_id row) t = Some row \<and> plan_history t
      \<and> list_all (\<lambda>q. pl_task_id q = pc_task_id ctx \<longrightarrow> pl_version q < pl_version row) (plans s)
      \<and> (\<forall>k q. get_plan k s = Some q \<longrightarrow> get_plan k t = Some q)"
proof -
  obtain row s1 where st: "create_plan_row ctx p' (plan_creation_of ex bs ws a) s = (row, s1)"
    "r = \<lparr>pr_plan = Some (plan_from_row row), pr_context = Some ctx, pr_blockers = bs, pr_model_response_error = None\<rparr>"
    "plans t = plans s1" "evidence_refs t = evidence_refs s"
    by (rule store_plan_facts [OF assms(4)])
  obtain cb where "bs = reference_blockers ctx p s @ cb @ escalation_blockers ctx p'"
    by (rule validated_shape [OF assms(2)])
  then have "b \<in> set bs" if "b \<in> set (reference_blockers ctx p s)" for b using that by simp
  then have "set (reference_blockers ctx p s) = {}"
    using assms(3) reference_blockers_hard [of _ ctx p s] by (force simp: list_ex_iff hard_blocker_def)
  then have "plan_grounded ctx p s" using reference_blockers_Nil by simp
  then have grounded: "plan_grounded ctx p t"
    unfolding plan_grounded_def evidence_in_project_def st(4) .
  have none: "cr_supersedes_plan_id (plan_creation_of ex bs ws a) = None" by (simp add: plan_creation_of_def)
  have "pl_task_id row = pc_task_id ctx" using create_plan_row_cases [OF st(1)] plan_row_of_simps(3) by metis
  moreover have "planning_ok r" using assms(3) by (auto simp: planning_ok_def st(2) list_ex_iff hard_blocker_def)
  moreover have "plan_history s1 \<and> get_plan (pl_id row) s = None \<and> get_plan (pl_id row) s1 = Some row
    \<and> list_all (\<lambda>r. pl_task_id r = pl_task_id row \<longrightarrow> pl_version r < pl_version row) (plans s)
    \<and> (\<forall>i r. get_plan i s = Some r \<longrightarrow> get_plan i s1 = Some r)"
    using create_plan_row_history [OF assms(1) st(1)] by (simp add: none)
  moreover have "plan_history t = plan_history s1" "get_plan k t = get_plan k s1" for k
    by (simp_all add: plan_history_def get_plan_def st(3))
  ultimately show ?thesis using grounded by (intro exI [of _ row]) (simp add: st(2))
qed

lemma created_or_kept:
  assumes "plan_history s" and "create_plan env i n sns cx bu al a s = (out, t)"
  shows "plans t = plans s \<and> (\<forall>r. out = Inr r \<longrightarrow> pr_plan r = None) \<or>
    (\<exists>r row ctx p. out = Inr r \<and> pr_plan r = Some (plan_from_row row) \<and> planning_ok r \<and> pr_context r = Some ctx
      \<and> pc_task_id ctx = i \<and> (\<exists>d. en_parse_plan env d = Inr p) \<and> plan_grounded ctx p t
      \<and> pl_task_id row = i \<and> get_plan (pl_id row) s = None \<and> get_plan (pl_id row) t = Some row \<and> plan_history t
      \<and> list_all (\<lambda>q. pl_task_id q = i \<longrightarrow> pl_version q < pl_version row) (plans s)
      \<and> (\<forall>k q. get_plan k s = Some q \<longrightarrow> get_plan k t = Some q))"
  using assms(2)
proof (cases rule: create_plan_cases)
  case (unasked s1)
  then have "plans t = plans s \<and> (\<forall>r. out = Inr r \<longrightarrow> pr_plan r = None)" by (simp add: context_frame_def)
  then show ?thesis by (rule disjI1)
next
  case (asked task ctx s0 s1)
  have "context_frame False s s0" by (simp add: asked(2))
  from build_context_frame [OF this] have "context_frame False s s1" using asked(3) by (metis snd_conv)
  then have f: "plans s1 = plans s" unfolding context_frame_def by blast
  have ctx: "pc_task_id ctx = i" "evidence_in_project ctx s1"
    using build_context_facts(1,6) [OF asked(3)] by blast+
  from asked(4) show ?thesis
  proof (rule request_plan_cases, goal_cases)
    case (1 rs s2)
    from 1(3) show ?case
    proof
      assume "plans t = plans s1 \<and> (\<forall>r. out = Inr r \<longrightarrow> pr_plan r = None)"
      then have "plans t = plans s \<and> (\<forall>r. out = Inr r \<longrightarrow> pr_plan r = None)" unfolding f .
      then show ?thesis by (rule disjI1)
    next
      assume "\<exists>p p' bs ws r. en_parse_plan env (rs_structured_data rs) = Inr p
          \<and> validate_and_enrich_plan (en_render env) ctx p s2 = Inr (p', bs, ws) \<and> \<not> list_ex hard_blocker bs
          \<and> store_plan ctx p' bs ws (rs_execution_id rs) a s2 = (r, t) \<and> out = Inr r \<and> plans s2 = plans s1
          \<and> evidence_refs s2 = evidence_refs s1"
      then obtain p p' bs ws r where p: "en_parse_plan env (rs_structured_data rs) = Inr p"
        "validate_and_enrich_plan (en_render env) ctx p s2 = Inr (p', bs, ws)" "\<not> list_ex hard_blocker bs"
        "store_plan ctx p' bs ws (rs_execution_id rs) a s2 = (r, t)" "out = Inr r" "plans s2 = plans s1" by blast
      have same: "plans s2 = plans s" using p(6) f by simp
      have h: "plan_history s2" using assms(1) unfolding plan_history_def same .
      from stored_plan_facts [OF h p(2,3,4)] obtain row where row: "pr_plan r = Some (plan_from_row row)" "planning_ok r"
        "pr_context r = Some ctx" "plan_grounded ctx p t" "pl_task_id row = i" "get_plan (pl_id row) s2 = None"
        "get_plan (pl_id row) t = Some row" "plan_history t"
        "list_all (\<lambda>q. pl_task_id q = i \<longrightarrow> pl_version q < pl_version row) (plans s2)"
        "\<forall>k q. get_plan k s2 = Some q \<longrightarrow> get_plan k t = Some q"
        unfolding ctx(1) by blast
      have "get_plan k s2 = get_plan k s" for k by (simp add: get_plan_def same)
      then have g: "get_plan (pl_id row) s = None" "\<forall>k q. get_plan k s = Some q \<longrightarrow> get_plan k t = Some q"
        using row(6,10) by simp_all
      have d: "\<exists>d. en_parse_plan env d = Inr p" using p(1) by blast
      show ?thesis
        by (rule disjI2, rule exI [of _ r], rule exI [of _ row], rule exI [of _ ctx], rule exI [of _ p])
          (intro conjI p(5) row(1-5,7,8) row(9) [unfolded same] g d ctx(1))
    qed
  qed
qed



section \<open>Client work stays confidential\<close>

lemma planning_request_privacy:
  "rq_privacy_class (planning_request env ctx s) = planning_privacy_class (pc_project_id ctx) s"
  by (simp add: planning_request_def Let_def)

text \<open>C23. Planning for a client's project asks only models cleared for confidential data: whatever context, answer and
  outcome, every model execution that a planning stores is CONFIDENTIAL, and where it names a model, that is a stored
  one whose privacy class permits confidential data.\<close>

theorem client_planning_is_confidential:
  assumes "create_plan env i n sns cx bu al a s = (out, t)" and "get_task i s = Some task"
    and "get_project (t_project_id task) s = Some pr" and "p_type pr = project_type.CLIENT"
    and "x \<in> set (model_executions t)" and "x \<notin> set (model_executions s)"
  shows "me_privacy_class x = CONFIDENTIAL \<and> (\<forall>m. me_model_profile_id x = Some m \<longrightarrow>
    (\<exists>row \<in> set (model_profiles s). mf_id row = m \<and> privacy_rank CONFIDENTIAL \<le> privacy_rank (mf_privacy_class row)))"
  using assms(1)
proof (cases rule: create_plan_cases)
  case (unasked s1)
  then show ?thesis using assms(5,6) by (simp add: context_frame_def)
next
  case (asked task' ctx s0 s1)
  have "context_frame False s s0" by (simp add: asked(2))
  from build_context_frame [OF this] have "context_frame False s s1" using asked(3) by (metis snd_conv)
  then have f: "model_executions s1 = model_executions s" "model_profiles s1 = model_profiles s" "projects s1 = projects s"
    unfolding context_frame_def by blast+
  have task': "get_task i s0 = Some task" using assms(2) by (simp add: asked(2) get_task_def audit_planning_def)
  have proj: "pc_project_id ctx = t_project_id task" using build_context_facts(1) [OF asked(3)] task' by auto
  have client: "planning_privacy_class (pc_project_id ctx) s1 = CONFIDENTIAL"
    using assms(3,4) by (simp add: planning_privacy_class_def proj get_project_def f(3))
  from asked(4) show ?thesis
  proof (rule request_plan_cases, goal_cases)
    case (1 rs s2)
    let ?rq = "planning_request env ctx s1"
    define u where "u = audit_context ''PLANNER_MODEL_REQUESTED'' a ctx ''request_planning_model'' ''STARTED''
         [(''request_id'', JStr (rq_request_id ?rq)),
          (''required_capabilities'', jtexts (sorted_set (map capability_value (rq_required_capabilities ?rq)))),
          (''privacy_class'', JStr (privacy_value (rq_privacy_class ?rq)))] s1"
    have ex: "execute_with_fallback (en_adapters env) ?rq (actor_value a) u = (rs, s2)" using 1(1) unfolding u_def .
    have u: "model_executions u = model_executions s" "model_profiles u = model_profiles s" by (simp_all add: u_def f)
    have x: "x \<in> set (model_executions (snd (execute_with_fallback (en_adapters env) ?rq (actor_value a) u)))"
      "x \<notin> set (model_executions u)" using assms(5,6) 1(2) by (simp_all add: ex u)
    have rq: "rq_privacy_class ?rq = CONFIDENTIAL" by (simp add: planning_request_privacy client)
    obtain xs where xs: "model_executions (snd (execute_with_fallback (en_adapters env) ?rq (actor_value a) u)) = model_executions u @ xs"
      "\<forall>x \<in> set xs. me_privacy_class x = rq_privacy_class ?rq
        \<and> (\<forall>p. me_model_profile_id x = Some p \<longrightarrow> decided ?rq u p)" by (rule execute_traceE)
    have c: "me_privacy_class x = CONFIDENTIAL" using x xs rq by auto
    have "\<exists>row \<in> set (model_profiles s). mf_id row = m \<and> privacy_rank CONFIDENTIAL \<le> privacy_rank (mf_privacy_class row)"
      if "me_model_profile_id x = Some m" for m
      using executed_permitted [OF x that] c u(2) by auto
    with c show ?case by blast
  qed
qed

lemma ex_planning_contract: "active_contract ''A'' (ex_planning_store ty) = Some (ex_contract ''CA'' ''A'' False)"
proof -
  have "active_contract ''A'' (ex_planning_store ty) = active_contract ''A'' (ex_db task_status.READY False)"
    by (simp add: active_contract_def ex_planning_store_def ex_db_def)
  then show ?thesis by simp
qed

lemma ex_planning_asks:
  "\<exists>out t x. create_plan ex_planner ''A'' None [] (\<lambda>_. None) None False actor.SYSTEM (ex_planning_store ty) = (out, t)
    \<and> x \<in> set (model_executions t)"
proof -
  let ?s = "ex_planning_store ty"
  let ?task = "ex_task ''A'' task_status.READY"
  define s0 where "s0 = audit_planning ''PLANNING_STARTED'' actor.SYSTEM (t_project_id ?task) (t_id ?task) None
    ''create_engineering_plan'' ''STARTED'' [] ?s"
  have task: "get_task ''A'' ?s = Some ?task"
    by (simp add: ex_planning_store_def ex_db_def get_task_def ex_task_def)
  have same: "tasks s0 = tasks ?s" "contracts s0 = contracts ?s" "projects s0 = projects ?s" "memories s0 = memories ?s"
    by (simp_all add: s0_def audit_planning_def)
  have t0: "get_task ''A'' s0 = Some ?task" using task by (simp add: get_task_def same)
  have c: "active_contract ''A'' s0 = Some (ex_contract ''CA'' ''A'' False)"
    using ex_planning_contract by (simp add: active_contract_def same)
  have "preflight ?task (Some (ex_contract ''CA'' ''A'' False)) (get_project (t_project_id ?task) s0) [] = []"
    by (simp add: preflight_def same get_project_def ex_planning_store_def ex_task_def ex_contract_def ex_project_def)
  moreover have "memories s0 = []" by (simp add: same ex_planning_store_def ex_db_def empty_db_def)
  ultimately obtain ctx s1 where b: "build_context ex_host ''A'' None [] (\<lambda>_. None) default_planning_budget False actor.SYSTEM s0
      = (Inr (Some ctx, []), s1)" "evidence_preconditions ctx = []"
    using build_without_snapshots [OF t0 c] by blast
  obtain out t where r: "request_plan ex_planner ctx actor.SYSTEM s1 = (out, t)" by fastforce
  have host: "en_host ex_planner = ex_host" by (simp add: ex_planner_def)
  have "create_plan ex_planner ''A'' None [] (\<lambda>_. None) None False actor.SYSTEM ?s = (out, t)"
    using r b by (simp add: create_plan_def task s0_def [symmetric] host)
  moreover from r have "\<exists>x. x \<in> set (model_executions t)"
  proof (rule request_plan_cases, goal_cases)
    case (1 rs s2)
    obtain xs where "model_executions s2 = model_executions (audit_context ''PLANNER_MODEL_REQUESTED'' actor.SYSTEM ctx
        ''request_planning_model'' ''STARTED''
         [(''request_id'', JStr (rq_request_id (planning_request ex_planner ctx s1))),
          (''required_capabilities'', jtexts (sorted_set (map capability_value (rq_required_capabilities (planning_request ex_planner ctx s1))))),
          (''privacy_class'', JStr (privacy_value (rq_privacy_class (planning_request ex_planner ctx s1))))] s1) @ xs" "xs \<noteq> []"
      using execute_traceE [of "en_adapters ex_planner" "planning_request ex_planner ctx s1" "actor_value actor.SYSTEM"] 1(1)
      by (metis snd_conv)
    then have "model_executions t \<noteq> []" using 1(2) by simp
    then show ?case by (cases "model_executions t") auto
  qed
  ultimately show ?thesis by blast
qed

theorem client_planning_is_confidential_witness:
  "\<exists>out t x. create_plan ex_planner ''A'' None [] (\<lambda>_. None) None False actor.SYSTEM (ex_planning_store project_type.CLIENT) = (out, t)
    \<and> x \<in> set (model_executions t) \<and> me_privacy_class x = CONFIDENTIAL"
proof -
  let ?s = "ex_planning_store project_type.CLIENT"
  obtain out t x where c: "create_plan ex_planner ''A'' None [] (\<lambda>_. None) None False actor.SYSTEM ?s = (out, t)"
    "x \<in> set (model_executions t)" using ex_planning_asks by blast
  have "get_task ''A'' ?s = Some (ex_task ''A'' task_status.READY)" "x \<notin> set (model_executions ?s)"
    "get_project (t_project_id (ex_task ''A'' task_status.READY)) ?s = Some (ex_project\<lparr>p_type := project_type.CLIENT\<rparr>)"
    by (simp_all add: ex_planning_store_def ex_db_def get_task_def get_project_def ex_task_def ex_project_def empty_db_def)
  with client_planning_is_confidential [OF c(1) this(1) this(3) _ c(2) this(2)] c show ?thesis by auto
qed


section \<open>Replanning\<close>



section \<open>The budget of the context\<close>

text \<open>The two halves of a context have the same budget each: a context may hold twice the bytes it names.\<close>

lemma context_may_double_its_budget:
  "fits evidence_size 8 10 [\<lparr>pe_evidence_id = ''E'', pe_repository_id = [], pe_snapshot_id = [], pe_source_type = CODE,
      pe_path = [], pe_snippet = Some ''0123456789'', pe_relevance_score = 0, pe_match_reasons = []\<rparr>]
   \<and> fits memory_size 6 10 [\<lparr>pm_memory_id = ''M'', pm_scope = GLOBAL, pm_statement = ''0123456789'',
      pm_validation_status = validation_status.VALIDATED, pm_confidence = 1, pm_requires_revalidation = False,
      pm_source_evidence_ids = []\<rparr>]
   \<and> (10 :: nat) < context_size [\<lparr>pe_evidence_id = ''E'', pe_repository_id = [], pe_snapshot_id = [], pe_source_type = CODE,
      pe_path = [], pe_snippet = Some ''0123456789'', pe_relevance_score = 0, pe_match_reasons = []\<rparr>]
     [\<lparr>pm_memory_id = ''M'', pm_scope = GLOBAL, pm_statement = ''0123456789'',
      pm_validation_status = validation_status.VALIDATED, pm_confidence = 1, pm_requires_revalidation = False,
      pm_source_evidence_ids = []\<rparr>]"
  by code_simp

end
