(* ===== verification/Spec2Isabelle.thy ===== *)
theory Spec2Isabelle
  imports Queue_Steps Tasks Workflows Missions Gateway Learning Continuation Planner
begin

text \<open>
  Verification of the engineering core of Lucius (\<^verbatim>\<open>src/lucius\<close>).

  Lucius keeps its state in one store of rows and lets services change it. A project's task has a
  contract; a planner turns a ready task into a plan that is grounded in evidence; a workflow holds
  a backlog of items; a dispatcher picks one item over all workflows, a runtime loop executes it, and
  a continuation repeats that within a budget. A gateway routes requests to models, retrieval and
  memory supply what a model may see. Every service appends to one audit trail. The model keeps this
  shape: the store is the record \<open>db\<close> of \<^theory_text>\<open>Store\<close>, an operation is a function of its arguments and a
  store, to its result, a value or an exception, and the store it leaves. A service that calls another
  one calls its definition.

  \<^bold>\<open>Theories and sources\<close> (paths below \<^verbatim>\<open>src/lucius\<close>)

  \<^item> \<^theory_text>\<open>Prelude\<close>, \<^theory_text>\<open>Texts\<close>: lists, strings, decimal numerals and paths as Python has them; tables
    of rows under a key; the locales \<open>keyed_table\<close>, \<open>ranked_choice\<close>, \<open>invariant_machine\<close> and
    \<open>lifecycle_machine\<close>, which the components interpret on their own tables, selections and step relations.
  \<^item> \<^theory_text>\<open>Domain\<close>: the enumerations of \<^verbatim>\<open>domain/enums.py\<close>, exceptions, JSON values, the public ids of
    \<^verbatim>\<open>domain/ids.py\<close>. \<^theory_text>\<open>Store\<close>: the rows of \<^verbatim>\<open>persistence/orm.py\<close>, id allocation of
    \<^verbatim>\<open>persistence/repositories.py\<close>, the append of \<^verbatim>\<open>audit/service.py\<close>.
  \<^item> \<^theory_text>\<open>Tasks\<close>: \<^verbatim>\<open>tasks/policy.py\<close> and \<^verbatim>\<open>tasks/service.py\<close>. The step relation \<open>task_step\<close> has a rule
    per operation; its lemmas give the lifecycle of a task, one contract per task, what releases and what
    completes a task, and that an operation that raises has written nothing.
  \<^item> \<^theory_text>\<open>Queue\<close>, \<^theory_text>\<open>Queue_Steps\<close>: \<^verbatim>\<open>pilots/queue.py\<close>; the operations and their effect on the backlog, then
    selection and the step relation \<open>queue_step\<close>: one running item per workflow, versions that only
    grow, and least eligible selection, whatever the order of the backlog.
  \<^item> \<^theory_text>\<open>Workflows\<close>: \<^verbatim>\<open>pilots/workflows.py\<close>; checkpoints and their history. \<^theory_text>\<open>Missions\<close>:
    \<^verbatim>\<open>runtime/mission.py\<close>; waits, reconciliation, recovery.
  \<^item> \<^theory_text>\<open>Dispatcher\<close>, \<^theory_text>\<open>Runtime_Loop\<close>, \<^theory_text>\<open>Continuation\<close>: \<^verbatim>\<open>runtime/dispatcher.py\<close>, \<^verbatim>\<open>runtime/service.py\<close>,
    \<^verbatim>\<open>runtime/continuation.py\<close>; fairness between projects, the release check before an execution, and
    that neither a run nor a session leaves an item running.
  \<^item> \<^theory_text>\<open>Models\<close>, \<^theory_text>\<open>Gateway\<close>: \<^verbatim>\<open>models/router.py\<close>, \<^verbatim>\<open>models/policies.py\<close>, \<^verbatim>\<open>models/gateway.py\<close>; which models a
    request may use, and the bounded fallback.
  \<^item> \<^theory_text>\<open>Query\<close>, \<^theory_text>\<open>Inspection\<close>, \<^theory_text>\<open>Repository\<close>, \<^theory_text>\<open>Retrieval\<close>: \<^verbatim>\<open>retrieval/\<close>, \<^verbatim>\<open>repositories/inspection.py\<close>,
    \<^verbatim>\<open>hashing.py\<close> and \<^verbatim>\<open>local_git.py\<close>, \<^verbatim>\<open>evidence/service.py\<close>; terms and ranking, confinement of reads, and the
    authority of captured evidence.
  \<^item> \<^theory_text>\<open>Memory\<close>, \<^theory_text>\<open>Learning\<close>: \<^verbatim>\<open>memory/\<close> and \<^verbatim>\<open>learning/service.py\<close>; isolation of projects, promotion, and the
    invariant of the entries over all knowledge operations.
  \<^item> \<^theory_text>\<open>Acceptance\<close>: \<^verbatim>\<open>runtime/deterministic_acceptance.py\<close>, \<^verbatim>\<open>runtime/safety.py\<close> and the path check of
    \<^verbatim>\<open>repositories/git_mutation.py\<close>. \<^theory_text>\<open>Planning\<close>, \<^theory_text>\<open>Planner\<close>: \<^verbatim>\<open>planning/\<close> and
    \<^verbatim>\<open>pilots/documentation_contract.py\<close>; validation of a model's plan, its storage, and the whole planning
    operation over retrieval, memory and gateway.

  \<^bold>\<open>Parameters.\<close> What is no code of the repository is an argument: model adapters; git, the file system,
  SHA-256 and the JSON and TOML parsers (\<open>host\<close>); the processes and files of a workspace; the parser of a
  model's answer and the text of a prompt; whether a path exists; Python's text of a dictionary; uuids. The
  runtime loop and the continuation take the planning adapter, the execution router and the feeder as
  parameters, as the code hands them in.

  \<^bold>\<open>Representation.\<close> Points in time are microseconds, floats exact rationals, strings lists of code points
  below 256 with ASCII case folding, dictionaries association lists, sets whose order is visible are
  sorted. Ids and counters are unbounded as in Python. A row's columns are those the services use.

  \<^bold>\<open>Termination and bounds.\<close> A run of the loop has at most \<open>max_tasks\<close> rounds, each of which selects a
  task (\<open>run_rounds\<close>); a session recurses on the cycles its budget leaves; the fallback loop runs over the ids
  of its decision; the sleep between sessions may go on for ever and is a \<open>partial_function\<close>, which is
  proved to return. Every other recursion is over its data.

  \<^bold>\<open>Not modelled.\<close> Sessions, migrations and the read side of the audit trail; the redacted diagnostics of
  commands. Execution adapters, git mutation and worktree clean-up, controlled commits, the night shift
  supervisor and the command lines are subprocesses, sockets, files and printing around the modelled
  services. The execution router, the feeder, the portfolio, the registration of projects, plan freezes and the
  other pilots, evaluation runs and boot recovery are services of their own that the modelled
  ones meet only as parameters or as rows.
\<close>

end
